(* ===== verification/Prelude.thy ===== *)
theory Prelude
  imports Complex_Main "HOL-Library.AList" "HOL-Library.Char_ord" "HOL-Library.List_Lexorder"
begin

text \<open>
  Shared vocabulary of the development: the values a JSON-RPC request is made of
  (\<open>pyval\<close>), Python exceptions as values (\<open>exn\<close>), pure fallible computations
  (\<open>exn + 'a\<close> with \<open>bindr\<close>), the state-and-exception monad \<open>pm\<close> in which the
  daemon's coroutines are written (the state survives a raised exception, as mutated
  objects and committed database rows do in Python), its weakest-precondition
  calculus, and the generic facts on lists and keyed tables that the components share.
\<close>

named_theorems wp_simps \<open>weakest-precondition equations of the monad\<close>
named_theorems table_simps \<open>facts about keyed row lists\<close>

section \<open>Values and exceptions\<close>

text \<open>
  The values a decoded JSON document can hold. A float keeps its exact value together
  with its \<open>repr\<close>, so that \<open>str\<close> of it needs no floating-point printing algorithm.
  A dict is an association list in insertion order.
\<close>

datatype pyval =
    PNone
  | PBool bool
  | PInt int
  | PFloat rat string
  | PStr string
  | PList "pyval list"
  | PDict "(string \<times> pyval) list"

type_synonym pydict = "(string \<times> pyval) list"

text \<open>
  \<open>IPCError\<close> is the exception class of \<open>boxer/ipc.py\<close> (code, message, data);
  \<open>PyExn\<close> is any other Python exception, by class name and text.
\<close>

datatype exn = IPCError int string "pyval option" | PyExn string string

definition ipc_error :: "int \<Rightarrow> string \<Rightarrow> exn" where
  "ipc_error code msg = IPCError code msg None"

fun is_ipc_error :: "exn \<Rightarrow> bool" where
  "is_ipc_error (IPCError _ _ _) = True"
| "is_ipc_error (PyExn _ _) = False"

fun exn_code :: "exn \<Rightarrow> int option" where
  "exn_code (IPCError c _ _) = Some c"
| "exn_code (PyExn _ _) = None"

lemma exn_code_ipc_error [simp]: "exn_code (ipc_error c m) = Some c"
  by (simp add: ipc_error_def)

lemma is_ipc_error_ipc_error [simp]: "is_ipc_error (ipc_error c m)"
  by (simp add: ipc_error_def)

section \<open>Pure fallible computations\<close>

type_synonym 'a res = "exn + 'a"

definition bindr :: "'a res \<Rightarrow> ('a \<Rightarrow> 'b res) \<Rightarrow> 'b res" where
  "bindr m f = (case m of Inl e \<Rightarrow> Inl e | Inr x \<Rightarrow> f x)"

lemma bindr_simps [simp]:
  "bindr (Inl e) f = Inl e" "bindr (Inr x) f = f x"
  by (simp_all add: bindr_def)

lemma bindr_eq_Inr: "bindr m f = Inr y \<longleftrightarrow> (\<exists>x. m = Inr x \<and> f x = Inr y)"
  by (cases m) auto

lemma bindr_eq_Inl: "bindr m f = Inl e \<longleftrightarrow> m = Inl e \<or> (\<exists>x. m = Inr x \<and> f x = Inl e)"
  by (cases m) auto

lemma bindr_cong [fundef_cong]:
  "m = m' \<Longrightarrow> (\<And>x. m' = Inr x \<Longrightarrow> f x = g x) \<Longrightarrow> bindr m f = bindr m' g"
  by (cases m') auto

definition guardr :: "bool \<Rightarrow> exn \<Rightarrow> unit res" where
  "guardr b e = (if b then Inl e else Inr ())"

lemma guardr_eq_Inr [simp]: "guardr b e = Inr u \<longleftrightarrow> \<not> b"
  by (simp add: guardr_def)

lemma guardr_eq_Inl [simp]: "guardr b e = Inl e' \<longleftrightarrow> b \<and> e' = e"
  by (auto simp: guardr_def)

primrec mapr :: "('a \<Rightarrow> 'b res) \<Rightarrow> 'a list \<Rightarrow> 'b list res" where
  "mapr f [] = Inr []"
| "mapr f (x # xs) = bindr (f x) (\<lambda>y. bindr (mapr f xs) (\<lambda>ys. Inr (y # ys)))"

lemma mapr_length: "mapr f xs = Inr ys \<Longrightarrow> length ys = length xs"
  by (induction xs arbitrary: ys) (auto simp: bindr_eq_Inr)

lemma mapr_Inr_all: "mapr f xs = Inr ys \<Longrightarrow> \<forall>y \<in> set ys. \<exists>x \<in> set xs. f x = Inr y"
  by (induction xs arbitrary: ys) (auto simp: bindr_eq_Inr, blast)

section \<open>The state-and-exception monad\<close>

type_synonym ('s, 'a) pm = "'s \<Rightarrow> 'a res \<times> 's"

definition ret :: "'a \<Rightarrow> ('s, 'a) pm" where
  "ret x = (\<lambda>s. (Inr x, s))"

definition raise :: "exn \<Rightarrow> ('s, 'a) pm" where
  "raise e = (\<lambda>s. (Inl e, s))"

definition bindm :: "('s, 'a) pm \<Rightarrow> ('a \<Rightarrow> ('s, 'b) pm) \<Rightarrow> ('s, 'b) pm" where
  "bindm m f = (\<lambda>s. case m s of (Inl e, s') \<Rightarrow> (Inl e, s') | (Inr x, s') \<Rightarrow> f x s')"

definition catch :: "('s, 'a) pm \<Rightarrow> (exn \<Rightarrow> ('s, 'a) pm) \<Rightarrow> ('s, 'a) pm" where
  "catch m h = (\<lambda>s. case m s of (Inl e, s') \<Rightarrow> h e s' | (Inr x, s') \<Rightarrow> (Inr x, s'))"

definition gets :: "('s \<Rightarrow> 'a) \<Rightarrow> ('s, 'a) pm" where
  "gets f = (\<lambda>s. (Inr (f s), s))"

definition modify :: "('s \<Rightarrow> 's) \<Rightarrow> ('s, unit) pm" where
  "modify f = (\<lambda>s. (Inr (), f s))"

definition liftr :: "'a res \<Rightarrow> ('s, 'a) pm" where
  "liftr r = (\<lambda>s. (r, s))"

definition guardm :: "bool \<Rightarrow> exn \<Rightarrow> ('s, unit) pm" where
  "guardm b e = (if b then raise e else ret ())"

definition whenm :: "bool \<Rightarrow> ('s, unit) pm \<Rightarrow> ('s, unit) pm" where
  "whenm b m = (if b then m else ret ())"

primrec for_each :: "'a list \<Rightarrow> ('a \<Rightarrow> ('s, unit) pm) \<Rightarrow> ('s, unit) pm" where
  "for_each [] f = ret ()"
| "for_each (x # xs) f = bindm (f x) (\<lambda>_. for_each xs f)"

primrec mapm :: "('a \<Rightarrow> ('s, 'b) pm) \<Rightarrow> 'a list \<Rightarrow> ('s, 'b list) pm" where
  "mapm f [] = ret []"
| "mapm f (x # xs) = bindm (f x) (\<lambda>y. bindm (mapm f xs) (\<lambda>ys. ret (y # ys)))"

lemmas pm_defs = ret_def raise_def bindm_def catch_def gets_def modify_def liftr_def
  guardm_def whenm_def

subsection \<open>Weakest preconditions\<close>

definition wp :: "('s, 'a) pm \<Rightarrow> ('a \<Rightarrow> 's \<Rightarrow> bool) \<Rightarrow> (exn \<Rightarrow> 's \<Rightarrow> bool) \<Rightarrow> 's \<Rightarrow> bool" where
  "wp m Q E s = (case m s of (Inl e, s') \<Rightarrow> E e s' | (Inr x, s') \<Rightarrow> Q x s')"

lemma wp_ret [wp_simps]: "wp (ret x) Q E s = Q x s"
  by (simp add: wp_def ret_def)

lemma wp_raise [wp_simps]: "wp (raise e) Q E s = E e s"
  by (simp add: wp_def raise_def)

lemma wp_bindm [wp_simps]: "wp (bindm m f) Q E s = wp m (\<lambda>x. wp (f x) Q E) E s"
  by (auto simp: wp_def bindm_def split: prod.splits sum.splits)

lemma wp_catch [wp_simps]: "wp (catch m h) Q E s = wp m Q (\<lambda>e. wp (h e) Q E) s"
  by (auto simp: wp_def catch_def split: prod.splits sum.splits)

lemma wp_gets [wp_simps]: "wp (gets f) Q E s = Q (f s) s"
  by (simp add: wp_def gets_def)

lemma wp_modify [wp_simps]: "wp (modify f) Q E s = Q () (f s)"
  by (simp add: wp_def modify_def)

lemma wp_liftr [wp_simps]:
  "wp (liftr r) Q E s = ((\<forall>e. r = Inl e \<longrightarrow> E e s) \<and> (\<forall>x. r = Inr x \<longrightarrow> Q x s))"
  by (cases r) (simp_all add: wp_def liftr_def)

lemma wp_guardm [wp_simps]: "wp (guardm b e) Q E s = (if b then E e s else Q () s)"
  by (simp add: guardm_def wp_ret wp_raise)

lemma wp_whenm [wp_simps]: "wp (whenm b m) Q E s = (if b then wp m Q E s else Q () s)"
  by (simp add: whenm_def wp_ret)

lemma wp_if [wp_simps]: "wp (if b then m else n) Q E s = (if b then wp m Q E s else wp n Q E s)"
  by simp

lemma wp_mono:
  "wp m Q E s \<Longrightarrow> (\<And>x s'. Q x s' \<Longrightarrow> Q' x s') \<Longrightarrow> (\<And>e s'. E e s' \<Longrightarrow> E' e s') \<Longrightarrow> wp m Q' E' s"
  by (auto simp: wp_def split: prod.splits sum.splits)

lemma wp_run: "wp m Q E s \<Longrightarrow> m s = (r, s') \<Longrightarrow>
    (case r of Inl e \<Rightarrow> E e s' | Inr x \<Rightarrow> Q x s')"
  by (auto simp: wp_def split: sum.splits)

lemma wp_runI: "(\<And>e s'. m s = (Inl e, s') \<Longrightarrow> E e s') \<Longrightarrow>
    (\<And>x s'. m s = (Inr x, s') \<Longrightarrow> Q x s') \<Longrightarrow> wp m Q E s"
  by (auto simp: wp_def split: prod.splits sum.splits)

lemma wp_True [simp]: "wp m (\<lambda>_ _. True) (\<lambda>_ _. True) s"
  by (auto simp: wp_def split: prod.splits sum.splits)

lemma wp_ifI: "(b \<Longrightarrow> wp m Q E s) \<Longrightarrow> (\<not> b \<Longrightarrow> wp n Q E s) \<Longrightarrow> wp (if b then m else n) Q E s"
  by simp

text \<open>What happens after a step of which nothing is known.\<close>

lemma wp_after: "(\<And>x s'. wp (f x) Q (\<lambda>_ _. True) s') \<Longrightarrow> wp (bindm m f) Q (\<lambda>_ _. True) s"
  unfolding wp_bindm by (rule wp_mono [OF wp_True]) simp_all

lemma bindm_eq_Inr: "bindm m f s = (Inr x, t) \<longleftrightarrow> (\<exists>y u. m s = (Inr y, u) \<and> f y u = (Inr x, t))"
  by (auto simp: bindm_def split: prod.splits sum.splits)

lemma bindm_run: "m s = (Inr x, s1) \<Longrightarrow> bindm m f s = f x s1"
  by (simp add: bindm_def)

subsection \<open>Invariants and frames\<close>

text \<open>
  \<open>keeps R m\<close>: whatever \<open>m\<close> does, normally or by raising, its final state is related to
  its initial one by \<open>R\<close>. For a reflexive and transitive \<open>R\<close> (a frame such as "the rows
  of the other projects are the same") the combinators of the monad inherit it.
\<close>

definition keeps :: "('s \<Rightarrow> 's \<Rightarrow> bool) \<Rightarrow> ('s, 'a) pm \<Rightarrow> bool" where
  "keeps R m \<longleftrightarrow> (\<forall>s. R s (snd (m s)))"

lemma keepsD: "keeps R m \<Longrightarrow> m s = (r, s') \<Longrightarrow> R s s'"
  unfolding keeps_def by (metis snd_conv)

lemma wp_snd: "wp m (\<lambda>_. P) (\<lambda>_. P) s \<longleftrightarrow> P (snd (m s))"
  by (auto simp: wp_def split: prod.split sum.split)

lemma keepsI_wp: "(\<And>s. wp m (\<lambda>_. R s) (\<lambda>_. R s) s) \<Longrightarrow> keeps R m"
  by (simp add: keeps_def wp_snd)

lemma keeps_wp: "keeps R m \<Longrightarrow> wp m (\<lambda>_. R s) (\<lambda>_. R s) s"
  by (simp add: keeps_def wp_snd)

text \<open>\<open>keeps\<close> goes through the case distinctions of a program.\<close>

lemma keeps_if: "(b \<Longrightarrow> keeps R m) \<Longrightarrow> (\<not> b \<Longrightarrow> keeps R n) \<Longrightarrow> keeps R (if b then m else n)"
  by simp

lemma keeps_let: "keeps R (f x) \<Longrightarrow> keeps R (let y = x in f y)"
  by simp

lemma keeps_option: "(x = None \<Longrightarrow> keeps R m) \<Longrightarrow> (\<And>y. x = Some y \<Longrightarrow> keeps R (f y)) \<Longrightarrow>
    keeps R (case x of None \<Rightarrow> m | Some y \<Rightarrow> f y)"
  by (cases x) simp_all

lemma keeps_prod: "(\<And>a b. p = (a, b) \<Longrightarrow> keeps R (f a b)) \<Longrightarrow> keeps R (case p of (a, b) \<Rightarrow> f a b)"
  by (cases p) simp

lemma keeps_list: "(xs = [] \<Longrightarrow> keeps R m) \<Longrightarrow> (\<And>y ys. xs = y # ys \<Longrightarrow> keeps R (f y ys)) \<Longrightarrow>
    keeps R (case xs of [] \<Rightarrow> m | y # ys \<Rightarrow> f y ys)"
  by (cases xs) simp_all

lemma keeps_sum: "(\<And>e. r = Inl e \<Longrightarrow> keeps R (f e)) \<Longrightarrow> (\<And>x. r = Inr x \<Longrightarrow> keeps R (g x)) \<Longrightarrow>
    keeps R (case r of Inl e \<Rightarrow> f e | Inr x \<Rightarrow> g x)"
  by (cases r) simp_all

lemma keeps_pyval: "(v = PNone \<Longrightarrow> keeps R a) \<Longrightarrow> (\<And>b. v = PBool b \<Longrightarrow> keeps R (c b)) \<Longrightarrow>
    (\<And>i. v = PInt i \<Longrightarrow> keeps R (d i)) \<Longrightarrow> (\<And>q r. v = PFloat q r \<Longrightarrow> keeps R (e q r)) \<Longrightarrow>
    (\<And>s. v = PStr s \<Longrightarrow> keeps R (f s)) \<Longrightarrow> (\<And>xs. v = PList xs \<Longrightarrow> keeps R (g xs)) \<Longrightarrow>
    (\<And>kvs. v = PDict kvs \<Longrightarrow> keeps R (h kvs)) \<Longrightarrow>
    keeps R (case v of PNone \<Rightarrow> a | PBool b \<Rightarrow> c b | PInt i \<Rightarrow> d i | PFloat q r \<Rightarrow> e q r
      | PStr s \<Rightarrow> f s | PList xs \<Rightarrow> g xs | PDict kvs \<Rightarrow> h kvs)"
  by (cases v) simp_all

lemma keeps_exn: "(\<And>c m d. x = IPCError c m d \<Longrightarrow> keeps R (f c m d)) \<Longrightarrow>
    (\<And>k t. x = PyExn k t \<Longrightarrow> keeps R (g k t)) \<Longrightarrow>
    keeps R (case x of IPCError c m d \<Rightarrow> f c m d | PyExn k t \<Rightarrow> g k t)"
  by (cases x) simp_all

lemmas keeps_splits = keeps_if keeps_let keeps_option keeps_prod keeps_list keeps_sum keeps_pyval
  keeps_exn

locale frame =
  fixes R :: "'s \<Rightarrow> 's \<Rightarrow> bool"
  assumes frame_refl: "R s s"
    and frame_trans: "R s t \<Longrightarrow> R t u \<Longrightarrow> R s u"
begin

lemma ret_keeps: "keeps R (ret x)"
  by (simp add: keeps_def ret_def frame_refl)

lemma raise_keeps: "keeps R (raise e)"
  by (simp add: keeps_def raise_def frame_refl)

lemma gets_keeps: "keeps R (gets f)"
  by (simp add: keeps_def gets_def frame_refl)

lemma liftr_keeps: "keeps R (liftr r)"
  by (simp add: keeps_def liftr_def frame_refl)

lemma guardm_keeps: "keeps R (guardm b e)"
  by (simp add: guardm_def ret_keeps raise_keeps)

lemma bindm_keeps: "keeps R m \<Longrightarrow> (\<And>x. keeps R (f x)) \<Longrightarrow> keeps R (bindm m f)"
  unfolding keeps_def bindm_def
  by (clarsimp split: prod.splits sum.splits) (metis frame_trans snd_conv)

lemma catch_keeps: "keeps R m \<Longrightarrow> (\<And>e. keeps R (h e)) \<Longrightarrow> keeps R (catch m h)"
  unfolding keeps_def catch_def
  by (clarsimp split: prod.splits sum.splits) (metis frame_trans snd_conv)

lemma whenm_keeps: "(b \<Longrightarrow> keeps R m) \<Longrightarrow> keeps R (whenm b m)"
  by (simp add: whenm_def ret_keeps)

lemma for_each_keeps: "(\<And>x. x \<in> set xs \<Longrightarrow> keeps R (f x)) \<Longrightarrow> keeps R (for_each xs f)"
  by (induction xs) (simp_all add: ret_keeps bindm_keeps)

lemma mapm_keeps: "(\<And>x. x \<in> set xs \<Longrightarrow> keeps R (f x)) \<Longrightarrow> keeps R (mapm f xs)"
  by (induction xs) (simp_all add: ret_keeps bindm_keeps)

lemmas frame_keeps = ret_keeps raise_keeps gets_keeps liftr_keeps guardm_keeps bindm_keeps
  catch_keeps whenm_keeps for_each_keeps mapm_keeps

end

section \<open>Python truth, dictionaries and defaults\<close>

fun truthy :: "pyval \<Rightarrow> bool" where
  "truthy PNone = False"
| "truthy (PBool b) = b"
| "truthy (PInt i) = (i \<noteq> 0)"
| "truthy (PFloat q _) = (q \<noteq> 0)"
| "truthy (PStr s) = (s \<noteq> [])"
| "truthy (PList xs) = (xs \<noteq> [])"
| "truthy (PDict d) = (d \<noteq> [])"

text \<open>\<open>d.get(k)\<close>, \<open>d.get(k, v)\<close>, \<open>a or b\<close>, \<open>{**d, **e}\<close>.\<close>

definition dget :: "pydict \<Rightarrow> string \<Rightarrow> pyval" where
  "dget d k = (case map_of d k of None \<Rightarrow> PNone | Some v \<Rightarrow> v)"

definition dget_or :: "pydict \<Rightarrow> string \<Rightarrow> pyval \<Rightarrow> pyval" where
  "dget_or d k v = (case map_of d k of None \<Rightarrow> v | Some w \<Rightarrow> w)"

definition py_or :: "pyval \<Rightarrow> pyval \<Rightarrow> pyval" where
  "py_or a b = (if truthy a then a else b)"

definition dict_merge :: "pydict \<Rightarrow> pydict \<Rightarrow> pydict" where
  "dict_merge d e = foldl (\<lambda>acc (k, v). AList.update k v acc) d e"

lemma map_of_dict_merge: "distinct (map fst e) \<Longrightarrow> map_of (dict_merge d e) = map_of d ++ map_of e"
proof (induction e arbitrary: d)
  case Nil
  then show ?case by (simp add: dict_merge_def)
next
  case (Cons p e)
  obtain k v where p: "p = (k, v)" by (cases p)
  from Cons.prems p have k: "k \<notin> fst ` set e" and d: "distinct (map fst e)" by auto
  have "dict_merge d (p # e) = dict_merge (AList.update k v d) e"
    by (simp add: dict_merge_def p)
  then have "map_of (dict_merge d (p # e)) = (map_of d)(k \<mapsto> v) ++ map_of e"
    using Cons.IH [OF d] by (simp only: update_conv')
  also have "\<dots> = map_of d ++ map_of (p # e)"
  proof -
    from k have "map_of e k = None" by (simp add: map_of_eq_None_iff)
    then show ?thesis by (auto simp: p map_add_def fun_eq_iff split: option.splits)
  qed
  finally show ?case .
qed

fun opt_str :: "string option \<Rightarrow> pyval" where
  "opt_str None = PNone"
| "opt_str (Some s) = PStr s"

definition str_list :: "string list \<Rightarrow> pyval" where
  "str_list xs = PList (map PStr xs)"

text \<open>
  \<open>if not isinstance(v, str) or not ok(v): raise e\<close>, and the same for a list, a dict and an entry
  of a table.
\<close>

definition need_str :: "exn \<Rightarrow> (string \<Rightarrow> bool) \<Rightarrow> pyval \<Rightarrow> string res" where
  "need_str e ok v = (case v of PStr s \<Rightarrow> if ok s then Inr s else Inl e | _ \<Rightarrow> Inl e)"

definition need_list :: "exn \<Rightarrow> pyval \<Rightarrow> pyval list res" where
  "need_list e v = (case v of PList xs \<Rightarrow> Inr xs | _ \<Rightarrow> Inl e)"

definition need_dict :: "exn \<Rightarrow> pyval \<Rightarrow> pydict res" where
  "need_dict e v = (case v of PDict d \<Rightarrow> Inr d | _ \<Rightarrow> Inl e)"

definition need_some :: "exn \<Rightarrow> 'a option \<Rightarrow> 'a res" where
  "need_some e x = (case x of Some y \<Rightarrow> Inr y | None \<Rightarrow> Inl e)"

lemma need_str_Inr: "need_str e ok v = Inr s \<longleftrightarrow> v = PStr s \<and> ok s"
  by (cases v) (auto simp: need_str_def)

lemma need_list_Inr: "need_list e v = Inr xs \<longleftrightarrow> v = PList xs"
  by (cases v) (auto simp: need_list_def)

lemma need_dict_Inr: "need_dict e v = Inr d \<longleftrightarrow> v = PDict d"
  by (cases v) (auto simp: need_dict_def)

lemma need_some_Inr: "need_some e x = Inr y \<longleftrightarrow> x = Some y"
  by (cases x) (auto simp: need_some_def)

lemmas need_Inr = need_str_Inr need_list_Inr need_dict_Inr need_some_Inr

lemma need_str_Inl: "need_str e ok v = Inl e' \<Longrightarrow> e' = e"
  by (cases v) (auto simp: need_str_def split: if_splits)

lemma need_list_Inl: "need_list e v = Inl e' \<Longrightarrow> e' = e"
  by (cases v) (auto simp: need_list_def)

lemma need_dict_Inl: "need_dict e v = Inl e' \<Longrightarrow> e' = e"
  by (cases v) (auto simp: need_dict_def)

lemma need_some_Inl: "need_some e x = Inl e' \<Longrightarrow> e' = e"
  by (cases x) (auto simp: need_some_def)

lemmas need_Inl = need_str_Inl need_list_Inl need_dict_Inl need_some_Inl

section \<open>Order-preserving removal of duplicates\<close>

text \<open>
  The loop \<open>for item in items: if item not in seen: ...\<close> that three modules of the program
  write out; \<open>ok\<close> is the extra condition one of them has.
\<close>

fun dedupe_loop :: "('a \<Rightarrow> bool) \<Rightarrow> 'a list \<Rightarrow> 'a list \<Rightarrow> 'a list" where
  "dedupe_loop ok out [] = out"
| "dedupe_loop ok out (x # xs) =
     (if ok x \<and> x \<notin> set out then dedupe_loop ok (out @ [x]) xs else dedupe_loop ok out xs)"

lemma set_dedupe_loop: "set (dedupe_loop ok out xs) = set out \<union> {x \<in> set xs. ok x}"
  by (induction xs arbitrary: out) auto

lemma distinct_dedupe_loop: "distinct out \<Longrightarrow> distinct (dedupe_loop ok out xs)"
  by (induction xs arbitrary: out) auto

lemma length_dedupe_loop: "length (dedupe_loop ok out xs) \<le> length out + length xs"
proof (induction xs arbitrary: out)
  case (Cons x xs)
  from Cons [of "out @ [x]"] Cons [of out] show ?case by auto
qed simp

lemma dedupe_loop_prefix: "\<exists>ys. dedupe_loop ok out xs = out @ ys"
  by (induction xs arbitrary: out) (auto, metis append_assoc)

lemma dedupe_loop_id: "distinct (out @ xs) \<Longrightarrow> \<forall>x \<in> set xs. ok x \<Longrightarrow> dedupe_loop ok out xs = out @ xs"
  by (induction xs arbitrary: out) auto

section \<open>Keyed row lists\<close>

text \<open>
  A database table is the list of its rows in insertion order. The statements the program
  issues select, update and delete by a key column.
\<close>

definition rows_find :: "('r \<Rightarrow> 'k) \<Rightarrow> 'k \<Rightarrow> 'r list \<Rightarrow> 'r option" where
  "rows_find key k rs = find (\<lambda>r. key r = k) rs"

definition rows_update :: "('r \<Rightarrow> 'k) \<Rightarrow> 'k \<Rightarrow> ('r \<Rightarrow> 'r) \<Rightarrow> 'r list \<Rightarrow> 'r list" where
  "rows_update key k f rs = map (\<lambda>r. if key r = k then f r else r) rs"

definition rows_delete :: "('r \<Rightarrow> 'k) \<Rightarrow> 'k \<Rightarrow> 'r list \<Rightarrow> 'r list" where
  "rows_delete key k rs = filter (\<lambda>r. key r \<noteq> k) rs"

lemma rows_find_Some: "rows_find key k rs = Some r \<Longrightarrow> r \<in> set rs \<and> key r = k"
  by (auto simp: rows_find_def find_Some_iff)

lemma rows_find_None: "rows_find key k rs = None \<longleftrightarrow> k \<notin> key ` set rs"
  by (auto simp: rows_find_def find_None_iff)

lemma rows_find_unique:
  "distinct (map key rs) \<Longrightarrow> r \<in> set rs \<Longrightarrow> rows_find key (key r) rs = Some r"
  by (induction rs) (auto simp: rows_find_def)

lemma rows_find_single [table_simps]: "rows_find key k [r] = (if key r = k then Some r else None)"
  by (simp add: rows_find_def)

lemma rows_find_append [table_simps]:
  "rows_find key k (rs @ ts) = (case rows_find key k rs of None \<Rightarrow> rows_find key k ts | Some r \<Rightarrow> Some r)"
  by (induction rs) (auto simp: rows_find_def)

lemma rows_find_update [table_simps]:
  "(\<And>r. key (f r) = key r) \<Longrightarrow>
   rows_find key j (rows_update key k f rs) = map_option (\<lambda>r. if j = k then f r else r) (rows_find key j rs)"
  by (induction rs) (auto simp: rows_find_def rows_update_def)

lemma rows_find_delete [table_simps]:
  "rows_find key j (rows_delete key k rs) = (if j = k then None else rows_find key j rs)"
  by (induction rs) (auto simp: rows_find_def rows_delete_def)

lemma set_rows_delete [table_simps]: "set (rows_delete key k rs) = {r \<in> set rs. key r \<noteq> k}"
  by (auto simp: rows_delete_def)

lemma set_rows_update [table_simps]:
  "set (rows_update key k f rs) = (\<lambda>r. if key r = k then f r else r) ` set rs"
  by (auto simp: rows_update_def)

lemma map_key_rows_update [table_simps]:
  "(\<And>r. key (f r) = key r) \<Longrightarrow> map key (rows_update key k f rs) = map key rs"
  by (simp add: rows_update_def)

lemma distinct_rows_delete [table_simps]:
  "distinct (map key rs) \<Longrightarrow> distinct (map key (rows_delete key' k rs))"
  by (induction rs) (auto simp: rows_delete_def)

lemma rows_update_notin [table_simps]: "k \<notin> key ` set rs \<Longrightarrow> rows_update key k f rs = rs"
  by (induction rs) (auto simp: rows_update_def)

lemma rows_delete_notin [table_simps]: "k \<notin> key ` set rs \<Longrightarrow> rows_delete key k rs = rs"
  by (induction rs) (auto simp: rows_delete_def)

end
