(* ===== verification/PyStr.thy ===== *)
theory PyStr
  imports Prelude
begin

text \<open>
  Python's \<open>str\<close> methods, \<open>repr\<close>, \<open>int()\<close> and decimal printing, on strings whose code
  points are below 256: a HOL \<open>char\<close> is the code point, so \<open>length\<close> is Python's \<open>len\<close>. White
  space, line boundaries, digits and alphanumerics are Python's for that range (Latin-1).
  \<open>str.upper\<close> leaves the three characters alone whose upper case lies outside the range or is
  longer.
\<close>

named_theorems str_simps \<open>string facts shared by the parsers\<close>

abbreviation code :: "char \<Rightarrow> nat" where
  "code c \<equiv> of_char c"

section \<open>Character classes\<close>

definition is_space :: "char \<Rightarrow> bool" where
  "is_space c = (let n = code c in (9 \<le> n \<and> n \<le> 13) \<or> (28 \<le> n \<and> n \<le> 32) \<or> n = 133 \<or> n = 160)"

definition is_line_sep :: "char \<Rightarrow> bool" where
  "is_line_sep c = (let n = code c in (10 \<le> n \<and> n \<le> 13) \<or> (28 \<le> n \<and> n \<le> 30) \<or> n = 133)"

definition is_ascii_digit :: "char \<Rightarrow> bool" where
  "is_ascii_digit c = (48 \<le> code c \<and> code c \<le> 57)"

definition is_ascii_letter :: "char \<Rightarrow> bool" where
  "is_ascii_letter c = (let n = code c in (65 \<le> n \<and> n \<le> 90) \<or> (97 \<le> n \<and> n \<le> 122))"

definition is_ascii_lower :: "char \<Rightarrow> bool" where
  "is_ascii_lower c = (97 \<le> code c \<and> code c \<le> 122)"

definition is_hex :: "char \<Rightarrow> bool" where
  "is_hex c = (let n = code c in (48 \<le> n \<and> n \<le> 57) \<or> (65 \<le> n \<and> n \<le> 70) \<or> (97 \<le> n \<and> n \<le> 102))"

definition is_lower_hex :: "char \<Rightarrow> bool" where
  "is_lower_hex c = (let n = code c in (48 \<le> n \<and> n \<le> 57) \<or> (97 \<le> n \<and> n \<le> 102))"

text \<open>\<open>str.isdigit\<close> holds of the superscripts two, three and one as well as of the digits.\<close>

definition py_isdigit :: "char \<Rightarrow> bool" where
  "py_isdigit c = (is_ascii_digit c \<or> code c = 178 \<or> code c = 179 \<or> code c = 185)"

definition py_isalnum :: "char \<Rightarrow> bool" where
  "py_isalnum c = (is_ascii_letter c \<or> py_isdigit c \<or>
     code c \<in> {170, 181, 186, 188, 189, 190} \<or>
     (192 \<le> code c \<and> code c \<noteq> 215 \<and> code c \<noteq> 247))"

definition isdigit_str :: "string \<Rightarrow> bool" where
  "isdigit_str s = (s \<noteq> [] \<and> list_all py_isdigit s)"

definition lower_char :: "char \<Rightarrow> char" where
  "lower_char c = (let n = code c in
     if (65 \<le> n \<and> n \<le> 90) \<or> (192 \<le> n \<and> n \<le> 222 \<and> n \<noteq> 215) then char_of (n + 32) else c)"

definition upper_char :: "char \<Rightarrow> char" where
  "upper_char c = (let n = code c in
     if (97 \<le> n \<and> n \<le> 122) \<or> (224 \<le> n \<and> n \<le> 254 \<and> n \<noteq> 247) then char_of (n - 32) else c)"

definition lower :: "string \<Rightarrow> string" where "lower = map lower_char"

definition upper :: "string \<Rightarrow> string" where "upper = map upper_char"

section \<open>Stripping, splitting, searching\<close>

definition lstrip :: "string \<Rightarrow> string" where "lstrip = dropWhile is_space"

definition rstrip :: "string \<Rightarrow> string" where "rstrip s = rev (dropWhile is_space (rev s))"

definition strip :: "string \<Rightarrow> string" where "strip s = rstrip (lstrip s)"

definition starts_with :: "string \<Rightarrow> string \<Rightarrow> bool" where
  "starts_with s p = (take (length p) s = p)"

definition ends_with :: "string \<Rightarrow> string \<Rightarrow> bool" where
  "ends_with s p = (length p \<le> length s \<and> drop (length s - length p) s = p)"

text \<open>\<open>pat in s\<close>, \<open>s.find(pat)\<close> and \<open>s.partition(pat)\<close>.\<close>

fun str_find :: "string \<Rightarrow> string \<Rightarrow> nat option" where
  "str_find pat [] = (if pat = [] then Some 0 else None)"
| "str_find pat (c # s) = (if starts_with (c # s) pat then Some 0 else map_option Suc (str_find pat s))"

definition contains :: "string \<Rightarrow> string \<Rightarrow> bool" where
  "contains pat s = (str_find pat s \<noteq> None)"

lemma contains_infix [str_simps]: "contains p (a @ p @ b)"
proof (induction a)
  case Nil
  have "starts_with (p @ b) p" by (simp add: starts_with_def)
  then show ?case by (cases "p @ b") (simp_all add: contains_def)
next
  case (Cons c a)
  then show ?case by (auto simp: contains_def)
qed

definition partition_at :: "string \<Rightarrow> string \<Rightarrow> string \<times> string \<times> string" where
  "partition_at pat s = (case str_find pat s of None \<Rightarrow> (s, [], [])
     | Some i \<Rightarrow> (take i s, pat, drop (i + length pat) s))"

text \<open>\<open>s.split(sep, maxsplit=n)\<close>.\<close>

fun split_max :: "nat \<Rightarrow> string \<Rightarrow> string \<Rightarrow> string list" where
  "split_max 0 sep s = [s]"
| "split_max (Suc n) sep s = (case str_find sep s of None \<Rightarrow> [s]
     | Some i \<Rightarrow> take i s # split_max n sep (drop (i + length sep) s))"

text \<open>\<open>s.split()\<close> and \<open>s.split(None, n)\<close>: fields separated by runs of white space.\<close>

function split_ws :: "string \<Rightarrow> string list" where
  "split_ws s = (let t = lstrip s in if t = [] then []
     else takeWhile (\<lambda>c. \<not> is_space c) t # split_ws (dropWhile (\<lambda>c. \<not> is_space c) t))"
  by pat_completeness auto
termination
proof (relation "measure length", goal_cases)
  case 1
  then show ?case by simp
next
  case (2 s t)
  have le: "length t \<le> length s"
    using 2(1) by (simp add: lstrip_def length_dropWhile_le)
  from 2 have ne: "t \<noteq> []" and hd: "\<not> is_space (hd t)"
    by (auto simp: lstrip_def hd_dropWhile)
  then have "length (dropWhile (\<lambda>c. \<not> is_space c) t) < length t"
    by (cases t) (simp_all add: length_dropWhile_le le_imp_less_Suc)
  with le show ?case by simp
qed

declare split_ws.simps [simp del]

fun split_ws_max :: "nat \<Rightarrow> string \<Rightarrow> string list" where
  "split_ws_max 0 s = (let t = lstrip s in if t = [] then [] else [t])"
| "split_ws_max (Suc n) s = (let t = lstrip s in if t = [] then []
     else takeWhile (\<lambda>c. \<not> is_space c) t # split_ws_max n (dropWhile (\<lambda>c. \<not> is_space c) t))"

text \<open>\<open>s.splitlines()\<close>: a carriage return followed by a line feed is one boundary.\<close>

fun splitlines_acc :: "string \<Rightarrow> string \<Rightarrow> string list" where
  "splitlines_acc acc [] = (if acc = [] then [] else [rev acc])"
| "splitlines_acc acc [c] = (if is_line_sep c then [rev acc] else [rev (c # acc)])"
| "splitlines_acc acc (c # d # s) =
     (if code c = 13 \<and> code d = 10 then rev acc # splitlines_acc [] s
      else if is_line_sep c then rev acc # splitlines_acc [] (d # s)
      else splitlines_acc (c # acc) (d # s))"

definition splitlines :: "string \<Rightarrow> string list" where
  "splitlines s = splitlines_acc [] s"

lemma splitlines_acc_line:
  "list_all (\<lambda>c. \<not> is_line_sep c) l \<Longrightarrow>
   splitlines_acc acc (l @ CHR ''\<newline>'' # r) = (rev acc @ l) # splitlines_acc [] r"
proof (induction l arbitrary: acc)
  case Nil
  then show ?case by (cases r) (simp_all add: is_line_sep_def)
next
  case (Cons c l)
  then have "code c \<noteq> (13::nat)" by (auto simp: is_line_sep_def Let_def)
  with Cons show ?case by (cases "l @ CHR ''\<newline>'' # r") auto
qed

lemma splitlines_line [str_simps]:
  "list_all (\<lambda>c. \<not> is_line_sep c) l \<Longrightarrow> splitlines (l @ CHR ''\<newline>'' # r) = l # splitlines r"
  by (simp add: splitlines_def splitlines_acc_line)

text \<open>\<open>sep.join(parts)\<close> and \<open>s.replace(c, r)\<close> for a one-character \<open>c\<close>.\<close>

fun join :: "string \<Rightarrow> string list \<Rightarrow> string" where
  "join sep [] = []"
| "join sep [x] = x"
| "join sep (x # y # ys) = x @ sep @ join sep (y # ys)"

definition replace_char :: "char \<Rightarrow> string \<Rightarrow> string \<Rightarrow> string" where
  "replace_char c r s = concat (map (\<lambda>d. if d = c then r else [d]) s)"

text \<open>\<open>len(s.encode("utf-8"))\<close>.\<close>

definition utf8_len :: "string \<Rightarrow> nat" where
  "utf8_len s = sum_list (map (\<lambda>c. if code c < 128 then 1 else 2) s)"

text \<open>
  A \<open>$\<close> that ends a pattern matches at the end and before a line feed at the end:
  the part of \<open>s\<close> that \<open>re.match\<close> with such a pattern compares.
\<close>

definition before_final_newline :: "string \<Rightarrow> string" where
  "before_final_newline s = (if s \<noteq> [] \<and> code (last s) = 10 then butlast s else s)"

section \<open>Numbers as text\<close>

definition digit_char :: "nat \<Rightarrow> char" where
  "digit_char n = char_of (48 + n)"

fun show_nat :: "nat \<Rightarrow> string" where
  "show_nat n = (if n < 10 then [digit_char n] else show_nat (n div 10) @ [digit_char (n mod 10)])"

declare show_nat.simps [simp del]

definition show_int :: "int \<Rightarrow> string" where
  "show_int i = (if i < 0 then CHR ''-'' # show_nat (nat (- i)) else show_nat (nat i))"

definition digits_value :: "string \<Rightarrow> nat" where
  "digits_value ds = foldl (\<lambda>a c. 10 * a + (code c - 48)) 0 ds"

text \<open>\<open>int(s)\<close>: blanks around, a sign, digits with single underscores between them.\<close>

fun int_digits :: "bool \<Rightarrow> string \<Rightarrow> string option" where
  "int_digits prev [] = (if prev then Some [] else None)"
| "int_digits prev (c # s) =
     (if is_ascii_digit c then map_option (Cons c) (int_digits True s)
      else if c = CHR ''_'' \<and> prev then int_digits False s else None)"

definition parse_int :: "string \<Rightarrow> int option" where
  "parse_int s = (let t = strip s in case t of [] \<Rightarrow> None
     | c # u \<Rightarrow> if c = CHR ''-'' then map_option (\<lambda>d. - int (digits_value d)) (int_digits False u)
                else if c = CHR ''+'' then map_option (\<lambda>d. int (digits_value d)) (int_digits False u)
                else map_option (\<lambda>d. int (digits_value d)) (int_digits False t))"

lemma show_nat_nonempty [simp]: "show_nat n \<noteq> []"
  by (subst show_nat.simps) simp

lemma digit_char_digit: "n < 10 \<Longrightarrow> is_ascii_digit (digit_char n)"
  by (simp add: is_ascii_digit_def digit_char_def)

lemma digit_char_value: "n < 10 \<Longrightarrow> code (digit_char n) - 48 = n"
  by (simp add: digit_char_def)

lemma show_nat_digits: "list_all is_ascii_digit (show_nat n)"
proof (induction n rule: show_nat.induct)
  case (1 n)
  then show ?case
    by (subst show_nat.simps) (auto simp: digit_char_digit)
qed

lemma digits_value_snoc: "digits_value (ds @ [c]) = 10 * digits_value ds + (code c - 48)"
  by (simp add: digits_value_def)

lemma digits_value_show_nat: "digits_value (show_nat n) = n"
proof (induction n rule: show_nat.induct)
  case (1 n)
  show ?case
  proof (cases "n < 10")
    case True
    then show ?thesis
      by (subst show_nat.simps) (simp add: digits_value_def digit_char_value)
  next
    case False
    with 1 show ?thesis
      by (subst show_nat.simps) (simp add: digits_value_snoc digit_char_value)
  qed
qed

lemma int_digits_all: "list_all is_ascii_digit ds \<Longrightarrow> ds \<noteq> [] \<or> p \<Longrightarrow> int_digits p ds = Some ds"
  by (induction ds arbitrary: p) auto

lemma is_ascii_digit_not_space: "is_ascii_digit c \<Longrightarrow> \<not> is_space c"
  by (auto simp: is_ascii_digit_def is_space_def Let_def)

section \<open>repr and str\<close>

definition hex_digit :: "nat \<Rightarrow> char" where
  "hex_digit n = (if n < 10 then char_of (48 + n) else char_of (87 + n))"

definition repr_char :: "char \<Rightarrow> char \<Rightarrow> string" where
  "repr_char q c = (let n = code c in
     if c = q \<or> n = 92 then [CHR 0x5C, c]
     else if n = 10 then [CHR 0x5C, CHR ''n'']
     else if n = 13 then [CHR 0x5C, CHR ''r'']
     else if n = 9 then [CHR 0x5C, CHR ''t'']
     else if n < 32 \<or> (127 \<le> n \<and> n \<le> 160) \<or> n = 173
       then [CHR 0x5C, CHR ''x'', hex_digit (n div 16), hex_digit (n mod 16)]
     else [c])"

definition squote :: char where "squote = CHR 0x27"

definition dquote :: char where "dquote = CHR 0x22"

definition repr_str :: "string \<Rightarrow> string" where
  "repr_str s = (let q = (if squote \<in> set s \<and> dquote \<notin> set s then dquote else squote)
     in [q] @ concat (map (repr_char q) s) @ [q])"

fun py_repr :: "pyval \<Rightarrow> string" where
  "py_repr PNone = ''None''"
| "py_repr (PBool b) = (if b then ''True'' else ''False'')"
| "py_repr (PInt i) = show_int i"
| "py_repr (PFloat _ r) = r"
| "py_repr (PStr s) = repr_str s"
| "py_repr (PList xs) = ''['' @ join '', '' (map py_repr xs) @ '']''"
| "py_repr (PDict d) = ''{'' @ join '', '' (map (\<lambda>(k, v). repr_str k @ '': '' @ py_repr v) d) @ ''}''"

fun py_str :: "pyval \<Rightarrow> string" where
  "py_str (PStr s) = s"
| "py_str v = py_repr v"

definition repr_strs :: "string list \<Rightarrow> string" where
  "repr_strs xs = ''['' @ join '', '' (map repr_str xs) @ '']''"

section \<open>Conversions of values\<close>

text \<open>\<open>int(v)\<close> of a decoded JSON value.\<close>

definition rat_trunc :: "rat \<Rightarrow> int" where
  "rat_trunc q = (if q < 0 then - \<lfloor>- q\<rfloor> else \<lfloor>q\<rfloor>)"

fun py_int :: "pyval \<Rightarrow> int res" where
  "py_int (PInt i) = Inr i"
| "py_int (PBool b) = Inr (if b then 1 else 0)"
| "py_int (PFloat q _) = Inr (rat_trunc q)"
| "py_int (PStr s) = (case parse_int s of Some i \<Rightarrow> Inr i
     | None \<Rightarrow> Inl (PyExn ''ValueError'' (''invalid literal for int() with base 10: '' @ repr_str s)))"
| "py_int PNone = Inl (PyExn ''TypeError'' ''int() argument must be a string, a bytes-like object or a real number'' )"
| "py_int (PList _) = Inl (PyExn ''TypeError'' ''int() argument must be a string, a bytes-like object or a real number'' )"
| "py_int (PDict _) = Inl (PyExn ''TypeError'' ''int() argument must be a string, a bytes-like object or a real number'' )"

end
