(* ===== verification/Types.thy ===== *)
theory Types
  imports PyStr
begin

text \<open>
  The records of \<open>boxer/types.py\<close>, the error codes and the messages of \<open>boxer/ipc.py\<close>. Instants are integers, microseconds since the epoch in UTC; \<open>iso\<close> is
  \<open>datetime.isoformat\<close> of such an instant.
\<close>

section \<open>Instants\<close>

type_synonym instant = int

abbreviation seconds :: "int \<Rightarrow> int" where "seconds n \<equiv> n * 1000000"

abbreviation minutes :: "int \<Rightarrow> int" where "minutes n \<equiv> n * 60000000"

abbreviation hours :: "int \<Rightarrow> int" where "hours n \<equiv> n * 3600000000"

definition civil_from_days :: "int \<Rightarrow> int \<times> int \<times> int" where
  "civil_from_days days =
     (let z = days + 719468; era = z div 146097; doe = z mod 146097;
          yoe = (doe - doe div 1460 + doe div 36524 - doe div 146096) div 365;
          doy = doe - (365 * yoe + yoe div 4 - yoe div 100);
          mp = (5 * doy + 2) div 153;
          d = doy - (153 * mp + 2) div 5 + 1;
          m = (if mp < 10 then mp + 3 else mp - 9)
      in (yoe + era * 400 + (if m \<le> 2 then 1 else 0), m, d))"

definition pad :: "nat \<Rightarrow> int \<Rightarrow> string" where
  "pad w n = (let s = show_int n in replicate (w - length s) CHR ''0'' @ s)"

definition iso :: "instant \<Rightarrow> string" where
  "iso t = (let us = t mod 1000000; secs = t div 1000000; days = secs div 86400;
       sod = secs mod 86400; (y, m, d) = civil_from_days days
     in pad 4 y @ ''-'' @ pad 2 m @ ''-'' @ pad 2 d @ ''T'' @
        pad 2 (sod div 3600) @ '':'' @ pad 2 (sod div 60 mod 60) @ '':'' @ pad 2 (sod mod 60) @
        (if us = 0 then '''' else ''.'' @ pad 6 us) @ ''+00:00'')"

section \<open>boxer/types.py\<close>

record vm =
  vm_id :: string
  vm_libvirt_name :: string
  vm_project_id :: string
  vm_display_name :: string
  vm_state :: string
  vm_owner_user :: string
  vm_template :: string
  vm_cpu :: int
  vm_ram_mb :: int
  vm_disk_gb :: int
  vm_headless :: bool
  vm_created_at :: instant
  vm_last_touched :: instant
  vm_lease_until :: instant
  vm_ip :: "string option"
  vm_tags :: "(string \<times> string) list"
  vm_origin :: string
  vm_artifact_type :: string
  vm_install_state :: "string option"
  vm_kind :: string

record queue_entry =
  q_id :: string
  q_project_id :: string
  q_request :: pydict
  q_priority :: int
  q_status :: string
  q_reason :: string
  q_created_at :: instant

record event =
  ev_id :: string
  ev_project_id :: "string option"
  ev_vm_id :: "string option"
  ev_level :: string
  ev_message :: string
  ev_created_at :: instant

record cleanup_action =
  ca_vm_id :: string
  ca_project_id :: string
  ca_stage :: string
  ca_graceful_requested_at :: instant
  ca_force_after :: instant
  ca_last_error :: string

record notification =
  n_id :: string
  n_project_id :: string
  n_vm_id :: "string option"
  n_level :: string
  n_message :: string
  n_details :: pydict
  n_status :: string
  n_created_at :: instant
  n_delivered_at :: "instant option"

text \<open>
  The identity a request claims. The daemon reads it from the request as it is, so the
  fields hold any JSON value.
\<close>

record caller =
  c_project_id :: pyval
  c_user :: pyval
  c_is_admin :: pyval

abbreviation is_admin :: "caller \<Rightarrow> bool" where
  "is_admin c \<equiv> truthy (c_is_admin c)"

section \<open>boxer/ipc.py\<close>

definition MAX_MESSAGE_BYTES :: int where
  "MAX_MESSAGE_BYTES = 64 * 1024 * 1024"

definition ERR_PARSE :: int where "ERR_PARSE = -32700"
definition ERR_METHOD_NOT_FOUND :: int where "ERR_METHOD_NOT_FOUND = -32601"
definition ERR_INVALID_PARAMS :: int where "ERR_INVALID_PARAMS = -32602"
definition ERR_INTERNAL :: int where "ERR_INTERNAL = -32603"
definition ERR_NOT_FOUND :: int where "ERR_NOT_FOUND = -32002"
definition ERR_POLICY_VIOLATION :: int where "ERR_POLICY_VIOLATION = -32004"

lemmas err_defs = ERR_PARSE_def ERR_METHOD_NOT_FOUND_def ERR_INVALID_PARAMS_def
  ERR_INTERNAL_def ERR_NOT_FOUND_def ERR_POLICY_VIOLATION_def

lemma err_policy_neq [simp]:
  "ERR_NOT_FOUND \<noteq> ERR_POLICY_VIOLATION" "ERR_POLICY_VIOLATION \<noteq> ERR_NOT_FOUND"
  "ERR_INVALID_PARAMS \<noteq> ERR_POLICY_VIOLATION" "ERR_INTERNAL \<noteq> ERR_INVALID_PARAMS"
  "ERR_INVALID_PARAMS \<noteq> ERR_INTERNAL"
  by (simp_all add: err_defs)

text \<open>
  A message before \<open>json.dumps\<close> and the newline, which are in Wire. \<open>make_response\<close> and \<open>make_error_response\<close> build the reply object.
\<close>

definition make_request :: "string \<Rightarrow> pydict \<Rightarrow> string \<Rightarrow> pyval" where
  "make_request method params req_id =
     PDict [(''jsonrpc'', PStr ''2.0''), (''id'', PStr req_id), (''method'', PStr method),
            (''params'', PDict params)]"

definition make_response :: "pyval \<Rightarrow> pyval \<Rightarrow> pyval" where
  "make_response req_id result =
     PDict [(''jsonrpc'', PStr ''2.0''), (''id'', req_id), (''result'', result)]"

definition make_error_response :: "pyval \<Rightarrow> int \<Rightarrow> string \<Rightarrow> pyval option \<Rightarrow> pyval" where
  "make_error_response req_id c message data =
     PDict [(''jsonrpc'', PStr ''2.0''), (''id'', req_id),
            (''error'', PDict ([(''code'', PInt c), (''message'', PStr message)] @
               (case data of None \<Rightarrow> [] | Some d \<Rightarrow> [(''data'', d)])))]"

definition quoted :: "string \<Rightarrow> string" where
  "quoted s = [squote] @ s @ [squote]"

end
