(* ===== verification/Host.thy ===== *)
theory Host
  imports Types
begin

text \<open>
  What the daemon reaches through libraries: libvirt, the file system, subprocesses. Each is a
  record of operations on the world \<open>'w\<close>, an argument of the definitions that use it. An
  operation may raise: a libvirt failure is the exception class \<open>libvirtError\<close>, and every
  theorem holds whatever the operations do. A domain, network or pool handle is its name. XML is
  a tree; reading and printing it, and JSON, are the libraries' work.
\<close>

datatype xml = Elem (xml_tag: string) (xml_attrs: "(string \<times> string) list") (xml_text: string)
    (xml_children: "xml list")

definition xml_get :: "xml \<Rightarrow> string \<Rightarrow> string option" where
  "xml_get x k = map_of (xml_attrs x) k"

text \<open>\<open>find(tag)\<close> and \<open>findall(tag)\<close> on the children of an element.\<close>

definition xml_find :: "string \<Rightarrow> xml \<Rightarrow> xml option" where
  "xml_find t x = find (\<lambda>c. xml_tag c = t) (xml_children x)"

definition xml_findall :: "string \<Rightarrow> xml \<Rightarrow> xml list" where
  "xml_findall t x = filter (\<lambda>c. xml_tag c = t) (xml_children x)"

record 'w libvirt =
  lv_lookup :: "string \<Rightarrow> ('w, unit) pm"
  lv_is_active :: "string \<Rightarrow> ('w, bool) pm"
  lv_create :: "string \<Rightarrow> ('w, unit) pm"
  lv_create_paused :: "string \<Rightarrow> ('w, unit) pm"
  lv_resume :: "string \<Rightarrow> ('w, unit) pm"
  lv_shutdown :: "string \<Rightarrow> ('w, unit) pm"
  lv_destroy :: "string \<Rightarrow> ('w, unit) pm"
  lv_undefine_flags :: "string \<Rightarrow> ('w, unit) pm"
  lv_undefine :: "string \<Rightarrow> ('w, unit) pm"
  lv_set_autostart :: "string \<Rightarrow> int \<Rightarrow> ('w, unit) pm"
  lv_xml_desc :: "string \<Rightarrow> ('w, string) pm"
  lv_state :: "string \<Rightarrow> ('w, int) pm"
  lv_info :: "string \<Rightarrow> ('w, int \<times> int \<times> int \<times> int \<times> int) pm"
  lv_snapshot_xml :: "string \<Rightarrow> string \<Rightarrow> ('w, unit) pm"
  lv_define_xml :: "string \<Rightarrow> ('w, string) pm"
  lv_agent :: "string \<Rightarrow> string \<Rightarrow> ('w, pyval) pm"
  lv_qmp :: "string \<Rightarrow> string \<Rightarrow> ('w, string) pm"
  lv_float :: "string \<Rightarrow> rat \<times> string"
  lv_list_domains :: "('w, string list) pm"
  lv_list_active :: "('w, string list) pm"
  lv_net_lookup :: "string \<Rightarrow> ('w, unit) pm"
  lv_net_is_active :: "string \<Rightarrow> ('w, bool) pm"
  lv_net_create :: "string \<Rightarrow> ('w, unit) pm"
  lv_net_destroy :: "string \<Rightarrow> ('w, unit) pm"
  lv_net_undefine :: "string \<Rightarrow> ('w, unit) pm"
  lv_net_define_xml :: "string \<Rightarrow> ('w, string) pm"
  lv_net_set_autostart :: "string \<Rightarrow> int \<Rightarrow> ('w, unit) pm"
  lv_net_leases :: "string \<Rightarrow> string option \<Rightarrow> ('w, pyval list) pm"
  lv_xml_parse :: "string \<Rightarrow> xml option"
  lv_xml_print :: "xml \<Rightarrow> string"
  lv_uuid :: "string \<Rightarrow> string \<Rightarrow> string"
  lv_rounds :: "int \<Rightarrow> int \<Rightarrow> ('w, nat) pm"

text \<open>
  \<open>lv_qmp\<close> is \<open>qemuMonitorCommand\<close>, from text to text, \<open>lv_float\<close> reads the text of a float in its answer.
  \<open>lv_uuid\<close> is \<open>_libvirt_uuid\<close>'s use of the \<open>uuid\<close> module. \<open>lv_rounds t d\<close> is the number of
  times a loop that sleeps \<open>d\<close> seconds runs before a deadline \<open>t\<close> seconds away.
\<close>

record proc_result =
  pr_returncode :: int
  pr_stdout :: string
  pr_stderr :: string

record 'w os =
  os_exists :: "string \<Rightarrow> ('w, bool) pm"
  os_is_file :: "string \<Rightarrow> ('w, bool) pm"
  os_is_dir :: "string \<Rightarrow> ('w, bool) pm"
  os_resolve :: "string \<Rightarrow> ('w, string) pm"
  os_expanduser :: "string \<Rightarrow> ('w, string) pm"
  os_mkdir :: "string \<Rightarrow> ('w, unit) pm"
  os_touch :: "string \<Rightarrow> ('w, unit) pm"
  os_chown :: "string \<Rightarrow> int \<Rightarrow> ('w, unit) pm"
  os_chmod :: "string \<Rightarrow> int \<Rightarrow> ('w, unit) pm"
  os_read_text :: "string \<Rightarrow> ('w, string) pm"
  os_write_text :: "string \<Rightarrow> string \<Rightarrow> ('w, unit) pm"
  os_copy :: "string \<Rightarrow> string \<Rightarrow> ('w, unit) pm"
  os_rename :: "string \<Rightarrow> string \<Rightarrow> ('w, unit) pm"
  os_stat :: "string \<Rightarrow> ('w, int \<times> int) pm"
  os_rglob :: "string \<Rightarrow> string \<Rightarrow> ('w, string list) pm"
  os_mktemp :: "string \<Rightarrow> string \<Rightarrow> ('w, string) pm"
  os_unlink :: "string \<Rightarrow> ('w, unit) pm"
  os_rmtree :: "string \<Rightarrow> ('w, unit) pm"
  os_listdir :: "string \<Rightarrow> ('w, string list) pm"
  os_run :: "string list \<Rightarrow> string \<Rightarrow> ('w, proc_result) pm"
  os_kill :: "int \<Rightarrow> int \<Rightarrow> ('w, unit) pm"
  os_access :: "string \<Rightarrow> ('w, bool) pm"
  os_proc :: "('w, (string \<times> string option) list) pm"
  os_json :: "string \<Rightarrow> pyval res"

text \<open>
  \<open>os_listdir d\<close> is \<open>d.iterdir()\<close>, the paths in \<open>d\<close>, \<open>os_unlink\<close> ignores a missing file.
  \<open>os_stat\<close> gives size and modification time (an instant), \<open>os_rglob d n\<close> the files named \<open>n\<close> below
  \<open>d\<close>, \<open>os_mktemp d x\<close> an unused name in \<open>d\<close> with suffix \<open>x\<close>. File contents are byte strings. \<open>os_proc\<close> lists the entries of /proc with
  their \<open>cmdline\<close>, \<open>None\<close> where it cannot be read.
\<close>

text \<open>Path composition \<open>a / b\<close>, and \<open>Path(p).name\<close>, on normalised paths.\<close>

definition path_join :: "string \<Rightarrow> string \<Rightarrow> string" where
  "path_join a b = (if starts_with b ''/'' then b else if ends_with a ''/'' then a @ b else a @ ''/'' @ b)"

definition path_name :: "string \<Rightarrow> string" where
  "path_name p = rev (takeWhile (\<lambda>c. c \<noteq> CHR ''/'') (rev p))"

text \<open>\<open>except C\<close> for one exception class.\<close>

definition in_class :: "string \<Rightarrow> exn \<Rightarrow> bool" where
  "in_class c e = (case e of PyExn k _ \<Rightarrow> k = c | IPCError _ _ _ \<Rightarrow> False)"

definition catch_class :: "string \<Rightarrow> ('s, 'a) pm \<Rightarrow> (exn \<Rightarrow> ('s, 'a) pm) \<Rightarrow> ('s, 'a) pm" where
  "catch_class c m h = catch m (\<lambda>e. if in_class c e then h e else raise e)"

abbreviation catch_lv :: "('s, 'a) pm \<Rightarrow> (exn \<Rightarrow> ('s, 'a) pm) \<Rightarrow> ('s, 'a) pm" where
  "catch_lv \<equiv> catch_class ''libvirtError''"

definition exn_text :: "exn \<Rightarrow> string" where
  "exn_text e = (case e of IPCError _ m _ \<Rightarrow> m | PyExn _ t \<Rightarrow> t)"

text \<open>Calling a method of a dict on another value.\<close>

definition attr_error :: exn where
  "attr_error = PyExn ''AttributeError'' ''object has no attribute get''"

lemma wp_catch_class [wp_simps]: "wp (catch_class c m h) Q E s =
    wp m Q (\<lambda>e s'. if in_class c e then wp (h e) Q E s' else E e s') s"
  by (auto simp: wp_def catch_class_def catch_def raise_def split: prod.splits sum.splits)

text \<open>\<open>no_raise m\<close>: \<open>m\<close> always returns.\<close>

definition no_raise :: "('s, 'a) pm \<Rightarrow> bool" where
  "no_raise m \<longleftrightarrow> (\<forall>s. \<exists>x. fst (m s) = Inr x)"

lemma no_raise_wp: "no_raise m \<longleftrightarrow> (\<forall>s. wp m (\<lambda>_ _. True) (\<lambda>_ _. False) s)"
proof -
  have "wp m (\<lambda>_ _. True) (\<lambda>_ _. False) s \<longleftrightarrow> (\<exists>x. fst (m s) = Inr x)" for s
    by (cases "m s"; cases "fst (m s)") (simp_all add: wp_def)
  then show ?thesis by (simp add: no_raise_def)
qed

lemma no_raise_catch: "(\<And>e. no_raise (h e)) \<Longrightarrow> no_raise (catch m h)"
  unfolding no_raise_wp wp_catch by (intro allI, rule wp_mono [OF wp_True]) simp_all

lemma no_raise_ret [simp]: "no_raise (ret x)"
  by (simp add: no_raise_def ret_def)

lemma no_raise_bindm: "no_raise m \<Longrightarrow> (\<And>x. no_raise (f x)) \<Longrightarrow> no_raise (bindm m f)"
  unfolding no_raise_wp wp_bindm by (intro allI, rule wp_mono, drule spec, assumption) simp_all

end
