(* ===== verification/Scan.thy ===== *)
theory Scan
  imports PyStr
begin

text \<open>
  Scanners: what a regular expression of the program does when it is matched at one place. A scanner
  takes a prefix of the text and returns a value and the rest.
\<close>

type_synonym 'a scan = "string \<Rightarrow> ('a \<times> string) option"

definition lit :: "string \<Rightarrow> unit scan" where
  "lit p s = (if starts_with s p then Some ((), drop (length p) s) else None)"

definition some_of :: "(char \<Rightarrow> bool) \<Rightarrow> string scan" where
  "some_of P s = (if takeWhile P s = [] then None else Some (takeWhile P s, dropWhile P s))"

definition digits2 :: "string scan" where
  "digits2 s = (case s of a # b # r \<Rightarrow> if is_ascii_digit a \<and> is_ascii_digit b then Some ([a, b], r) else None
     | _ \<Rightarrow> None)"

definition number :: "int scan" where
  "number s = map_option (\<lambda>(d, r). (int (digits_value d), r)) (some_of is_ascii_digit s)"

definition bind_scan :: "'a scan \<Rightarrow> ('a \<Rightarrow> 'b scan) \<Rightarrow> 'b scan" where
  "bind_scan p f s = (case p s of None \<Rightarrow> None | Some (x, r) \<Rightarrow> f x r)"

definition ret_scan :: "'a \<Rightarrow> 'a scan" where
  "ret_scan x s = Some (x, s)"

text \<open>\<open>\s*\<close> and \<open>\s?\<close>.\<close>

definition blanks :: "unit scan" where
  "blanks s = Some ((), dropWhile is_space s)"

definition blank_opt :: "unit scan" where
  "blank_opt s = Some ((), case s of c # r \<Rightarrow> if is_space c then r else s | [] \<Rightarrow> [])"

text \<open>\<open>re.search\<close>, and \<open>re.findall\<close> for a scanner of at least one character: the first argument is what
  is left of the match before.\<close>

fun search :: "'a scan \<Rightarrow> string \<Rightarrow> 'a option" where
  "search p [] = map_option fst (p [])"
| "search p (c # s) = (case p (c # s) of Some (x, _) \<Rightarrow> Some x | None \<Rightarrow> search p s)"

fun findall :: "'a scan \<Rightarrow> nat \<Rightarrow> string \<Rightarrow> 'a list" where
  "findall p n [] = []"
| "findall p (Suc n) (c # s) = findall p n s"
| "findall p 0 (c # s) = (case p (c # s) of
       Some (x, r) \<Rightarrow> x # findall p (length s - length r) s
     | None \<Rightarrow> findall p 0 s)"

lemma lit_append [simp]: "lit p (p @ s) = Some ((), s)"
  by (simp add: lit_def starts_with_def)

lemma number_show: "(s = [] \<or> \<not> is_ascii_digit (hd s)) \<Longrightarrow> number (show_nat n @ s) = Some (int n, s)"
proof -
  assume s: "s = [] \<or> \<not> is_ascii_digit (hd s)"
  have all: "\<forall>c \<in> set (show_nat n). is_ascii_digit c" using show_nat_digits by (simp add: list_all_iff)
  have "takeWhile is_ascii_digit s = []" "dropWhile is_ascii_digit s = s" using s by (cases s; simp)+
  with all show ?thesis
    by (simp add: number_def some_of_def takeWhile_append2 dropWhile_append2 digits_value_show_nat)
qed

end
