(* ===== verification/Urls.thy ===== *)
theory Urls
  imports Host Scan
begin

text \<open>
  Where \<open>boxerd/image_catalog.py\<close> may fetch from: the parts of a URL as \<open>urllib.parse\<close> reads them,
  addresses as \<open>ipaddress\<close> reads them, the blocked networks, and the requests that follow redirects
  one validated step at a time. Name resolution and the HTTP client are the record \<open>net\<close>.
\<close>

section \<open>URLs\<close>

record url_parts =
  ur_scheme :: string
  ur_hostname :: "string option"
  ur_path :: string

definition scheme_char :: "char \<Rightarrow> bool" where
  "scheme_char c = (is_ascii_letter c \<or> is_ascii_digit c \<or> c \<in> set ''+-.'')"

definition url_clean :: "string \<Rightarrow> string" where
  "url_clean u = filter (\<lambda>c. code c \<notin> {9, 10, 13 :: nat}) (dropWhile (\<lambda>c. code c \<le> (32::nat)) u)"

definition split_scheme :: "string \<Rightarrow> string \<times> string" where
  "split_scheme u = (let s = takeWhile (\<lambda>c. c \<noteq> CHR '':'') u in
     if s \<noteq> u \<and> s \<noteq> [] \<and> is_ascii_letter (hd s) \<and> list_all scheme_char s
     then (lower s, drop (length s + 1) u) else ([], u))"

definition split_netloc :: "string \<Rightarrow> string \<times> string" where
  "split_netloc u = (if starts_with u ''//''
     then (takeWhile (\<lambda>c. c \<notin> set ''/?#'') (drop 2 u), dropWhile (\<lambda>c. c \<notin> set ''/?#'') (drop 2 u))
     else ([], u))"

definition host_of :: "string \<Rightarrow> string option" where
  "host_of netloc =
     (let info = rev (takeWhile (\<lambda>c. c \<noteq> CHR ''@'') (rev netloc));
          h = (if CHR ''['' \<in> set info
               then takeWhile (\<lambda>c. c \<noteq> CHR '']'') (drop 1 (dropWhile (\<lambda>c. c \<noteq> CHR ''['') info))
               else takeWhile (\<lambda>c. c \<noteq> CHR '':'') info)
      in if h = [] then None
         else Some (lower (takeWhile (\<lambda>c. c \<noteq> CHR ''%'') h) @ dropWhile (\<lambda>c. c \<noteq> CHR ''%'') h))"

text \<open>The parameters of the last segment are not part of the path for the schemes that have them.\<close>

definition drop_params :: "string \<Rightarrow> string" where
  "drop_params p = (let seg = rev (takeWhile (\<lambda>c. c \<noteq> CHR ''/'') (rev p)) in
     take (length p - length seg) p @ takeWhile (\<lambda>c. c \<noteq> CHR '';'') seg)"

definition parse_url :: "string \<Rightarrow> url_parts res" where
  "parse_url url = (case split_scheme (url_clean url) of (scheme, r) \<Rightarrow>
     case split_netloc r of (netloc, r) \<Rightarrow>
     if (CHR ''['' \<in> set netloc) \<noteq> (CHR '']'' \<in> set netloc) then Inl (PyExn ''ValueError'' ''Invalid IPv6 URL'')
     else let p = takeWhile (\<lambda>c. c \<notin> set ''?#'') r in
       Inr \<lparr>ur_scheme = scheme, ur_hostname = host_of netloc,
         ur_path = (if scheme \<in> {[], ''http'', ''https'', ''ftp''} then drop_params p else p)\<rparr>)"

section \<open>Addresses\<close>

datatype ip_address = V4 int | V6 int

definition parse_octet :: "string \<Rightarrow> int option" where
  "parse_octet s = (if s \<noteq> [] \<and> list_all is_ascii_digit s \<and> length s \<le> 3 \<and> (length s = 1 \<or> hd s \<noteq> CHR ''0'') \<and>
     digits_value s \<le> 255 then Some (int (digits_value s)) else None)"

definition parse_ipv4 :: "string \<Rightarrow> int option" where
  "parse_ipv4 s = (case map parse_octet (split_max (length s) ''.'' s) of
       [Some a, Some b, Some c, Some d] \<Rightarrow> Some (((a * 256 + b) * 256 + c) * 256 + d)
     | _ \<Rightarrow> None)"

definition hex_char_value :: "char \<Rightarrow> int" where
  "hex_char_value c = (let n = of_char c in if n \<le> 57 then n - 48 else if n \<le> 70 then n - 55 else n - 87)"

definition parse_hextet :: "string \<Rightarrow> int option" where
  "parse_hextet s = (if s \<noteq> [] \<and> list_all is_hex s \<and> length s \<le> 4
     then Some (foldl (\<lambda>a c. a * 16 + hex_char_value c) 0 s) else None)"

fun hextets :: "string list \<Rightarrow> int list option" where
  "hextets [] = Some []"
| "hextets (p # ps) = (case parse_hextet p of None \<Rightarrow> None | Some n \<Rightarrow> map_option (Cons n) (hextets ps))"

definition hextets_value :: "int list \<Rightarrow> int" where
  "hextets_value ns = foldl (\<lambda>a n. a * 65536 + n) 0 ns"

text \<open>The last part may be an IPv4 address, which counts as two.\<close>

definition expand_v4_tail :: "string list \<Rightarrow> (string list \<times> int list) option" where
  "expand_v4_tail parts = (if parts \<noteq> [] \<and> CHR ''.'' \<in> set (last parts)
     then map_option (\<lambda>v. (butlast parts, [v div 65536, v mod 65536])) (parse_ipv4 (last parts))
     else Some (parts, []))"

text \<open>The index of the one empty part between the first and the last, if there is one.\<close>

definition inner_gaps :: "string list \<Rightarrow> nat list" where
  "inner_gaps parts = filter (\<lambda>i. 0 < i \<and> Suc i < length parts \<and> parts ! i = []) [0..<length parts]"

text \<open>\<open>hi\<close> and \<open>lo\<close> are the parts around a gap of zeros; a leading or trailing empty part belongs to it.\<close>

definition around_gap :: "string list \<Rightarrow> string list \<Rightarrow> int list \<Rightarrow> int option" where
  "around_gap hi lo v4 =
     (if (hi \<noteq> [] \<and> hd hi = [] \<and> length hi \<noteq> 1) \<or> (v4 = [] \<and> lo \<noteq> [] \<and> last lo = [] \<and> length lo \<noteq> 1) then None
      else let h = (if hi = [[]] then [] else hi); l = (if v4 = [] \<and> lo = [[]] then [] else lo) in
        if 8 < length h + length l + length v4 + 1 then None
        else case (hextets h, hextets l) of
            (Some a, Some b) \<Rightarrow> Some (hextets_value (a @ replicate (8 - length h - length l - length v4) 0 @ b @ v4))
          | _ \<Rightarrow> None)"

definition parse_ipv6_parts :: "string list \<Rightarrow> int list \<Rightarrow> int option" where
  "parse_ipv6_parts parts v4 =
     (if 9 < length parts + length v4 then None
      else case inner_gaps (parts @ map (\<lambda>_. ''0'') v4) of
          [] \<Rightarrow> if length parts + length v4 \<noteq> 8 then None
             else map_option (\<lambda>ns. hextets_value (ns @ v4)) (hextets parts)
        | [i] \<Rightarrow> around_gap (take i parts) (drop (Suc i) parts) v4
        | _ \<Rightarrow> None)"

definition parse_ipv6 :: "string \<Rightarrow> int option" where
  "parse_ipv6 s =
     (case partition_at ''%'' s of (addr, percent, scope) \<Rightarrow>
      if percent \<noteq> [] \<and> (scope = [] \<or> CHR ''%'' \<in> set scope) then None
      else let parts = split_max (length addr) '':'' addr in
        if length parts < 3 then None
        else case expand_v4_tail parts of None \<Rightarrow> None | Some (ps, v4) \<Rightarrow> parse_ipv6_parts ps v4)"

definition parse_ip :: "string \<Rightarrow> ip_address option" where
  "parse_ip s = (case parse_ipv4 s of Some a \<Rightarrow> Some (V4 a) | None \<Rightarrow> map_option V6 (parse_ipv6 s))"

fun in_network :: "ip_address \<Rightarrow> ip_address \<times> nat \<Rightarrow> bool" where
  "in_network (V4 a) (V4 b, n) = (a div 2 ^ (32 - n) = b div 2 ^ (32 - n))"
| "in_network (V6 a) (V6 b, n) = (a div 2 ^ (128 - n) = b div 2 ^ (128 - n))"
| "in_network _ _ = False"

definition BLOCKED_NETWORKS :: "(ip_address \<times> nat) list" where
  "BLOCKED_NETWORKS =
     [(V4 (10 * 2 ^ 24), 8), (V4 (172 * 2 ^ 24 + 16 * 2 ^ 16), 12), (V4 (192 * 2 ^ 24 + 168 * 2 ^ 16), 16),
      (V4 (127 * 2 ^ 24), 8), (V4 (169 * 2 ^ 24 + 254 * 2 ^ 16), 16), (V6 1, 128), (V6 (64512 * 2 ^ 112), 7)]"

definition is_private_ip :: "string \<Rightarrow> bool" where
  "is_private_ip ip = (case parse_ip ip of None \<Rightarrow> True | Some a \<Rightarrow> list_ex (in_network a) BLOCKED_NETWORKS)"

section \<open>Requests\<close>

text \<open>
  \<open>nt_addrs\<close> is \<open>socket.getaddrinfo\<close>, \<open>nt_send\<close> one GET that follows no redirect, \<open>nt_read\<close> the body of
  a response, \<open>nt_urljoin\<close> the library's resolution of a relative reference. An \<open>HTTPStatusError\<close>
  carries the status as its text.
\<close>

record response =
  rs_status :: int
  rs_location :: "string option"
  rs_handle :: nat

record 'w net =
  nt_addrs :: "string \<Rightarrow> ('w, string list) pm"
  nt_send :: "string \<Rightarrow> ('w, response) pm"
  nt_read :: "nat \<Rightarrow> ('w, string) pm"
  nt_urljoin :: "string \<Rightarrow> string \<Rightarrow> string"

definition check_addrs :: "string list \<Rightarrow> unit res" where
  "check_addrs addrs = (case find is_private_ip addrs of None \<Rightarrow> Inr ()
     | Some ip \<Rightarrow> Inl (ipc_error ERR_INVALID_PARAMS (''URL resolves to private/reserved IP: '' @ ip)))"

definition validate_url :: "'w net \<Rightarrow> string \<Rightarrow> ('w, unit) pm" where
  "validate_url n url =
     bindm (liftr (parse_url url)) (\<lambda>u.
     bindm (guardm (ur_scheme u \<noteq> ''https'') (ipc_error ERR_INVALID_PARAMS ''Only https:// URLs are allowed'')) (\<lambda>_.
     case ur_hostname u of
       None \<Rightarrow> raise (ipc_error ERR_INVALID_PARAMS ''Invalid URL: no hostname'')
     | Some host \<Rightarrow> catch (bindm (nt_addrs n host) (\<lambda>addrs. liftr (check_addrs addrs)))
         (\<lambda>e. if is_ipc_error e then raise e
            else raise (ipc_error ERR_INVALID_PARAMS (''DNS resolution failed: '' @ exn_text e)))))"

primrec stream_rounds :: "'w net \<Rightarrow> string \<Rightarrow> nat \<Rightarrow> string \<Rightarrow> ('w, response) pm" where
  "stream_rounds n url 0 current = raise (ipc_error ERR_INTERNAL (''Too many redirects while fetching '' @ url))"
| "stream_rounds n url (Suc k) current =
     bindm (validate_url n current) (\<lambda>_.
     bindm (nt_send n current) (\<lambda>r.
     if 300 \<le> rs_status r \<and> rs_status r < 400 then
       (case rs_location r of
          Some (c # l) \<Rightarrow> stream_rounds n url k (nt_urljoin n current (c # l))
        | _ \<Rightarrow> raise (ipc_error ERR_INTERNAL (''Redirect without Location from '' @ current)))
     else if 200 \<le> rs_status r \<and> rs_status r < 300 then ret r
     else raise (PyExn ''httpx.HTTPStatusError'' (show_int (rs_status r)))))"

definition stream_validated :: "'w net \<Rightarrow> string \<Rightarrow> ('w, response) pm" where
  "stream_validated n url = stream_rounds n url 6 url"

definition download :: "'w os \<Rightarrow> 'w net \<Rightarrow> string \<Rightarrow> string \<Rightarrow> ('w, unit) pm" where
  "download h n url dest =
     bindm (stream_validated n url) (\<lambda>r. bindm (nt_read n (rs_handle r)) (\<lambda>b. os_write_text h dest b))"

definition download_bytes :: "'w net \<Rightarrow> string \<Rightarrow> ('w, string) pm" where
  "download_bytes n url = bindm (stream_validated n url) (\<lambda>r. nt_read n (rs_handle r))"

definition is_transient_fetch_error :: "exn \<Rightarrow> bool" where
  "is_transient_fetch_error e = (case e of IPCError _ _ _ \<Rightarrow> False
     | PyExn k t \<Rightarrow> k = ''httpx.TransportError'' \<or>
         (k = ''httpx.HTTPStatusError'' \<and> (case parse_int t of Some c \<Rightarrow> 500 \<le> c \<and> c < 600 | None \<Rightarrow> False)))"

section \<open>Every request is validated\<close>

text \<open>What a validated URL is: https, with a host all of whose addresses at that moment are public.\<close>

definition url_allowed :: "'w net \<Rightarrow> string \<Rightarrow> 'w \<Rightarrow> bool" where
  "url_allowed n url w \<longleftrightarrow> (\<exists>u host addrs w'. parse_url url = Inr u \<and> ur_scheme u = ''https'' \<and>
     ur_hostname u = Some host \<and> nt_addrs n host w = (Inr addrs, w') \<and> list_all (\<lambda>a. \<not> is_private_ip a) addrs)"

lemma validate_url_allowed: "validate_url n url w = (Inr (), w') \<Longrightarrow> url_allowed n url w"
  by (auto simp: validate_url_def url_allowed_def pm_defs check_addrs_def find_None_iff list_all_iff
      split: sum.splits option.splits prod.splits if_splits)

text \<open>C35: Nothing is fetched from a place that was not checked: a response that a download uses is the answer
  to a GET sent, in the state its own check left, to a URL that is https and whose host resolved only
  to addresses outside the blocked networks, for the first URL as for every redirect.\<close>

theorem fetch_only_validated:
  assumes "stream_validated n url w = (Inr r, w')"
  shows "\<exists>u w0 w1. url_allowed n u w0 \<and> validate_url n u w0 = (Inr (), w1) \<and> nt_send n u w1 = (Inr r, w') \<and>
    200 \<le> rs_status r \<and> rs_status r < 300"
proof -
  have "stream_rounds n url k c v = (Inr r, w') \<Longrightarrow>
      \<exists>u w0 w1. validate_url n u w0 = (Inr (), w1) \<and> nt_send n u w1 = (Inr r, w') \<and>
        200 \<le> rs_status r \<and> rs_status r < 300" for k c v
  proof (induction k arbitrary: c v)
    case (Suc k)
    then obtain v1 r1 v2 where v: "validate_url n c v = (Inr (), v1)" "nt_send n c v1 = (Inr r1, v2)"
      and rest: "(if 300 \<le> rs_status r1 \<and> rs_status r1 < 400 then
       (case rs_location r1 of
          Some (c' # l) \<Rightarrow> stream_rounds n url k (nt_urljoin n c (c' # l))
        | _ \<Rightarrow> raise (ipc_error ERR_INTERNAL (''Redirect without Location from '' @ c)))
     else if 200 \<le> rs_status r1 \<and> rs_status r1 < 300 then ret r1
     else raise (PyExn ''httpx.HTTPStatusError'' (show_int (rs_status r1)))) v2 = (Inr r, w')"
      by (auto simp: bindm_eq_Inr)
    show ?case
    proof (cases "300 \<le> rs_status r1 \<and> rs_status r1 < 400")
      case True
      with rest obtain l where "stream_rounds n url k (nt_urljoin n c l) v2 = (Inr r, w')"
        by (auto simp: raise_def split: option.splits list.splits)
      then show ?thesis by (rule Suc.IH)
    next
      case False
      with rest have "200 \<le> rs_status r1 \<and> rs_status r1 < 300"
        by (simp add: raise_def del: not_le not_less split: if_splits)
      with False rest have "r1 = r" "v2 = w'" "200 \<le> rs_status r \<and> rs_status r < 300"
        by (simp_all only: if_False if_True if_not_P if_P ret_def prod.inject sum.inject)
      with v show ?thesis by blast
    qed
  qed (simp add: raise_def)
  from this [OF assms [unfolded stream_validated_def]] obtain u w0 w1 where
    u: "validate_url n u w0 = (Inr (), w1)" "nt_send n u w1 = (Inr r, w')" "200 \<le> rs_status r \<and> rs_status r < 300"
    by blast
  moreover from u(1) have "url_allowed n u w0" by (rule validate_url_allowed)
  ultimately show ?thesis by blast
qed

definition demo_sum :: string where "demo_sum = replicate 64 CHR ''a''"

definition demo_net :: "'w net" where
  "demo_net = \<lparr>nt_addrs = \<lambda>_. ret [''93.184.216.34''],
     nt_send = \<lambda>_. ret \<lparr>rs_status = 200, rs_location = None, rs_handle = 0\<rparr>,
     nt_read = \<lambda>_. ret demo_sum, nt_urljoin = \<lambda>_ l. l\<rparr>"

lemma fetch_only_validated_witness:
  "\<exists>r u w0 w1. stream_validated (demo_net :: unit net) ''https://example.org/a'' () = (Inr r, ()) \<and> url_allowed (demo_net :: unit net) u w0 \<and>
     nt_send (demo_net :: unit net) u w1 = (Inr r, ())"
proof -
  have p: "parse_url ''https://example.org/a'' =
      Inr \<lparr>ur_scheme = ''https'', ur_hostname = Some ''example.org'', ur_path = ''/a''\<rparr>" by code_simp
  have "\<not> is_private_ip ''93.184.216.34''" by code_simp
  then have run: "stream_validated (demo_net :: unit net) ''https://example.org/a'' () =
      (Inr \<lparr>rs_status = 200, rs_location = None, rs_handle = 0\<rparr>, ())"
    by (simp add: stream_validated_def numeral_eq_Suc validate_url_def p demo_net_def pm_defs check_addrs_def)
  from fetch_only_validated [OF run] run show ?thesis by blast
qed

text \<open>The check of addresses does not see through IPv4-mapped IPv6 addresses: the mapped form of a private
  address, and the link-local addresses of IPv6, count as public.\<close>

theorem mapped_private_address_passes:
  "is_private_ip ''10.0.0.1'' \<and> \<not> is_private_ip ''::ffff:10.0.0.1'' \<and>
   is_private_ip ''169.254.169.254'' \<and> \<not> is_private_ip ''::ffff:169.254.169.254'' \<and> \<not> is_private_ip ''fe80::1'' \<and>
   is_private_ip ''::1'' \<and> is_private_ip ''fd00::1''"
  by (intro conjI) code_simp+

end
