(* ===== verification/Signature.thy ===== *)
theory Signature
  imports Host
begin

text \<open>
  \<open>boxerd/signature.py\<close>: what a catalogue entry asks of a checksum manifest's PGP signature, and the
  reading of \<open>gpgv\<close>'s verdict. \<open>gpgv\<close> itself is a subprocess; its status text is data here.
\<close>

section \<open>Policies\<close>

definition normalize_fingerprint :: "string \<Rightarrow> string" where
  "normalize_fingerprint v = (let cleaned = filter (\<lambda>c. c \<noteq> CHR '' '') (upper (strip v)) in
     if starts_with cleaned ''0X'' then drop 2 cleaned else cleaned)"

record signature_policy =
  sp_mode :: string
  sp_keyring :: "string option"
  sp_signature_url :: "string option"
  sp_fingerprints :: "string list"
  sp_required :: bool

record verification_result =
  vr_valid :: bool
  vr_fingerprints :: "string list"
  vr_detail :: string

definition SUPPORTED_SIGNATURE_MODES :: "string list" where
  "SUPPORTED_SIGNATURE_MODES = [''clearsigned'', ''detached'']"

text \<open>The first of the three places that has the key with a value.\<close>

definition sig_lookup :: "pydict \<Rightarrow> pydict \<Rightarrow> pydict \<Rightarrow> string \<Rightarrow> pyval" where
  "sig_lookup block verification entry key =
     (case find (\<lambda>d. dget d key \<noteq> PNone) [block, verification, entry] of None \<Rightarrow> PNone | Some d \<Rightarrow> dget d key)"

definition py_or_list :: "pyval list \<Rightarrow> pyval" where
  "py_or_list vs = (case find truthy vs of Some v \<Rightarrow> v | None \<Rightarrow> last (PNone # vs))"

definition opt_text :: "pyval \<Rightarrow> string option" where
  "opt_text v = (if truthy v then Some (py_str v) else None)"

definition policy_fingerprints :: "pyval \<Rightarrow> string list" where
  "policy_fingerprints raw = (case raw of
       PStr s \<Rightarrow> [normalize_fingerprint s]
     | PList xs \<Rightarrow> map (\<lambda>f. normalize_fingerprint (py_str f)) (filter truthy xs)
     | _ \<Rightarrow> [])"

definition parse_signature_policy :: "pydict \<Rightarrow> pydict \<Rightarrow> signature_policy option res" where
  "parse_signature_policy verification entry =
     bindr (if dget verification ''signature'' = PNone then Inr []
         else need_dict (ipc_error ERR_INVALID_PARAMS ''verification.signature must be an object'')
           (dget verification ''signature'')) (\<lambda>block.
     let look = sig_lookup block verification entry;
         required = truthy (py_or (look ''signature_required'') (dget block ''required''));
         signature_url = look ''signature_url'';
         keyring = py_or (look ''keyring_path'') (look ''keyring'');
         mode = py_or (look ''signature_mode'') (dget block ''mode'');
         raw = py_or_list [look ''signature_fingerprints'', look ''signature_fingerprint'',
           dget block ''fingerprints'', dget block ''fingerprint''] in
     if \<not> (required \<or> truthy signature_url \<or> truthy keyring \<or> truthy mode \<or> truthy raw) then Inr None
     else
       let m = (if mode \<noteq> PNone then lower (py_str mode)
                else if signature_url = PNone then ''clearsigned'' else ''detached'') in
       if m \<notin> set SUPPORTED_SIGNATURE_MODES then
         Inl (ipc_error ERR_INVALID_PARAMS (''Unsupported signature mode '' @ quoted m @ ''. Supported: '' @
           repr_strs SUPPORTED_SIGNATURE_MODES))
       else Inr (Some \<lparr>sp_mode = m, sp_keyring = opt_text keyring, sp_signature_url = opt_text signature_url,
         sp_fingerprints = policy_fingerprints raw, sp_required = required\<rparr>))"

definition resolve_keyring_path :: "'w os \<Rightarrow> string option \<Rightarrow> string \<Rightarrow> ('w, string) pm" where
  "resolve_keyring_path h keyring keyrings_dir = (case keyring of
       Some (c # k) \<Rightarrow>
         (let candidate = path_join keyrings_dir (c # k) in
          bindm (os_is_file h candidate) (\<lambda>f.
          if f then ret candidate else raise (ipc_error ERR_INTERNAL (''Keyring not found: '' @ candidate @
            ''. Install the trusted keyring before enabling signature verification.''))))
     | _ \<Rightarrow> raise (ipc_error ERR_INVALID_PARAMS ''signature verification requires a keyring''))"

section \<open>Clearsigned messages\<close>

definition CLEARSIGN_HEADER :: string where "CLEARSIGN_HEADER = ''-----BEGIN PGP SIGNED MESSAGE-----''"

definition CLEARSIGN_SIG :: string where "CLEARSIGN_SIG = ''-----BEGIN PGP SIGNATURE-----''"

definition undash :: "string \<Rightarrow> string" where
  "undash line = (if starts_with line ''- '' then drop 2 line else if line = ''-'' then [] else line)"

text \<open>The lines after the armor headers and the blank line, up to the signature.\<close>

definition signed_lines :: "string list \<Rightarrow> string list" where
  "signed_lines after_header =
     map undash (takeWhile (\<lambda>l. strip l \<noteq> CLEARSIGN_SIG) (drop 1 (dropWhile (\<lambda>l. l \<noteq> []) after_header)))"

text \<open>A message whose header is not a line of its own makes \<open>next\<close> fail.\<close>

definition extract_clearsigned_payload :: "string \<Rightarrow> string res" where
  "extract_clearsigned_payload text =
     (if \<not> contains CLEARSIGN_HEADER text \<or> \<not> contains CLEARSIGN_SIG text then
        Inl (ipc_error ERR_INVALID_PARAMS ''Manifest is not a PGP clearsigned message'')
      else case dropWhile (\<lambda>l. strip l \<noteq> CLEARSIGN_HEADER) (splitlines text) of
          [] \<Rightarrow> Inl (PyExn ''StopIteration'' [])
        | _ # ls \<Rightarrow> Inr (join ''\<newline>'' (signed_lines ls) @ ''\<newline>''))"

section \<open>The verdict of gpgv\<close>

text \<open>\<open>^\[GNUPG:\]\s+WORD\s+\<close>: what follows it in a line.\<close>

definition after_status :: "string \<Rightarrow> string \<Rightarrow> string option" where
  "after_status word line =
     (if \<not> starts_with line ''[GNUPG:]'' then None
      else let r = drop 8 line; t = dropWhile is_space r in
        if r = t \<or> \<not> starts_with t word then None
        else let u = drop (length word) t; v = dropWhile is_space u in
          if u = v then None else Some v)"

definition validsig :: "string \<Rightarrow> string option" where
  "validsig line = (case after_status ''VALIDSIG'' line of None \<Rightarrow> None
     | Some v \<Rightarrow> let f = takeWhile is_hex v in if length f < 40 then None else Some f)"

definition goodsig :: "string \<Rightarrow> bool" where
  "goodsig line = (case after_status ''GOODSIG'' line of None \<Rightarrow> False | Some v \<Rightarrow> takeWhile is_hex v \<noteq> [])"

definition parse_status :: "string \<Rightarrow> bool \<times> string list" where
  "parse_status status_text =
     (let ls = map strip (splitlines status_text)
      in (list_ex (\<lambda>l. validsig l \<noteq> None \<or> goodsig l) ls,
          map normalize_fingerprint (List.map_filter validsig ls)))"

text \<open>
  \<open>sg_which\<close> is \<open>shutil.which\<close>, \<open>sg_run\<close> the subprocess with its exit code, standard output and error,
  \<open>sg_tmpdir\<close> the temporary directory.
\<close>

record 'w gpg =
  sg_which :: "string \<Rightarrow> ('w, string option) pm"
  sg_run :: "string list \<Rightarrow> ('w, int \<times> string \<times> string) pm"
  sg_tmpdir :: "('w, string) pm"

definition run_gpgv :: "'w gpg \<Rightarrow> string list \<Rightarrow> ('w, int \<times> string) pm" where
  "run_gpgv g args =
     bindm (sg_which g ''gpgv'') (\<lambda>p. case p of
       None \<Rightarrow> raise (ipc_error ERR_INTERNAL ''gpgv is not installed; cannot perform PGP signature verification'')
     | Some gpgv \<Rightarrow> bindm (sg_run g ([gpgv, ''--status-fd'', ''1''] @ args)) (\<lambda>(rc, out, err).
         ret (rc, out @ ''\<newline>'' @ err)))"

definition verdict :: "int \<times> string \<Rightarrow> verification_result" where
  "verdict r = (case r of (rc, status) \<Rightarrow> case parse_status status of (valid, fprs) \<Rightarrow>
     \<lparr>vr_valid = (rc = 0 \<and> valid), vr_fingerprints = fprs, vr_detail = strip status\<rparr>)"

definition verify_detached :: "'w os \<Rightarrow> 'w gpg \<Rightarrow> string \<Rightarrow> string \<Rightarrow> string \<Rightarrow> ('w, verification_result) pm" where
  "verify_detached h g keyring signature signed =
     bindm (sg_tmpdir g) (\<lambda>tmp.
     let sig_path = path_join tmp ''manifest.sig''; data_path = path_join tmp ''manifest'' in
     bindm (os_write_text h sig_path signature) (\<lambda>_.
     bindm (os_write_text h data_path signed) (\<lambda>_.
     bindm (run_gpgv g [''--keyring'', keyring, sig_path, data_path]) (\<lambda>r. ret (verdict r)))))"

definition verify_clearsigned :: "'w os \<Rightarrow> 'w gpg \<Rightarrow> string \<Rightarrow> string \<Rightarrow> ('w, verification_result) pm" where
  "verify_clearsigned h g keyring clearsigned =
     bindm (sg_tmpdir g) (\<lambda>tmp.
     let data_path = path_join tmp ''manifest.asc'' in
     bindm (os_write_text h data_path clearsigned) (\<lambda>_.
     bindm (run_gpgv g [''--keyring'', keyring, data_path]) (\<lambda>r. ret (verdict r))))"

definition check_fingerprints :: "verification_result \<Rightarrow> string list \<Rightarrow> bool" where
  "check_fingerprints result expected = (expected = [] \<or> list_ex (\<lambda>f. f \<in> set expected) (vr_fingerprints result))"

section \<open>What is taken for the signed text\<close>

text \<open>The header of a clearsigned message is looked for in lines stripped of blanks, so an indented header
  in front of the message counts: whatever signed message follows, the text of the indented block
  is returned as the payload. PGP's own reader does not take an indented line for a header and
  ignores what stands before the message, so the signature it confirms is not over this text,
  which the function is documented to return byte for byte as it was signed.\<close>

theorem unsigned_block_is_payload:
  assumes "list_all (\<lambda>c. \<not> is_line_sep c) line" "line \<noteq> []" "hd line \<noteq> CHR ''-''" "strip line \<noteq> CLEARSIGN_SIG"
  shows "extract_clearsigned_payload
     ('' '' @ CLEARSIGN_HEADER @ ''\<newline>\<newline>'' @ line @ ''\<newline> '' @ CLEARSIGN_SIG @ ''\<newline>'' @ genuine) = Inr (line @ ''\<newline>'')"
proof -
  let ?h = "'' '' @ CLEARSIGN_HEADER" and ?g = "'' '' @ CLEARSIGN_SIG"
  let ?t = "?h @ ''\<newline>\<newline>'' @ line @ ''\<newline>'' @ ?g @ ''\<newline>'' @ genuine"
  have c: "contains CLEARSIGN_HEADER ?t" "contains CLEARSIGN_SIG ?t"
    using contains_infix [of CLEARSIGN_HEADER "'' ''"] contains_infix [of CLEARSIGN_SIG "?h @ ''\<newline>\<newline>'' @ line @ ''\<newline> ''"]
    by simp_all
  have n: "list_all (\<lambda>c. \<not> is_line_sep c) ?h" "list_all (\<lambda>c. \<not> is_line_sep c) ?g" "strip ?h = CLEARSIGN_HEADER"
    "strip ?g = CLEARSIGN_SIG" by code_simp+
  have "splitlines ?t = ?h # [] # line # ?g # splitlines genuine"
    using splitlines_line [OF n(1), of "''\<newline>'' @ line @ ''\<newline>'' @ ?g @ ''\<newline>'' @ genuine"]
      splitlines_line [of "[]" "line @ ''\<newline>'' @ ?g @ ''\<newline>'' @ genuine"]
      splitlines_line [OF assms(1), of "?g @ ''\<newline>'' @ genuine"] splitlines_line [OF n(2), of genuine]
    by simp
  moreover have "undash line = line" using assms(2,3) by (cases line) (auto simp: undash_def starts_with_def)
  ultimately have "extract_clearsigned_payload ?t = Inr (line @ ''\<newline>'')"
    using c n(3,4) assms(4) by (simp add: extract_clearsigned_payload_def signed_lines_def)
  then show ?thesis by simp
qed

lemma unsigned_block_is_payload_witness:
  "extract_clearsigned_payload
     ('' '' @ CLEARSIGN_HEADER @ ''\<newline>\<newline>'' @ ''00 disk.img'' @ ''\<newline> '' @ CLEARSIGN_SIG @ ''\<newline>'' @
      CLEARSIGN_HEADER @ ''\<newline>\<newline>ff disk.img\<newline>'' @ CLEARSIGN_SIG) = Inr ''00 disk.img\<newline>''"
  using unsigned_block_is_payload [of "''00 disk.img''"] by simp code_simp

end
