(* ===== verification/Config.thy ===== *)
theory Config
  imports Host
begin

text \<open>
  \<open>boxer/config.py\<close>: loading a document and reading values from it. \<open>BoxerConfig\<close> reads its
  document each time a property is used; here each property is a function of the document, and
  \<open>cfg\<close> is the record of the values of a document whose numeric properties all convert. The
  other theories take a \<open>cfg\<close>.
\<close>

section \<open>Loading\<close>

text \<open>
  \<open>_load_yaml\<close>: \<open>override\<close> is the path of the environment variable, \<open>load\<close> the library's
  \<open>yaml.safe_load\<close> of a file that exists.
\<close>

fun load_first :: "'w os \<Rightarrow> (string \<Rightarrow> ('w, pyval) pm) \<Rightarrow> string \<Rightarrow> string list \<Rightarrow> ('w, pyval option) pm" where
  "load_first h load label [] = ret None"
| "load_first h load label (p # ps) =
     bindm (catch_class ''PermissionError''
       (bindm (os_exists h p) (\<lambda>e. if e then bindm (load p) (\<lambda>v. ret (Some (py_or v (PDict [])))) else ret None))
       (\<lambda>_. raise (PyExn ''ConfigLoadError'' (''Cannot read Boxer '' @ label @ '' file at '' @ p @ ''. '' @
         ''Run setup again or repair permissions so the Boxer client user can read it.'')))) (\<lambda>r.
     case r of Some v \<Rightarrow> ret (Some v) | None \<Rightarrow> load_first h load label ps)"

definition load_yaml :: "'w os \<Rightarrow> (string \<Rightarrow> ('w, pyval) pm) \<Rightarrow> string option \<Rightarrow> string \<Rightarrow> string \<Rightarrow> string \<Rightarrow> string \<Rightarrow>
    ('w, pyval) pm" where
  "load_yaml h load override primary fallback env_var label =
     bindm (load_first h load label (case override of Some p \<Rightarrow> [p] | None \<Rightarrow> [primary, fallback])) (\<lambda>r.
     case r of Some v \<Rightarrow> ret v
     | None \<Rightarrow> (case override of
         Some p \<Rightarrow> raise (PyExn ''ConfigLoadError'' (env_var @ '' points to missing Boxer '' @ label @ '' file: '' @ p))
       | None \<Rightarrow> ret (PDict [])))"

section \<open>Properties of BoxerConfig\<close>

definition cfg_path :: "string \<Rightarrow> string \<Rightarrow> pydict \<Rightarrow> string res" where
  "cfg_path k dflt d = need_str (PyExn ''TypeError'' ''argument should be a str or an os.PathLike object'')
     (\<lambda>_. True) (dget_or d k (PStr dflt))"

definition cfg_int :: "string \<Rightarrow> int \<Rightarrow> pydict \<Rightarrow> int res" where
  "cfg_int k dflt d = py_int (dget_or d k (PInt dflt))"

text \<open>\<open>float(v)\<close> of a number.\<close>

definition cfg_float :: "string \<Rightarrow> rat \<Rightarrow> pydict \<Rightarrow> rat res" where
  "cfg_float k dflt d = (case map_of d k of None \<Rightarrow> Inr dflt
     | Some (PInt i) \<Rightarrow> Inr (of_int i)
     | Some (PFloat q _) \<Rightarrow> Inr q
     | Some (PBool b) \<Rightarrow> Inr (if b then 1 else 0)
     | Some _ \<Rightarrow> Inl (PyExn ''TypeError'' ''float() argument must be a string or a real number''))"

definition cfg_opt_path :: "string \<Rightarrow> pydict \<Rightarrow> string option" where
  "cfg_opt_path k d = (case dget d k of PStr (c # p) \<Rightarrow> Some (c # p) | _ \<Rightarrow> None)"

text \<open>The properties of the network, the emulators, libvirt and the groups.\<close>

definition network_prefix_len :: "pydict \<Rightarrow> int res" where
  "network_prefix_len d = cfg_int ''network_prefix_len'' 24 d"

definition android_enabled :: "pydict \<Rightarrow> bool" where
  "android_enabled d = truthy (dget_or d ''android_enabled'' (PBool False))"

definition max_concurrent_emulators :: "pydict \<Rightarrow> int res" where
  "max_concurrent_emulators d = cfg_int ''max_concurrent_emulators'' 1 d"

definition emulator_console_port_min :: "pydict \<Rightarrow> int res" where
  "emulator_console_port_min d = cfg_int ''emulator_console_port_min'' 5554 d"

definition emulator_console_port_max :: "pydict \<Rightarrow> int res" where
  "emulator_console_port_max d = cfg_int ''emulator_console_port_max'' 5680 d"

definition libvirt_uri :: "pydict \<Rightarrow> pyval" where
  "libvirt_uri d = dget_or d ''libvirt_uri'' (PStr ''qemu:///system'')"

definition network_base_cidr :: "pydict \<Rightarrow> pyval" where
  "network_base_cidr d = dget_or d ''network_base_cidr'' (PStr ''10.200.0.0/16'')"

definition admin_group :: "pydict \<Rightarrow> pyval" where
  "admin_group d = dget_or d ''admin_group'' (PStr ''boxer-admin'')"

definition qemu_group :: "pydict \<Rightarrow> pyval" where
  "qemu_group d = dget_or d ''qemu_group'' (PStr ''kvm'')"

definition android_sdk_root :: "pydict \<Rightarrow> pyval" where
  "android_sdk_root d = dget d ''android_sdk_root''"

lemmas cfg_properties = network_prefix_len_def android_enabled_def max_concurrent_emulators_def
  emulator_console_port_min_def emulator_console_port_max_def

record cfg =
  cfg_state_dir :: string
  cfg_host_reserved_ram_gib :: rat
  cfg_max_total_vcpus :: "int option"
  cfg_max_concurrent_installs :: int
  cfg_max_running_per_project :: int
  cfg_max_disk_per_project_gib :: int
  cfg_default_ttl_minutes :: int
  cfg_stale_warn_grace_minutes :: int
  cfg_stale_delete_grace_hours :: int
  cfg_stale_cleanup_interval_minutes :: int
  cfg_inactive_call_window_minutes :: int
  cfg_inactive_call_threshold :: int
  cfg_stale_force_shutdown_after_minutes :: int
  cfg_cleanup_process_snapshot_lines :: int
  cfg_project_call_log_retention_hours :: int
  cfg_network_prefix_len :: int
  cfg_max_concurrent_emulators :: int
  cfg_emulator_console_port_min :: int
  cfg_emulator_console_port_max :: int
  cfg_local_iso_dir :: "string option"
  cfg_android_enabled :: bool
  cfg_images_dir :: string
  cfg_isos_dir :: string
  cfg_projects_dir :: string
  cfg_keyrings_dir :: string

text \<open>
  The values of a configuration document. \<open>max_total_vcpus\<close> is used as it stands: the record
  exists for a number or nothing there. Two properties default to the scan interval.
\<close>

definition config_of :: "pydict \<Rightarrow> cfg res" where
  "config_of d =
     bindr (cfg_path ''state_dir'' ''/var/lib/boxer'' d) (\<lambda>state_dir.
     bindr (cfg_path ''keyrings_dir'' ''/etc/boxer/keyrings'' d) (\<lambda>keyrings.
     bindr (cfg_float ''host_reserved_ram_gib'' 4 d) (\<lambda>reserved.
     bindr (case dget d ''max_total_vcpus'' of PNone \<Rightarrow> Inr None | PInt i \<Rightarrow> Inr (Some i)
       | _ \<Rightarrow> Inl (PyExn ''TypeError'' ''unsupported operand type'')) (\<lambda>vcpus.
     bindr (cfg_int ''max_concurrent_installs'' 1 d) (\<lambda>max_concurrent_installs.
     bindr (cfg_int ''max_running_per_project'' 2 d) (\<lambda>max_running_per_project.
     bindr (cfg_int ''max_disk_per_project_gib'' 80 d) (\<lambda>max_disk_per_project_gib.
     bindr (cfg_int ''default_ttl_minutes'' 60 d) (\<lambda>default_ttl_minutes.
     bindr (cfg_int ''stale_warn_grace_minutes'' 15 d) (\<lambda>stale_warn_grace_minutes.
     bindr (cfg_int ''stale_delete_grace_hours'' 24 d) (\<lambda>stale_delete_grace_hours.
     bindr (cfg_int ''stale_cleanup_interval_minutes'' 10 d) (\<lambda>stale_cleanup_interval_minutes.
     bindr (cfg_int ''inactive_call_window_minutes'' stale_cleanup_interval_minutes d) (\<lambda>inactive_call_window_minutes.
     bindr (cfg_int ''inactive_call_threshold'' 3 d) (\<lambda>inactive_call_threshold.
     bindr (cfg_int ''stale_force_shutdown_after_minutes'' stale_cleanup_interval_minutes d) (\<lambda>stale_force_shutdown_after_minutes.
     bindr (cfg_int ''cleanup_process_snapshot_lines'' 16 d) (\<lambda>cleanup_process_snapshot_lines.
     bindr (cfg_int ''project_call_log_retention_hours'' 24 d) (\<lambda>project_call_log_retention_hours.
     bindr (network_prefix_len d) (\<lambda>prefix_len.
     bindr (max_concurrent_emulators d) (\<lambda>emulators.
     bindr (emulator_console_port_min d) (\<lambda>port_min.
     bindr (emulator_console_port_max d) (\<lambda>port_max.
     Inr \<lparr>cfg_state_dir = state_dir, cfg_host_reserved_ram_gib = reserved, cfg_max_total_vcpus = vcpus,
       cfg_max_concurrent_installs = max_concurrent_installs,
       cfg_max_running_per_project = max_running_per_project,
       cfg_max_disk_per_project_gib = max_disk_per_project_gib,
       cfg_default_ttl_minutes = default_ttl_minutes,
       cfg_stale_warn_grace_minutes = stale_warn_grace_minutes,
       cfg_stale_delete_grace_hours = stale_delete_grace_hours,
       cfg_stale_cleanup_interval_minutes = stale_cleanup_interval_minutes,
       cfg_inactive_call_window_minutes = inactive_call_window_minutes,
       cfg_inactive_call_threshold = inactive_call_threshold,
       cfg_stale_force_shutdown_after_minutes = stale_force_shutdown_after_minutes,
       cfg_cleanup_process_snapshot_lines = cleanup_process_snapshot_lines,
       cfg_project_call_log_retention_hours = project_call_log_retention_hours,
       cfg_network_prefix_len = prefix_len,
       cfg_max_concurrent_emulators = emulators,
       cfg_emulator_console_port_min = port_min,
       cfg_emulator_console_port_max = port_max,
       cfg_local_iso_dir = cfg_opt_path ''local_iso_dir'' d, cfg_android_enabled = android_enabled d,
       cfg_images_dir = path_join state_dir ''images'', cfg_isos_dir = path_join state_dir ''isos'',
       cfg_projects_dir = path_join state_dir ''projects'', cfg_keyrings_dir = keyrings\<rparr>))))))))))))))))))))"

text \<open>
  The key pair: the configured one, or the one of the setup script when its file is there. The
  public key is read next to the private key.
\<close>

definition DEFAULT_SSH_KEY_PATH :: string where
  "DEFAULT_SSH_KEY_PATH = ''/etc/boxer/boxer_id_ed25519''"

definition boxer_ssh_privkey_path :: "'w os \<Rightarrow> pydict \<Rightarrow> ('w, string option) pm" where
  "boxer_ssh_privkey_path h d = (case cfg_opt_path ''boxer_ssh_privkey_path'' d of
       Some p \<Rightarrow> ret (Some p)
     | None \<Rightarrow> bindm (os_exists h DEFAULT_SSH_KEY_PATH) (\<lambda>e.
         ret (if e then Some DEFAULT_SSH_KEY_PATH else None)))"

definition boxer_ssh_pubkey :: "'w os \<Rightarrow> pydict \<Rightarrow> ('w, string option) pm" where
  "boxer_ssh_pubkey h d = (case dget d ''boxer_ssh_pubkey'' of
       PStr (c # k) \<Rightarrow> ret (Some (c # k))
     | _ \<Rightarrow> bindm (boxer_ssh_privkey_path h d) (\<lambda>priv.
         catch_class ''OSError''
           (case priv of None \<Rightarrow> ret None
            | Some p \<Rightarrow> bindm (os_is_file h (p @ ''.pub'')) (\<lambda>f.
                if f then bindm (os_read_text h (p @ ''.pub'')) (\<lambda>t. ret (Some (strip t))) else ret None))
           (\<lambda>_. ret None)))"

section \<open>Catalogs\<close>

text \<open>\<open>ImageCatalog\<close> and \<open>AndroidCatalog\<close>: the entries by name, in the order of the file.\<close>

type_synonym catalog = "(string \<times> pydict) list"

definition catalog_get :: "catalog \<Rightarrow> string \<Rightarrow> pydict option" where
  "catalog_get c name = map_of c name"

text \<open>\<open>get\<close> with any value for a name: a list or an object cannot be a key.\<close>

definition catalog_lookup :: "catalog \<Rightarrow> pyval \<Rightarrow> pydict option res" where
  "catalog_lookup c name = (case name of
       PStr n \<Rightarrow> Inr (catalog_get c n)
     | PList _ \<Rightarrow> Inl (PyExn ''TypeError'' ''unhashable type'')
     | PDict _ \<Rightarrow> Inl (PyExn ''TypeError'' ''unhashable type'')
     | _ \<Rightarrow> Inr None)"

lemma catalog_lookup_Some: "catalog_lookup c v = Inr (Some e) \<Longrightarrow> v = PStr (py_str v) \<and> catalog_get c (py_str v) = Some e"
  by (cases v) (simp_all add: catalog_lookup_def)

definition catalog_list_names :: "catalog \<Rightarrow> string list" where
  "catalog_list_names c = map fst c"

definition catalog_list_entries :: "catalog \<Rightarrow> pyval list" where
  "catalog_list_entries c = map (\<lambda>(n, e). PDict (dict_merge [(''name'', PStr n)] e)) c"

text \<open>An empty document configures the built-in defaults.\<close>

lemma config_defaults:
  "map_sum (\<lambda>_. ()) (\<lambda>c. (cfg_default_ttl_minutes c, cfg_max_running_per_project c, cfg_max_disk_per_project_gib c,
      cfg_stale_delete_grace_hours c, cfg_inactive_call_window_minutes c, cfg_stale_force_shutdown_after_minutes c))
     (config_of []) = Inr (60, 2, 80, 24, 10, 10)"
  by (simp add: config_of_def cfg_properties cfg_path_def cfg_int_def cfg_float_def need_str_def dget_or_def dget_def)

text \<open>The values an empty document gives, for examples.\<close>

definition default_cfg :: cfg where
  "default_cfg = \<lparr>cfg_state_dir = ''/var/lib/boxer'', cfg_host_reserved_ram_gib = 4,
     cfg_max_total_vcpus = None, cfg_max_concurrent_installs = 1, cfg_max_running_per_project = 2,
     cfg_max_disk_per_project_gib = 80, cfg_default_ttl_minutes = 60, cfg_stale_warn_grace_minutes =
     15, cfg_stale_delete_grace_hours = 24, cfg_stale_cleanup_interval_minutes = 10,
     cfg_inactive_call_window_minutes = 10, cfg_inactive_call_threshold = 3,
     cfg_stale_force_shutdown_after_minutes = 10, cfg_cleanup_process_snapshot_lines = 16,
     cfg_project_call_log_retention_hours = 24, cfg_network_prefix_len = 24,
     cfg_max_concurrent_emulators = 1, cfg_emulator_console_port_min = 5554,
     cfg_emulator_console_port_max = 5680, cfg_local_iso_dir = None, cfg_android_enabled = False,
     cfg_images_dir = ''/var/lib/boxer/images'', cfg_isos_dir = ''/var/lib/boxer/isos'',
     cfg_projects_dir = ''/var/lib/boxer/projects'', cfg_keyrings_dir =
     ''/etc/boxer/keyrings''\<rparr>"

lemma config_of_empty: "config_of [] = Inr default_cfg"
  by (simp add: config_of_def cfg_properties default_cfg_def cfg_path_def cfg_int_def cfg_float_def cfg_opt_path_def
      dget_def dget_or_def need_str_def path_join_def starts_with_def ends_with_def)

end
