(* ===== verification/Images.thy ===== *)
theory Images
  imports Urls Signature Config
begin

text \<open>
  \<open>boxerd/image_catalog.py\<close>: the cache of verified images and installer ISOs. A cached artifact is a
  file named by its digest; the metadata of a template points at the current one. Hashing, decoding
  of bytes and printing of JSON are parameters.
\<close>

section \<open>What the manager works with\<close>

record 'w images =
  im_cfg :: cfg
  im_catalog :: catalog
  im_os :: "'w os"
  im_net :: "'w net"
  im_gpg :: "'w gpg"
  im_hash :: "string \<Rightarrow> string \<Rightarrow> string"
  im_decode :: "string \<Rightarrow> string"
  im_dumps :: "pyval \<Rightarrow> string"

record digest_info =
  ed_algorithm :: string
  ed_digest :: string
  ed_source :: string
  ed_signature :: "string option"

section \<open>Entries\<close>

definition artifact_type :: "pydict \<Rightarrow> string" where
  "artifact_type entry = py_str (py_or (py_or (dget entry ''artifact_type'') (dget entry ''type'')) (PStr ''cloud-image''))"

definition VALID_REFRESH_POLICIES :: "string list" where
  "VALID_REFRESH_POLICIES = [''latest'', ''manual'', ''pinned'']"

definition refresh_policy :: "pydict \<Rightarrow> string res" where
  "refresh_policy entry =
     (if dget entry ''refresh_policy'' \<noteq> PNone then
        let policy = lower (py_str (dget entry ''refresh_policy'')) in
        if policy \<notin> set VALID_REFRESH_POLICIES then
          Inl (ipc_error ERR_INVALID_PARAMS (''Invalid refresh_policy '' @ quoted (py_str (dget entry ''refresh_policy'')) @
            ''. Valid: '' @ repr_strs VALID_REFRESH_POLICIES))
        else Inr policy
      else Inr (if truthy (dget entry ''sha256'') then ''pinned'' else ''latest''))"

definition SUPPORTED_HASHES :: "(string \<times> nat) list" where
  "SUPPORTED_HASHES = [(''sha256'', 64), (''sha512'', 128)]"

definition validate_hash_algorithm :: "string \<Rightarrow> string res" where
  "validate_hash_algorithm algorithm =
     (if lower algorithm \<in> fst ` set SUPPORTED_HASHES then Inr (lower algorithm)
      else Inl (ipc_error ERR_INVALID_PARAMS (''Unsupported checksum algorithm '' @ quoted algorithm @
        ''. Supported: '' @ repr_strs (map fst SUPPORTED_HASHES))))"

definition hash_length :: "string \<Rightarrow> nat" where
  "hash_length algorithm = the (map_of SUPPORTED_HASHES algorithm)"

text \<open>\<open>Path(p).name\<close> of any path: empty and dot components do not count.\<close>

definition pure_name :: "string \<Rightarrow> string" where
  "pure_name p = (case rev (filter (\<lambda>c. c \<noteq> [] \<and> c \<noteq> ''.'') (split_max (length p) ''/'' p)) of [] \<Rightarrow> [] | c # _ \<Rightarrow> c)"

definition manifest_filename :: "string \<Rightarrow> pyval \<Rightarrow> string res" where
  "manifest_filename url override =
     (if truthy override then need_str (PyExn ''TypeError'' ''argument should be a str'') (\<lambda>_. True) override
      else bindr (parse_url url) (\<lambda>u. Inr (pure_name (ur_path u))))"

section \<open>Checksum manifests\<close>

text \<open>\<open>SHA256 (name) = digest\<close>, the whole of a stripped line.\<close>

definition fedora_scan :: "(string \<times> string \<times> string) scan" where
  "fedora_scan =
     bind_scan (\<lambda>s. if starts_with s ''SHA256'' then Some (''SHA256'', drop 6 s)
         else if starts_with s ''SHA512'' then Some (''SHA512'', drop 6 s) else None) (\<lambda>alg.
     bind_scan blanks (\<lambda>_. bind_scan (lit ''('') (\<lambda>_. bind_scan (some_of (\<lambda>c. c \<noteq> CHR '')'')) (\<lambda>name.
     bind_scan (lit '')'') (\<lambda>_. bind_scan blanks (\<lambda>_. bind_scan (lit ''='') (\<lambda>_. bind_scan blanks (\<lambda>_.
     bind_scan (some_of is_hex) (\<lambda>digest s. if s = [] then Some ((alg, name, digest), []) else None)))))))))"

definition fedora_match :: "string \<Rightarrow> (string \<times> string \<times> string) option" where
  "fedora_match line = map_option fst (fedora_scan line)"

text \<open>What one stripped line says about the wanted file.\<close>

definition manifest_line :: "string \<Rightarrow> string \<Rightarrow> string \<Rightarrow> string option" where
  "manifest_line wanted algorithm line =
     (if line = [] \<or> starts_with line ''#'' then None
      else case fedora_match line of
          Some (alg, name, digest) \<Rightarrow>
            if lower alg = algorithm \<and> pure_name (strip name) = wanted \<and> length digest = hash_length algorithm
            then Some (lower digest) else None
        | None \<Rightarrow> (case split_ws line of
              [] \<Rightarrow> None
            | [d] \<Rightarrow> if length d = hash_length algorithm \<and> list_all is_hex d then Some (lower d) else None
            | d # ps \<Rightarrow>
                if pure_name (dropWhile (\<lambda>c. c = CHR ''*'') (last ps)) = wanted \<and> length d = hash_length algorithm \<and>
                   list_all is_lower_hex (lower d)
                then Some (lower d) else None))"

definition parse_checksum_manifest :: "string \<Rightarrow> string \<Rightarrow> string \<Rightarrow> string res" where
  "parse_checksum_manifest text filename algorithm =
     bindr (validate_hash_algorithm algorithm) (\<lambda>alg.
     need_some (ipc_error ERR_INVALID_PARAMS (''Checksum manifest does not contain an entry for '' @ quoted (pure_name filename)))
       (List.find (\<lambda>_. True) (List.map_filter (manifest_line (pure_name filename) alg) (map strip (splitlines text)))))"

section \<open>The expected digest\<close>

definition repr_tuple :: "string list \<Rightarrow> string" where
  "repr_tuple xs = (case xs of [x] \<Rightarrow> ''('' @ repr_str x @ '',)'' | _ \<Rightarrow> ''('' @ join '', '' (map repr_str xs) @ '')'')"

definition signature_fail :: "signature_policy \<Rightarrow> string \<Rightarrow> ('w, string option) pm" where
  "signature_fail p message = (if sp_required p
     then raise (ipc_error ERR_INTERNAL (''PGP signature verification failed: '' @ message)) else ret None)"

definition judge_signature :: "signature_policy \<Rightarrow> string \<Rightarrow> verification_result \<Rightarrow> ('w, string option) pm" where
  "judge_signature p keyring result =
     (if \<not> vr_valid result then signature_fail p (''no valid signature from '' @ path_name keyring)
      else if \<not> check_fingerprints result (sp_fingerprints p) then
        signature_fail p (''signing key '' @ (if vr_fingerprints result \<noteq> [] then repr_tuple (vr_fingerprints result)
          else ''(unknown)'') @ '' not in pinned fingerprints'')
      else ret (Some (''pgp signature verified via '' @ path_name keyring @ '' (key '' @
        (case vr_fingerprints result of f # _ \<Rightarrow> f | [] \<Rightarrow> ''verified'') @ '')'')))"

definition verify_with_keyring :: "'w images \<Rightarrow> signature_policy \<Rightarrow> string \<Rightarrow> string \<Rightarrow> ('w, string option) pm" where
  "verify_with_keyring im p manifest_bytes keyring =
     (if sp_mode p = ''clearsigned'' then
        bindm (verify_clearsigned (im_os im) (im_gpg im) keyring manifest_bytes) (judge_signature p keyring)
      else (case sp_signature_url p of
          None \<Rightarrow> signature_fail p ''detached signature mode requires signature_url''
        | Some [] \<Rightarrow> signature_fail p ''detached signature mode requires signature_url''
        | Some url \<Rightarrow>
            bindm (validate_url (im_net im) url) (\<lambda>_.
            bindm (download_bytes (im_net im) url) (\<lambda>sig.
            bindm (verify_detached (im_os im) (im_gpg im) keyring sig manifest_bytes) (judge_signature p keyring)))))"

definition verify_manifest_signature :: "'w images \<Rightarrow> signature_policy \<Rightarrow> string \<Rightarrow> ('w, string option) pm" where
  "verify_manifest_signature im p manifest_bytes =
     bindm (catch (bindm (resolve_keyring_path (im_os im) (sp_keyring p) (cfg_keyrings_dir (im_cfg im))) (\<lambda>k. ret (Inr k)))
         (\<lambda>e. if is_ipc_error e \<and> \<not> sp_required p then ret (Inl e) else raise e)) (\<lambda>k. case k of
       Inl e \<Rightarrow> signature_fail p (exn_text e)
     | Inr keyring \<Rightarrow> verify_with_keyring im p manifest_bytes keyring)"

text \<open>The text the digest is looked up in. A \<open>StopIteration\<close> leaves a coroutine as a \<open>RuntimeError\<close>.\<close>

definition manifest_text :: "signature_policy option \<Rightarrow> string \<Rightarrow> string res" where
  "manifest_text policy text = (case policy of
       Some p \<Rightarrow>
         if sp_mode p = ''clearsigned'' then
           (case extract_clearsigned_payload text of
              Inr payload \<Rightarrow> Inr payload
            | Inl e \<Rightarrow> if is_ipc_error e then (if sp_required p then Inl e else Inr text)
                else Inl (PyExn ''RuntimeError'' ''coroutine raised StopIteration''))
         else Inr text
     | None \<Rightarrow> Inr text)"

definition manifest_digest :: "'w images \<Rightarrow> pydict \<Rightarrow> pydict \<Rightarrow> string \<Rightarrow> string \<Rightarrow> signature_policy option \<Rightarrow>
    ('w, digest_info) pm" where
  "manifest_digest im verification entry url checksum_url policy =
     bindm (liftr (need_str attr_error (\<lambda>_. True) (py_or (py_or (dget verification ''checksum_algorithm'')
         (dget entry ''checksum_algorithm'')) (PStr ''sha256'')))) (\<lambda>alg_name.
     bindm (liftr (validate_hash_algorithm alg_name)) (\<lambda>algorithm.
     bindm (liftr (manifest_filename url (py_or (dget verification ''checksum_filename'') (dget entry ''checksum_filename'')))) (\<lambda>filename.
     bindm (validate_url (im_net im) checksum_url) (\<lambda>_.
     bindm (download_bytes (im_net im) checksum_url) (\<lambda>bytes.
     bindm (case policy of None \<Rightarrow> ret None | Some p \<Rightarrow> verify_manifest_signature im p bytes) (\<lambda>signature.
     bindm (liftr (manifest_text policy (im_decode im bytes))) (\<lambda>text.
     bindm (liftr (parse_checksum_manifest text filename algorithm)) (\<lambda>digest.
     let source = ''checksum manifest '' @ checksum_url in
     ret \<lparr>ed_algorithm = algorithm, ed_digest = digest,
       ed_source = (case signature of Some (c # s) \<Rightarrow> source @ ''; '' @ c # s | _ \<Rightarrow> source), ed_signature = signature\<rparr>))))))))"

definition expected_digest :: "'w images \<Rightarrow> pydict \<Rightarrow> string \<Rightarrow> ('w, digest_info option) pm" where
  "expected_digest im entry url =
     (if truthy (dget entry ''sha256'') then
        ret (Some \<lparr>ed_algorithm = ''sha256'', ed_digest = lower (py_str (dget entry ''sha256'')), ed_source = ''catalog sha256'',
          ed_signature = None\<rparr>)
      else
        bindm (liftr (need_dict attr_error (py_or (dget entry ''verification'') (PDict [])))) (\<lambda>verification.
        bindm (liftr (parse_signature_policy verification entry)) (\<lambda>policy.
        let checksum_url = py_or (dget verification ''checksum_url'') (dget entry ''checksum_url'') in
        if \<not> truthy checksum_url then
          (case policy of
             Some p \<Rightarrow> if sp_required p then raise (ipc_error ERR_INTERNAL
                 ''signature_required is set but no checksum_url is configured to verify'') else ret None
           | None \<Rightarrow> ret None)
        else
          bindm (liftr (need_str attr_error (\<lambda>_. True) checksum_url)) (\<lambda>c_url.
          bindm (manifest_digest im verification entry url c_url policy) (\<lambda>d. ret (Some d))))))"

end
