(* ===== verification/Base64.thy ===== *)
theory Base64
  imports PyStr
begin

text \<open>
  \<open>base64.b64encode\<close> and \<open>base64.b64decode(..., validate=True)\<close> of the standard library, on
  byte strings (a HOL \<open>char\<close> is a byte), and the UTF-8 encoding of a string. The program moves
  files into and out of a guest in this form.
\<close>

definition b64_char :: "nat \<Rightarrow> char" where
  "b64_char n = (if n < 26 then char_of (n + 65) else if n < 52 then char_of (n + 71)
     else if n < 62 then char_of (n - 4) else if n = 62 then CHR ''+'' else CHR ''/'')"

definition b64_value :: "char \<Rightarrow> nat option" where
  "b64_value c = (let n = code c in
     if 65 \<le> n \<and> n \<le> 90 then Some (n - 65)
     else if 97 \<le> n \<and> n \<le> 122 then Some (n - 71)
     else if 48 \<le> n \<and> n \<le> 57 then Some (n + 4)
     else if c = CHR ''+'' then Some 62 else if c = CHR ''/'' then Some 63 else None)"

fun b64encode :: "string \<Rightarrow> string" where
  "b64encode [] = []"
| "b64encode [a] =
     [b64_char (code a div 4), b64_char (code a mod 4 * 16), CHR ''='', CHR ''='']"
| "b64encode [a, b] =
     [b64_char (code a div 4), b64_char (code a mod 4 * 16 + code b div 16),
      b64_char (code b mod 16 * 4), CHR ''='']"
| "b64encode (a # b # c # s) =
     [b64_char (code a div 4), b64_char (code a mod 4 * 16 + code b div 16),
      b64_char (code b mod 16 * 4 + code c div 64), b64_char (code c mod 64)] @ b64encode s"

text \<open>
  Strict decoding: groups of four characters of the alphabet, the last one possibly padded; the
  surplus bits of a padded group are dropped.
\<close>

fun b64_groups :: "string \<Rightarrow> string option" where
  "b64_groups [] = Some []"
| "b64_groups (p # q # r # t # s) =
     (case (b64_value p, b64_value q) of
        (Some w, Some x) \<Rightarrow>
          if r = CHR ''='' \<and> t = CHR ''='' then (if s = [] then Some [char_of (w * 4 + x div 16)] else None)
          else (case b64_value r of None \<Rightarrow> None
            | Some y \<Rightarrow>
                if t = CHR ''='' then
                  (if s = [] then Some [char_of (w * 4 + x div 16), char_of (x mod 16 * 16 + y div 4)] else None)
                else (case b64_value t of None \<Rightarrow> None
                  | Some z \<Rightarrow> map_option (\<lambda>rest. [char_of (w * 4 + x div 16), char_of (x mod 16 * 16 + y div 4),
                      char_of (y mod 4 * 64 + z)] @ rest) (b64_groups s)))
      | _ \<Rightarrow> None)"
| "b64_groups _ = None"

definition b64decode :: "pyval \<Rightarrow> string res" where
  "b64decode v = (case v of
       PStr s \<Rightarrow> (if list_all (\<lambda>c. code c < 128) s
         then need_some (PyExn ''binascii.Error'' ''Incorrect padding'') (b64_groups s)
         else Inl (PyExn ''ValueError'' ''string argument should contain only ASCII characters''))
     | _ \<Rightarrow> Inl (PyExn ''TypeError'' ''argument should be a bytes-like object or ASCII string''))"

definition utf8_encode :: "string \<Rightarrow> string" where
  "utf8_encode s = concat (map (\<lambda>c. if code c < 128 then [c]
     else [char_of (192 + code c div 64), char_of (128 + code c mod 64)]) s)"

section \<open>Round trip\<close>

lemma b64_value_char: "n < 64 \<Longrightarrow> b64_value (b64_char n) = Some n"
  unfolding b64_char_def b64_value_def Let_def by (auto simp: of_char_of)

lemma b64_char_alphabet: "n < 64 \<Longrightarrow> code (b64_char n) < (128::nat) \<and> code (b64_char n) \<noteq> (61::nat)"
  unfolding b64_char_def by (auto simp: of_char_of)

lemma b64_char_pad [simp]: "n < 64 \<Longrightarrow> b64_char n \<noteq> CHR ''=''"
  using b64_char_alphabet [of n] by auto

lemma code_bound: "code (c::char) < (256::nat)"
  by (cases c) (simp add: of_char_def)

lemma b64_bounds:
  "code (a::char) div 4 < (64::nat)" "code (a::char) mod 4 * 16 < (64::nat)"
  "code (a::char) mod 4 * 16 + code (b::char) div 16 < (64::nat)"
  "code (b::char) mod 16 * 4 < (64::nat)"
  "code (b::char) mod 16 * 4 + code (c::char) div 64 < (64::nat)" "code (c::char) mod 64 < (64::nat)"
  using code_bound [of a] code_bound [of b] code_bound [of c] by linarith+

lemma digits_split: "(y::nat) < k \<Longrightarrow> (x * k + y) div k = x" "(y::nat) < k \<Longrightarrow> (x * k + y) mod k = y"
  by simp_all

lemma split_bytes:
  assumes "(b::nat) < 256" "(c::nat) < 256"
  shows "a div 4 * 4 + (a mod 4 * 16 + b div 16) div 16 = a"
    "(a mod 4 * 16 + b div 16) mod 16 * 16 + (b mod 16 * 4 + c div 64) div 4 = b"
    "(b mod 16 * 4 + c div 64) mod 4 * 64 + c mod 64 = c"
proof -
  from assms have "b div 16 < 16" "c div 64 < 4" by linarith+
  then show "a div 4 * 4 + (a mod 4 * 16 + b div 16) div 16 = a"
    "(a mod 4 * 16 + b div 16) mod 16 * 16 + (b mod 16 * 4 + c div 64) div 4 = b"
    "(b mod 16 * 4 + c div 64) mod 4 * 64 + c mod 64 = c"
    by (simp_all only: digits_split div_mult_mod_eq)
qed

lemma b64_groups_encode: "b64_groups (b64encode s) = Some s"
proof (induction s rule: b64encode.induct)
  case (2 a)
  have "code a div 4 * 4 + code a mod 4 * 16 div 16 = (code a :: nat)" by simp
  then show ?case
    by (simp add: b64_value_char b64_bounds)
next
  case (3 a b)
  have "code b mod 16 * 4 div 4 = (code b mod 16 :: nat)" by simp
  then have "(code a mod 4 * 16 + code b div 16) mod 16 * 16 + code b mod 16 * 4 div 4 = (code b :: nat)"
    using split_bytes(2) [OF code_bound [of b], where c = 0 and a = "code a"] by simp
  then show ?case
    using split_bytes(1) [OF code_bound [of b], where c = 0 and a = "code a"]
    by (simp add: b64_value_char b64_bounds)
next
  case (4 a b c s)
  have "code b div 16 < (16::nat)" "code c div 64 < (4::nat)"
    using code_bound [of b] code_bound [of c] by linarith+
  then show ?case
    by (simp add: b64_value_char b64_bounds "4.IH")
qed simp

lemma b64encode_ascii: "list_all (\<lambda>c. code c < (128::nat)) (b64encode s)"
proof (induction s rule: b64encode.induct)
  case (2 a)
  then show ?case by (simp add: b64_bounds b64_char_alphabet)
next
  case (3 a b)
  then show ?case by (simp add: b64_bounds b64_char_alphabet)
next
  case (4 a b c s)
  then show ?case by (simp add: b64_bounds b64_char_alphabet)
qed simp

lemma b64decode_encode: "b64decode (PStr (b64encode s)) = Inr s"
  by (simp add: b64decode_def b64encode_ascii b64_groups_encode need_some_def)

lemma b64encode_length: "length (b64encode s) = 4 * ((length s + 2) div 3)"
proof (induction s rule: b64encode.induct)
  case (4 a b c s)
  have "(length (a # b # c # s) + 2) div 3 = Suc ((length s + 2) div 3)"
    using div_add_self2 [of 3 "length s + 2"] by (simp add: add.commute)
  with 4 show ?case by simp
qed simp_all

end
