(* ===== verification/Json.thy ===== *)
theory Json
  imports Types Base64
begin

text \<open>
  The text of JSON: what \<open>boxer/ipc.py\<close> uses of the standard library's \<open>json.dumps\<close> and \<open>json.loads\<close>. A float is
  printed as its \<open>repr\<close>; reading the text of a float into the nearest double and its \<open>repr\<close> is \<open>float\<close>, the parameter
  \<open>flt\<close>. Escapes beyond Latin-1 and the names NaN and Infinity have no value here and are refused.
\<close>

section \<open>Printing\<close>

text \<open>\<open>ensure_ascii\<close>: everything but the printable ASCII characters is escaped.\<close>

definition u_escape :: "char \<Rightarrow> string" where
  "u_escape c = [CHR 0x5C, CHR ''u'', CHR ''0'', CHR ''0'', hex_digit (code c div 16), hex_digit (code c mod 16)]"

definition json_char :: "char \<Rightarrow> string" where
  "json_char c =
     (if c = dquote \<or> c = CHR 0x5C then [CHR 0x5C, c]
      else if code c = 10 then [CHR 0x5C, CHR ''n''] else if code c = 13 then [CHR 0x5C, CHR ''r'']
      else if code c = 9 then [CHR 0x5C, CHR ''t''] else if code c = 12 then [CHR 0x5C, CHR ''f'']
      else if code c = 8 then [CHR 0x5C, CHR ''b''] else if 32 \<le> code c \<and> code c \<le> 126 then [c] else u_escape c)"

definition json_text :: "string \<Rightarrow> string" where
  "json_text s = dquote # concat (map json_char s) @ [dquote]"

fun json_dumps :: "pyval \<Rightarrow> string" where
  "json_dumps PNone = ''null''"
| "json_dumps (PBool b) = (if b then ''true'' else ''false'')"
| "json_dumps (PInt i) = show_int i"
| "json_dumps (PFloat q r) = r"
| "json_dumps (PStr s) = json_text s"
| "json_dumps (PList xs) = CHR ''['' # join '', '' (map json_dumps xs) @ '']''"
| "json_dumps (PDict d) = CHR ''{'' # join '', '' (map (\<lambda>(k, v). json_text k @ '': '' @ json_dumps v) d) @ ''}''"

section \<open>Reading\<close>

definition json_space :: "char \<Rightarrow> bool" where
  "json_space c = (code c = 32 \<or> code c = 9 \<or> code c = 10 \<or> code c = 13)"

abbreviation skip :: "string \<Rightarrow> string" where
  "skip \<equiv> dropWhile json_space"

definition hex_num :: "char \<Rightarrow> nat" where
  "hex_num c = (let n = code c in if n < 58 then n - 48 else if n < 71 then n - 55 else n - 87)"

definition unescape :: "char \<Rightarrow> char option" where
  "unescape c = map_of [(dquote, dquote), (CHR 0x5C, CHR 0x5C), (CHR ''/'', CHR ''/''), (CHR ''b'', char_of (8 :: nat)),
     (CHR ''f'', char_of (12 :: nat)), (CHR ''n'', char_of (10 :: nat)), (CHR ''r'', char_of (13 :: nat)),
     (CHR ''t'', char_of (9 :: nat))] c"

text \<open>The characters up to the closing quote, and what follows it. Control characters must be escaped.\<close>

fun json_chars :: "string \<Rightarrow> (string \<times> string) option" where
  "json_chars [] = None"
| "json_chars (c # s) =
     (if c = dquote then Some ([], s)
      else if c = CHR 0x5C then
        (case s of
           [] \<Rightarrow> None
         | e # t \<Rightarrow>
             if e = CHR ''u'' then
               (case t of
                  h1 # h2 # h3 # h4 # u \<Rightarrow>
                    if h1 = CHR ''0'' \<and> h2 = CHR ''0'' \<and> is_hex h3 \<and> is_hex h4
                    then map_option (\<lambda>(x, r). (char_of (16 * hex_num h3 + hex_num h4) # x, r)) (json_chars u) else None
                | _ \<Rightarrow> None)
             else (case unescape e of None \<Rightarrow> None | Some d \<Rightarrow> map_option (\<lambda>(x, r). (d # x, r)) (json_chars t)))
      else if code c < 32 then None
      else map_option (\<lambda>(x, r). (c # x, r)) (json_chars s))"

text \<open>A number: its text, whether it is a float, and the rest.\<close>

definition digits :: "string \<Rightarrow> string \<times> string" where
  "digits s = (takeWhile is_ascii_digit s, dropWhile is_ascii_digit s)"

definition fraction_part :: "string \<Rightarrow> string \<times> string" where
  "fraction_part s = (case s of
       c # t \<Rightarrow> if c = CHR ''.'' \<and> fst (digits t) \<noteq> [] then (c # fst (digits t), snd (digits t)) else ([], s)
     | [] \<Rightarrow> ([], s))"

definition exponent_part :: "string \<Rightarrow> string \<times> string" where
  "exponent_part s = (case s of
       c # t \<Rightarrow>
         (let (sg, u) = (case t of d # v \<Rightarrow> if d = CHR ''+'' \<or> d = CHR ''-'' then ([d], v) else ([], t) | [] \<Rightarrow> ([], t)) in
          if (c = CHR ''e'' \<or> c = CHR ''E'') \<and> fst (digits u) \<noteq> [] then (c # sg @ fst (digits u), snd (digits u)) else ([], s))
     | [] \<Rightarrow> ([], s))"

definition natural_part :: "string \<Rightarrow> (string \<times> string) option" where
  "natural_part s = (case s of
       [] \<Rightarrow> None
     | c # t \<Rightarrow> if c = CHR ''0'' then Some ([c], t) else if is_ascii_digit c then Some (digits s) else None)"

definition json_number :: "string \<Rightarrow> (string \<times> bool \<times> string) option" where
  "json_number s =
     (let (sg, t) = (case s of c # u \<Rightarrow> if c = CHR ''-'' then ([c], u) else ([], s) | [] \<Rightarrow> ([], s)) in
      case natural_part t of
        None \<Rightarrow> None
      | Some (i, u) \<Rightarrow>
          let (f, v) = fraction_part u; (x, w) = exponent_part v in
          Some (sg @ i @ f @ x, f \<noteq> [] \<or> x \<noteq> [], w))"

definition int_of_text :: "string \<Rightarrow> int" where
  "int_of_text s = (case s of c # t \<Rightarrow> if c = CHR ''-'' then - int (digits_value t) else int (digits_value s) | [] \<Rightarrow> 0)"

definition json_scalar :: "(string \<Rightarrow> rat \<times> string) \<Rightarrow> string \<Rightarrow> (pyval \<times> string) option" where
  "json_scalar flt s =
     (if starts_with s ''null'' then Some (PNone, drop 4 s)
      else if starts_with s ''true'' then Some (PBool True, drop 4 s)
      else if starts_with s ''false'' then Some (PBool False, drop 5 s)
      else case json_number s of
        None \<Rightarrow> None
      | Some (t, is_float, r) \<Rightarrow> Some (if is_float then (case flt t of (q, x) \<Rightarrow> PFloat q x) else PInt (int_of_text t), r))"

text \<open>
  The decoder, with a bound on the depth of its calls. After the opening bracket of a list or an object come its items;
  a repeated key keeps its first place and its last value.
\<close>

fun json_value :: "(string \<Rightarrow> rat \<times> string) \<Rightarrow> nat \<Rightarrow> string \<Rightarrow> (pyval \<times> string) option"
  and json_items :: "(string \<Rightarrow> rat \<times> string) \<Rightarrow> nat \<Rightarrow> string \<Rightarrow> (pyval list \<times> string) option"
  and json_members :: "(string \<Rightarrow> rat \<times> string) \<Rightarrow> nat \<Rightarrow> string \<Rightarrow> (pydict \<times> string) option" where
  "json_value flt 0 s = None"
| "json_value flt (Suc n) s = (case s of
       [] \<Rightarrow> None
     | c # t \<Rightarrow>
         if c = dquote then map_option (\<lambda>(x, r). (PStr x, r)) (json_chars t)
         else if c = CHR ''['' then
           (case skip t of
              [] \<Rightarrow> None
            | d # u \<Rightarrow> if d = CHR '']'' then Some (PList [], u)
                else map_option (\<lambda>(xs, r). (PList xs, r)) (json_items flt n (d # u)))
         else if c = CHR ''{'' then
           (case skip t of
              [] \<Rightarrow> None
            | d # u \<Rightarrow> if d = CHR ''}'' then Some (PDict [], u)
                else map_option (\<lambda>(m, r). (PDict (dict_merge [] m), r)) (json_members flt n (d # u)))
         else json_scalar flt s)"
| "json_items flt 0 s = None"
| "json_items flt (Suc n) s = (case json_value flt n s of
       None \<Rightarrow> None
     | Some (x, r) \<Rightarrow>
         (case skip r of
            [] \<Rightarrow> None
          | c # t \<Rightarrow> if c = CHR '']'' then Some ([x], t)
              else if c = CHR '','' then map_option (\<lambda>(xs, u). (x # xs, u)) (json_items flt n (skip t))
              else None))"
| "json_members flt 0 s = None"
| "json_members flt (Suc n) s = (case s of
       [] \<Rightarrow> None
     | q # k \<Rightarrow>
         if q \<noteq> dquote then None
         else (case json_chars k of
           None \<Rightarrow> None
         | Some (key, r) \<Rightarrow>
             (case skip r of
                [] \<Rightarrow> None
              | c # t \<Rightarrow>
                  if c \<noteq> CHR '':'' then None
                  else (case json_value flt n (skip t) of
                    None \<Rightarrow> None
                  | Some (v, u) \<Rightarrow>
                      (case skip u of
                         [] \<Rightarrow> None
                       | d # w \<Rightarrow> if d = CHR ''}'' then Some ([(key, v)], w)
                           else if d = CHR '','' then map_option (\<lambda>(m, z). ((key, v) # m, z)) (json_members flt n (skip w))
                           else None)))))"

text \<open>\<open>None\<close> is \<open>JSONDecodeError\<close>.\<close>

definition json_loads :: "(string \<Rightarrow> rat \<times> string) \<Rightarrow> string \<Rightarrow> pyval option" where
  "json_loads flt s = (case json_value flt (2 * length s + 2) (skip s) of
       Some (v, r) \<Rightarrow> if skip r = [] then Some v else None
     | None \<Rightarrow> None)"

section \<open>Strings are read back\<close>

lemma hex_digit_code: "n < 16 \<Longrightarrow> code (hex_digit n) = (if n < 10 then 48 + n else 87 + n)"
  by (simp add: hex_digit_def)

lemma hex_digit_hex: "n < 16 \<Longrightarrow> is_hex (hex_digit n)" "n < 16 \<Longrightarrow> hex_num (hex_digit n) = n"
  by (auto simp: is_hex_def hex_num_def Let_def hex_digit_code)

lemma json_chars_u_escape: "json_chars (u_escape c @ t) = map_option (\<lambda>(x, r). (c # x, r)) (json_chars t)"
proof -
  have "code c div 16 < 16" "code c mod 16 < 16" using code_bound [of c] by linarith+
  then show ?thesis by (simp add: u_escape_def dquote_def hex_digit_hex)
qed

lemma char_eqI: "code c = n \<Longrightarrow> char_of n = c"
  by auto

lemma json_chars_char: "json_chars (json_char c @ t) = map_option (\<lambda>(x, r). (c # x, r)) (json_chars t)"
  by (auto simp: json_char_def json_chars_u_escape unescape_def dquote_def char_eqI)

lemma json_chars_text: "json_chars (concat (map json_char s) @ dquote # rest) = Some (s, rest)"
  by (induction s) (simp_all add: json_chars_char)

section \<open>Numbers are read back\<close>

definition stops :: "string \<Rightarrow> bool" where
  "stops rest \<longleftrightarrow> (case rest of [] \<Rightarrow> True
     | c # _ \<Rightarrow> \<not> is_ascii_digit c \<and> c \<notin> set ''.eE+-'')"

lemma digits_append: "stops rest \<Longrightarrow> digits (s @ rest) = (fst (digits s), snd (digits s) @ rest)"
proof -
  assume "stops rest"
  then have "takeWhile is_ascii_digit rest = []" "dropWhile is_ascii_digit rest = rest"
    by (cases rest; simp add: stops_def)+
  then show ?thesis
    by (cases "\<forall>c \<in> set s. is_ascii_digit c") (auto simp: digits_def takeWhile_append dropWhile_append takeWhile_eq_all_conv [THEN iffD2])
qed

lemma natural_part_append: "s \<noteq> [] \<Longrightarrow> stops rest \<Longrightarrow>
    natural_part (s @ rest) = map_option (\<lambda>(i, u). (i, u @ rest)) (natural_part s)"
  using digits_append [of rest s] by (cases s; cases "digits s") (auto simp: natural_part_def)

lemma fraction_part_append: "stops rest \<Longrightarrow> fraction_part (s @ rest) = (fst (fraction_part s), snd (fraction_part s) @ rest)"
  by (cases s; cases rest) (auto simp: fraction_part_def digits_append stops_def)

lemma exponent_part_append: "stops rest \<Longrightarrow> exponent_part (s @ rest) = (fst (exponent_part s), snd (exponent_part s) @ rest)"
proof (cases s)
  case Nil
  assume "stops rest"
  with Nil show ?thesis by (cases rest) (auto simp: exponent_part_def stops_def)
next
  case (Cons c t)
  assume r: "stops rest"
  show ?thesis
  proof (cases t)
    case Nil
    with r Cons show ?thesis
      by (cases rest) (auto simp: exponent_part_def stops_def digits_def)
  next
    case (Cons d v)
    with r \<open>s = c # t\<close> digits_append [OF r, of t] digits_append [OF r, of v] show ?thesis
      by (auto simp: exponent_part_def)
  qed
qed

definition unsigned :: "string \<Rightarrow> string" where
  "unsigned s = (case s of c # v \<Rightarrow> if c = CHR ''-'' then v else s | [] \<Rightarrow> s)"

lemma json_number_eq: "json_number s = (case natural_part (unsigned s) of None \<Rightarrow> None | Some (i, v) \<Rightarrow>
    Some ((if s \<noteq> [] \<and> hd s = CHR ''-'' then ''-'' else []) @ i @ fst (fraction_part v) @ fst (exponent_part (snd (fraction_part v))),
      fst (fraction_part v) \<noteq> [] \<or> fst (exponent_part (snd (fraction_part v))) \<noteq> [], snd (exponent_part (snd (fraction_part v)))))"
  by (cases s) (auto simp: json_number_def unsigned_def Let_def split: option.splits prod.splits)

lemma json_number_append:
  assumes "json_number s = Some (t, b, r)" "stops rest"
  shows "json_number (s @ rest) = Some (t, b, r @ rest)"
proof -
  have u: "unsigned s \<noteq> []" using assms(1) by (auto simp: json_number_eq natural_part_def split: list.splits)
  then have "unsigned (s @ rest) = unsigned s @ rest" by (cases s) (auto simp: unsigned_def)
  then show ?thesis
    using assms u by (auto simp: json_number_eq [of s] json_number_eq [of "s @ rest"] natural_part_append
        fraction_part_append exponent_part_append unsigned_def split: option.splits if_splits list.splits)
qed

text \<open>The text of an integer has no leading zero, so the reader takes all of it.\<close>

lemma show_nat_hd: "hd (show_nat n) = CHR ''0'' \<Longrightarrow> n = 0"
proof (induction n rule: show_nat.induct)
  case (1 n)
  show ?case
  proof (cases "n < 10")
    case True
    with 1(2) have "digit_char n = CHR ''0''" by (subst (asm) show_nat.simps) simp
    then have "code (digit_char n) = code (CHR ''0'')" by simp
    with True show ?thesis by (simp add: digit_char_def)
  next
    case False
    with 1(2) have "hd (show_nat (n div 10)) = CHR ''0''" by (subst (asm) show_nat.simps) simp
    with 1(1) False have "n div 10 = 0" by blast
    with False show ?thesis by simp
  qed
qed

lemma natural_part_show: "natural_part (show_nat n) = Some (show_nat n, [])"
proof (cases "n = 0")
  case True
  have "digit_char 0 = CHR ''0''" by (simp add: digit_char_def char_eqI)
  with True show ?thesis by (simp add: natural_part_def show_nat.simps [of 0])
next
  case False
  obtain c t where s: "show_nat n = c # t" by (cases "show_nat n") auto
  with show_nat_hd [of n] False show_nat_digits [of n] show ?thesis
    by (auto simp: natural_part_def digits_def list_all_iff takeWhile_eq_all_conv)
qed

lemma show_nat_no_sign: "show_nat n = c # t \<Longrightarrow> c \<noteq> CHR ''-''"
  using show_nat_digits [of n] by (auto simp: is_ascii_digit_def)

lemma json_number_int: "json_number (show_int i) = Some (show_int i, False, [])"
proof (cases "i < 0")
  case True
  then show ?thesis by (simp add: show_int_def json_number_def natural_part_show fraction_part_def exponent_part_def)
next
  case False
  obtain c t where s: "show_nat (nat i) = c # t" by (cases "show_nat (nat i)") auto
  with False show_nat_no_sign [OF s] natural_part_show [of "nat i"] show ?thesis
    by (simp add: show_int_def json_number_def fraction_part_def exponent_part_def)
qed

lemma int_of_show: "int_of_text (show_int i) = i"
proof (cases "i < 0")
  case True
  then show ?thesis by (simp add: show_int_def int_of_text_def digits_value_show_nat)
next
  case False
  obtain c t where s: "show_nat (nat i) = c # t" by (cases "show_nat (nat i)") auto
  with False show_nat_no_sign [OF s] digits_value_show_nat [of "nat i"] show ?thesis
    by (simp add: show_int_def int_of_text_def)
qed

section \<open>Values are read back\<close>

text \<open>
  What the program sends: keys of an object differ, and a float's text is the one that \<open>float\<close> reads back (the documented
  property of \<open>repr\<close>).
\<close>

definition float_text :: "(string \<Rightarrow> rat \<times> string) \<Rightarrow> rat \<Rightarrow> string \<Rightarrow> bool" where
  "float_text flt q r \<longleftrightarrow> json_number r = Some (r, True, []) \<and> flt r = (q, r)"

fun json_ok :: "(string \<Rightarrow> rat \<times> string) \<Rightarrow> pyval \<Rightarrow> bool" where
  "json_ok flt (PFloat q r) = float_text flt q r"
| "json_ok flt (PList xs) = list_all (json_ok flt) xs"
| "json_ok flt (PDict d) = (distinct (map fst d) \<and> list_all (\<lambda>(k, v). json_ok flt v) d)"
| "json_ok flt v = True"

lemma number_start: "json_number s = Some x \<Longrightarrow> \<exists>c t. s = c # t \<and> (is_ascii_digit c \<or> c = CHR ''-'')"
  by (cases s) (auto simp: json_number_def natural_part_def is_ascii_digit_def split: list.splits if_splits)

lemma json_scalar_number:
  assumes "json_number s = Some (t, b, [])" "stops rest"
  shows "json_scalar flt (s @ rest) = Some (if b then (case flt t of (q, x) \<Rightarrow> PFloat q x) else PInt (int_of_text t), rest)"
proof -
  from number_start [OF assms(1)] obtain c u where s: "s = c # u" and c: "is_ascii_digit c \<or> c = CHR ''-''" by blast
  then have "c \<notin> set ''ntf''" by (auto simp: is_ascii_digit_def)
  with s json_number_append [OF assms] show ?thesis
    by (auto simp: json_scalar_def starts_with_def)
qed

lemma not_bracket: "is_ascii_digit c \<or> c = CHR ''-'' \<Longrightarrow> c \<noteq> dquote \<and> c \<noteq> CHR ''['' \<and> c \<noteq> CHR ''{'' \<and> c \<noteq> CHR '']'' \<and> c \<noteq> CHR ''}'' \<and> \<not> json_space c"
  by (auto simp: is_ascii_digit_def dquote_def json_space_def)

lemma json_value_number:
  assumes "json_number s = Some (t, b, [])" "stops rest"
  shows "json_value flt (Suc n) (s @ rest) = Some (if b then (case flt t of (q, x) \<Rightarrow> PFloat q x) else PInt (int_of_text t), rest)"
proof -
  from number_start [OF assms(1)] obtain c u where s: "s = c # u" and c: "is_ascii_digit c \<or> c = CHR ''-''" by blast
  from json_scalar_number [OF assms, of flt] s not_bracket [OF c] show ?thesis by simp
qed

lemma dumps_start: "json_ok flt v \<Longrightarrow> \<exists>c t. json_dumps v = c # t \<and> \<not> json_space c \<and> c \<noteq> CHR '']'' \<and> c \<noteq> CHR ''}''"
proof (cases v)
  case (PInt i)
  with number_start [OF json_number_int [of i]] not_bracket show ?thesis by auto
next
  case (PFloat q r)
  moreover assume "json_ok flt v"
  ultimately show ?thesis using number_start [of r] not_bracket by (fastforce simp: float_text_def)
qed (auto simp: json_text_def dquote_def json_space_def)

lemma skip_dumps: "json_ok flt v \<Longrightarrow> skip (json_dumps v @ r) = json_dumps v @ r"
  using dumps_start [of flt v] by auto

lemma json_value_text: "json_value flt (Suc n) (json_text s @ rest) = Some (PStr s, rest)"
  by (simp add: json_text_def json_chars_text)

lemma json_value_word:
  "json_value flt (Suc n) (''null'' @ rest) = Some (PNone, rest)"
  "json_value flt (Suc n) (''true'' @ rest) = Some (PBool True, rest)"
  "json_value flt (Suc n) (''false'' @ rest) = Some (PBool False, rest)"
  by (simp_all add: json_scalar_def starts_with_def dquote_def)

lemma merge_distinct: "distinct (map fst (a @ d)) \<Longrightarrow> dict_merge a d = a @ d"
proof (induction d arbitrary: a)
  case (Cons p d)
  obtain k v where p: "p = (k, v)" by (cases p)
  have "k \<notin> fst ` set b \<Longrightarrow> AList.update k v b = b @ [(k, v)]" for b :: pydict
    by (induction b) auto
  with Cons.prems p have "AList.update k v a = a @ [(k, v)]" by auto
  then have "dict_merge a (p # d) = dict_merge (a @ [(k, v)]) d" by (simp add: dict_merge_def p)
  also have "\<dots> = a @ p # d" using Cons.IH [of "a @ [(k, v)]"] Cons.prems p by simp
  finally show ?case .
qed (simp add: dict_merge_def)

lemma join_Cons: "join sep (x # xs) = x @ (if xs = [] then [] else sep @ join sep xs)"
  by (cases xs) auto

definition reads_back :: "(string \<Rightarrow> rat \<times> string) \<Rightarrow> pyval \<Rightarrow> bool" where
  "reads_back flt v \<longleftrightarrow> (\<forall>n rest. 2 * length (json_dumps v) < n \<longrightarrow> stops rest \<longrightarrow>
     json_value flt n (json_dumps v @ rest) = Some (v, rest))"

lemma reads_backI:
  assumes "\<And>m rest. stops rest \<Longrightarrow> json_value flt (Suc m) (json_dumps v @ rest) = Some (v, rest)"
  shows "reads_back flt v"
  unfolding reads_back_def
proof (intro allI impI)
  fix n rest assume "2 * length (json_dumps v) < n" "stops rest"
  then show "json_value flt n (json_dumps v @ rest) = Some (v, rest)" using assms by (cases n) auto
qed

lemma items_read_back:
  assumes "xs \<noteq> []" "\<And>x. x \<in> set xs \<Longrightarrow> reads_back flt x \<and> json_ok flt x"
    "2 * length (join '', '' (map json_dumps xs)) + 1 < n"
  shows "json_items flt n (join '', '' (map json_dumps xs) @ CHR '']'' # rest) = Some (xs, rest)"
  using assms
proof (induction xs arbitrary: n)
  case (Cons x ys)
  obtain m where n: "n = Suc m" using Cons.prems(3) by (cases n) auto
  have x: "reads_back flt x" using Cons.prems(2) by simp
  show ?case
  proof (cases ys)
    case Nil
    with Cons.prems(3) n x show ?thesis by (simp add: reads_back_def stops_def is_ascii_digit_def json_space_def)
  next
    case (Cons y zs)
    let ?r = "join '', '' (map json_dumps ys) @ CHR '']'' # rest"
    have "json_items flt m ?r = Some (ys, rest)"
      using Cons.prems Cons.IH [of m] Cons n by simp
    moreover have "skip (CHR '' '' # ?r) = ?r"
      using Cons skip_dumps [of flt y] Cons.prems(2) by (simp add: join_Cons json_space_def)
    ultimately show ?thesis
      using Cons.prems(3) n x Cons by (simp add: reads_back_def stops_def is_ascii_digit_def json_space_def)
  qed
qed simp

definition member_text :: "string \<times> pyval \<Rightarrow> string" where
  "member_text = (\<lambda>(k, v). json_text k @ '': '' @ json_dumps v)"

lemma members_read_back:
  assumes "d \<noteq> []" "list_all (\<lambda>(k, v). reads_back flt v \<and> json_ok flt v) d"
    "2 * length (join '', '' (map member_text d)) + 1 < n"
  shows "json_members flt n (join '', '' (map member_text d) @ CHR ''}'' # rest) = Some (d, rest)"
  using assms
proof (induction d arbitrary: n)
  case (Cons p e)
  obtain k v where p: "p = (k, v)" by (cases p)
  obtain m where n: "n = Suc m" using Cons.prems(3) by (cases n) auto
  have v: "reads_back flt v" "json_ok flt v" using Cons.prems(2) p by auto
  have k: "json_chars (concat (map json_char k) @ dquote # t) = Some (k, t)" for t by (rule json_chars_text)
  have sk: "skip (CHR '' '' # json_dumps v @ t) = json_dumps v @ t" for t
    using skip_dumps [OF v(2)] by (simp add: json_space_def)
  have colon: "skip (CHR '':'' # t) = CHR '':'' # t" for t by (simp add: json_space_def)
  show ?case
  proof (cases e)
    case Nil
    with Cons.prems(3) n p v(1) k sk colon show ?thesis
      by (simp add: reads_back_def stops_def is_ascii_digit_def json_space_def member_text_def json_text_def)
  next
    case (Cons q zs)
    let ?r = "join '', '' (map member_text e) @ CHR ''}'' # rest"
    have "json_members flt m ?r = Some (e, rest)"
      using Cons.prems Cons.IH [of m] Cons n by simp
    moreover have "skip (CHR '' '' # ?r) = ?r"
      using Cons by (cases q) (simp add: join_Cons json_space_def member_text_def json_text_def dquote_def)
    ultimately show ?thesis
      using Cons.prems(3) n p v(1) k sk colon Cons
      by (simp add: reads_back_def stops_def is_ascii_digit_def json_space_def member_text_def json_text_def)
  qed
qed simp

lemma value_reads_back: "json_ok flt v \<Longrightarrow> reads_back flt v"
proof (induction v rule: json_dumps.induct)
  case (6 xs)
  have ok: "x \<in> set xs \<Longrightarrow> reads_back flt x \<and> json_ok flt x" for x
    using 6 by (auto simp: list_all_iff)
  show ?case
  proof (cases xs)
    case Nil
    have "0 < n \<Longrightarrow> json_value flt n (''[]'' @ rest) = Some (PList [], rest)" for n rest
      by (cases n) (auto simp: dquote_def json_space_def)
    with Nil show ?thesis by (simp add: reads_back_def)
  next
    case (Cons y ys)
    let ?b = "join '', '' (map json_dumps xs)"
    have start: "skip (?b @ r) = ?b @ r" "\<exists>c t. ?b = c # t \<and> c \<noteq> CHR '']''" for r
      using Cons skip_dumps [of flt y] dumps_start [of flt y] ok [of y] by (auto simp: join_Cons)
    show ?thesis unfolding reads_back_def
    proof (intro allI impI)
      fix n rest assume "2 * length (json_dumps (PList xs)) < n"
      then obtain m where m: "n = Suc m" "2 * length ?b + 1 < m" by (cases n) auto
      have "json_items flt m (?b @ CHR '']'' # rest) = Some (xs, rest)"
        using items_read_back [of xs flt m rest] ok m(2) Cons by simp
      with m(1) start show "json_value flt n (json_dumps (PList xs) @ rest) = Some (PList xs, rest)"
        by (auto simp: dquote_def)
    qed
  qed
next
  case (7 d)
  have ok: "list_all (\<lambda>(k, v). reads_back flt v \<and> json_ok flt v) d"
    using 7 by (fastforce simp: list_all_iff)
  have eq: "json_dumps (PDict d) = CHR ''{'' # join '', '' (map member_text d) @ ''}''"
    by (simp add: member_text_def)
  show ?case
  proof (cases d)
    case Nil
    have "0 < n \<Longrightarrow> json_value flt n (''{}'' @ rest) = Some (PDict [], rest)" for n rest
      by (cases n) (auto simp: dquote_def json_space_def)
    with Nil show ?thesis by (simp add: reads_back_def)
  next
    case (Cons p e)
    let ?b = "join '', '' (map member_text d)"
    have start: "skip (?b @ r) = ?b @ r" "\<exists>c t. ?b = c # t \<and> c \<noteq> CHR ''}''" for r
      using Cons by (cases p; simp add: join_Cons member_text_def json_text_def dquote_def json_space_def)+
    show ?thesis unfolding reads_back_def
    proof (intro allI impI)
      fix n rest assume "2 * length (json_dumps (PDict d)) < n"
      then obtain m where m: "n = Suc m" "2 * length ?b + 1 < m" unfolding eq by (cases n) auto
      have "json_members flt m (?b @ CHR ''}'' # rest) = Some (d, rest)"
        using members_read_back [of d flt m rest] ok m(2) Cons by simp
      with m(1) start merge_distinct [of "[]" d] 7(2)
      show "json_value flt n (json_dumps (PDict d) @ rest) = Some (PDict d, rest)"
        unfolding eq by (auto simp: dquote_def)
    qed
  qed
next
  case (3 i)
  show ?case using json_value_number [OF json_number_int [of i]] by (intro reads_backI) (simp add: int_of_show)
next
  case (4 q r)
  then show ?case using json_value_number [of r r True] by (intro reads_backI) (simp add: float_text_def)
next
  case (5 s)
  show ?case using json_value_text [of flt] by (intro reads_backI) simp
next
  case 1
  show ?case by (intro reads_backI) (simp only: json_dumps.simps json_value_word)
next
  case (2 b)
  show ?case by (cases b; intro reads_backI) (simp_all only: json_dumps.simps json_value_word if_True if_False)
qed

text \<open>The reader inverts the printer.\<close>

lemma skip_trailing: "json_ok flt v \<Longrightarrow> skip t = [] \<Longrightarrow> json_loads flt (json_dumps v @ t) = Some v"
proof -
  assume v: "json_ok flt v" and t: "skip t = []"
  from t have "stops t" by (cases t) (auto simp: stops_def json_space_def is_ascii_digit_def split: if_splits)
  have "json_value flt (2 * length (json_dumps v @ t) + 2) (json_dumps v @ t) = Some (v, t)"
    by (rule value_reads_back [OF v, unfolded reads_back_def, rule_format]) (simp_all add: \<open>stops t\<close>)
  with skip_dumps [OF v] t show ?thesis by (simp only: json_loads_def option.case prod.case simp_thms if_True)
qed

lemma loads_dumps: "json_ok flt v \<Longrightarrow> json_loads flt (json_dumps v) = Some v"
  using skip_trailing [of flt v "[]"] by simp

section \<open>The text is one line of ASCII\<close>

definition printable :: "char \<Rightarrow> bool" where
  "printable c \<longleftrightarrow> 32 \<le> code c \<and> code c \<le> 126"

lemma hex_digit_printable: "n < 16 \<Longrightarrow> printable (hex_digit n)"
  by (simp add: printable_def hex_digit_code)

lemma json_char_printable: "list_all printable (json_char c)"
proof -
  have "code c div 16 < 16" "code c mod 16 < 16" using code_bound [of c] by linarith+
  then show ?thesis
    by (auto simp: json_char_def u_escape_def hex_digit_printable) (auto simp: printable_def dquote_def)
qed

lemma json_text_printable: "list_all printable (json_text s)"
  using json_char_printable by (auto simp: json_text_def list_all_iff) (auto simp: printable_def dquote_def)

lemma join_printable: "list_all printable sep \<Longrightarrow> list_all (list_all printable) xs \<Longrightarrow> list_all printable (join sep xs)"
  by (induction sep xs rule: join.induct) auto

lemma parts_printable:
  "list_all printable (fst (digits s))" "list_all printable (fst (fraction_part s))" "list_all printable (fst (exponent_part s))"
  "natural_part s = Some (i, u) \<Longrightarrow> list_all printable i"
proof -
  show d: "list_all printable (fst (digits s))" for s
    by (auto simp: digits_def list_all_iff is_ascii_digit_def printable_def dest: set_takeWhileD)
  show "list_all printable (fst (fraction_part s))"
    using d by (auto simp: fraction_part_def printable_def split: list.split)
  show "list_all printable (fst (exponent_part s))"
    using d by (auto simp: exponent_part_def printable_def split: list.split)
  show "natural_part s = Some (i, u) \<Longrightarrow> list_all printable i"
    using d [of s] by (auto simp: natural_part_def printable_def split: list.splits if_splits)
qed

lemma number_printable: "json_number r = Some (t, b, u) \<Longrightarrow> list_all printable t"
  using parts_printable by (cases r) (auto simp: json_number_eq printable_def split: option.splits if_splits)

lemma dumps_printable: "json_ok flt v \<Longrightarrow> list_all printable (json_dumps v)"
proof (induction v rule: json_dumps.induct)
  case (3 i)
  show ?case using number_printable [OF json_number_int] by simp
next
  case (4 q r)
  then show ?case using number_printable [of r r] by (simp add: float_text_def)
next
  case (6 xs)
  then have "list_all (list_all printable) (map json_dumps xs)" by (simp add: list_all_iff)
  then have "list_all printable (join '', '' (map json_dumps xs))"
    by (intro join_printable) (simp add: printable_def)
  moreover have "printable (CHR ''['')" "printable (CHR '']'')" by (simp_all add: printable_def)
  ultimately show ?case by simp
next
  case (7 d)
  have "list_all printable (member_text (k, v))" if "(k, v) \<in> set d" for k v
    using 7(1) [OF that refl] 7(2) that json_text_printable [of k]
    by (auto simp: member_text_def list_all_iff) (auto simp: printable_def)
  then have "list_all (list_all printable) (map member_text d)" by (auto simp: list_all_iff)
  then have "list_all printable (join '', '' (map member_text d))"
    by (intro join_printable) (simp add: printable_def)
  moreover have "printable (CHR ''{'')" "printable (CHR ''}'')" by (simp_all add: printable_def)
  ultimately show ?case by (simp add: member_text_def)
qed (auto simp: json_text_printable printable_def)

end
