(* ===== verification/VmOps.thy ===== *)
theory VmOps
  imports Host Json
begin

text \<open>
  \<open>boxerd/vm_ops.py\<close>: the libvirt backend. The domain documents, the rewrite that makes an
  installed VM boot from its disk, and the lifecycle operations with the exceptions each one
  swallows or passes on. Operations run in the world \<open>'w\<close> through the record \<open>lv\<close> of libvirt
  calls (\<open>h\<close> is the file system).
\<close>

section \<open>Documents\<close>

abbreviation nl :: string where "nl \<equiv> ''\<newline>''"

abbreviation sq :: string where "sq \<equiv> [squote]"

definition BOXER_METADATA_NS :: string where
  "BOXER_METADATA_NS = ''https://github.com/boxer-vm/boxer''"

definition NVME_DEVICE_ID :: string where "NVME_DEVICE_ID = ''boxer-nvme0''"

definition NVME_BUS_CANDIDATES :: "string list" where
  "NVME_BUS_CANDIDATES = ''pci.1'' # map (\<lambda>i. ''pci.'' @ show_nat i) (rev [2..<17])"

definition display_section :: "bool \<Rightarrow> string" where
  "display_section headless =
     (if headless then nl @ ''  <video>'' @ nl @ ''    <model type='none'/>'' @ nl @ ''  </video>''
      else nl @ ''  <graphics type='spice' port='-1' autoport='yes' listen='127.0.0.1'>'' @ nl @
        ''    <listen type='address' address='127.0.0.1'/>'' @ nl @ ''  </graphics>'' @ nl @
        ''  <video>'' @ nl @
        ''    <model type='qxl' ram='65536' vram='65536' vgamem='16384' heads='1'/>'' @ nl @ ''  </video>'')"

definition seed_disk :: "string \<Rightarrow> string \<Rightarrow> string \<Rightarrow> string \<Rightarrow> string" where
  "seed_disk device source dev bus =
     nl @ ''    <disk type='file' device='' @ sq @ device @ sq @ ''>'' @ nl @
     ''      <driver name='qemu' type='raw'/>'' @ nl @
     ''      <source file='' @ sq @ source @ sq @ ''/>'' @ nl @
     ''      <target dev='' @ sq @ dev @ sq @ '' bus='' @ sq @ bus @ sq @ ''/>'' @ nl @
     ''      <readonly/>'' @ nl @ ''    </disk>''"

definition cdrom_section :: "string option \<Rightarrow> string option \<Rightarrow> string" where
  "cdrom_section cloud_init_iso configdrive_iso =
     (case cloud_init_iso of None \<Rightarrow> [] | Some i \<Rightarrow> seed_disk ''disk'' i ''vdb'' ''virtio'') @
     (case configdrive_iso of None \<Rightarrow> [] | Some i \<Rightarrow> seed_disk ''disk'' i ''vdc'' ''virtio'')"

definition domain_xml :: "string \<Rightarrow> string \<Rightarrow> int \<Rightarrow> int \<Rightarrow> string \<Rightarrow> string option \<Rightarrow> string option \<Rightarrow>
    string \<Rightarrow> bool \<Rightarrow> string \<Rightarrow> string" where
  "domain_xml name uuid cpu ram_mb disk_path cloud_init_iso configdrive_iso net_name headless serial_log =
     ''<domain type='kvm'>'' @ nl @
     ''  <name>'' @ name @ ''</name>'' @ nl @
     ''  <uuid>'' @ uuid @ ''</uuid>'' @ nl @
     ''  <memory unit='MiB'>'' @ show_int ram_mb @ ''</memory>'' @ nl @
     ''  <currentMemory unit='MiB'>'' @ show_int ram_mb @ ''</currentMemory>'' @ nl @
     ''  <vcpu placement='static'>'' @ show_int cpu @ ''</vcpu>'' @ nl @
     ''  <os>'' @ nl @
     ''    <type arch='x86_64' machine='pc-q35-8.2'>hvm</type>'' @ nl @
     ''    <boot dev='hd'/>'' @ nl @
     ''    <smbios mode='sysinfo'/>'' @ nl @
     ''  </os>'' @ nl @
     ''  <sysinfo type='smbios'>'' @ nl @
     ''    <system>'' @ nl @
     ''      <entry name='serial'>ds=nocloud</entry>'' @ nl @
     ''    </system>'' @ nl @
     ''  </sysinfo>'' @ nl @
     ''  <features>'' @ nl @
     ''    <acpi/>'' @ nl @
     ''    <apic/>'' @ nl @
     ''  </features>'' @ nl @
     ''  <cpu mode='host-passthrough' check='none' migratable='on'/>'' @ nl @
     ''  <clock offset='utc'>'' @ nl @
     ''    <timer name='rtc' tickpolicy='catchup'/>'' @ nl @
     ''    <timer name='pit' tickpolicy='delay'/>'' @ nl @
     ''    <timer name='hpet' present='no'/>'' @ nl @
     ''  </clock>'' @ nl @
     ''  <on_poweroff>destroy</on_poweroff>'' @ nl @
     ''  <on_reboot>restart</on_reboot>'' @ nl @
     ''  <on_crash>destroy</on_crash>'' @ nl @
     ''  <devices>'' @ nl @
     ''    <emulator>/usr/bin/qemu-system-x86_64</emulator>'' @ nl @
     ''    <disk type='file' device='disk'>'' @ nl @
     ''      <driver name='qemu' type='qcow2' cache='writeback'/>'' @ nl @
     ''      <source file='' @ sq @ disk_path @ sq @ ''/>'' @ nl @
     ''      <target dev='vda' bus='virtio'/>'' @ nl @
     ''    </disk>'' @ cdrom_section cloud_init_iso configdrive_iso @ nl @
     ''    <controller type='usb' model='qemu-xhci'/>'' @ nl @
     ''    <interface type='network'>'' @ nl @
     ''      <source network='' @ sq @ net_name @ sq @ ''/>'' @ nl @
     ''      <model type='virtio'/>'' @ nl @
     ''    </interface>'' @ nl @
     ''    <serial type='file'>'' @ nl @
     ''      <source path='' @ sq @ serial_log @ sq @ ''/>'' @ nl @
     ''      <target type='isa-serial' port='0'/>'' @ nl @
     ''    </serial>'' @ nl @
     ''    <console type='file'>'' @ nl @
     ''      <source path='' @ sq @ serial_log @ sq @ ''/>'' @ nl @
     ''      <target type='serial' port='0'/>'' @ nl @
     ''    </console>'' @ nl @
     ''    <channel type='unix'>'' @ nl @
     ''      <target type='virtio' name='org.qemu.guest_agent.0'/>'' @ nl @
     ''    </channel>'' @ nl @
     ''    <rng model='virtio'>'' @ nl @
     ''      <backend model='random'>/dev/urandom</backend>'' @ nl @
     ''    </rng>'' @ nl @
     ''    <memballoon model='virtio'/>'' @ display_section headless @ nl @
     ''  </devices>'' @ nl @
     ''</domain>''"

text \<open>Unsupported combinations are refused before a document is built.\<close>

definition installer_domain_xml :: "string \<Rightarrow> string \<Rightarrow> int \<Rightarrow> int \<Rightarrow> string \<Rightarrow> string \<Rightarrow> string option \<Rightarrow>
    string \<Rightarrow> bool \<Rightarrow> string \<Rightarrow> string \<Rightarrow> string \<Rightarrow> bool \<Rightarrow> string res" where
  "installer_domain_xml name uuid cpu ram_mb disk_path install_iso seed_iso net_name headless serial_log
      reboot_policy disk_format emulate_nvme =
     (if disk_format \<notin> {''qcow2'', ''raw''} then
        Inl (PyExn ''ValueError'' (''Unsupported installer disk format: '' @ disk_format))
      else if emulate_nvme \<and> disk_format \<noteq> ''raw'' then
        Inl (PyExn ''ValueError'' ''NVMe emulation requires a raw installer disk'')
      else let
        metadata_section = (if emulate_nvme then nl @ ''  <metadata>'' @ nl @
          ''    <boxer:nvme xmlns:boxer='' @ sq @ BOXER_METADATA_NS @ sq @ '' enabled='true'/>'' @ nl @
          ''  </metadata>'' else []);
        nvme_root_port_section = (if emulate_nvme then nl @
          ''    <controller type='pci' index='1' model='pcie-root-port'/>'' else []);
        disk_shareable = (if emulate_nvme then ''      <shareable/>'' @ nl else []);
        seed_section = (case seed_iso of None \<Rightarrow> [] | Some i \<Rightarrow> seed_disk ''cdrom'' i ''sdb'' ''sata'')
      in Inr (
     ''<domain type='kvm'>'' @ nl @
     ''  <name>'' @ name @ ''</name>'' @ nl @
     ''  <uuid>'' @ uuid @ ''</uuid>'' @ metadata_section @ nl @
     ''  <memory unit='MiB'>'' @ show_int ram_mb @ ''</memory>'' @ nl @
     ''  <currentMemory unit='MiB'>'' @ show_int ram_mb @ ''</currentMemory>'' @ nl @
     ''  <vcpu placement='static'>'' @ show_int cpu @ ''</vcpu>'' @ nl @
     ''  <os>'' @ nl @
     ''    <type arch='x86_64' machine='pc-q35-8.2'>hvm</type>'' @ nl @
     ''  </os>'' @ nl @
     ''  <features>'' @ nl @
     ''    <acpi/>'' @ nl @
     ''    <apic/>'' @ nl @
     ''  </features>'' @ nl @
     ''  <cpu mode='host-passthrough' check='none' migratable='on'/>'' @ nl @
     ''  <clock offset='utc'>'' @ nl @
     ''    <timer name='rtc' tickpolicy='catchup'/>'' @ nl @
     ''    <timer name='pit' tickpolicy='delay'/>'' @ nl @
     ''    <timer name='hpet' present='no'/>'' @ nl @
     ''  </clock>'' @ nl @
     ''  <on_poweroff>destroy</on_poweroff>'' @ nl @
     ''  <on_reboot>'' @ reboot_policy @ ''</on_reboot>'' @ nl @
     ''  <on_crash>destroy</on_crash>'' @ nl @
     ''  <devices>'' @ nl @
     ''    <emulator>/usr/bin/qemu-system-x86_64</emulator>'' @ nvme_root_port_section @ nl @
     ''    <disk type='file' device='disk'>'' @ nl @
     ''      <driver name='qemu' type='' @ sq @ disk_format @ sq @ '' cache='writeback'/>'' @ nl @
     ''      <source file='' @ sq @ disk_path @ sq @ ''/>'' @ nl @
     ''      <target dev='vda' bus='virtio'/>'' @ nl @
     disk_shareable @ ''      <boot order='2'/>'' @ nl @
     ''    </disk>'' @ nl @
     ''    <disk type='file' device='cdrom'>'' @ nl @
     ''      <driver name='qemu' type='raw'/>'' @ nl @
     ''      <source file='' @ sq @ install_iso @ sq @ ''/>'' @ nl @
     ''      <target dev='sda' bus='sata'/>'' @ nl @
     ''      <readonly/>'' @ nl @
     ''      <boot order='1'/>'' @ nl @
     ''    </disk>'' @ seed_section @ nl @
     ''    <controller type='usb' model='qemu-xhci'/>'' @ nl @
     ''    <interface type='network'>'' @ nl @
     ''      <source network='' @ sq @ net_name @ sq @ ''/>'' @ nl @
     ''      <model type='virtio'/>'' @ nl @
     ''    </interface>'' @ nl @
     ''    <serial type='file'>'' @ nl @
     ''      <source path='' @ sq @ serial_log @ sq @ ''/>'' @ nl @
     ''      <target type='isa-serial' port='0'/>'' @ nl @
     ''    </serial>'' @ nl @
     ''    <console type='file'>'' @ nl @
     ''      <source path='' @ sq @ serial_log @ sq @ ''/>'' @ nl @
     ''      <target type='serial' port='0'/>'' @ nl @
     ''    </console>'' @ nl @
     ''    <channel type='unix'>'' @ nl @
     ''      <target type='virtio' name='org.qemu.guest_agent.0'/>'' @ nl @
     ''    </channel>'' @ nl @
     ''    <rng model='virtio'>'' @ nl @
     ''      <backend model='random'>/dev/urandom</backend>'' @ nl @
     ''    </rng>'' @ nl @
     ''    <memballoon model='virtio'/>'' @ display_section headless @ nl @
     ''  </devices>'' @ nl @
     ''</domain>''))"

section \<open>Reading and rewriting a domain document\<close>

definition xml_nvme_emulation_enabled :: "xml \<Rightarrow> bool" where
  "xml_nvme_emulation_enabled rt =
     list_ex (\<lambda>m. list_ex (\<lambda>c. xml_get c ''enabled'' = Some ''true'')
       (xml_findall (''{'' @ BOXER_METADATA_NS @ ''}nvme'') m)) (xml_findall ''metadata'' rt)"

definition disk_file :: "xml \<Rightarrow> string option" where
  "disk_file disk = (case xml_find ''source'' disk of None \<Rightarrow> None
     | Some s \<Rightarrow> (case xml_get s ''file'' of Some [] \<Rightarrow> None | r \<Rightarrow> r))"

definition xml_primary_disk_path :: "xml \<Rightarrow> string res" where
  "xml_primary_disk_path rt =
     need_some (PyExn ''RuntimeError'' ''Domain XML does not contain a primary file-backed disk'')
       (List.find (\<lambda>_. True) (List.map_filter disk_file
         (filter (\<lambda>d. xml_get d ''device'' = Some ''disk'')
           (concat (map (xml_findall ''disk'') (xml_findall ''devices'' rt))))))"

text \<open>\<open>root.find(tag)\<close> and mutation of the element found: the first child with the tag changes.\<close>

fun update_first :: "string \<Rightarrow> (xml \<Rightarrow> xml) \<Rightarrow> xml list \<Rightarrow> xml list" where
  "update_first t f [] = []"
| "update_first t f (x # xs) = (if xml_tag x = t then f x # xs else x # update_first t f xs)"

definition drop_children :: "string \<Rightarrow> xml \<Rightarrow> xml" where
  "drop_children t x = Elem (xml_tag x) (xml_attrs x) (xml_text x)
     (filter (\<lambda>c. xml_tag c \<noteq> t) (xml_children x))"

definition is_cdrom :: "xml \<Rightarrow> bool" where
  "is_cdrom x \<longleftrightarrow> xml_tag x = ''disk'' \<and> xml_get x ''device'' = Some ''cdrom''"

definition boot_devices :: "xml \<Rightarrow> xml" where
  "boot_devices d = Elem (xml_tag d) (xml_attrs d) (xml_text d)
     (map (\<lambda>c. if xml_tag c = ''disk'' then drop_children ''boot'' c else c)
       (filter (\<lambda>c. \<not> is_cdrom c) (xml_children d)))"

definition hd_boot :: xml where
  "hd_boot = Elem ''boot'' [(''dev'', ''hd'')] [] []"

fun insert_after_first :: "string \<Rightarrow> xml \<Rightarrow> xml list \<Rightarrow> xml list" where
  "insert_after_first t b [] = [b]"
| "insert_after_first t b (x # xs) = (if xml_tag x = t then x # b # xs else x # insert_after_first t b xs)"

definition boot_os :: "xml \<Rightarrow> xml" where
  "boot_os e = Elem (xml_tag e) (xml_attrs e) (xml_text e)
     (insert_after_first ''type'' hd_boot (filter (\<lambda>c. xml_tag c \<noteq> ''boot'') (xml_children e)))"

definition set_text :: "string \<Rightarrow> xml \<Rightarrow> xml" where
  "set_text s e = Elem (xml_tag e) (xml_attrs e) s (xml_children e)"

definition xml_boot_to_disk :: "xml \<Rightarrow> xml" where
  "xml_boot_to_disk rt = Elem (xml_tag rt) (xml_attrs rt) (xml_text rt)
     (update_first ''on_reboot'' (set_text ''restart'')
       (update_first ''os'' boot_os (update_first ''devices'' boot_devices (xml_children rt))))"

text \<open>\<open>ET.fromstring\<close>.\<close>

definition parse_xml :: "'w libvirt \<Rightarrow> string \<Rightarrow> xml res" where
  "parse_xml lv s = need_some (PyExn ''ParseError'' ''not well-formed'') (lv_xml_parse lv s)"

section \<open>Lifecycle\<close>

definition discard_failed_define :: "'w libvirt \<Rightarrow> string \<Rightarrow> ('w, unit) pm" where
  "discard_failed_define lv dn =
     bindm (catch_lv (bindm (lv_is_active lv dn) (\<lambda>a. whenm a (lv_destroy lv dn))) (\<lambda>_. ret ())) (\<lambda>_.
     catch_lv (lv_undefine_flags lv dn)
       (\<lambda>_. catch_lv (lv_undefine lv dn) (\<lambda>_. ret ())))"

definition safe_destroy :: "'w libvirt \<Rightarrow> string \<Rightarrow> ('w, unit) pm" where
  "safe_destroy lv dn =
     catch_lv (bindm (lv_is_active lv dn) (\<lambda>a. whenm a (lv_destroy lv dn))) (\<lambda>_. ret ())"

definition qmp_error_desc :: "pydict \<Rightarrow> string" where
  "qmp_error_desc response = (case dget response ''error'' of
       PDict e \<Rightarrow> py_str (py_or (dget e ''desc'') (py_or (dget e ''class'') (PDict e)))
     | e \<Rightarrow> py_str (py_or e (PDict response)))"

text \<open>The command and the response are JSON text; a response is an object.\<close>

definition qmp :: "'w libvirt \<Rightarrow> string \<Rightarrow> pydict \<Rightarrow> ('w, pydict) pm" where
  "qmp lv dn command =
     bindm (lv_qmp lv dn (json_dumps (PDict command))) (\<lambda>raw.
     liftr (bindr (need_some (PyExn ''JSONDecodeError'' ''Expecting value'') (json_loads (lv_float lv) raw)) (need_dict attr_error)))"

definition qmp_return :: "'w libvirt \<Rightarrow> string \<Rightarrow> pydict \<Rightarrow> ('w, pyval) pm" where
  "qmp_return lv dn command =
     bindm (qmp lv dn command) (\<lambda>response.
     if map_of response ''error'' \<noteq> None then
       raise (PyExn ''RuntimeError'' (''QMP '' @ py_str (dget command ''execute'') @ '' failed: '' @
         qmp_error_desc response))
     else ret (dget response ''return''))"

text \<open>The node name of one block of \<open>query-block\<close>, if its file is the disk.\<close>

definition block_node :: "string list \<Rightarrow> pyval \<Rightarrow> string option res" where
  "block_node candidates block =
     bindr (need_dict attr_error block) (\<lambda>b.
     bindr (need_dict attr_error (py_or (dget b ''inserted'') (PDict []))) (\<lambda>inserted.
     bindr (need_dict attr_error (py_or (dget inserted ''image'') (PDict []))) (\<lambda>image.
     let paths = [dget inserted ''file'', dget image ''filename''];
         hit = list_ex (\<lambda>p. truthy p \<and> list_ex (\<lambda>c. p = PStr c) candidates) paths;
         node = dget inserted ''node-name''
     in Inr (if hit \<and> truthy node then Some (py_str node) else None))))"

fun first_node :: "string list \<Rightarrow> pyval list \<Rightarrow> string option res" where
  "first_node cs [] = Inr None"
| "first_node cs (b # bs) = bindr (block_node cs b) (\<lambda>r. case r of
     Some n \<Rightarrow> Inr (Some n) | None \<Rightarrow> first_node cs bs)"

definition block_node_for_disk :: "'w libvirt \<Rightarrow> 'w os \<Rightarrow> string \<Rightarrow> string \<Rightarrow> ('w, string) pm" where
  "block_node_for_disk lv h dn disk_path =
     bindm (qmp_return lv dn [(''execute'', PStr ''query-block'')]) (\<lambda>blocks.
     bindm (catch_class ''OSError'' (bindm (os_resolve h disk_path) (\<lambda>r. ret [disk_path, r]))
       (\<lambda>_. ret [disk_path])) (\<lambda>candidates.
     bindm (liftr (need_list (PyExn ''TypeError'' ''object is not iterable'') (py_or blocks (PList [])))) (\<lambda>bs.
     bindm (liftr (first_node candidates bs)) (\<lambda>r. case r of
       Some n \<Rightarrow> ret n
     | None \<Rightarrow> raise (PyExn ''RuntimeError'' (''QMP block node not found for disk '' @ disk_path))))))"

fun try_buses :: "'w libvirt \<Rightarrow> string \<Rightarrow> pydict \<Rightarrow> string \<Rightarrow> string list \<Rightarrow> ('w, unit) pm" where
  "try_buses lv dn base last_error [] =
     raise (PyExn ''RuntimeError'' (''QMP device_add nvme failed: '' @ last_error))"
| "try_buses lv dn base last_error (bus # buses) =
     bindm (qmp lv dn [(''execute'', PStr ''device_add''),
         (''arguments'', PDict (AList.update ''bus'' (PStr bus) base))]) (\<lambda>response.
     if map_of response ''return'' \<noteq> None then ret ()
     else let e = qmp_error_desc response in
       if list_ex (\<lambda>f. contains f e) [''not found'', ''not available'', ''does not support hotplugging'']
       then try_buses lv dn base e buses
       else raise (PyExn ''RuntimeError'' (''QMP device_add nvme failed: '' @ e)))"

text \<open>\<open>hex\<close> is the random text of the serial number of a VM id without any alphanumeric.\<close>

definition attach_nvme_disk :: "'w libvirt \<Rightarrow> 'w os \<Rightarrow> string \<Rightarrow> string \<Rightarrow> string \<Rightarrow> string \<Rightarrow> ('w, unit) pm" where
  "attach_nvme_disk lv h hex dn disk_path vid =
     bindm (block_node_for_disk lv h dn disk_path) (\<lambda>node.
     let suffix = take 20 (filter py_isalnum vid);
         suffix = (if suffix = [] then take 12 hex else suffix);
         base = [(''driver'', PStr ''nvme''), (''id'', PStr NVME_DEVICE_ID), (''drive'', PStr node),
           (''serial'', PStr (''boxer-'' @ suffix)), (''share-rw'', PBool True)]
     in try_buses lv dn base ''no PCIe root port candidates tried'' NVME_BUS_CANDIDATES)"

definition create_with_nvme :: "'w libvirt \<Rightarrow> 'w os \<Rightarrow> string \<Rightarrow> string \<Rightarrow> string \<Rightarrow> string \<Rightarrow> ('w, unit) pm" where
  "create_with_nvme lv h hex dn disk_path vid =
     bindm (lv_create_paused lv dn) (\<lambda>_.
     catch (bindm (attach_nvme_disk lv h hex dn disk_path vid) (\<lambda>_. lv_resume lv dn))
       (\<lambda>e. bindm (safe_destroy lv dn) (\<lambda>_. raise e)))"

text \<open>The keyword arguments of the two \<open>define_and_start\<close> functions.\<close>

record vm_spec =
  vs_name :: string
  vs_id :: string
  vs_cpu :: int
  vs_ram_mb :: int
  vs_disk_path :: string
  vs_net_name :: string
  vs_headless :: bool
  vs_serial_log :: string

definition define_and_start :: "'w libvirt \<Rightarrow> vm_spec \<Rightarrow> string option \<Rightarrow> string option \<Rightarrow> ('w, string) pm" where
  "define_and_start lv v cloud_init_iso configdrive_iso =
     bindm (lv_define_xml lv (domain_xml (vs_name v) (lv_uuid lv (vs_name v) (vs_id v)) (vs_cpu v) (vs_ram_mb v)
       (vs_disk_path v) cloud_init_iso configdrive_iso (vs_net_name v) (vs_headless v) (vs_serial_log v))) (\<lambda>dn.
     bindm (catch_lv (bindm (lv_set_autostart lv dn 0) (\<lambda>_. lv_create lv dn))
       (\<lambda>e. bindm (discard_failed_define lv dn) (\<lambda>_. raise e))) (\<lambda>_.
     ret dn))"

definition define_and_start_installer :: "'w libvirt \<Rightarrow> 'w os \<Rightarrow> string \<Rightarrow> vm_spec \<Rightarrow> string \<Rightarrow> string option \<Rightarrow>
    string \<Rightarrow> string \<Rightarrow> bool \<Rightarrow> ('w, string) pm" where
  "define_and_start_installer lv h hex v install_iso seed_iso reboot_policy disk_format emulate_nvme =
     bindm (liftr (installer_domain_xml (vs_name v) (lv_uuid lv (vs_name v) (vs_id v)) (vs_cpu v) (vs_ram_mb v)
       (vs_disk_path v) install_iso seed_iso (vs_net_name v) (vs_headless v) (vs_serial_log v)
       reboot_policy disk_format emulate_nvme)) (\<lambda>doc.
     bindm (lv_define_xml lv doc) (\<lambda>dn.
     bindm (catch (bindm (lv_set_autostart lv dn 0) (\<lambda>_.
         if emulate_nvme then create_with_nvme lv h hex dn (vs_disk_path v) (vs_id v) else lv_create lv dn))
       (\<lambda>e. bindm (discard_failed_define lv dn) (\<lambda>_. raise e))) (\<lambda>_.
     ret dn)))"

definition switch_boot_to_disk :: "'w libvirt \<Rightarrow> string \<Rightarrow> ('w, unit) pm" where
  "switch_boot_to_disk lv name =
     bindm (catch_lv (lv_lookup lv name)
       (\<lambda>e. raise (PyExn ''RuntimeError'' (''Domain '' @ name @ '' not found: '' @ exn_text e)))) (\<lambda>_.
     bindm (lv_is_active lv name) (\<lambda>a.
     bindm (whenm a (catch_lv (lv_destroy lv name) (\<lambda>_. ret ()))) (\<lambda>_.
     bindm (lv_xml_desc lv name) (\<lambda>s.
     bindm (liftr (parse_xml lv s)) (\<lambda>rt.
     bindm (lv_define_xml lv (lv_xml_print lv (xml_boot_to_disk rt))) (\<lambda>_. ret ()))))))"

text \<open>The \<open>return\<close> inside the \<open>try\<close> is the value True of the attempt.\<close>

definition vm_stop :: "'w libvirt \<Rightarrow> string \<Rightarrow> bool \<Rightarrow> ('w, unit) pm" where
  "vm_stop lv name graceful =
     bindm (catch_lv (bindm (lv_lookup lv name) (\<lambda>_. ret True)) (\<lambda>_. ret False)) (\<lambda>found.
     whenm found (
       bindm (if graceful then catch_lv (bindm (lv_shutdown lv name) (\<lambda>_. ret True)) (\<lambda>_. ret False)
              else ret False) (\<lambda>done.
       whenm (\<not> done) (catch_lv (lv_destroy lv name) (\<lambda>_. ret ())))))"

definition vm_start :: "'w libvirt \<Rightarrow> 'w os \<Rightarrow> string \<Rightarrow> string \<Rightarrow> ('w, unit) pm" where
  "vm_start lv h hex name =
     catch_lv (bindm (lv_lookup lv name) (\<lambda>_.
       bindm (lv_is_active lv name) (\<lambda>a.
       whenm (\<not> a) (
         bindm (lv_xml_desc lv name) (\<lambda>s.
         bindm (liftr (parse_xml lv s)) (\<lambda>rt.
         if xml_nvme_emulation_enabled rt then
           bindm (liftr (xml_primary_disk_path rt)) (\<lambda>p. create_with_nvme lv h hex name p name)
         else lv_create lv name))))))
     (\<lambda>e. raise (PyExn ''RuntimeError'' (''Failed to start '' @ name @ '': '' @ exn_text e)))"

definition vm_undefine :: "'w libvirt \<Rightarrow> string \<Rightarrow> ('w, unit) pm" where
  "vm_undefine lv name =
     catch_lv (bindm (lv_lookup lv name) (\<lambda>_.
       bindm (lv_is_active lv name) (\<lambda>a.
       bindm (whenm a (lv_destroy lv name)) (\<lambda>_.
       lv_undefine_flags lv name))))
     (\<lambda>_. ret ())"

text \<open>\<open>VIR_DOMAIN_RUNNING\<close> is 1, \<open>PAUSED\<close> 3, \<open>SHUTDOWN\<close> 4, \<open>SHUTOFF\<close> 5, \<open>CRASHED\<close> 6, \<open>PMSUSPENDED\<close> 7.\<close>

definition state_name :: "int \<Rightarrow> string" where
  "state_name n = (if n = 1 then ''running'' else if n = 3 then ''paused'' else if n = 4 then ''stopping''
     else if n = 5 then ''stopped'' else if n = 6 then ''error'' else if n = 7 then ''stopped'' else ''unknown'')"

definition vm_get_state :: "'w libvirt \<Rightarrow> string \<Rightarrow> ('w, string) pm" where
  "vm_get_state lv name =
     catch_lv (bindm (lv_lookup lv name) (\<lambda>_. bindm (lv_state lv name) (\<lambda>n. ret (state_name n))))
     (\<lambda>_. ret ''unknown'')"

definition vm_snapshot :: "'w libvirt \<Rightarrow> string \<Rightarrow> string \<Rightarrow> string \<Rightarrow> ('w, string) pm" where
  "vm_snapshot lv hex name label =
     (let snap = ''boxer-snap-'' @ label @ ''-'' @ take 6 hex in
     catch_lv (bindm (lv_lookup lv name) (\<lambda>_.
       bindm (lv_snapshot_xml lv name (''<domainsnapshot><name>'' @ snap @ ''</name></domainsnapshot>'')) (\<lambda>_.
       ret snap)))
     (\<lambda>e. raise (PyExn ''RuntimeError'' (''Snapshot failed: '' @ exn_text e))))"

section \<open>Finding a VM's address\<close>

text \<open>The loops over DHCP leases and over the guest agent's interfaces; an odd value raises.\<close>

fun lease_ip :: "pyval list \<Rightarrow> string option res" where
  "lease_ip [] = Inr None"
| "lease_ip (l # ls) =
     bindr (need_dict attr_error l) (\<lambda>d.
     if dget d ''type'' = PInt 0 \<and> truthy (dget d ''ipaddr'') then
       bindr (need_str attr_error (\<lambda>_. True) (dget d ''ipaddr'')) (\<lambda>ip.
       if \<not> starts_with ip ''127.'' then Inr (Some ip) else lease_ip ls)
     else lease_ip ls)"

fun agent_addrs :: "pyval list \<Rightarrow> string option res" where
  "agent_addrs [] = Inr None"
| "agent_addrs (a # as) =
     bindr (need_dict attr_error a) (\<lambda>d.
     if dget d ''ip-address-type'' = PStr ''ipv4'' then
       bindr (need_str attr_error (\<lambda>_. True) (dget d ''ip-address'')) (\<lambda>ip.
       if \<not> starts_with ip ''127.'' then Inr (Some ip) else agent_addrs as)
     else agent_addrs as)"

fun agent_ifaces :: "pyval list \<Rightarrow> string option res" where
  "agent_ifaces [] = Inr None"
| "agent_ifaces (i # is) =
     bindr (need_dict attr_error i) (\<lambda>d.
     if dget d ''name'' \<in> {PStr ''lo'', PStr ''loopback''} then agent_ifaces is
     else bindr (need_list attr_error (dget_or d ''ip-addresses'' (PList []))) (\<lambda>addrs.
       bindr (agent_addrs addrs) (\<lambda>r. case r of Some ip \<Rightarrow> Inr (Some ip) | None \<Rightarrow> agent_ifaces is)))"

definition network_interface :: "xml \<Rightarrow> (string \<times> string) option" where
  "network_interface rt =
     (case find (\<lambda>i. xml_get i ''type'' = Some ''network'')
         (concat (map (xml_findall ''interface'') (xml_findall ''devices'' rt))) of
        None \<Rightarrow> None
      | Some i \<Rightarrow> (case (xml_find ''mac'' i, xml_find ''source'' i) of
          (Some m, Some s) \<Rightarrow> (case (xml_get m ''address'', xml_get s ''network'') of
            (Some mac, Some net) \<Rightarrow> if mac \<noteq> [] \<and> net \<noteq> [] then Some (mac, net) else None
          | _ \<Rightarrow> None)
        | _ \<Rightarrow> None))"

definition get_ip_via_dhcp_lease :: "'w libvirt \<Rightarrow> string \<Rightarrow> ('w, string option) pm" where
  "get_ip_via_dhcp_lease lv name =
     catch (bindm (lv_lookup lv name) (\<lambda>_.
       bindm (lv_xml_desc lv name) (\<lambda>s.
       bindm (liftr (parse_xml lv s)) (\<lambda>rt.
       case network_interface rt of
         None \<Rightarrow> ret None
       | Some (mac, net) \<Rightarrow>
           bindm (lv_net_lookup lv net) (\<lambda>_.
           bindm (lv_net_leases lv net (Some mac)) (\<lambda>leases. liftr (lease_ip leases)))))))
     (\<lambda>_. ret None)"

primrec poll_ip_rounds :: "'w libvirt \<Rightarrow> string \<Rightarrow> nat \<Rightarrow> ('w, string option) pm" where
  "poll_ip_rounds lv name 0 = ret None"
| "poll_ip_rounds lv name (Suc n) =
     bindm (catch (bindm (lv_lookup lv name) (\<lambda>_.
         bindm (lv_agent lv name ''guest-network-get-interfaces'') (\<lambda>r.
         bindm (liftr (need_dict attr_error r)) (\<lambda>d.
         bindm (liftr (need_list attr_error (dget_or d ''return'' (PList [])))) (\<lambda>ifs. liftr (agent_ifaces ifs))))))
       (\<lambda>_. ret None)) (\<lambda>r.
     case r of Some ip \<Rightarrow> ret (Some ip)
     | None \<Rightarrow> bindm (get_ip_via_dhcp_lease lv name) (\<lambda>r2.
         case r2 of None \<Rightarrow> poll_ip_rounds lv name n
         | Some ip \<Rightarrow> if ip = [] then poll_ip_rounds lv name n else ret (Some ip)))"

definition get_ip_via_guest_agent :: "'w libvirt \<Rightarrow> string \<Rightarrow> int \<Rightarrow> ('w, string option) pm" where
  "get_ip_via_guest_agent lv name timeout = bindm (lv_rounds lv timeout 2) (poll_ip_rounds lv name)"

section \<open>Booting from the disk\<close>

lemma xml_children_boot_devices:
  "c \<in> set (xml_children (boot_devices d)) \<Longrightarrow> \<not> is_cdrom c \<and>
   (xml_tag c = ''disk'' \<longrightarrow> (\<forall>b \<in> set (xml_children c). xml_tag b \<noteq> ''boot''))"
  by (auto simp: boot_devices_def drop_children_def is_cdrom_def xml_get_def)

lemma filter_insert_after_first:
  "\<forall>c \<in> set xs. xml_tag c \<noteq> ''boot'' \<Longrightarrow>
   filter (\<lambda>c. xml_tag c = ''boot'') (insert_after_first ''type'' hd_boot xs) = [hd_boot]"
  by (induction xs) (auto simp: hd_boot_def)

lemma boot_os_boots: "xml_findall ''boot'' (boot_os e) = [hd_boot]"
  by (simp add: xml_findall_def boot_os_def filter_insert_after_first)

lemma find_update_first:
  "(\<And>x. xml_tag (f x) = xml_tag x) \<Longrightarrow>
   find (\<lambda>c. xml_tag c = t) (update_first u f xs) =
     (if t = u then map_option f (find (\<lambda>c. xml_tag c = t) xs) else find (\<lambda>c. xml_tag c = t) xs)"
  by (induction xs) auto

lemma xml_tags_kept [simp]:
  "xml_tag (boot_devices d) = xml_tag d" "xml_tag (boot_os e) = xml_tag e" "xml_tag (set_text s e) = xml_tag e"
  by (simp_all add: boot_devices_def boot_os_def set_text_def)

lemma xml_find_boot_to_disk:
  "xml_find ''devices'' (xml_boot_to_disk rt) = map_option boot_devices (xml_find ''devices'' rt)"
  "xml_find ''os'' (xml_boot_to_disk rt) = map_option boot_os (xml_find ''os'' rt)"
  "xml_find ''on_reboot'' (xml_boot_to_disk rt) = map_option (set_text ''restart'') (xml_find ''on_reboot'' rt)"
  by (simp_all add: xml_find_def xml_boot_to_disk_def find_update_first)

lemma filter_not_boot_insert:
  "\<forall>c \<in> set xs. xml_tag c \<noteq> ''boot'' \<Longrightarrow>
   filter (\<lambda>c. xml_tag c \<noteq> ''boot'') (insert_after_first ''type'' hd_boot xs) = xs"
  by (induction xs) (auto simp: hd_boot_def)

lemma boot_os_idem: "boot_os (boot_os e) = boot_os e"
  by (simp add: boot_os_def filter_not_boot_insert)

lemma map_filter_idem:
  "(\<And>c. P c \<Longrightarrow> P (f c)) \<Longrightarrow> (\<And>c. f (f c) = f c) \<Longrightarrow>
   map f (filter P (map f (filter P xs))) = map f (filter P xs)"
  by (induction xs) auto

lemma boot_devices_idem: "boot_devices (boot_devices d) = boot_devices d"
proof -
  let ?f = "\<lambda>c. if xml_tag c = ''disk'' then drop_children ''boot'' c else c"
  have "map ?f (filter (\<lambda>c. \<not> is_cdrom c) (map ?f (filter (\<lambda>c. \<not> is_cdrom c) xs))) =
      map ?f (filter (\<lambda>c. \<not> is_cdrom c) xs)" for xs
    by (rule map_filter_idem) (auto simp: is_cdrom_def drop_children_def xml_get_def)
  then show ?thesis by (simp only: boot_devices_def xml.sel)
qed

lemma update_first_idem:
  "(\<And>x. xml_tag (f x) = xml_tag x) \<Longrightarrow> (\<And>x. f (f x) = f x) \<Longrightarrow>
   update_first t f (update_first t f xs) = update_first t f xs"
  by (induction xs) auto

lemma update_first_comm:
  "t \<noteq> u \<Longrightarrow> (\<And>x. xml_tag (f x) = xml_tag x) \<Longrightarrow> (\<And>x. xml_tag (g x) = xml_tag x) \<Longrightarrow>
   update_first t f (update_first u g xs) = update_first u g (update_first t f xs)"
  by (induction xs) auto

lemma xml_boot_to_disk_idem: "xml_boot_to_disk (xml_boot_to_disk rt) = xml_boot_to_disk rt"
proof -
  let ?u = "update_first ''on_reboot'' (set_text ''restart'')" and ?v = "update_first ''os'' boot_os"
    and ?w = "update_first ''devices'' boot_devices"
  have "?u (?v (?w (?u (?v (?w xs))))) = ?u (?u (?v (?v (?w (?w xs)))))" for xs
    by (simp add: update_first_comm)
  also have "\<dots> xs = ?u (?v (?w xs))" for xs
    by (simp add: update_first_idem boot_os_idem boot_devices_idem set_text_def)
  finally show ?thesis by (simp add: xml_boot_to_disk_def)
qed

text \<open>C16: Switching an installed VM to its disk leaves no CD-ROM in the domain and no boot order on any disk,
  gives it exactly one boot device, the hard disk, restarts it on reboot, and a second switch changes
  nothing.\<close>

theorem boot_to_disk_correct:
  "xml_boot_to_disk (xml_boot_to_disk rt) = xml_boot_to_disk rt \<and>
   (\<forall>d. xml_find ''devices'' (xml_boot_to_disk rt) = Some d \<longrightarrow>
      (\<forall>c \<in> set (xml_children d). \<not> is_cdrom c \<and>
         (xml_tag c = ''disk'' \<longrightarrow> (\<forall>b \<in> set (xml_children c). xml_tag b \<noteq> ''boot'')))) \<and>
   (\<forall>e. xml_find ''os'' (xml_boot_to_disk rt) = Some e \<longrightarrow> xml_findall ''boot'' e = [hd_boot]) \<and>
   (\<forall>r. xml_find ''on_reboot'' (xml_boot_to_disk rt) = Some r \<longrightarrow> xml_text r = ''restart'')"
  using xml_boot_to_disk_idem xml_children_boot_devices
  by (auto simp: xml_find_boot_to_disk boot_os_boots set_text_def)

lemma boot_to_disk_correct_witness:
  "\<exists>e. xml_find ''os'' (xml_boot_to_disk (Elem ''domain'' [] []
      [Elem ''os'' [] [] [Elem ''type'' [] ''hvm'' [], Elem ''boot'' [(''dev'', ''cdrom'')] [] []]])) = Some e \<and>
     xml_findall ''boot'' e = [hd_boot]"
proof -
  let ?rt = "Elem ''domain'' [] [] [Elem ''os'' [] [] [Elem ''type'' [] ''hvm'' [], Elem ''boot'' [(''dev'', ''cdrom'')] [] []]]"
  have "xml_find ''os'' (xml_boot_to_disk ?rt) \<noteq> None"
    by (simp add: xml_find_boot_to_disk) (simp add: xml_find_def)
  then show ?thesis using boot_to_disk_correct [of ?rt] by blast
qed

end
