(* ===== verification/Emulator.thy ===== *)
theory Emulator
  imports VmOps Config
begin

text \<open>
  \<open>boxerd/android_sdk.py\<close> and \<open>boxerd/emulator_ops.py\<close>: the Android backend. Emulators are
  host processes found by their command lines; the tools of the SDK are subprocesses.
\<close>

section \<open>AndroidSDK\<close>

text \<open>
  The SDK root of the configuration or the environment, \<open>shutil.which\<close>, \<open>os.environ\<close>, and \<open>subprocess\<close> with an environment.
\<close>

record 'w sdk_env =
  sdk_root :: "string option"
  sdk_which :: "string \<Rightarrow> ('w, string option) pm"
  sdk_sleep_rounds :: "int \<Rightarrow> int \<Rightarrow> ('w, nat) pm"
  sdk_environ :: "(string \<times> string) list"
  sdk_run :: "(string \<times> string) list \<Rightarrow> string list \<Rightarrow> string \<Rightarrow> ('w, proc_result) pm"
  sdk_popen :: "(string \<times> string) list \<Rightarrow> string list \<Rightarrow> ('w, int) pm"

definition sdk_vars :: "'w sdk_env \<Rightarrow> (string \<times> string) list" where
  "sdk_vars e = (case sdk_root e of None \<Rightarrow> sdk_environ e
     | Some r \<Rightarrow> AList.update ''ANDROID_HOME'' r (AList.update ''ANDROID_SDK_ROOT'' r (sdk_environ e)))"

fun first_existing :: "'w os \<Rightarrow> string list \<Rightarrow> ('w, string option) pm" where
  "first_existing h [] = ret None"
| "first_existing h (p # ps) = bindm (os_exists h p) (\<lambda>e. if e then ret (Some p) else first_existing h ps)"

definition sdk_tool :: "'w os \<Rightarrow> 'w sdk_env \<Rightarrow> string list \<Rightarrow> ('w, string option) pm" where
  "sdk_tool h e candidates =
     bindm (case sdk_root e of None \<Rightarrow> ret None | Some r \<Rightarrow> first_existing h (map (path_join r) candidates)) (\<lambda>p.
     case p of Some q \<Rightarrow> ret (Some q)
     | None \<Rightarrow> sdk_which e (path_name (hd candidates)))"

definition sdk_sdkmanager :: "'w os \<Rightarrow> 'w sdk_env \<Rightarrow> ('w, string option) pm" where
  "sdk_sdkmanager h e = sdk_tool h e [''cmdline-tools/latest/bin/sdkmanager'', ''cmdline-tools/bin/sdkmanager'',
     ''tools/bin/sdkmanager'']"

definition sdk_avdmanager :: "'w os \<Rightarrow> 'w sdk_env \<Rightarrow> ('w, string option) pm" where
  "sdk_avdmanager h e = sdk_tool h e [''cmdline-tools/latest/bin/avdmanager'', ''cmdline-tools/bin/avdmanager'',
     ''tools/bin/avdmanager'']"

definition sdk_emulator :: "'w os \<Rightarrow> 'w sdk_env \<Rightarrow> ('w, string option) pm" where
  "sdk_emulator h e = sdk_tool h e [''emulator/emulator'']"

definition sdk_adb :: "'w os \<Rightarrow> 'w sdk_env \<Rightarrow> ('w, string option) pm" where
  "sdk_adb h e = sdk_tool h e [''platform-tools/adb'']"

definition kvm_available :: "'w os \<Rightarrow> ('w, bool) pm" where
  "kvm_available h = os_access h ''/dev/kvm''"

definition sdk_availability :: "cfg \<Rightarrow> 'w os \<Rightarrow> 'w sdk_env \<Rightarrow> ('w, pydict) pm" where
  "sdk_availability c h e =
     bindm (sdk_sdkmanager h e) (\<lambda>s. bindm (sdk_avdmanager h e) (\<lambda>a. bindm (sdk_emulator h e) (\<lambda>m.
     bindm (sdk_adb h e) (\<lambda>d. bindm (kvm_available h) (\<lambda>k.
     ret [(''enabled'', PBool (cfg_android_enabled c)), (''sdk_root'', opt_str (sdk_root e)),
       (''sdkmanager'', opt_str s), (''avdmanager'', opt_str a), (''emulator'', opt_str m), (''adb'', opt_str d),
       (''kvm'', PBool k)])))))"

definition require_ready :: "cfg \<Rightarrow> 'w os \<Rightarrow> 'w sdk_env \<Rightarrow> ('w, unit) pm" where
  "require_ready c h e =
     bindm (guardm (\<not> cfg_android_enabled c) (ipc_error ERR_INVALID_PARAMS
       (''Android support is disabled. Set android_enabled: true in boxer.yaml '' @
        ''after installing the Android command-line SDK.''))) (\<lambda>_.
     bindm (sdk_sdkmanager h e) (\<lambda>s. bindm (sdk_avdmanager h e) (\<lambda>a. bindm (sdk_emulator h e) (\<lambda>m.
     bindm (sdk_adb h e) (\<lambda>d.
     let missing = map fst (filter (\<lambda>p. snd p = None)
       [(''sdkmanager'', s), (''avdmanager'', a), (''emulator'', m), (''adb'', d)]) in
     bindm (guardm (missing \<noteq> []) (ipc_error ERR_INTERNAL (''Android SDK tools not found: '' @ join '', '' missing @
        ''. Set android_sdk_root in boxer.yaml (or ANDROID_SDK_ROOT) to a SDK with cmdline-tools, '' @
        ''platform-tools, and emulator installed.''))) (\<lambda>_.
     bindm (kvm_available h) (\<lambda>k.
     guardm (\<not> k) (ipc_error ERR_INTERNAL
       (''/dev/kvm is not accessible; the Android emulator needs KVM acceleration. '' @
        ''Ensure the boxerd user is in the kvm group and virtualization is enabled.'')))))))))"

text \<open>\<open>(stderr or stdout or "").strip()[:500]\<close>.\<close>

definition failure_text :: "proc_result \<Rightarrow> string" where
  "failure_text r = take 500 (strip (if pr_stderr r \<noteq> [] then pr_stderr r else pr_stdout r))"

definition ensure_system_image :: "'w os \<Rightarrow> 'w sdk_env \<Rightarrow> string \<Rightarrow> ('w, unit) pm" where
  "ensure_system_image h e package_spec =
     bindm (sdk_sdkmanager h e) (\<lambda>s. case s of
       None \<Rightarrow> raise (ipc_error ERR_INTERNAL ''sdkmanager not found'')
     | Some tool \<Rightarrow>
         bindm (sdk_run e (sdk_vars e) [tool, package_spec] (concat (replicate 16 ''y\<newline>''))) (\<lambda>r.
         guardm (pr_returncode r \<noteq> 0) (ipc_error ERR_INTERNAL
           (''sdkmanager failed to install '' @ quoted package_spec @ '': '' @ failure_text r))))"

definition accept_licenses :: "'w os \<Rightarrow> 'w sdk_env \<Rightarrow> ('w, unit) pm" where
  "accept_licenses h e =
     bindm (sdk_sdkmanager h e) (\<lambda>s. case s of
       None \<Rightarrow> raise (ipc_error ERR_INTERNAL ''sdkmanager not found'')
     | Some tool \<Rightarrow> bindm (sdk_run e (sdk_vars e) [tool, ''--licenses''] (concat (replicate 64 ''y\<newline>''))) (\<lambda>_. ret ()))"

section \<open>Console ports and names\<close>

function alloc_port :: "int list \<Rightarrow> int \<Rightarrow> int \<Rightarrow> int option" where
  "alloc_port in_use port hi =
     (if port \<le> hi then
        (if port \<notin> set in_use \<and> port + 1 \<notin> set in_use then Some port else alloc_port in_use (port + 2) hi)
      else None)"
  by pat_completeness auto
termination by (relation "measure (\<lambda>(_, port, hi). nat (hi + 1 - port))") auto

declare alloc_port.simps [simp del]

definition allocate_console_port :: "int list \<Rightarrow> int \<Rightarrow> int \<Rightarrow> int res" where
  "allocate_console_port in_use lo hi =
     need_some (ipc_error ERR_INTERNAL ''No free emulator console ports available'')
       (alloc_port in_use (if lo mod 2 = 0 then lo else lo + 1) hi)"

definition serial_for_port :: "int \<Rightarrow> string" where
  "serial_for_port p = ''emulator-'' @ show_int p"

definition is_avd_name :: "string \<Rightarrow> bool" where
  "is_avd_name s = (let t = before_final_newline s in 1 \<le> length t \<and> length t \<le> 64 \<and>
     list_all (\<lambda>c. is_ascii_letter c \<or> is_ascii_digit c \<or> c \<in> set ''._-'') t)"

definition validate_avd_name :: "string \<Rightarrow> string res" where
  "validate_avd_name s = (if is_avd_name s then Inr s
     else Inl (ipc_error ERR_INVALID_PARAMS ''Invalid AVD name (allowed: letters, digits, . _ -, max 64)''))"

section \<open>Process discovery\<close>

definition names_avd :: "string \<Rightarrow> string \<Rightarrow> bool" where
  "names_avd avd cmd \<longleftrightarrow> contains ''emulator'' cmd \<and>
     (contains (''-avd '' @ avd @ '' '') (cmd @ '' '') \<or> ends_with cmd (''-avd '' @ avd))"

text \<open>
  \<open>os_proc\<close> lists \<open>/proc\<close> (nothing where there is none): each entry's name and its \<open>cmdline\<close>, \<open>None\<close> if reading it fails.
\<close>

definition proc_entry :: "string \<times> string option \<Rightarrow> (int \<times> string) option" where
  "proc_entry = (\<lambda>(n, raw). if \<not> isdigit_str n then None
     else map_option (\<lambda>r. (int (digits_value n), replace_char (char_of (0 :: nat)) '' '' r)) raw)"

definition proc_cmdlines :: "'w os \<Rightarrow> ('w, (int \<times> string) list) pm" where
  "proc_cmdlines h = bindm (os_proc h) (\<lambda>es. ret (List.map_filter proc_entry es))"

definition pids_for_avd :: "'w os \<Rightarrow> string \<Rightarrow> ('w, int list) pm" where
  "pids_for_avd h avd = bindm (proc_cmdlines h) (\<lambda>ps. ret (map fst (filter (\<lambda>p. names_avd avd (snd p)) ps)))"

text \<open>The pattern \<open>-ports\s+(\d+),(\d+)\<close> at the head of a string, and its first match in one.\<close>

definition ports_here :: "string \<Rightarrow> (int \<times> int) option" where
  "ports_here s =
     (if \<not> starts_with s ''-ports'' then None
      else let r = drop 6 s; t = dropWhile is_space r; d1 = takeWhile is_ascii_digit t;
               u = dropWhile is_ascii_digit t
        in if r = t \<or> d1 = [] then None
           else (case u of [] \<Rightarrow> None
             | c # v \<Rightarrow> let d2 = takeWhile is_ascii_digit v in
                 if c = CHR '','' \<and> d2 \<noteq> [] then Some (int (digits_value d1), int (digits_value d2)) else None))"

fun search_ports :: "string \<Rightarrow> (int \<times> int) option" where
  "search_ports [] = None"
| "search_ports (c # s) = (case ports_here (c # s) of Some p \<Rightarrow> Some p | None \<Rightarrow> search_ports s)"

definition ports_of :: "(int \<times> string) list \<Rightarrow> int list" where
  "ports_of ps = remdups (concat (map (\<lambda>(_, cmd).
     if contains ''emulator'' cmd then (case search_ports cmd of Some (a, b) \<Rightarrow> [a, b] | None \<Rightarrow> []) else []) ps))"

definition ports_in_use :: "'w os \<Rightarrow> ('w, int list) pm" where
  "ports_in_use h = bindm (proc_cmdlines h) (\<lambda>ps. ret (ports_of ps))"

section \<open>Lifecycle\<close>

definition emu_get_state :: "'w os \<Rightarrow> string \<Rightarrow> ('w, string) pm" where
  "emu_get_state h avd = bindm (pids_for_avd h avd) (\<lambda>ps. ret (if ps \<noteq> [] then ''running'' else ''stopped''))"

definition emu_launch :: "cfg \<Rightarrow> 'w os \<Rightarrow> 'w sdk_env \<Rightarrow> string \<Rightarrow> int option \<Rightarrow> int option \<Rightarrow> ('w, pydict) pm" where
  "emu_launch c h e avd ram_mb cores =
     bindm (sdk_emulator h e) (\<lambda>m. case m of
       None \<Rightarrow> raise (ipc_error ERR_INTERNAL ''emulator not found'')
     | Some emulator \<Rightarrow>
         bindm (ports_in_use h) (\<lambda>used.
         bindm (liftr (allocate_console_port used (cfg_emulator_console_port_min c) (cfg_emulator_console_port_max c))) (\<lambda>port.
         let opt = (\<lambda>flag x. case x of None \<Rightarrow> [] | Some n \<Rightarrow> if n = 0 then [] else [flag, show_int n]);
             cmd = [emulator, ''-avd'', avd, ''-ports'', show_int port @ '','' @ show_int (port + 1), ''-no-window'',
               ''-no-audio'', ''-no-boot-anim'', ''-no-snapshot'', ''-gpu'', ''swiftshader_indirect'', ''-accel'', ''on'']
               @ opt ''-memory'' ram_mb @ opt ''-cores'' cores in
         bindm (os_mkdir h (path_join (path_join (cfg_state_dir c) ''android'') avd)) (\<lambda>_.
         bindm (sdk_popen e (sdk_vars e) cmd) (\<lambda>pid.
         ret [(''pid'', PInt pid), (''console_port'', PInt port), (''adb_port'', PInt (port + 1)),
           (''serial'', PStr (serial_for_port port))])))))"

definition emu_start :: "cfg \<Rightarrow> 'w os \<Rightarrow> 'w sdk_env \<Rightarrow> string \<Rightarrow> ('w, unit) pm" where
  "emu_start c h e avd =
     bindm (pids_for_avd h avd) (\<lambda>ps.
     if ps \<noteq> [] then ret () else bindm (emu_launch c h e avd None None) (\<lambda>_. ret ()))"

text \<open>
  The graceful half sends \<open>emu kill\<close> to every port in use; then the processes of the AVD get a
  signal (\<open>SIGTERM\<close> is 15, \<open>SIGKILL\<close> is 9).
\<close>

definition emu_stop :: "'w os \<Rightarrow> 'w sdk_env \<Rightarrow> string \<Rightarrow> bool \<Rightarrow> ('w, unit) pm" where
  "emu_stop h e avd graceful =
     bindm (pids_for_avd h avd) (\<lambda>ps.
     if ps = [] then ret ()
     else bindm (sdk_adb h e) (\<lambda>adb.
       bindm (case adb of
           Some tool \<Rightarrow> whenm graceful (bindm (ports_in_use h) (\<lambda>ports. for_each ports (\<lambda>p.
             catch (bindm (os_run h [tool, ''-s'', serial_for_port p, ''emu'', ''kill''] []) (\<lambda>_. ret ())) (\<lambda>_. ret ()))))
         | None \<Rightarrow> ret ()) (\<lambda>_.
       bindm (pids_for_avd h avd) (\<lambda>ps.
       for_each ps (\<lambda>pid. catch_class ''OSError'' (os_kill h pid (if graceful then 15 else 9)) (\<lambda>_. ret ()))))))"

definition emu_undefine :: "'w os \<Rightarrow> 'w sdk_env \<Rightarrow> string \<Rightarrow> ('w, unit) pm" where
  "emu_undefine h e avd =
     bindm (emu_stop h e avd False) (\<lambda>_.
     bindm (sdk_avdmanager h e) (\<lambda>m. case m of
       None \<Rightarrow> ret ()
     | Some tool \<Rightarrow> catch (bindm (sdk_run e (sdk_vars e) [tool, ''delete'', ''avd'', ''-n'', avd] []) (\<lambda>_. ret ())) (\<lambda>_. ret ())))"

definition create_avd :: "'w os \<Rightarrow> 'w sdk_env \<Rightarrow> string \<Rightarrow> string \<Rightarrow> string \<Rightarrow> ('w, unit) pm" where
  "create_avd h e avd package_spec device =
     bindm (sdk_avdmanager h e) (\<lambda>m. case m of
       None \<Rightarrow> raise (ipc_error ERR_INTERNAL ''avdmanager not found'')
     | Some tool \<Rightarrow>
         bindm (sdk_run e (sdk_vars e) [tool, ''create'', ''avd'', ''-n'', avd, ''-k'', package_spec, ''-d'', device, ''--force'']
           ''no\<newline>'') (\<lambda>r.
         guardm (pr_returncode r \<noteq> 0) (ipc_error ERR_INTERNAL
           (''avdmanager create failed for '' @ quoted avd @ '': '' @ failure_text r))))"

primrec boot_rounds :: "'w os \<Rightarrow> string \<Rightarrow> string \<Rightarrow> nat \<Rightarrow> ('w, bool) pm" where
  "boot_rounds h adb serial 0 = ret False"
| "boot_rounds h adb serial (Suc n) =
     bindm (catch (bindm (os_run h [adb, ''-s'', serial, ''shell'', ''getprop'', ''sys.boot_completed''] [])
         (\<lambda>r. ret (strip (pr_stdout r) = ''1''))) (\<lambda>_. ret False)) (\<lambda>b.
     if b then ret True else boot_rounds h adb serial n)"

definition wait_boot :: "'w os \<Rightarrow> 'w sdk_env \<Rightarrow> string \<Rightarrow> int \<Rightarrow> ('w, bool) pm" where
  "wait_boot h e serial timeout =
     bindm (sdk_adb h e) (\<lambda>a. case a of
       None \<Rightarrow> raise (ipc_error ERR_INTERNAL ''adb not found'')
     | Some adb \<Rightarrow>
         bindm (catch (bindm (os_run h [adb, ''-s'', serial, ''wait-for-device''] []) (\<lambda>_. ret ())) (\<lambda>_. ret ())) (\<lambda>_.
         bindm (sdk_sleep_rounds e timeout 3) (boot_rounds h adb serial)))"

section \<open>Ports\<close>

lemma alloc_port_Some:
  "alloc_port in_use port hi = Some p \<Longrightarrow> even port \<Longrightarrow>
   even p \<and> port \<le> p \<and> p \<le> hi \<and> p \<notin> set in_use \<and> p + 1 \<notin> set in_use"
proof (induction in_use port hi rule: alloc_port.induct)
  case (1 in_use port hi)
  show ?case
  proof (cases "port \<le> hi \<and> \<not> (port \<notin> set in_use \<and> port + 1 \<notin> set in_use)")
    case True
    with 1 have "alloc_port in_use (port + 2) hi = Some p" by (simp add: alloc_port.simps [of _ port])
    with True 1 show ?thesis by fastforce
  next
    case False
    with 1 show ?thesis by (auto simp: alloc_port.simps [of _ port] split: if_splits)
  qed
qed

lemma alloc_port_None:
  "alloc_port in_use port hi = None \<Longrightarrow> port \<le> q \<Longrightarrow> q \<le> hi \<Longrightarrow> even (q - port) \<Longrightarrow>
   q \<in> set in_use \<or> q + 1 \<in> set in_use"
proof (induction in_use port hi rule: alloc_port.induct)
  case (1 in_use port hi)
  from "1.prems" have le: "port \<le> hi" by simp
  with "1.prems"(1) have used: "\<not> (port \<notin> set in_use \<and> port + 1 \<notin> set in_use)"
    and rest: "alloc_port in_use (port + 2) hi = None"
    by (auto simp: alloc_port.simps [of _ port] split: if_splits)
  show ?case
  proof (cases "q = port")
    case False
    with "1.prems"(2,4) have "port + 2 \<le> q" by presburger
    with "1.IH" [OF le used rest] "1.prems"(3,4) show ?thesis by simp
  qed (use used in auto)
qed

text \<open>C17: The port search is sound and complete: a port it returns is even, inside the configured range and
  free together with its neighbour, and it fails only when every even port of the range is taken or
  has a taken neighbour.\<close>

theorem console_port_sound_complete:
  "case allocate_console_port in_use lo hi of
     Inr p \<Rightarrow> even p \<and> lo \<le> p \<and> p \<le> hi \<and> p \<notin> set in_use \<and> p + 1 \<notin> set in_use
   | Inl e \<Rightarrow> {p. even p \<and> lo \<le> p \<and> p \<le> hi \<and> p \<notin> set in_use \<and> p + 1 \<notin> set in_use} = {}"
proof (cases "alloc_port in_use (if lo mod 2 = 0 then lo else lo + 1) hi")
  case (Some p)
  moreover have "even (if lo mod 2 = 0 then lo else lo + 1)" by presburger
  ultimately show ?thesis
    using alloc_port_Some [OF Some] by (auto simp: allocate_console_port_def need_some_def split: if_splits)
next
  case None
  have "p \<in> set in_use \<or> p + 1 \<in> set in_use" if "even p" "lo \<le> p" "p \<le> hi" for p
  proof (rule alloc_port_None [OF None])
    show "(if lo mod 2 = 0 then lo else lo + 1) \<le> p" using that by presburger
    show "even (p - (if lo mod 2 = 0 then lo else lo + 1))" using that by presburger
  qed (rule that)
  then show ?thesis by (auto simp: allocate_console_port_def need_some_def None)
qed

end
