(* ===== verification/Storage.thy ===== *)
theory Storage
  imports Config
begin

text \<open>
  \<open>boxerd/storage_ops.py\<close>, \<open>boxerd/network_ops.py\<close>, \<open>boxerd/ssh_keys.py\<close>: directories and disks
  of a VM, the project's network, the ephemeral key pair. File-system calls go through \<open>h\<close>,
  libvirt calls through \<open>lv\<close>.
\<close>

section \<open>StorageManager\<close>

text \<open>
  \<open>gid\<close> is the number of the configured group, looked up once; \<open>PermissionError\<close> is tolerated.
\<close>

definition set_access :: "'w os \<Rightarrow> int option \<Rightarrow> string \<Rightarrow> int \<Rightarrow> ('w, unit) pm" where
  "set_access h gid path mode =
     bindm (catch_class ''PermissionError''
       (case gid of None \<Rightarrow> ret () | Some g \<Rightarrow> os_chown h path g) (\<lambda>_. ret ())) (\<lambda>_.
     catch_class ''PermissionError'' (os_chmod h path mode) (\<lambda>_. ret ()))"

definition vm_dir :: "cfg \<Rightarrow> string \<Rightarrow> string \<Rightarrow> string" where
  "vm_dir c project_id vid = path_join (path_join (path_join (cfg_projects_dir c) project_id) ''vms'') vid"

definition ensure_vm_dir :: "cfg \<Rightarrow> 'w os \<Rightarrow> int option \<Rightarrow> string \<Rightarrow> string \<Rightarrow> ('w, string) pm" where
  "ensure_vm_dir c h gid project_id vid =
     (let project_dir = path_join (cfg_projects_dir c) project_id in
     bindm (for_each [cfg_state_dir c, cfg_projects_dir c, project_dir, path_join project_dir ''vms'',
         vm_dir c project_id vid]
       (\<lambda>p. bindm (os_mkdir h p) (\<lambda>_. set_access h gid p 488))) (\<lambda>_.
     ret (vm_dir c project_id vid)))"

definition prepare_readonly_file :: "'w os \<Rightarrow> int option \<Rightarrow> string option \<Rightarrow> ('w, unit) pm" where
  "prepare_readonly_file h gid path = (case path of None \<Rightarrow> ret ()
     | Some p \<Rightarrow> bindm (os_exists h p) (\<lambda>e. whenm e (set_access h gid p 288)))"

definition parent_dir :: "string \<Rightarrow> string" where
  "parent_dir p = (let q = rev (dropWhile (\<lambda>c. c \<noteq> CHR ''/'') (rev p)) in
     if length q \<le> 1 then q else butlast q)"

definition prepare_mutable_file :: "'w os \<Rightarrow> int option \<Rightarrow> string \<Rightarrow> bool \<Rightarrow> ('w, unit) pm" where
  "prepare_mutable_file h gid path create =
     bindm (whenm create (bindm (os_mkdir h (parent_dir path)) (\<lambda>_. os_touch h path))) (\<lambda>_.
     bindm (os_exists h path) (\<lambda>e. whenm e (set_access h gid path 432)))"

text \<open>\<open>subprocess.run(..., check=True)\<close>.\<close>

definition run_checked :: "'w os \<Rightarrow> string list \<Rightarrow> ('w, unit) pm" where
  "run_checked h argv = bindm (os_run h argv []) (\<lambda>r.
     guardm (pr_returncode r \<noteq> 0) (PyExn ''CalledProcessError'' (pr_stderr r)))"

definition create_overlay_sync :: "'w os \<Rightarrow> string \<Rightarrow> string \<Rightarrow> int \<Rightarrow> ('w, unit) pm" where
  "create_overlay_sync h base dest size_gb = run_checked h [''qemu-img'', ''create'', ''-f'', ''qcow2'', ''-b'', base, ''-F'',
     ''qcow2'', dest, show_int size_gb @ ''G'']"

definition create_blank_sync :: "'w os \<Rightarrow> string \<Rightarrow> int \<Rightarrow> string \<Rightarrow> ('w, unit) pm" where
  "create_blank_sync h dest size_gb disk_format = run_checked h [''qemu-img'', ''create'', ''-f'', disk_format, dest,
     show_int size_gb @ ''G'']"

definition create_overlay :: "cfg \<Rightarrow> 'w os \<Rightarrow> int option \<Rightarrow> string \<Rightarrow> string \<Rightarrow> string \<Rightarrow> int \<Rightarrow> ('w, string) pm" where
  "create_overlay c h gid project_id vid base_path disk_gb =
     bindm (prepare_readonly_file h gid (Some base_path)) (\<lambda>_.
     bindm (ensure_vm_dir c h gid project_id vid) (\<lambda>dir.
     let overlay = path_join dir ''disk.qcow2'' in
     bindm (os_exists h overlay) (\<lambda>e.
     bindm (whenm (\<not> e) (create_overlay_sync h base_path overlay disk_gb)) (\<lambda>_.
     bindm (prepare_mutable_file h gid overlay False) (\<lambda>_. ret overlay)))))"

definition create_blank_disk :: "cfg \<Rightarrow> 'w os \<Rightarrow> int option \<Rightarrow> string \<Rightarrow> string \<Rightarrow> int \<Rightarrow> string \<Rightarrow> ('w, string) pm" where
  "create_blank_disk c h gid project_id vid disk_gb disk_format =
     bindm (guardm (disk_format \<notin> {''qcow2'', ''raw''})
       (PyExn ''ValueError'' (''Unsupported blank disk format: '' @ disk_format))) (\<lambda>_.
     bindm (ensure_vm_dir c h gid project_id vid) (\<lambda>dir.
     let disk = path_join dir (if disk_format = ''raw'' then ''disk.raw'' else ''disk.qcow2'') in
     bindm (os_exists h disk) (\<lambda>e.
     bindm (whenm (\<not> e) (create_blank_sync h disk disk_gb disk_format)) (\<lambda>_.
     bindm (prepare_mutable_file h gid disk False) (\<lambda>_. ret disk)))))"

definition stage_iso :: "cfg \<Rightarrow> 'w os \<Rightarrow> int option \<Rightarrow> string \<Rightarrow> string \<Rightarrow> string \<Rightarrow> ('w, string) pm" where
  "stage_iso c h gid project_id vid source =
     bindm (ensure_vm_dir c h gid project_id vid) (\<lambda>dir.
     let dest = path_join dir ''install.iso'' in
     bindm (os_resolve h source) (\<lambda>src.
     bindm (os_exists h dest) (\<lambda>e.
     bindm (if \<not> e then ret True else bindm (os_resolve h dest) (\<lambda>d. ret (d \<noteq> src))) (\<lambda>copy.
     bindm (whenm copy (os_copy h src dest)) (\<lambda>_.
     bindm (prepare_readonly_file h gid (Some dest)) (\<lambda>_. ret dest))))))"

definition delete_vm_storage :: "cfg \<Rightarrow> 'w os \<Rightarrow> string \<Rightarrow> string \<Rightarrow> ('w, unit) pm" where
  "delete_vm_storage c h project_id vid =
     bindm (os_exists h (vm_dir c project_id vid)) (\<lambda>e. whenm e (os_rmtree h (vm_dir c project_id vid)))"

text \<open>\<open>project_disk_usage_gib\<close>: \<open>os_rglob\<close> with \<open>*\<close> lists everything below the project's directory.\<close>

primrec total_size :: "'w os \<Rightarrow> string list \<Rightarrow> ('w, int) pm" where
  "total_size h [] = ret 0"
| "total_size h (f # fs) = bindm (os_is_file h f) (\<lambda>is_file.
     bindm (if is_file then bindm (os_stat h f) (\<lambda>st. ret (fst st)) else ret 0) (\<lambda>n.
     bindm (total_size h fs) (\<lambda>m. ret (n + m))))"

definition project_disk_usage_gib :: "cfg \<Rightarrow> 'w os \<Rightarrow> string \<Rightarrow> ('w, rat) pm" where
  "project_disk_usage_gib c h project_id =
     (let dir = path_join (cfg_projects_dir c) project_id in
     bindm (os_exists h dir) (\<lambda>e. if \<not> e then ret 0
       else bindm (os_rglob h dir ''*'') (\<lambda>fs. bindm (total_size h fs) (\<lambda>n. ret (of_int n / 1073741824)))))"

text \<open>
  The storage pool. The record is libvirt's interface to pools; \<open>getgrnam\<close> gives the number of a group that
  exists.
\<close>

record 'w pools =
  po_lookup :: "string \<Rightarrow> ('w, unit) pm"
  po_is_active :: "string \<Rightarrow> ('w, bool) pm"
  po_create :: "string \<Rightarrow> ('w, unit) pm"
  po_define_xml :: "string \<Rightarrow> ('w, string) pm"
  po_set_autostart :: "string \<Rightarrow> int \<Rightarrow> ('w, unit) pm"

definition POOL_NAME :: string where
  "POOL_NAME = ''boxer-storage''"

definition pool_xml :: "string \<Rightarrow> string" where
  "pool_xml state_dir = ''<pool type='dir'>\<newline>  <name>'' @ POOL_NAME @ ''</name>\<newline>  <target>\<newline>    <path>'' @ state_dir @
     ''</path>\<newline>  </target>\<newline></pool>''"

definition lookup_qemu_gid :: "(string \<Rightarrow> int option) \<Rightarrow> pydict \<Rightarrow> int option res" where
  "lookup_qemu_gid getgrnam d = bindr (need_str (PyExn ''TypeError'' ''getgrnam() argument must be str'') (\<lambda>_. True) (qemu_group d))
     (\<lambda>g. Inr (getgrnam g))"

definition ensure_pool :: "cfg \<Rightarrow> 'w os \<Rightarrow> 'w pools \<Rightarrow> int option \<Rightarrow> ('w, unit) pm" where
  "ensure_pool c h po gid =
     bindm (os_mkdir h (cfg_state_dir c)) (\<lambda>_.
     bindm (set_access h gid (cfg_state_dir c) 488) (\<lambda>_.
     catch_lv
       (bindm (po_lookup po POOL_NAME) (\<lambda>_.
        bindm (po_is_active po POOL_NAME) (\<lambda>a. whenm (\<not> a) (po_create po POOL_NAME))))
       (\<lambda>_. bindm (po_define_xml po (pool_xml (cfg_state_dir c))) (\<lambda>pool.
          bindm (po_set_autostart po pool 1) (\<lambda>_. po_create po pool)))))"

text \<open>
  When libvirt tells the truth about pools (\<open>up\<close>: the pool runs), a pool that \<open>ensure_pool\<close> returns from runs,
  whether it was there, was there and stopped, or was not there.
\<close>

lemma ensure_pool_runs:
  assumes "\<And>w. wp (po_is_active po POOL_NAME) (\<lambda>a v. a = up v) (\<lambda>_ _. True) w"
    "\<And>p w. wp (po_create po p) (\<lambda>_. up) (\<lambda>_ _. True) w"
  shows "wp (ensure_pool c h po gid) (\<lambda>_. up) (\<lambda>_ _. True) w"
proof -
  have make: "wp (bindm (po_define_xml po x) (\<lambda>pool. bindm (po_set_autostart po pool 1) (\<lambda>_. po_create po pool)))
      (\<lambda>_. up) (\<lambda>_ _. True) w" for x w
    by (intro wp_after assms(2))
  have look: "wp (bindm (po_is_active po POOL_NAME) (\<lambda>a. whenm (\<not> a) (po_create po POOL_NAME))) (\<lambda>_. up) (\<lambda>_ _. True) w" for w
    unfolding wp_bindm by (rule wp_mono [OF assms(1)]) (simp_all add: wp_whenm assms(2))
  show ?thesis
    unfolding ensure_pool_def
  proof (intro wp_after, unfold wp_catch_class)
    fix w
    show "wp (bindm (po_lookup po POOL_NAME) (\<lambda>_. bindm (po_is_active po POOL_NAME) (\<lambda>a. whenm (\<not> a) (po_create po POOL_NAME))))
        (\<lambda>_. up) (\<lambda>e s'. if in_class ''libvirtError'' e then wp (bindm (po_define_xml po (pool_xml (cfg_state_dir c)))
          (\<lambda>pool. bindm (po_set_autostart po pool 1) (\<lambda>_. po_create po pool))) (\<lambda>_. up) (\<lambda>_ _. True) s' else True) w"
      by (rule wp_mono [OF wp_after [OF look]]) (simp_all add: make)
  qed
qed

section \<open>NetworkManager\<close>

definition net_name :: "string \<Rightarrow> string" where
  "net_name project_id = ''boxer-'' @ take 8 (drop 2 project_id)"

definition bridge_name :: "string \<Rightarrow> string" where
  "bridge_name project_id = take 15 (''vboxer'' @ take 6 (drop 2 project_id))"

text \<open>\<open>int(raw, 16)\<close>: blanks around, a sign, an optional \<open>0x\<close>, digits with single underscores.\<close>

fun hex_digits :: "bool \<Rightarrow> string \<Rightarrow> string option" where
  "hex_digits prev [] = (if prev then Some [] else None)"
| "hex_digits prev (c # s) =
     (if is_hex c then map_option (Cons c) (hex_digits True s)
      else if c = CHR ''_'' \<and> prev then hex_digits False s else None)"

definition hex_value :: "string \<Rightarrow> nat" where
  "hex_value ds = foldl (\<lambda>a c. 16 * a + (let n = code c in
     if n < 58 then n - 48 else if n < 71 then n - 55 else n - 87)) 0 ds"

definition strip_0x :: "string \<Rightarrow> bool \<times> string" where
  "strip_0x s = (if starts_with s ''0x'' \<or> starts_with s ''0X'' then (True, drop 2 s) else (False, s))"

definition parse_hex :: "string \<Rightarrow> int option" where
  "parse_hex s = (let t = strip s;
       (neg, u) = (case t of c # r \<Rightarrow> if c = CHR ''-'' then (True, r) else if c = CHR ''+'' then (False, r) else (False, t)
         | [] \<Rightarrow> (False, t));
       (pre, v) = strip_0x u;
       v = (case v of c # r \<Rightarrow> if pre \<and> c = CHR ''_'' then r else v | [] \<Rightarrow> v)
     in map_option (\<lambda>ds. (if neg then - int (hex_value ds) else int (hex_value ds))) (hex_digits False v))"

text \<open>
  IPv4 as a number. \<open>base\<close> and \<open>base_len\<close> are the parsed \<open>network_base_cidr\<close>; the subnet of
  index \<open>i\<close> begins at \<open>base + i * 2 ^ (32 - prefix)\<close>, as \<open>list(base.subnets(new_prefix=prefix))\<close>
  has it. \<open>py_hash\<close> is Python's (randomised) string hash.
\<close>

definition project_index :: "(string \<Rightarrow> int) \<Rightarrow> nat \<Rightarrow> nat \<Rightarrow> string \<Rightarrow> int" where
  "project_index py_hash prefix base_len project_id =
     (case parse_hex (take 8 (drop 2 project_id)) of Some n \<Rightarrow> n | None \<Rightarrow> py_hash project_id)
       mod 2 ^ (prefix - base_len)"

definition show_ipv4 :: "int \<Rightarrow> string" where
  "show_ipv4 a = show_int (a div 2 ^ 24 mod 256) @ ''.'' @ show_int (a div 2 ^ 16 mod 256) @ ''.'' @
     show_int (a div 2 ^ 8 mod 256) @ ''.'' @ show_int (a mod 256)"

text \<open>Gateway, netmask, first and last DHCP address, as numbers (\<open>prefix \<le> 30\<close>).\<close>

definition allocate_subnet :: "(string \<Rightarrow> int) \<Rightarrow> int \<Rightarrow> nat \<Rightarrow> nat \<Rightarrow> string \<Rightarrow> int \<times> int \<times> int \<times> int" where
  "allocate_subnet py_hash base base_len prefix project_id =
     (let subnet_size = 2 ^ (32 - prefix);
          net = base + project_index py_hash prefix base_len project_id * subnet_size
      in (net + 1, 2 ^ 32 - subnet_size, net + 2, net + subnet_size - 2))"

definition bridge_xml :: "string \<Rightarrow> string \<Rightarrow> string \<Rightarrow> string \<Rightarrow> string \<Rightarrow> string" where
  "bridge_xml bridge ip netmask dhcp_start dhcp_end =
     ''  <bridge name='' @ [squote] @ bridge @ [squote] @ '' stp='on' delay='0'/>\<newline>  <ip address='' @ [squote] @ ip @
     [squote] @ '' netmask='' @ [squote] @ netmask @ [squote] @ ''>\<newline>    <dhcp>\<newline>      <range start='' @ [squote] @
     dhcp_start @ [squote] @ '' end='' @ [squote] @ dhcp_end @ [squote] @
     ''/>\<newline>    </dhcp>\<newline>  </ip>\<newline></network>''"

definition net_xml :: "string \<Rightarrow> string \<Rightarrow> string \<Rightarrow> string \<Rightarrow> string \<Rightarrow> string \<Rightarrow> string" where
  "net_xml name bridge ip netmask dhcp_start dhcp_end =
     ''<network>\<newline>  <name>'' @ name @ ''</name>\<newline>'' @ ''  <forward mode='nat'/>\<newline>'' @
     bridge_xml bridge ip netmask dhcp_start dhcp_end"

definition isolated_net_xml :: "string \<Rightarrow> string \<Rightarrow> string \<Rightarrow> string \<Rightarrow> string \<Rightarrow> string \<Rightarrow> string" where
  "isolated_net_xml name bridge ip netmask dhcp_start dhcp_end =
     ''<network>\<newline>  <name>'' @ name @ ''</name>\<newline>'' @ bridge_xml bridge ip netmask dhcp_start dhcp_end"

text \<open>\<open>subnet\<close> is the allocation of the configured network for the project.\<close>

definition ensure_project_network :: "'w libvirt \<Rightarrow> (string \<Rightarrow> int \<times> int \<times> int \<times> int) \<Rightarrow> string \<Rightarrow> bool \<Rightarrow>
    ('w, string) pm" where
  "ensure_project_network lv subnet project_id isolated =
     (let name = net_name project_id in
     bindm (catch_lv (bindm (lv_net_lookup lv name) (\<lambda>_.
         bindm (lv_net_is_active lv name) (\<lambda>a.
         bindm (whenm (\<not> a) (lv_net_create lv name)) (\<lambda>_. ret True)))) (\<lambda>_. ret False)) (\<lambda>found.
     if found then ret name
     else (case subnet project_id of (gw, nmask, lo, hi) \<Rightarrow>
       bindm (lv_net_define_xml lv ((if isolated then isolated_net_xml else net_xml) name (bridge_name project_id) (show_ipv4 gw) (show_ipv4 nmask)
         (show_ipv4 lo) (show_ipv4 hi))) (\<lambda>net.
       bindm (lv_net_set_autostart lv net 1) (\<lambda>_.
       bindm (lv_net_create lv net) (\<lambda>_. ret name))))))"

definition teardown_project_network :: "'w libvirt \<Rightarrow> string \<Rightarrow> ('w, unit) pm" where
  "teardown_project_network lv project_id =
     (let name = net_name project_id in
     catch_lv (bindm (lv_net_lookup lv name) (\<lambda>_.
       bindm (lv_net_is_active lv name) (\<lambda>a.
       bindm (whenm a (lv_net_destroy lv name)) (\<lambda>_. lv_net_undefine lv name)))) (\<lambda>_. ret ()))"

definition has_active_vms :: "'w libvirt \<Rightarrow> string \<Rightarrow> ('w, bool) pm" where
  "has_active_vms lv project_id =
     catch_lv (bindm (lv_net_lookup lv (net_name project_id)) (\<lambda>_.
       bindm (lv_net_leases lv (net_name project_id) None) (\<lambda>ls. ret (ls \<noteq> [])))) (\<lambda>_. ret False)"

section \<open>SSHKeyManager\<close>

record key_material =
  km_private_path :: string
  km_public_path :: string
  km_private :: string
  km_public :: string

definition key_path :: "string \<Rightarrow> string" where
  "key_path dir = path_join (path_join dir ''ssh'') ''ephemeral_ed25519''"

definition has_key :: "'w os \<Rightarrow> string \<Rightarrow> ('w, bool) pm" where
  "has_key h dir = bindm (os_exists h (key_path dir)) (\<lambda>a.
     if a then os_exists h (key_path dir @ ''.pub'') else ret False)"

definition ensure_keypair :: "'w os \<Rightarrow> string \<Rightarrow> string \<Rightarrow> ('w, key_material) pm" where
  "ensure_keypair h dir vid =
     (let key = key_path dir; pub = key @ ''.pub'' in
     bindm (has_key h dir) (\<lambda>present.
     bindm (whenm (\<not> present)
       (bindm (os_mkdir h (parent_dir key)) (\<lambda>_.
        bindm (catch_class ''CalledProcessError'' (catch_class ''FileNotFoundError''
            (run_checked h [''ssh-keygen'', ''-t'', ''ed25519'', ''-N'', [], ''-C'', ''boxer-'' @ vid @ ''-ephemeral'',
               ''-f'', key, ''-q''])
            (\<lambda>_. raise (ipc_error ERR_INTERNAL ''ssh-keygen is required for ephemeral SSH access'')))
          (\<lambda>e. raise (ipc_error ERR_INTERNAL (''ssh-keygen failed: '' @ exn_text e)))) (\<lambda>_.
        bindm (os_chmod h key 384) (\<lambda>_. os_chmod h pub 420))))) (\<lambda>_.
     bindm (os_read_text h key) (\<lambda>priv.
     bindm (os_read_text h pub) (\<lambda>pk.
     ret \<lparr>km_private_path = key, km_public_path = pub, km_private = priv, km_public = strip pk\<rparr>)))))"

section \<open>Subnets\<close>

lemma project_index_bounds: "0 \<le> project_index ph prefix len p" "project_index ph prefix len p < 2 ^ (prefix - len)"
  by (simp_all add: project_index_def)

text \<open>Two projects whose indices differ get disjoint address ranges inside the base network.\<close>

lemma allocate_subnet_range:
  assumes "len \<le> prefix" "prefix \<le> 30" "allocate_subnet ph base len prefix p = (gw, nmask, lo, hi)"
  shows "base < gw" "gw < lo" "lo \<le> hi" "hi < base + 2 ^ (32 - len)"
proof -
  let ?s = "2 ^ (32 - prefix) :: int" and ?i = "project_index ph prefix len p"
  have s: "4 \<le> ?s" using assms(2) power_increasing [of 2 "32 - prefix" "2::int"] by simp
  have i: "0 \<le> ?i" "?i + 1 \<le> 2 ^ (prefix - len)" using project_index_bounds [of ph prefix len p] by simp_all
  have "(?i + 1) * ?s \<le> 2 ^ (prefix - len) * ?s" using i(2) s by (intro mult_right_mono) auto
  also have "\<dots> = 2 ^ (32 - len)" using assms(1,2) by (simp flip: power_add)
  finally have "?i * ?s + ?s \<le> 2 ^ (32 - len)" by (simp add: distrib_right)
  moreover have "0 \<le> ?i * ?s" using i s by simp
  ultimately show "base < gw" "gw < lo" "lo \<le> hi" "hi < base + 2 ^ (32 - len)"
    using assms(3) s by (auto simp: allocate_subnet_def Let_def)
qed

lemma allocate_subnet_disjoint:
  assumes "allocate_subnet ph base len prefix p = (gw, nmask, lo, hi)"
    "allocate_subnet ph base len prefix q = (gw', nmask', lo', hi')"
    "project_index ph prefix len p < project_index ph prefix len q"
  shows "hi < gw'"
proof -
  let ?s = "2 ^ (32 - prefix) :: int"
  have "(project_index ph prefix len p + 1) * ?s \<le> project_index ph prefix len q * ?s"
    using assms(3) by (intro mult_right_mono) auto
  then show ?thesis using assms(1,2) by (auto simp: allocate_subnet_def Let_def distrib_right)
qed

text \<open>C33: Projects whose indices differ get address ranges of the base network that do not meet: gateway and
  leases of the one lie wholly below those of the other, and both inside the network.\<close>

theorem project_subnets_disjoint:
  assumes "len \<le> prefix" "prefix \<le> 30" "project_index ph prefix len p < project_index ph prefix len q"
    "allocate_subnet ph base len prefix p = (gw, nmask, lo, hi)"
    "allocate_subnet ph base len prefix q = (gw', nmask', lo', hi')"
  shows "base < gw \<and> gw < lo \<and> lo \<le> hi \<and> hi < gw' \<and> gw' < lo' \<and> lo' \<le> hi' \<and> hi' < base + 2 ^ (32 - len)"
  using allocate_subnet_range [OF assms(1,2,4)] allocate_subnet_range [OF assms(1,2,5)]
    allocate_subnet_disjoint [OF assms(4,5,3)] by simp

lemma project_subnets_disjoint_witness:
  "\<exists>gw n lo hi gw' n' lo' hi'. allocate_subnet (\<lambda>_. 0) 0 16 24 ''p_00000001'' = (gw, n, lo, hi) \<and>
     allocate_subnet (\<lambda>_. 0) 0 16 24 ''p_00000002'' = (gw', n', lo', hi') \<and> hi < gw'"
proof -
  obtain gw n lo hi where p: "allocate_subnet (\<lambda>_. 0) 0 16 24 ''p_00000001'' = (gw, n, lo, hi)"
    by (cases "allocate_subnet (\<lambda>_. 0) 0 16 24 ''p_00000001''")
  obtain gw' n' lo' hi' where q: "allocate_subnet (\<lambda>_. 0) 0 16 24 ''p_00000002'' = (gw', n', lo', hi')"
    by (cases "allocate_subnet (\<lambda>_. 0) 0 16 24 ''p_00000002''")
  have "project_index (\<lambda>_. 0) 24 16 ''p_00000001'' < project_index (\<lambda>_. 0) 24 16 ''p_00000002''" by code_simp
  from project_subnets_disjoint [OF _ _ this p q] p q show ?thesis by simp
qed

end
