(* ===== verification/Db.thy ===== *)
theory Db
  imports Types
begin

text \<open>
  \<open>boxerd/db.py\<close>: the tables, one operation per CRUD helper, and the state every coroutine
  of the daemon runs in. A table is the list of its rows in insertion order, which is the order a
  \<open>SELECT\<close> without \<open>ORDER BY\<close> returns; an \<open>ORDER BY\<close> with ties keeps that order. Columns
  that hold \<open>isoformat\<close> text are instants here. The statements of one helper run without an
  interleaving, as the helpers do on the daemon's single connection.
\<close>

section \<open>Tables\<close>

record project =
  p_id :: string
  p_path :: string
  p_first_seen :: instant
  p_last_seen :: instant

record call =
  call_id :: string
  call_project_id :: string
  call_method :: string
  call_user :: string
  call_at :: instant

record tables =
  t_projects :: "project list"
  t_vms :: "vm list"
  t_vm_tags :: "(string \<times> string \<times> string) list"
  t_queue :: "queue_entry list"
  t_events :: "event list"
  t_calls :: "call list"
  t_cleanup :: "cleanup_action list"
  t_notes :: "notification list"

definition empty_tables :: tables where
  "empty_tables = \<lparr>t_projects = [], t_vms = [], t_vm_tags = [], t_queue = [], t_events = [],
     t_calls = [], t_cleanup = [], t_notes = []\<rparr>"

text \<open>
  What the schema's primary keys, unique columns and foreign keys promise. Rows of \<open>vms\<close> are
  stored without their tags, which live in \<open>vm_tags\<close>.
\<close>

definition db_ok :: "tables \<Rightarrow> bool" where
  "db_ok t \<longleftrightarrow> distinct (map p_id (t_projects t)) \<and> distinct (map p_path (t_projects t)) \<and>
     distinct (map vm_id (t_vms t)) \<and> distinct (map vm_libvirt_name (t_vms t)) \<and>
     distinct (map (\<lambda>(v, k, _). (v, k)) (t_vm_tags t)) \<and>
     distinct (map ca_vm_id (t_cleanup t)) \<and>
     vm_project_id ` set (t_vms t) \<subseteq> p_id ` set (t_projects t) \<and>
     fst ` set (t_vm_tags t) \<subseteq> vm_id ` set (t_vms t) \<and>
     ca_vm_id ` set (t_cleanup t) \<subseteq> vm_id ` set (t_vms t)"

section \<open>The daemon's state\<close>

text \<open>Background tasks that a handler spawned with \<open>asyncio.create_task\<close>.\<close>

datatype bg_task = PollIp string string | WatchInstall string string

text \<open>
  \<open>rnd\<close> is the stream of hexadecimal strings that successive \<open>uuid.uuid4().hex\<close> return and
  \<open>world\<close> everything the daemon reaches through libraries: hypervisor, file system, guests,
  network. The theorems hold for every stream and every world.
\<close>

record 'w st =
  db :: tables
  now :: instant
  rnd :: "nat \<Rightarrow> string"
  rnd_next :: nat
  world :: 'w
  tasks :: "bg_task list"

definition uuid4_hex :: "('w st, string) pm" where
  "uuid4_hex = (\<lambda>s. (Inr (rnd s (rnd_next s)), s\<lparr>rnd_next := Suc (rnd_next s)\<rparr>))"

definition clock :: "('w st, instant) pm" where
  "clock = gets now"

definition spawn :: "bg_task \<Rightarrow> ('w st, unit) pm" where
  "spawn t = modify (\<lambda>s. s\<lparr>tasks := tasks s @ [t]\<rparr>)"

definition in_world :: "('w, 'a) pm \<Rightarrow> ('w st, 'a) pm" where
  "in_world m = (\<lambda>s. case m (world s) of (r, w) \<Rightarrow> (r, s\<lparr>world := w\<rparr>))"

lemma wp_uuid4_hex [wp_simps]:
  "wp uuid4_hex Q E s = Q (rnd s (rnd_next s)) (s\<lparr>rnd_next := Suc (rnd_next s)\<rparr>)"
  by (simp add: wp_def uuid4_hex_def)

lemma wp_clock [wp_simps]: "wp clock Q E s = Q (now s) s"
  by (simp add: clock_def wp_simps)

lemma wp_spawn [wp_simps]: "wp (spawn t) Q E s = Q () (s\<lparr>tasks := tasks s @ [t]\<rparr>)"
  by (simp add: spawn_def wp_simps)

lemma wp_in_world [wp_simps]: "wp (in_world m) Q E s =
    wp m (\<lambda>x w. Q x (s\<lparr>world := w\<rparr>)) (\<lambda>e w. E e (s\<lparr>world := w\<rparr>)) (world s)"
  by (auto simp: wp_def in_world_def split: prod.splits sum.splits)

section \<open>Row selection and change\<close>

definition vms_find :: "string \<Rightarrow> tables \<Rightarrow> vm option" where
  "vms_find k t = rows_find vm_id k (t_vms t)"

definition vms_put :: "vm \<Rightarrow> tables \<Rightarrow> tables" where
  "vms_put v t = t\<lparr>t_vms := t_vms t @ [v]\<rparr>"

definition vms_update :: "string \<Rightarrow> (vm \<Rightarrow> vm) \<Rightarrow> tables \<Rightarrow> tables" where
  "vms_update k f t = t\<lparr>t_vms := rows_update vm_id k f (t_vms t)\<rparr>"

text \<open>Deleting a VM row cascades to its tags and its cleanup action.\<close>

definition vms_delete :: "string \<Rightarrow> tables \<Rightarrow> tables" where
  "vms_delete k t = t\<lparr>t_vms := rows_delete vm_id k (t_vms t),
     t_vm_tags := rows_delete fst k (t_vm_tags t),
     t_cleanup := rows_delete ca_vm_id k (t_cleanup t)\<rparr>"

definition cleanup_find :: "string \<Rightarrow> tables \<Rightarrow> cleanup_action option" where
  "cleanup_find k t = rows_find ca_vm_id k (t_cleanup t)"

definition cleanup_put :: "cleanup_action \<Rightarrow> tables \<Rightarrow> tables" where
  "cleanup_put a t = t\<lparr>t_cleanup := t_cleanup t @ [a]\<rparr>"

definition cleanup_update :: "string \<Rightarrow> (cleanup_action \<Rightarrow> cleanup_action) \<Rightarrow> tables \<Rightarrow> tables" where
  "cleanup_update k f t = t\<lparr>t_cleanup := rows_update ca_vm_id k f (t_cleanup t)\<rparr>"

definition cleanup_delete :: "string \<Rightarrow> tables \<Rightarrow> tables" where
  "cleanup_delete k t = t\<lparr>t_cleanup := rows_delete ca_vm_id k (t_cleanup t)\<rparr>"

definition queue_find :: "string \<Rightarrow> tables \<Rightarrow> queue_entry option" where
  "queue_find k t = rows_find q_id k (t_queue t)"

definition queue_put :: "queue_entry \<Rightarrow> tables \<Rightarrow> tables" where
  "queue_put q t = t\<lparr>t_queue := t_queue t @ [q]\<rparr>"

definition queue_update :: "string \<Rightarrow> (queue_entry \<Rightarrow> queue_entry) \<Rightarrow> tables \<Rightarrow> tables" where
  "queue_update k f t = t\<lparr>t_queue := rows_update q_id k f (t_queue t)\<rparr>"

definition queue_delete :: "string \<Rightarrow> tables \<Rightarrow> tables" where
  "queue_delete k t = t\<lparr>t_queue := rows_delete q_id k (t_queue t)\<rparr>"

text \<open>The contract the rest of the daemon uses a table through.\<close>

locale keyed_table =
  fixes key :: "'r \<Rightarrow> 'k"
    and find_row :: "'k \<Rightarrow> 't \<Rightarrow> 'r option"
    and put_row :: "'r \<Rightarrow> 't \<Rightarrow> 't"
    and update_row :: "'k \<Rightarrow> ('r \<Rightarrow> 'r) \<Rightarrow> 't \<Rightarrow> 't"
    and delete_row :: "'k \<Rightarrow> 't \<Rightarrow> 't"
  assumes find_key: "find_row k t = Some r \<Longrightarrow> key r = k"
    and find_put: "find_row k (put_row r t) =
        (case find_row k t of None \<Rightarrow> if k = key r then Some r else None | Some r' \<Rightarrow> Some r')"
    and find_update: "(\<And>r. key (f r) = key r) \<Longrightarrow>
        find_row j (update_row k f t) = map_option (\<lambda>r. if j = k then f r else r) (find_row j t)"
    and find_delete: "find_row j (delete_row k t) = (if j = k then None else find_row j t)"
begin

lemma find_put_fresh: "find_row (key r) t = None \<Longrightarrow> find_row (key r) (put_row r t) = Some r"
  by (simp add: find_put)

lemma find_put_other: "k \<noteq> key r \<Longrightarrow> find_row k (put_row r t) = find_row k t"
  by (simp add: find_put split: option.split)

lemma find_update_same: "(\<And>r. key (f r) = key r) \<Longrightarrow> find_row k t = Some r \<Longrightarrow>
    find_row k (update_row k f t) = Some (f r)"
  by (simp add: find_update)

lemma find_update_other: "(\<And>r. key (f r) = key r) \<Longrightarrow> j \<noteq> k \<Longrightarrow>
    find_row j (update_row k f t) = find_row j t"
  by (cases "find_row j t") (simp_all add: find_update)

lemma find_update_None: "(\<And>r. key (f r) = key r) \<Longrightarrow> find_row k t = None \<Longrightarrow>
    find_row j (update_row k f t) = find_row j t"
  by (cases "j = k"; cases "find_row j t") (simp_all add: find_update)

lemma find_delete_other: "j \<noteq> k \<Longrightarrow> find_row j (delete_row k t) = find_row j t"
  by (simp add: find_delete)

lemma find_delete_put: "find_row (key r) t = None \<Longrightarrow>
    find_row j (delete_row (key r) (put_row r t)) = find_row j t"
  by (simp add: find_delete find_put split: option.split)

lemmas find_simps = find_put find_update find_delete

end

interpretation vmt: keyed_table vm_id vms_find vms_put vms_update vms_delete
  by unfold_locales
    (auto simp: vms_find_def vms_put_def vms_update_def vms_delete_def table_simps
      split: option.split dest: rows_find_Some)

interpretation cat: keyed_table ca_vm_id cleanup_find cleanup_put cleanup_update cleanup_delete
  by unfold_locales
    (auto simp: cleanup_find_def cleanup_put_def cleanup_update_def cleanup_delete_def table_simps
      split: option.split dest: rows_find_Some)

interpretation qt: keyed_table q_id queue_find queue_put queue_update queue_delete
  by unfold_locales
    (auto simp: queue_find_def queue_put_def queue_update_def queue_delete_def table_simps
      split: option.split dest: rows_find_Some)

section \<open>Values on their way into a statement\<close>

text \<open>
  A bound parameter that meets a \<open>TEXT\<close> column: SQLite converts numbers to text, the Python
  driver refuses containers and integers beyond 64 bits. \<open>bind_text\<close> is the value a truthy
  parameter is compared as; \<open>store_text\<close> adds the \<open>NOT NULL\<close> constraint.
\<close>

fun bind_text :: "pyval \<Rightarrow> string option res" where
  "bind_text PNone = Inr None"
| "bind_text (PBool b) = Inr (Some (if b then ''1'' else ''0''))"
| "bind_text (PInt i) = (if - (2 ^ 63) \<le> i \<and> i < 2 ^ 63 then Inr (Some (show_int i))
     else Inl (PyExn ''OverflowError'' ''Python int too large to convert to SQLite INTEGER''))"
| "bind_text (PFloat _ r) = Inr (Some r)"
| "bind_text (PStr s) = Inr (Some s)"
| "bind_text (PList _) = Inl (PyExn ''ProgrammingError'' ''Error binding parameter: type list is not supported'')"
| "bind_text (PDict _) = Inl (PyExn ''ProgrammingError'' ''Error binding parameter: type dict is not supported'')"

definition integrity_error :: "string \<Rightarrow> exn" where
  "integrity_error msg = PyExn ''IntegrityError'' msg"

definition store_text :: "string \<Rightarrow> pyval \<Rightarrow> string res" where
  "store_text column v = bindr (bind_text v) (\<lambda>r. case r of
       None \<Rightarrow> Inl (integrity_error (''NOT NULL constraint failed: '' @ column))
     | Some s \<Rightarrow> Inr s)"

definition mod_db :: "(tables \<Rightarrow> tables) \<Rightarrow> ('w st, unit) pm" where
  "mod_db f = modify (\<lambda>s. s\<lparr>db := f (db s)\<rparr>)"

lemma wp_mod_db [wp_simps]: "wp (mod_db f) Q E s = Q () (s\<lparr>db := f (db s)\<rparr>)"
  by (simp add: mod_db_def wp_simps)

text \<open>\<open>LIMIT ?\<close>: a negative limit is no limit.\<close>

definition sql_limit :: "int \<Rightarrow> 'a list \<Rightarrow> 'a list" where
  "sql_limit n xs = (if n < 0 then xs else take (nat n) xs)"

section \<open>Projects\<close>

definition project_path :: "string \<Rightarrow> string \<Rightarrow> string" where
  "project_path pid path =
     (let p = (if path = [] then ''unknown'' else path)
      in if p = ''unknown'' then ''unknown:'' @ pid else p)"

text \<open>
  \<open>path\<close> is unique as well: the statement fails when another project holds the path.
\<close>

definition upsert_project :: "string \<Rightarrow> string \<Rightarrow> ('w st, unit) pm" where
  "upsert_project pid path =
     bindm clock (\<lambda>t.
     bindm (gets db) (\<lambda>d.
     let p = project_path pid path in
     if p \<in> p_path ` {r \<in> set (t_projects d). p_id r \<noteq> pid}
     then raise (integrity_error ''UNIQUE constraint failed: projects.path'')
     else if pid \<in> p_id ` set (t_projects d)
     then mod_db (\<lambda>d. d\<lparr>t_projects := rows_update p_id pid (\<lambda>r. r\<lparr>p_path := p, p_last_seen := t\<rparr>) (t_projects d)\<rparr>)
     else mod_db (\<lambda>d. d\<lparr>t_projects := t_projects d @
            [\<lparr>p_id = pid, p_path = p, p_first_seen = t, p_last_seen = t\<rparr>]\<rparr>)))"

section \<open>VMs\<close>

text \<open>
  \<open>INSERT OR REPLACE\<close> of one tag. The row of a VM is inserted before its tags: a value that is
  not a dict, or a tag that cannot be stored, raises after the row is in the table.
\<close>

definition insert_tag :: "string \<Rightarrow> string \<Rightarrow> string \<Rightarrow> tables \<Rightarrow> tables" where
  "insert_tag vid k v d =
     d\<lparr>t_vm_tags := filter (\<lambda>(i, j, _). (i, j) \<noteq> (vid, k)) (t_vm_tags d) @ [(vid, k, v)]\<rparr>"

definition insert_vm :: "vm \<Rightarrow> pyval \<Rightarrow> ('w st, unit) pm" where
  "insert_vm v tags =
     bindm (gets db) (\<lambda>d.
     bindm (guardm (vms_find (vm_id v) d \<noteq> None) (integrity_error ''UNIQUE constraint failed: vms.id'')) (\<lambda>_.
     bindm (guardm (vm_libvirt_name v \<in> vm_libvirt_name ` set (t_vms d))
             (integrity_error ''UNIQUE constraint failed: vms.libvirt_name'')) (\<lambda>_.
     bindm (guardm (vm_project_id v \<notin> p_id ` set (t_projects d))
             (integrity_error ''FOREIGN KEY constraint failed'')) (\<lambda>_.
     bindm (mod_db (vms_put (v\<lparr>vm_tags := []\<rparr>))) (\<lambda>_.
     case tags of
       PDict kvs \<Rightarrow> for_each kvs (\<lambda>(k, x).
         bindm (liftr (store_text ''vm_tags.value'' x)) (\<lambda>t. mod_db (insert_tag (vm_id v) k t)))
     | _ \<Rightarrow> raise (PyExn ''AttributeError'' ''object has no attribute items''))))))"

definition get_tags :: "tables \<Rightarrow> string \<Rightarrow> (string \<times> string) list" where
  "get_tags d vid = sort_key fst (map snd (filter (\<lambda>r. fst r = vid) (t_vm_tags d)))"

definition vm_from_row :: "tables \<Rightarrow> vm \<Rightarrow> vm" where
  "vm_from_row d r = r\<lparr>vm_tags := get_tags d (vm_id r)\<rparr>"

definition get_vm :: "pyval \<Rightarrow> ('w st, vm option) pm" where
  "get_vm vid = bindm (liftr (bind_text vid)) (\<lambda>k. gets (\<lambda>s. case k of None \<Rightarrow> None
     | Some i \<Rightarrow> map_option (vm_from_row (db s)) (vms_find i (db s))))"

text \<open>\<open>list_vms(project_id)\<close>: a falsy project id lists every row.\<close>

definition vms_of :: "string option \<Rightarrow> tables \<Rightarrow> vm list" where
  "vms_of pid d = map (vm_from_row d)
     (case pid of None \<Rightarrow> t_vms d | Some p \<Rightarrow> filter (\<lambda>r. vm_project_id r = p) (t_vms d))"

definition list_vms :: "pyval \<Rightarrow> ('w st, vm list) pm" where
  "list_vms pid = (if truthy pid then bindm (liftr (bind_text pid)) (\<lambda>p. gets (\<lambda>s. vms_of p (db s)))
     else gets (\<lambda>s. vms_of None (db s)))"

definition get_vm_by_libvirt_name :: "string \<Rightarrow> ('w st, vm option) pm" where
  "get_vm_by_libvirt_name n = gets (\<lambda>s. map_option (vm_from_row (db s))
     (find (\<lambda>r. vm_libvirt_name r = n) (t_vms (db s))))"

text \<open>The \<open>UPDATE vms SET ..., last_touched=? WHERE id=?\<close> statements.\<close>

definition update_vm :: "string \<Rightarrow> (vm \<Rightarrow> vm) \<Rightarrow> ('w st, unit) pm" where
  "update_vm vid f = bindm clock (\<lambda>t. mod_db (vms_update vid (\<lambda>r. (f r)\<lparr>vm_last_touched := t\<rparr>)))"

definition update_vm_state :: "string \<Rightarrow> string \<Rightarrow> ('w st, unit) pm" where
  "update_vm_state vid x = update_vm vid (\<lambda>r. r\<lparr>vm_state := x\<rparr>)"

definition update_vm_ip :: "string \<Rightarrow> string \<Rightarrow> ('w st, unit) pm" where
  "update_vm_ip vid ip = update_vm vid (\<lambda>r. r\<lparr>vm_ip := Some ip\<rparr>)"

definition update_vm_lease :: "string \<Rightarrow> instant \<Rightarrow> ('w st, unit) pm" where
  "update_vm_lease vid t = update_vm vid (\<lambda>r. r\<lparr>vm_lease_until := t\<rparr>)"

definition update_vm_install_state :: "string \<Rightarrow> string option \<Rightarrow> ('w st, unit) pm" where
  "update_vm_install_state vid x = update_vm vid (\<lambda>r. r\<lparr>vm_install_state := x\<rparr>)"

definition touch_vm :: "string \<Rightarrow> ('w st, unit) pm" where
  "touch_vm vid = update_vm vid (\<lambda>r. r)"

definition count_installing_vms :: "('w st, int) pm" where
  "count_installing_vms =
     gets (\<lambda>s. int (length (filter (\<lambda>r. vm_install_state r = Some ''installing'') (t_vms (db s)))))"

definition delete_vm :: "string \<Rightarrow> ('w st, unit) pm" where
  "delete_vm vid = mod_db (vms_delete vid)"

definition purge_ghost_record :: "string \<Rightarrow> ('w st, unit) pm" where
  "purge_ghost_record vid = mod_db (vms_delete vid)"

section \<open>Queue\<close>

definition enqueue :: "pyval \<Rightarrow> pydict \<Rightarrow> string \<Rightarrow> ('w st, string) pm" where
  "enqueue pid request reason =
     bindm uuid4_hex (\<lambda>h. let i = ''q_'' @ take 12 h in
     bindm (liftr (store_text ''queue.project_id'' pid)) (\<lambda>p.
     bindm clock (\<lambda>t.
     bindm (gets db) (\<lambda>d.
     bindm (guardm (queue_find i d \<noteq> None) (integrity_error ''UNIQUE constraint failed: queue.id'')) (\<lambda>_.
     bindm (mod_db (queue_put \<lparr>q_id = i, q_project_id = p, q_request = request, q_priority = 0,
        q_status = ''pending'', q_reason = reason, q_created_at = t\<rparr>)) (\<lambda>_. ret i))))))"

definition get_queue_entry :: "string \<Rightarrow> ('w st, queue_entry option) pm" where
  "get_queue_entry i = gets (\<lambda>s. queue_find i (db s))"

text \<open>\<open>ORDER BY priority DESC, created_at ASC\<close>, ties in insertion order.\<close>

definition pending_queue :: "tables \<Rightarrow> queue_entry list" where
  "pending_queue d = sort_key (\<lambda>q. - q_priority q) (sort_key q_created_at
     (filter (\<lambda>q. q_status q = ''pending'') (t_queue d)))"

definition list_pending_queue :: "('w st, queue_entry list) pm" where
  "list_pending_queue = gets (\<lambda>s. pending_queue (db s))"

definition update_queue_status :: "string \<Rightarrow> string \<Rightarrow> ('w st, unit) pm" where
  "update_queue_status i x = mod_db (queue_update i (\<lambda>q. q\<lparr>q_status := x\<rparr>))"

text \<open>SQLite's \<open>datetime()\<close> keeps whole seconds of both sides of the comparison.\<close>

definition queue_expired :: "instant \<Rightarrow> int \<Rightarrow> queue_entry \<Rightarrow> bool" where
  "queue_expired t older_than q \<longleftrightarrow> q_status q = ''pending'' \<and>
     q_created_at q div seconds 1 < t div seconds 1 - older_than * 3600"

definition expire_old_queue_entries :: "int \<Rightarrow> ('w st, int) pm" where
  "expire_old_queue_entries older_than =
     bindm clock (\<lambda>t.
     bindm (gets (\<lambda>s. int (length (filter (queue_expired t older_than) (t_queue (db s)))))) (\<lambda>n.
     bindm (mod_db (\<lambda>d. d\<lparr>t_queue := map (\<lambda>q. if queue_expired t older_than q
        then q\<lparr>q_status := ''expired''\<rparr> else q) (t_queue d)\<rparr>)) (\<lambda>_. ret n)))"

section \<open>Project activity and cleanup actions\<close>

text \<open>The caller's user is any JSON value; an empty one is stored as the empty string.\<close>

definition record_project_call :: "string \<Rightarrow> string \<Rightarrow> pyval \<Rightarrow> ('w st, string) pm" where
  "record_project_call pid method user =
     bindm uuid4_hex (\<lambda>h. let i = ''call_'' @ take 12 h in
     bindm (liftr (store_text ''project_call_log.caller_user'' (py_or user (PStr [])))) (\<lambda>u.
     bindm clock (\<lambda>t.
     bindm (gets db) (\<lambda>d.
     bindm (guardm (i \<in> call_id ` set (t_calls d))
        (integrity_error ''UNIQUE constraint failed: project_call_log.id'')) (\<lambda>_.
     bindm (mod_db (\<lambda>d. d\<lparr>t_calls := t_calls d @ [\<lparr>call_id = i, call_project_id = pid,
        call_method = method, call_user = u, call_at = t\<rparr>]\<rparr>)) (\<lambda>_. ret i))))))"

definition calls_since :: "string \<Rightarrow> instant \<Rightarrow> tables \<Rightarrow> int" where
  "calls_since pid since d =
     int (length (filter (\<lambda>c. call_project_id c = pid \<and> call_at c \<ge> since) (t_calls d)))"

definition count_project_calls_since :: "string \<Rightarrow> instant \<Rightarrow> ('w st, int) pm" where
  "count_project_calls_since pid since = gets (\<lambda>s. calls_since pid since (db s))"

definition prune_project_call_log :: "instant \<Rightarrow> ('w st, int) pm" where
  "prune_project_call_log older_than =
     bindm (gets (\<lambda>s. int (length (filter (\<lambda>c. call_at c < older_than) (t_calls (db s)))))) (\<lambda>n.
     bindm (mod_db (\<lambda>d. d\<lparr>t_calls := filter (\<lambda>c. \<not> call_at c < older_than) (t_calls d)\<rparr>)) (\<lambda>_. ret n))"

definition get_cleanup_action :: "string \<Rightarrow> ('w st, cleanup_action option) pm" where
  "get_cleanup_action vid = gets (\<lambda>s. cleanup_find vid (db s))"

definition upsert_cleanup_action :: "cleanup_action \<Rightarrow> ('w st, unit) pm" where
  "upsert_cleanup_action a =
     bindm (gets db) (\<lambda>d.
     bindm (guardm (ca_vm_id a \<notin> vm_id ` set (t_vms d)) (integrity_error ''FOREIGN KEY constraint failed'')) (\<lambda>_.
     if cleanup_find (ca_vm_id a) d \<noteq> None then mod_db (cleanup_update (ca_vm_id a) (\<lambda>_. a))
     else mod_db (cleanup_put a)))"

definition delete_cleanup_action :: "string \<Rightarrow> ('w st, unit) pm" where
  "delete_cleanup_action vid = mod_db (cleanup_delete vid)"

section \<open>Notifications\<close>

text \<open>
  The details pass through \<open>json.dumps(..., sort_keys=True)\<close> and \<open>json.loads\<close>: the stored value
  has the keys of every object in order.
\<close>

fun sort_json :: "pyval \<Rightarrow> pyval" where
  "sort_json (PList xs) = PList (map sort_json xs)"
| "sort_json (PDict kvs) = PDict (sort_key fst (map (\<lambda>(k, v). (k, sort_json v)) kvs))"
| "sort_json v = v"

definition sort_details :: "pydict \<Rightarrow> pydict" where
  "sort_details kvs = sort_key fst (map (\<lambda>(k, v). (k, sort_json v)) kvs)"

definition add_project_notification ::
    "string \<Rightarrow> string \<Rightarrow> string \<Rightarrow> string option \<Rightarrow> pydict \<Rightarrow> ('w st, notification) pm" where
  "add_project_notification pid level message vid details =
     bindm uuid4_hex (\<lambda>h. let i = ''note_'' @ take 12 h in
     bindm clock (\<lambda>t.
     bindm (gets db) (\<lambda>d.
     bindm (guardm (i \<in> n_id ` set (t_notes d))
        (integrity_error ''UNIQUE constraint failed: project_notifications.id'')) (\<lambda>_.
     let n = \<lparr>n_id = i, n_project_id = pid, n_vm_id = vid, n_level = level, n_message = message,
        n_details = details, n_status = ''pending'', n_created_at = t, n_delivered_at = None\<rparr> in
     bindm (mod_db (\<lambda>d. d\<lparr>t_notes := t_notes d @ [n\<lparr>n_details := sort_details details\<rparr>]\<rparr>)) (\<lambda>_.
     ret n)))))"

definition pending_notes :: "string \<Rightarrow> tables \<Rightarrow> notification list" where
  "pending_notes pid d = sort_key n_created_at
     (filter (\<lambda>n. n_project_id n = pid \<and> n_status n = ''pending'') (t_notes d))"

definition list_pending_project_notifications :: "pyval \<Rightarrow> int \<Rightarrow> ('w st, notification list) pm" where
  "list_pending_project_notifications pid n = bindm (liftr (bind_text pid)) (\<lambda>p.
     gets (\<lambda>s. case p of None \<Rightarrow> [] | Some p \<Rightarrow> sql_limit n (pending_notes p (db s))))"

definition mark_project_notifications_delivered :: "string list \<Rightarrow> ('w st, unit) pm" where
  "mark_project_notifications_delivered ids = (if ids = [] then ret () else
     bindm clock (\<lambda>t. mod_db (\<lambda>d. d\<lparr>t_notes := map (\<lambda>n. if n_id n \<in> set ids
        then n\<lparr>n_status := ''delivered'', n_delivered_at := Some t\<rparr> else n) (t_notes d)\<rparr>)))"

section \<open>Events\<close>

definition add_event :: "string \<Rightarrow> string \<Rightarrow> string option \<Rightarrow> string option \<Rightarrow> ('w st, unit) pm" where
  "add_event level message pid vid =
     bindm uuid4_hex (\<lambda>h. let i = ''ev_'' @ take 12 h in
     bindm clock (\<lambda>t.
     bindm (gets db) (\<lambda>d.
     bindm (guardm (i \<in> ev_id ` set (t_events d)) (integrity_error ''UNIQUE constraint failed: events.id'')) (\<lambda>_.
     mod_db (\<lambda>d. d\<lparr>t_events := t_events d @ [\<lparr>ev_id = i, ev_project_id = pid, ev_vm_id = vid,
        ev_level = level, ev_message = message, ev_created_at = t\<rparr>]\<rparr>)))))"

text \<open>
  \<open>ORDER BY created_at DESC\<close> walks the index on \<open>created_at\<close> backwards: of two events of the
  same instant the later one comes first.
\<close>

definition select_events :: "instant option \<Rightarrow> string option \<Rightarrow> int \<Rightarrow> tables \<Rightarrow> event list" where
  "select_events since level limit d = sql_limit limit (rev (sort_key ev_created_at
     (filter (\<lambda>e. (case since of None \<Rightarrow> True | Some t \<Rightarrow> ev_created_at e > t) \<and>
        (case level of None \<Rightarrow> True | Some l \<Rightarrow> ev_level e = l)) (t_events d))))"

definition list_events :: "instant option \<Rightarrow> pyval \<Rightarrow> int \<Rightarrow> ('w st, event list) pm" where
  "list_events since level limit =
     bindm (if truthy level then liftr (bind_text level) else ret None) (\<lambda>l.
     gets (\<lambda>s. select_events since l limit (db s)))"

section \<open>The schema's constraints are kept\<close>

named_theorems ok_keeps \<open>operations that keep the schema's constraints\<close>

definition ok_step :: "'w st \<Rightarrow> 'w st \<Rightarrow> bool" where
  "ok_step s t \<longleftrightarrow> (db_ok (db s) \<longrightarrow> db_ok (db t))"

interpretation okf: frame ok_step
  by unfold_locales (auto simp: ok_step_def)

lemma ok_mod_db: "(\<And>d. db_ok d \<Longrightarrow> db_ok (f d)) \<Longrightarrow> keeps ok_step (mod_db f)"
  by (rule keepsI_wp) (simp add: ok_step_def wp_simps)

lemma ok_clock [ok_keeps]: "keeps ok_step clock"
  by (rule keepsI_wp) (simp add: ok_step_def wp_simps)

lemma ok_uuid [ok_keeps]: "keeps ok_step uuid4_hex"
  by (rule keepsI_wp) (simp add: ok_step_def wp_simps)

lemma ok_spawn [ok_keeps]: "keeps ok_step (spawn t)"
  by (rule keepsI_wp) (simp add: ok_step_def wp_simps)

lemma ok_in_world [ok_keeps]: "keeps ok_step (in_world m)"
  by (simp add: keeps_def ok_step_def in_world_def split: prod.split)

lemma db_ok_vms_update:
  assumes "\<And>r. vm_id (f r) = vm_id r" "\<And>r. vm_libvirt_name (f r) = vm_libvirt_name r"
    "\<And>r. vm_project_id (f r) = vm_project_id r" "db_ok d"
  shows "db_ok (vms_update k f d)"
proof -
  have "map key (rows_update vm_id k f rs) = map key rs" if "\<And>r. key (f r) = key r"
    for key :: "vm \<Rightarrow> string" and rs by (simp add: rows_update_def that)
  then have m: "map vm_id (rows_update vm_id k f rs) = map vm_id rs"
    "map vm_libvirt_name (rows_update vm_id k f rs) = map vm_libvirt_name rs"
    "map vm_project_id (rows_update vm_id k f rs) = map vm_project_id rs" for rs
    using assms(1-3) by blast+
  then have "vm_id ` set (rows_update vm_id k f rs) = vm_id ` set rs"
    "vm_project_id ` set (rows_update vm_id k f rs) = vm_project_id ` set rs" for rs
    by (metis list.set_map)+
  with m assms(4) show ?thesis by (simp add: db_ok_def vms_update_def)
qed

lemma db_ok_vms_delete: "db_ok d \<Longrightarrow> db_ok (vms_delete k d)"
  by (auto simp: db_ok_def vms_delete_def table_simps rows_delete_def distinct_map_filter)

lemma ok_update_vm:
  "(\<And>r. vm_id (f r) = vm_id r) \<Longrightarrow> (\<And>r. vm_libvirt_name (f r) = vm_libvirt_name r) \<Longrightarrow>
   (\<And>r. vm_project_id (f r) = vm_project_id r) \<Longrightarrow> keeps ok_step (update_vm k f)"
  unfolding update_vm_def
  by (intro okf.bindm_keeps ok_clock ok_mod_db db_ok_vms_update) auto

lemma ok_vm_updates [ok_keeps]:
  "keeps ok_step (update_vm_state k x)" "keeps ok_step (update_vm_ip k ip)"
  "keeps ok_step (update_vm_lease k t)" "keeps ok_step (update_vm_install_state k is)"
  "keeps ok_step (touch_vm k)"
  by (simp_all add: update_vm_state_def update_vm_ip_def update_vm_lease_def
      update_vm_install_state_def touch_vm_def ok_update_vm)

lemma ok_delete_vm [ok_keeps]: "keeps ok_step (delete_vm k)" "keeps ok_step (purge_ghost_record k)"
  by (simp_all add: delete_vm_def purge_ghost_record_def ok_mod_db db_ok_vms_delete)

lemma ok_same_tables:
  "(\<And>d. t_projects (f d) = t_projects d \<and> t_vms (f d) = t_vms d \<and> t_vm_tags (f d) = t_vm_tags d \<and>
      t_cleanup (f d) = t_cleanup d) \<Longrightarrow> keeps ok_step (mod_db f)"
  by (rule ok_mod_db) (simp add: db_ok_def)

lemma ok_upsert_project [ok_keeps]: "keeps ok_step (upsert_project pid path)"
proof (rule keepsI_wp, goal_cases)
  case (1 s)
  let ?p = "project_path pid path"
  have upd: "map p_id (rows_update p_id pid (\<lambda>r. r\<lparr>p_path := ?p, p_last_seen := t\<rparr>) rs) = map p_id rs"
    for rs :: "project list" and t by (rule map_key_rows_update) simp
  have paths: "distinct (map p_path (rows_update p_id pid (\<lambda>r. r\<lparr>p_path := ?p, p_last_seen := t\<rparr>) rs))"
    if "distinct (map p_id rs)" "distinct (map p_path rs)"
      "?p \<notin> p_path ` {r \<in> set rs. p_id r \<noteq> pid}" for rs :: "project list" and t
    using that
  proof (induction rs)
    case (Cons r rs)
    show ?case
    proof (cases "p_id r = pid")
      case True
      with Cons.prems(1) have notin: "pid \<notin> p_id ` set rs" by auto
      have "?p \<notin> p_path ` set rs"
      proof
        assume "?p \<in> p_path ` set rs"
        then obtain x where "x \<in> set rs" "?p = p_path x" by blast
        with notin have "x \<in> {r' \<in> set (r # rs). p_id r' \<noteq> pid}" by auto
        with Cons.prems(3) \<open>?p = p_path x\<close> show False by blast
      qed
      moreover have "rows_update p_id pid f (r # rs) = f r # rs" for f
        using True rows_update_notin [OF notin] by (simp add: rows_update_def)
      ultimately show ?thesis using Cons.prems(2) by simp
    next
      case False
      with Cons.prems have "distinct (map p_path (rows_update p_id pid (\<lambda>r. r\<lparr>p_path := ?p, p_last_seen := t\<rparr>) rs))"
        by (intro Cons.IH) auto
      moreover have "?p \<noteq> p_path r" using Cons.prems(3) False by fastforce
      ultimately show ?thesis using False Cons.prems by (auto simp: rows_update_def split: if_splits)
    qed
  qed (simp add: rows_update_def)
  have ids: "p_id ` set (rows_update p_id pid (\<lambda>r. r\<lparr>p_path := ?p, p_last_seen := t\<rparr>) rs) = p_id ` set rs"
    for rs :: "project list" and t by (metis list.set_map upd)
  show ?case
    unfolding upsert_project_def Let_def
    by (simp add: wp_simps ok_step_def)
      (auto simp: db_ok_def upd ids paths)
qed

lemma db_ok_insert_tag:
  assumes "db_ok d" "vid \<in> vm_id ` set (t_vms d)"
  shows "db_ok (insert_tag vid k v d)"
proof -
  let ?ts = "filter (\<lambda>(i, j, _). (i, j) \<noteq> (vid, k)) (t_vm_tags d) @ [(vid, k, v)]"
  from assms have "distinct (map (\<lambda>(v, k, _). (v, k)) (t_vm_tags d))"
    and fk: "fst ` set (t_vm_tags d) \<subseteq> vm_id ` set (t_vms d)" by (simp_all add: db_ok_def)
  then have "distinct (map (\<lambda>(v, k, _). (v, k)) (filter (\<lambda>(i, j, _). (i, j) \<noteq> (vid, k)) (t_vm_tags d)))"
    by (simp add: distinct_map_filter)
  moreover have "(vid, k) \<notin> (\<lambda>(v, k, _). (v, k)) ` set (filter (\<lambda>(i, j, _). (i, j) \<noteq> (vid, k)) (t_vm_tags d))"
    by (auto split: prod.splits)
  ultimately have "distinct (map (\<lambda>(v, k, _). (v, k)) ?ts)" by simp
  moreover have "fst ` set ?ts \<subseteq> insert vid (fst ` set (t_vm_tags d))"
    by (simp add: image_subset_iff)
  with fk assms(2) have "fst ` set ?ts \<subseteq> vm_id ` set (t_vms d)" by blast
  ultimately show ?thesis using assms by (simp add: db_ok_def insert_tag_def)
qed

lemma t_vms_insert_tag [simp]: "t_vms (insert_tag vid k v d) = t_vms d"
  by (simp add: insert_tag_def)

lemma ok_insert_tags:
  "db_ok (db s) \<and> vid \<in> vm_id ` set (t_vms (db s)) \<Longrightarrow>
   wp (for_each kvs (\<lambda>(k, x). bindm (liftr (store_text c x)) (\<lambda>t. mod_db (insert_tag vid k t))))
     (\<lambda>_ s'. db_ok (db s') \<and> vid \<in> vm_id ` set (t_vms (db s'))) (\<lambda>_ s'. db_ok (db s')) s"
proof (induction kvs arbitrary: s)
  case (Cons p kvs)
  obtain k x where p: "p = (k, x)" by (cases p)
  show ?case
    by (simp add: wp_simps p) (intro allI impI conjI Cons.IH; use Cons.prems in
      \<open>simp add: db_ok_insert_tag\<close>)
qed (simp add: wp_simps)

lemma db_ok_vms_put:
  "db_ok d \<Longrightarrow> vms_find (vm_id v) d = None \<Longrightarrow> vm_libvirt_name v \<notin> vm_libvirt_name ` set (t_vms d) \<Longrightarrow>
   vm_project_id v \<in> p_id ` set (t_projects d) \<Longrightarrow> db_ok (vms_put (v\<lparr>vm_tags := []\<rparr>) d)"
  by (auto simp: db_ok_def vms_put_def vms_find_def rows_find_None)

lemma ok_insert_vm [ok_keeps]: "keeps ok_step (insert_vm v tags)"
proof (rule keepsI_wp, goal_cases)
  case (1 s)
  show ?case
    unfolding insert_vm_def
  proof (cases tags, goal_cases)
    case (7 kvs)
    have "wp (for_each kvs (\<lambda>(k, x). bindm (liftr (store_text ''vm_tags.value'' x)) (\<lambda>t. mod_db (insert_tag (vm_id v) k t))))
       (\<lambda>_ s'. db_ok (db s')) (\<lambda>_ s'. db_ok (db s')) (s\<lparr>db := vms_put (v\<lparr>vm_tags := []\<rparr>) (db s)\<rparr>)"
      if "db_ok (db s)" "vms_find (vm_id v) (db s) = None"
        "vm_libvirt_name v \<notin> vm_libvirt_name ` set (t_vms (db s))"
        "vm_project_id v \<in> p_id ` set (t_projects (db s))"
      by (rule wp_mono [OF ok_insert_tags [where vid = "vm_id v"]])
        (use that in \<open>simp_all add: db_ok_vms_put, simp_all add: vms_put_def\<close>)
    then show ?case
      using 7 by (cases "db_ok (db s)") (auto simp: wp_simps ok_step_def [abs_def])
  qed (auto simp: wp_simps ok_step_def db_ok_vms_put)
qed

lemma ok_queue_ops [ok_keeps]:
  "keeps ok_step (enqueue pid request reason)" "keeps ok_step (update_queue_status i x)"
  "keeps ok_step (expire_old_queue_entries h)"
  unfolding enqueue_def update_queue_status_def expire_old_queue_entries_def Let_def
  by (intro okf.frame_keeps ok_keeps ok_same_tables keeps_splits;
      simp add: queue_put_def queue_update_def)+

lemma ok_call_ops [ok_keeps]:
  "keeps ok_step (record_project_call pid m u)" "keeps ok_step (prune_project_call_log t)"
  unfolding record_project_call_def prune_project_call_log_def Let_def
  by (intro okf.frame_keeps ok_keeps ok_same_tables keeps_splits; simp)+

lemma ok_note_ops [ok_keeps]:
  "keeps ok_step (add_project_notification pid l m v d)"
  "keeps ok_step (mark_project_notifications_delivered ids)" "keeps ok_step (add_event l m p v)"
  unfolding add_project_notification_def mark_project_notifications_delivered_def add_event_def Let_def
  by (intro okf.frame_keeps ok_keeps ok_same_tables keeps_splits; simp)+

lemma ok_delete_cleanup [ok_keeps]: "keeps ok_step (delete_cleanup_action k)"
  unfolding delete_cleanup_action_def
  by (rule ok_mod_db) (auto simp: db_ok_def cleanup_delete_def table_simps)

lemma ok_upsert_cleanup [ok_keeps]: "keeps ok_step (upsert_cleanup_action a)"
proof (rule keepsI_wp, goal_cases)
  case (1 s)
  have upd: "map ca_vm_id (rows_update ca_vm_id (ca_vm_id a) (\<lambda>_. a) rs) = map ca_vm_id rs" for rs
    by (simp add: rows_update_def)
  then have "ca_vm_id ` set (rows_update ca_vm_id (ca_vm_id a) (\<lambda>_. a) rs) = ca_vm_id ` set rs" for rs
    by (metis list.set_map)
  with upd show ?case
    unfolding upsert_cleanup_action_def
    by (auto simp: wp_simps ok_step_def db_ok_def cleanup_update_def cleanup_put_def cleanup_find_def
        rows_find_None)
qed

lemma ok_reads [ok_keeps]:
  "keeps ok_step (get_vm v)" "keeps ok_step (list_vms p)" "keeps ok_step (get_vm_by_libvirt_name n)"
  "keeps ok_step (count_installing_vms)" "keeps ok_step (get_queue_entry i)"
  "keeps ok_step list_pending_queue" "keeps ok_step (count_project_calls_since q t)"
  "keeps ok_step (get_cleanup_action k)" "keeps ok_step (list_pending_project_notifications p j)"
  "keeps ok_step (list_events since level j)"
  unfolding get_vm_def list_vms_def get_vm_by_libvirt_name_def count_installing_vms_def
    get_queue_entry_def list_pending_queue_def count_project_calls_since_def get_cleanup_action_def
    list_pending_project_notifications_def list_events_def
  by (intro okf.frame_keeps keeps_splits)+

lemma vm_from_row_fields [simp]:
  "vm_id (vm_from_row d r) = vm_id r" "vm_project_id (vm_from_row d r) = vm_project_id r"
  "vm_owner_user (vm_from_row d r) = vm_owner_user r" "vm_libvirt_name (vm_from_row d r) = vm_libvirt_name r"
  "vm_state (vm_from_row d r) = vm_state r" "vm_kind (vm_from_row d r) = vm_kind r"
  "vm_lease_until (vm_from_row d r) = vm_lease_until r" "vm_ip (vm_from_row d r) = vm_ip r"
  "vm_disk_gb (vm_from_row d r) = vm_disk_gb r" "vm_display_name (vm_from_row d r) = vm_display_name r"
  "vm_origin (vm_from_row d r) = vm_origin r"
  by (simp_all add: vm_from_row_def)

end
