(* ===== verification/Guest.thy ===== *)
theory Guest
  imports Db Config VmOps Base64
begin

text \<open>
  \<open>boxerd/guest_agent.py\<close>: commands, files, screenshots and keys for a running guest. The SSH
  library is the record \<open>g\<close>; the command lines sent through it are built here, with
  \<open>shlex.quote\<close> of the standard library.
\<close>

section \<open>Quoting for a shell\<close>

definition shell_safe :: "char \<Rightarrow> bool" where
  "shell_safe c = (is_ascii_letter c \<or> is_ascii_digit c \<or> c \<in> set ''_@%+=:,./-'')"

definition shlex_quote :: "string \<Rightarrow> string" where
  "shlex_quote s = (if s = [] then [squote, squote]
     else if list_all shell_safe s then s
     else [squote] @ replace_char squote [squote, dquote, squote, dquote, squote] s @ [squote])"

text \<open>
  What a POSIX shell makes of a word of safe characters, single-quoted parts and double-quoted
  parts without expansions. \<open>None\<close> is anything else, in particular a word that ends early.
\<close>

fun sh_word :: "char option \<Rightarrow> string \<Rightarrow> string option" where
  "sh_word None [] = Some []"
| "sh_word (Some _) [] = None"
| "sh_word None (c # s) =
     (if c = squote \<or> c = dquote then sh_word (Some c) s
      else if shell_safe c then map_option (Cons c) (sh_word None s) else None)"
| "sh_word (Some q) (c # s) =
     (if c = q then sh_word None s
      else if q = dquote \<and> c \<in> {CHR ''$'', CHR ''`'', CHR 0x5C, CHR ''!''} then None
      else map_option (Cons c) (sh_word (Some q) s))"

section \<open>The SSH library and the host's image tools\<close>

record ssh_result =
  sr_exit_status :: "int option"
  sr_stdout :: string
  sr_stderr :: string

record 'w guest_env =
  ge_connect :: "string \<Rightarrow> string \<Rightarrow> int \<Rightarrow> ('w, nat) pm"
  ge_run :: "nat \<Rightarrow> string \<Rightarrow> string option \<Rightarrow> int \<Rightarrow> ('w, ssh_result) pm"
  ge_retries :: "int \<Rightarrow> ('w, nat) pm"
  ge_tmpdir :: "('w, string) pm"
  ge_pil_convert :: "string \<Rightarrow> string \<Rightarrow> ('w, unit) pm"
  ge_read_bytes :: "string \<Rightarrow> ('w, string) pm"

text \<open>\<open>ge_retries t\<close> is how often a failed connection is tried again within \<open>t\<close> seconds.\<close>

section \<open>Connecting and running\<close>

definition exists_opt :: "'w os \<Rightarrow> string option \<Rightarrow> ('w, bool) pm" where
  "exists_opt h p = (case p of None \<Rightarrow> ret False | Some q \<Rightarrow> os_exists h q)"

definition resolve_privkey :: "'w os \<Rightarrow> pydict \<Rightarrow> string option \<Rightarrow> ('w, string) pm" where
  "resolve_privkey h d fallback =
     bindm (boxer_ssh_privkey_path h d) (\<lambda>p.
     bindm (exists_opt h p) (\<lambda>a.
     bindm (if a then ret False else exists_opt h fallback) (\<lambda>b.
     let key = (if b then fallback else p) in
     bindm (exists_opt h key) (\<lambda>k.
     case key of
       Some q \<Rightarrow> if k then ret q else
         raise (ipc_error ERR_INVALID_PARAMS ''No SSH private key configured (boxer_ssh_privkey_path)'')
     | None \<Rightarrow> raise (ipc_error ERR_INVALID_PARAMS ''No SSH private key configured (boxer_ssh_privkey_path)'')))))"

definition connect_failure :: "exn \<Rightarrow> bool" where
  "connect_failure e \<longleftrightarrow> in_class ''OSError'' e \<or> in_class ''asyncssh.Error'' e \<or> in_class ''TimeoutError'' e"

primrec connect_rounds :: "'w guest_env \<Rightarrow> string \<Rightarrow> string \<Rightarrow> int \<Rightarrow> nat \<Rightarrow> ('w, nat) pm" where
  "connect_rounds g ip key timeout 0 = catch (ge_connect g ip key timeout)
     (\<lambda>e. if connect_failure e then raise (ipc_error ERR_INTERNAL (''SSH connect failed: '' @ exn_text e)) else raise e)"
| "connect_rounds g ip key timeout (Suc n) = catch (ge_connect g ip key timeout)
     (\<lambda>e. if connect_failure e then connect_rounds g ip key timeout n else raise e)"

definition ssh_connect :: "'w os \<Rightarrow> 'w guest_env \<Rightarrow> pydict \<Rightarrow> string \<Rightarrow> int \<Rightarrow> string option \<Rightarrow> int \<Rightarrow> ('w, nat) pm" where
  "ssh_connect h g d ip timeout fallback wait_ssh =
     bindm (resolve_privkey h d fallback) (\<lambda>key.
     bindm (ge_retries g (max 0 wait_ssh)) (connect_rounds g ip key timeout))"

text \<open>The three \<open>except\<close> clauses around a session.\<close>

definition ssh_guard :: "string \<Rightarrow> string \<Rightarrow> ('s, 'a) pm \<Rightarrow> ('s, 'a) pm" where
  "ssh_guard what timed_out m = catch m (\<lambda>e.
     if in_class ''TimeoutError'' e then raise (ipc_error ERR_INTERNAL timed_out)
     else if is_ipc_error e then raise e
     else raise (ipc_error ERR_INTERNAL (what @ '' failed: '' @ exn_text e)))"

definition detach_command :: "string \<Rightarrow> string \<Rightarrow> string" where
  "detach_command log_path command =
     ''setsid nohup sh -c '' @ shlex_quote command @ '' > '' @ log_path @ '' 2>&1 < /dev/null & echo $!''"

definition exec_ssh :: "'w os \<Rightarrow> 'w guest_env \<Rightarrow> pydict \<Rightarrow> string \<Rightarrow> string \<Rightarrow> int \<Rightarrow> string option \<Rightarrow> bool \<Rightarrow> int \<Rightarrow>
    ('w st, pydict) pm" where
  "exec_ssh h g d ip command timeout fallback detach wait_ssh =
     bindm (if detach then bindm uuid4_hex (\<lambda>u. ret (''/tmp/boxer-job-'' @ take 12 u @ ''.log'')) else ret []) (\<lambda>log_path.
     let command = (if detach then detach_command log_path command else command) in
     bindm (in_world (ssh_connect h g d ip timeout fallback wait_ssh)) (\<lambda>conn.
     bindm (ssh_guard ''SSH exec'' (''SSH exec timed out after '' @ show_int timeout @ ''s'')
       (in_world (ge_run g conn command None timeout))) (\<lambda>r.
     ret ([(''stdout'', PStr (sr_stdout r)), (''stderr'', PStr (sr_stderr r)),
           (''exit_code'', PInt (case sr_exit_status r of None \<Rightarrow> 0 | Some n \<Rightarrow> n))]
          @ (if detach then [(''detached'', PBool True), (''pid'', PStr (strip (sr_stdout r))),
               (''log_path'', PStr log_path)] else [])))))"

section \<open>Files\<close>

record push_file =
  pf_path :: string
  pf_data :: string
  pf_mode :: "int option"
  pf_extract :: bool

text \<open>\<open>f"{n:o}"\<close>.\<close>

fun show_oct :: "nat \<Rightarrow> string" where
  "show_oct n = (if n < 8 then [digit_char n] else show_oct (n div 8) @ [digit_char (n mod 8)])"

declare show_oct.simps [simp del]

definition extract_command :: "string \<Rightarrow> string \<Rightarrow> string \<Rightarrow> string" where
  "extract_command prefix tmp path = (let q = shlex_quote path in
     ''cat > '' @ tmp @ '' && '' @ prefix @ ''mkdir -p '' @ q @ '' && '' @ prefix @ ''tar -xzf '' @ tmp @ '' -C '' @ q @
     ''; rc=$?; rm -f '' @ tmp @ ''; exit $rc'')"

definition write_command :: "string \<Rightarrow> string \<Rightarrow> int option \<Rightarrow> string" where
  "write_command prefix path mode = (let q = shlex_quote path in
     prefix @ ''mkdir -p $(dirname '' @ q @ '') && '' @ prefix @ ''tee '' @ q @ '' > /dev/null'' @
     (case mode of None \<Rightarrow> [] | Some n \<Rightarrow> '' && '' @ prefix @ ''chmod '' @ show_oct (nat n) @ '' '' @ q))"

definition push_one :: "'w guest_env \<Rightarrow> nat \<Rightarrow> string \<Rightarrow> int \<Rightarrow> push_file \<Rightarrow> ('w st, pyval) pm" where
  "push_one g conn prefix timeout f =
     bindm (if pf_extract f then bindm uuid4_hex (\<lambda>u.
         ret (extract_command prefix (''/tmp/boxer-push-'' @ take 12 u @ ''.tgz'') (pf_path f)))
       else ret (write_command prefix (pf_path f) (pf_mode f))) (\<lambda>cmd.
     bindm (in_world (ge_run g conn cmd (Some (pf_data f)) timeout)) (\<lambda>r.
     case sr_exit_status r of
       Some n \<Rightarrow>
         if n \<noteq> 0 then let err = strip (sr_stderr r) in
           raise (ipc_error ERR_INTERNAL (''push to '' @ pf_path f @ '' failed: '' @
             (if err \<noteq> [] then err else show_int n)))
         else ret (PDict [(''path'', PStr (pf_path f)), (''bytes'', PInt (int (length (pf_data f)))),
           (''extracted'', PBool (pf_extract f))])
     | None \<Rightarrow> ret (PDict [(''path'', PStr (pf_path f)), (''bytes'', PInt (int (length (pf_data f)))),
           (''extracted'', PBool (pf_extract f))])))"

definition push_files :: "'w os \<Rightarrow> 'w guest_env \<Rightarrow> pydict \<Rightarrow> string \<Rightarrow> push_file list \<Rightarrow> int \<Rightarrow> string option \<Rightarrow> bool \<Rightarrow>
    ('w st, pyval list) pm" where
  "push_files h g d ip files timeout fallback sudo =
     bindm (in_world (ssh_connect h g d ip timeout fallback 0)) (\<lambda>conn.
     ssh_guard ''push'' (''push timed out after '' @ show_int timeout @ ''s'')
       (mapm (push_one g conn (if sudo then ''sudo -n '' else []) timeout) files))"

definition pull_command :: "string \<Rightarrow> string \<Rightarrow> int \<Rightarrow> string" where
  "pull_command prefix path max_bytes = (let q = shlex_quote path; n = show_int (max_bytes + 1) in
     ''if '' @ prefix @ ''test -d '' @ q @ ''; then echo D; '' @ prefix @ ''tar -czf - -C '' @ q @ '' . | head -c '' @ n @ ''; '' @
     ''elif '' @ prefix @ ''test -f '' @ q @ ''; then echo F; '' @ prefix @ ''head -c '' @ n @ '' '' @ q @ ''; '' @
     ''else echo 'no such file or directory' >&2; exit 2; fi'')"

text \<open>The reply of the pull command: a line with the kind, then the data.\<close>

definition pull_reply :: "string \<Rightarrow> int \<Rightarrow> ssh_result \<Rightarrow> pydict res" where
  "pull_reply path max_bytes r =
     (let err = strip (sr_stderr r) in
      bindr (guardr (sr_exit_status r \<noteq> None \<and> sr_exit_status r \<noteq> Some 0)
        (ipc_error ERR_INVALID_PARAMS (''pull '' @ path @ '' failed: '' @
          (if err \<noteq> [] then err else case sr_exit_status r of Some n \<Rightarrow> show_int n | None \<Rightarrow> [])))) (\<lambda>_.
      case partition_at nl (sr_stdout r) of (kind, _, data) \<Rightarrow>
      bindr (guardr (int (length data) > max_bytes)
        (ipc_error ERR_INVALID_PARAMS (path @ '' exceeds the '' @ show_int max_bytes @ '' byte pull limit''))) (\<lambda>_.
      Inr [(''path'', PStr path), (''is_archive'', PBool (kind = ''D'')), (''data'', PStr data)])))"

definition pull_path :: "'w os \<Rightarrow> 'w guest_env \<Rightarrow> pydict \<Rightarrow> string \<Rightarrow> string \<Rightarrow> int \<Rightarrow> int \<Rightarrow> string option \<Rightarrow> bool \<Rightarrow>
    ('w st, pydict) pm" where
  "pull_path h g d ip path max_bytes timeout fallback sudo =
     bindm (in_world (ssh_connect h g d ip timeout fallback 0)) (\<lambda>conn.
     bindm (ssh_guard ''pull'' (''pull timed out after '' @ show_int timeout @ ''s'')
       (in_world (ge_run g conn (pull_command (if sudo then ''sudo -n '' else []) path max_bytes) None timeout))) (\<lambda>r.
     liftr (pull_reply path max_bytes r)))"

definition authorized_keys_command :: "string \<Rightarrow> string" where
  "authorized_keys_command public_key = (let q = shlex_quote public_key; bs = [CHR 0x5C] in
     ''mkdir -p ~/.ssh && chmod 700 ~/.ssh && '' @
     ''touch ~/.ssh/authorized_keys && chmod 600 ~/.ssh/authorized_keys && '' @
     ''grep -qxF '' @ q @ '' ~/.ssh/authorized_keys || '' @
     ''printf '%s'' @ bs @ ''n' '' @ q @ '' >> ~/.ssh/authorized_keys'')"

definition install_ssh_public_key :: "'w os \<Rightarrow> 'w guest_env \<Rightarrow> pydict \<Rightarrow> string \<Rightarrow> string \<Rightarrow> int \<Rightarrow> ('w st, pydict) pm" where
  "install_ssh_public_key h g d ip public_key timeout =
     exec_ssh h g d ip (authorized_keys_command public_key) timeout None False 0"

section \<open>Screen and keyboard\<close>

definition screenshot :: "'w libvirt \<Rightarrow> 'w os \<Rightarrow> 'w guest_env \<Rightarrow> string \<Rightarrow> string \<Rightarrow> ('w, string) pm" where
  "screenshot lv h g uri name =
     bindm (catch_lv (bindm (lv_lookup lv name) (\<lambda>_. bindm (lv_is_active lv name) (\<lambda>a.
         guardm (\<not> a) (ipc_error ERR_INVALID_PARAMS ''VM is not running''))))
       (\<lambda>e. raise (ipc_error ERR_INVALID_PARAMS (''Domain not found: '' @ exn_text e)))) (\<lambda>_.
     bindm (ge_tmpdir g) (\<lambda>tmp.
     let ppm = path_join tmp ''screen.ppm''; png = path_join tmp ''screen.png'' in
     bindm (os_run h [''virsh'', ''-c'', uri, ''screenshot'', name, ppm] []) (\<lambda>r.
     bindm (guardm (pr_returncode r \<noteq> 0)
       (ipc_error ERR_INTERNAL (''virsh screenshot failed: '' @ pr_stderr r))) (\<lambda>_.
     bindm (catch_class ''FileNotFoundError'' (bindm (os_run h [''convert'', ppm, png] [])
         (\<lambda>r. ret (pr_returncode r = 0))) (\<lambda>_. ret False)) (\<lambda>converted.
     bindm (whenm (\<not> converted) (catch (ge_pil_convert g ppm png)
         (\<lambda>e. raise (ipc_error ERR_INTERNAL (''Failed to convert screenshot: '' @ exn_text e))))) (\<lambda>_.
     bindm (ge_read_bytes g png) (\<lambda>bytes. ret (b64encode bytes))))))))"

definition send_key :: "'w os \<Rightarrow> string \<Rightarrow> string \<Rightarrow> pyval \<Rightarrow> ('w, unit) pm" where
  "send_key h uri name k =
     bindm (liftr (need_str (PyExn ''AttributeError'' ''object has no attribute upper'') (\<lambda>_. True) k)) (\<lambda>s.
     bindm (os_run h [''virsh'', ''-c'', uri, ''send-key'', name, ''KEY_'' @ upper s] []) (\<lambda>r.
     guardm (pr_returncode r \<noteq> 0) (PyExn ''CalledProcessError'' (pr_stderr r))))"

text \<open>Iterating over a JSON value: the elements of a list, the characters of a string, the keys of an object.\<close>

fun py_iter :: "pyval \<Rightarrow> pyval list res" where
  "py_iter (PList xs) = Inr xs"
| "py_iter (PStr s) = Inr (map (\<lambda>c. PStr [c]) s)"
| "py_iter (PDict d) = Inr (map (\<lambda>p. PStr (fst p)) d)"
| "py_iter _ = Inl (PyExn ''TypeError'' ''object is not iterable'')"

definition send_action :: "'w os \<Rightarrow> string \<Rightarrow> string \<Rightarrow> pyval \<Rightarrow> ('w, unit) pm" where
  "send_action h uri name action =
     bindm (liftr (need_dict attr_error action)) (\<lambda>a.
     if dget a ''type'' = PStr ''key'' then
       bindm (liftr (py_iter (dget_or a ''keys'' (PList [])))) (\<lambda>ks. for_each ks (send_key h uri name))
     else if dget a ''type'' = PStr ''type'' then
       bindm (liftr (py_iter (dget_or a ''text'' (PStr [])))) (\<lambda>ks. for_each ks (send_key h uri name))
     else ret ())"

definition send_input :: "'w os \<Rightarrow> string \<Rightarrow> string \<Rightarrow> pyval \<Rightarrow> ('w, unit) pm" where
  "send_input h uri name actions =
     bindm (liftr (py_iter actions)) (\<lambda>as. for_each as (send_action h uri name))"

section \<open>A quoted word is one word\<close>

lemma squote_dquote [simp]: "squote \<noteq> dquote" "dquote \<noteq> squote"
  by (simp_all add: squote_def dquote_def)

lemma shell_safe_quotes [simp]: "\<not> shell_safe squote" "\<not> shell_safe dquote"
  by (simp_all add: shell_safe_def squote_def dquote_def is_ascii_letter_def is_ascii_digit_def)

lemma sh_word_safe: "list_all shell_safe s \<Longrightarrow> sh_word None s = Some s"
  by (induction s) auto

lemma sh_word_escaped:
  "sh_word (Some squote) (replace_char squote [squote, dquote, squote, dquote, squote] s @ [squote]) = Some s"
  by (induction s) (auto simp: replace_char_def squote_def dquote_def)

lemma sh_word_quote: "sh_word None (shlex_quote s) = Some s"
proof (cases "s = [] \<or> list_all shell_safe s")
  case True
  then show ?thesis by (auto simp: shlex_quote_def sh_word_safe)
next
  case False
  then have "shlex_quote s = squote # replace_char squote [squote, dquote, squote, dquote, squote] s @ [squote]"
    by (auto simp: shlex_quote_def)
  then show ?thesis by (simp add: sh_word_escaped)
qed

end
