(* ===== verification/GuestUtils.thy ===== *)
theory GuestUtils
  imports Guest
begin

text \<open>
  \<open>boxerd/guest_utils.py\<close>: the scripts run in a guest and the parsers of what they print.
\<close>

section \<open>Scripts\<close>

definition SYSINFO_SH :: string where
  "SYSINFO_SH =
     nl @
     ''{'' @ nl @
     ''. /etc/os-release 2>/dev/null || true'' @ nl @
     ''echo \"OS_ID=${ID:-}\"'' @ nl @
     ''echo \"OS_NAME=${PRETTY_NAME:-}\"'' @ nl @
     ''echo \"OS_VERSION=${VERSION_ID:-}\"'' @ nl @
     ''echo \"OS_LIKE=${ID_LIKE:-}\"'' @ nl @
     ''echo \"KERNEL=$(uname -sr)\"'' @ nl @
     ''echo \"ARCH=$(uname -m)\"'' @ nl @
     ''echo \"NPROC=$(nproc 2>/dev/null || echo 1)\"'' @ nl @
     ''read l1 l5 l15 rest < /proc/loadavg 2>/dev/null; echo \"LOAD1=$l1\"; echo \"LOAD5=$l5\"; echo \"LOAD15=$l15\"'' @ nl @
     ''awk '/^MemTotal:/{print \"MEM_TOTAL_KB=\"$2} /^MemAvailable:/{print \"MEM_AVAIL_KB=\"$2}' /proc/meminfo 2>/dev/null'' @ nl @
     ''echo \"UPTIME_SEC=$(cut -d. -f1 /proc/uptime 2>/dev/null)\"'' @ nl @
     ''echo \"VIRT=$(systemd-detect-virt 2>/dev/null || echo unknown)\"'' @ nl @
     ''df -Pk / 2>/dev/null | awk 'NR==2{print \"DISK_TOTAL_KB=\"$2; print \"DISK_USED_KB=\"$3; print \"DISK_AVAIL_KB=\"$4; print \"DISK_PCT=\"$5; print \"DISK_MOUNT=\"$6}'' @ sq @ nl @
     ''}'' @ nl"

definition SERVICES_SH :: string where
  "SERVICES_SH =
     nl @
     ''if command -v systemctl >/dev/null 2>&1; then'' @ nl @
     ''  echo \"@@INIT systemd\"'' @ nl @
     ''  echo \"@@RUNNING\"'' @ nl @
     ''  systemctl list-units --type=service --state=running --no-legend --no-pager 2>/dev/null | awk '{print $1}'' @ sq @ nl @
     ''  echo \"@@FAILED\"'' @ nl @
     ''  systemctl list-units --type=service --state=failed --no-legend --no-pager 2>/dev/null | awk '{print $1}'' @ sq @ nl @
     ''elif command -v rc-status >/dev/null 2>&1; then'' @ nl @
     ''  echo \"@@INIT openrc\"'' @ nl @
     ''  echo \"@@RUNNING\"'' @ nl @
     ''  rc-status -s 2>/dev/null | awk '/started/{print $1}'' @ sq @ nl @
     ''  echo \"@@FAILED\"'' @ nl @
     ''  rc-status -s 2>/dev/null | awk '/crashed|stopped/{print $1}'' @ sq @ nl @
     ''else'' @ nl @
     ''  echo \"@@INIT unknown\"'' @ nl @
     ''  echo \"@@RUNNING\"'' @ nl @
     ''  echo \"@@FAILED\"'' @ nl @
     ''fi'' @ nl @
     ''echo \"@@PORTS\"'' @ nl @
     ''( ss -tlnH 2>/dev/null || ss -tln 2>/dev/null || netstat -tln 2>/dev/null ) | awk '{print $4}' | grep -E ':[0-9]+$' | sed 's/.*://' | sort -un'' @ nl @
     ''echo \"@@PROCS\"'' @ nl @
     ''ps -eo pid,pcpu,pmem,comm --sort=-pcpu 2>/dev/null | head -n 7'' @ nl"

text \<open>The template with its \<open>{n}\<close> replaced.\<close>

definition logs_sh :: "string \<Rightarrow> string" where
  "logs_sh n =
     nl @
     ''echo \"@@FAILED_UNITS\"'' @ nl @
     ''( systemctl list-units --type=service --state=failed --no-legend --no-pager 2>/dev/null | awk '{print $1}' ) || true'' @ nl @
     ''echo \"@@JOURNAL\"'' @ nl @
     ''( journalctl -n '' @ n @ '' --no-pager -p warning 2>/dev/null || tail -n '' @ n @ '' /var/log/messages 2>/dev/null || tail -n '' @ n @ '' /var/log/syslog 2>/dev/null ) || true'' @ nl @
     ''echo \"@@DMESG\"'' @ nl @
     ''( dmesg --level=err,warn 2>/dev/null | tail -n '' @ n @ '' || dmesg 2>/dev/null | tail -n '' @ n @ '' ) || true'' @ nl"

definition PKG_DETECT :: string where
  "PKG_DETECT =
     ''if command -v apt-get >/dev/null 2>&1; then echo apt; elif command -v dnf >/dev/null 2>&1; then echo dnf; elif command -v apk >/dev/null 2>&1; then echo apk; elif command -v zypper >/dev/null 2>&1; then echo zypper; elif command -v pacman >/dev/null 2>&1; then echo pacman; else echo unknown; fi''"

definition boxerctl_or :: "string \<Rightarrow> string \<Rightarrow> string" where
  "boxerctl_or fallback subcommand =
     ''if command -v boxerctl >/dev/null 2>&1; then boxerctl '' @ subcommand @ '' --json; else'' @ nl @ fallback @ nl @ ''fi''"

section \<open>Parsers\<close>

definition parse_kv :: "string list \<Rightarrow> (string \<times> string) list" where
  "parse_kv ls = foldl (\<lambda>out line. if contains ''='' line
       then (case partition_at ''='' line of (k, _, v) \<Rightarrow> AList.update (strip k) (strip v) out) else out) [] ls"

definition kv_int :: "(string \<times> string) list \<Rightarrow> string \<Rightarrow> int option" where
  "kv_int d k = (case map_of d k of None \<Rightarrow> None | Some v \<Rightarrow> parse_int v)"

definition opt_pint :: "int option \<Rightarrow> pyval" where
  "opt_pint x = (case x of None \<Rightarrow> PNone | Some i \<Rightarrow> PInt i)"

definition kv_text :: "(string \<times> string) list \<Rightarrow> string \<Rightarrow> pyval" where
  "kv_text d k = (case map_of d k of None \<Rightarrow> PNone | Some v \<Rightarrow> PStr v)"

text \<open>\<open>kv.get(k) or None\<close>.\<close>

definition kv_nonempty :: "(string \<times> string) list \<Rightarrow> string \<Rightarrow> pyval" where
  "kv_nonempty d k = py_or (kv_text d k) PNone"

definition parse_sysinfo :: "string \<Rightarrow> pydict" where
  "parse_sysinfo raw =
     (let kv = parse_kv (splitlines raw); total_kb = kv_int kv ''MEM_TOTAL_KB''; avail_kb = kv_int kv ''MEM_AVAIL_KB'' in
     [(''os'', PDict [(''id'', kv_nonempty kv ''OS_ID''), (''name'', kv_nonempty kv ''OS_NAME''),
         (''version'', kv_nonempty kv ''OS_VERSION''), (''like'', kv_nonempty kv ''OS_LIKE'')]),
      (''kernel'', kv_nonempty kv ''KERNEL''), (''arch'', kv_nonempty kv ''ARCH''),
      (''virtualization'', kv_nonempty kv ''VIRT''),
      (''cpu'', PDict [(''count'', opt_pint (kv_int kv ''NPROC'')),
         (''load'', PList [kv_text kv ''LOAD1'', kv_text kv ''LOAD5'', kv_text kv ''LOAD15''])]),
      (''memory'', PDict [(''total_mb'', opt_pint (map_option (\<lambda>k. k div 1024) total_kb)),
         (''available_mb'', opt_pint (map_option (\<lambda>k. k div 1024) avail_kb)),
         (''used_mb'', case (total_kb, avail_kb) of (Some t, Some a) \<Rightarrow> PInt ((t - a) div 1024) | _ \<Rightarrow> PNone)]),
      (''disk_root'', PDict [(''total_kb'', opt_pint (kv_int kv ''DISK_TOTAL_KB'')),
         (''used_kb'', opt_pint (kv_int kv ''DISK_USED_KB'')), (''available_kb'', opt_pint (kv_int kv ''DISK_AVAIL_KB'')),
         (''used_pct'', kv_text kv ''DISK_PCT''), (''mount'', kv_text kv ''DISK_MOUNT'')]),
      (''uptime_seconds'', opt_pint (kv_int kv ''UPTIME_SEC''))])"

text \<open>
  The state of the loop of \<open>_split_sections\<close>: the sections, the current one, the inline values.
\<close>

record section_state =
  ss_sections :: "(string \<times> string list) list"
  ss_current :: "string option"
  ss_inline :: "(string \<times> string) list"

definition section_line :: "section_state \<Rightarrow> string \<Rightarrow> section_state res" where
  "section_line s line =
     (if starts_with line ''@@'' then
        (case split_ws_max 1 (drop 2 line) of
           [] \<Rightarrow> Inl (PyExn ''IndexError'' ''list index out of range'')
         | [name] \<Rightarrow> Inr (s\<lparr>ss_current := Some name, ss_sections := AList.update name [] (ss_sections s)\<rparr>)
         | name # v # _ \<Rightarrow> Inr (s\<lparr>ss_current := None, ss_inline := AList.update name (strip v) (ss_inline s)\<rparr>))
      else (case ss_current s of
          Some name \<Rightarrow> if strip line \<noteq> [] then
            Inr (s\<lparr>ss_sections := AList.update name
              ((case map_of (ss_sections s) name of None \<Rightarrow> [] | Some ls \<Rightarrow> ls) @ [rstrip line]) (ss_sections s)\<rparr>)
            else Inr s
        | None \<Rightarrow> Inr s))"

fun section_lines :: "section_state \<Rightarrow> string list \<Rightarrow> section_state res" where
  "section_lines s [] = Inr s"
| "section_lines s (l # ls) = bindr (section_line s l) (\<lambda>t. section_lines t ls)"

definition split_sections :: "string \<Rightarrow> (string \<times> string list) list res" where
  "split_sections raw =
     bindr (section_lines \<lparr>ss_sections = [], ss_current = None, ss_inline = []\<rparr> (splitlines raw)) (\<lambda>s.
     Inr (AList.update ''_inline'' (map (\<lambda>(k, v). k @ ''='' @ v) (ss_inline s)) (ss_sections s)))"

definition sec_get :: "(string \<times> string list) list \<Rightarrow> string \<Rightarrow> string list" where
  "sec_get d k = (case map_of d k of None \<Rightarrow> [] | Some ls \<Rightarrow> ls)"

text \<open>\<open>int(p)\<close> of a \<open>str.isdigit\<close> text: a superscript digit is not a number.\<close>

definition int_of :: "string \<Rightarrow> int res" where
  "int_of s = py_int (PStr s)"

definition parse_ports :: "string list \<Rightarrow> int list res" where
  "parse_ports ls = mapr int_of (filter isdigit_str (map strip ls))"

fun parse_procs :: "string list \<Rightarrow> pyval list res" where
  "parse_procs [] = Inr []"
| "parse_procs (l # ls) = (case split_ws_max 3 l of
       [a, b, c, d] \<Rightarrow>
         if isdigit_str a then bindr (int_of a) (\<lambda>pid. bindr (parse_procs ls) (\<lambda>rest.
           Inr (PDict [(''pid'', PInt pid), (''cpu'', PStr b), (''mem'', PStr c), (''command'', PStr d)] # rest)))
         else parse_procs ls
     | _ \<Rightarrow> parse_procs ls)"

definition nonblank :: "string list \<Rightarrow> string list" where
  "nonblank ls = filter (\<lambda>s. strip s \<noteq> []) ls"

definition parse_services :: "string \<Rightarrow> pydict res" where
  "parse_services raw =
     bindr (split_sections raw) (\<lambda>sec.
     let inline = parse_kv (splitlines (join nl (sec_get sec ''_inline''))) in
     bindr (parse_ports (sec_get sec ''PORTS'')) (\<lambda>ports.
     bindr (parse_procs (sec_get sec ''PROCS'')) (\<lambda>procs.
     Inr [(''init'', case map_of inline ''INIT'' of None \<Rightarrow> PStr ''unknown'' | Some v \<Rightarrow> PStr v),
       (''running'', str_list (nonblank (sec_get sec ''RUNNING''))),
       (''failed'', str_list (nonblank (sec_get sec ''FAILED''))),
       (''listening_ports'', PList (map PInt (sorted_list_of_set (set ports)))),
       (''top_processes'', PList procs)])))"

definition parse_logs :: "string \<Rightarrow> pydict res" where
  "parse_logs raw =
     bindr (split_sections raw) (\<lambda>sec.
     Inr [(''failed_units'', str_list (nonblank (sec_get sec ''FAILED_UNITS''))),
       (''journal'', str_list (sec_get sec ''JOURNAL'')), (''dmesg'', str_list (sec_get sec ''DMESG''))])"

section \<open>GuestUtils\<close>

text \<open>
  \<open>exec\<close> is \<open>GuestAgent.exec_ssh\<close> on the guest (command, timeout); \<open>json\<close> the library's
  \<open>json.loads\<close>.
\<close>

type_synonym 'w runner = "string \<Rightarrow> int \<Rightarrow> ('w st, pydict) pm"

definition dict_text :: "pydict \<Rightarrow> string \<Rightarrow> string" where
  "dict_text d k = (case dget d k of PStr s \<Rightarrow> s | _ \<Rightarrow> [])"

definition gu_run :: "'w runner \<Rightarrow> string \<Rightarrow> int \<Rightarrow> ('w st, string) pm" where
  "gu_run exec command timeout = bindm (exec command timeout) (\<lambda>r. ret (dict_text r ''stdout''))"

definition maybe_json :: "(string \<Rightarrow> pyval res) \<Rightarrow> string \<Rightarrow> pyval res" where
  "maybe_json json raw = (if starts_with (strip raw) ''{'' then
       (case json (strip raw) of Inr v \<Rightarrow> Inr v
        | Inl e \<Rightarrow> if in_class ''JSONDecodeError'' e then Inr PNone else Inl e) else Inr PNone)"

definition json_or :: "(string \<Rightarrow> pyval res) \<Rightarrow> (string \<Rightarrow> pydict res) \<Rightarrow> string \<Rightarrow> pyval res" where
  "json_or json parse raw = bindr (maybe_json json raw) (\<lambda>v.
     if truthy v then Inr v else bindr (parse raw) (\<lambda>d. Inr (PDict d)))"

definition gu_sysinfo :: "(string \<Rightarrow> pyval res) \<Rightarrow> 'w runner \<Rightarrow> ('w st, pyval) pm" where
  "gu_sysinfo json exec = bindm (gu_run exec (boxerctl_or SYSINFO_SH ''sysinfo'') 30) (\<lambda>raw.
     liftr (json_or json (\<lambda>r. Inr (parse_sysinfo r)) raw))"

definition gu_services :: "(string \<Rightarrow> pyval res) \<Rightarrow> 'w runner \<Rightarrow> ('w st, pyval) pm" where
  "gu_services json exec = bindm (gu_run exec (boxerctl_or SERVICES_SH ''services'') 30) (\<lambda>raw.
     liftr (json_or json parse_services raw))"

definition gu_logs :: "(string \<Rightarrow> pyval res) \<Rightarrow> 'w runner \<Rightarrow> int \<Rightarrow> ('w st, pyval) pm" where
  "gu_logs json exec lines =
     (let n = max 1 (min lines 500) in
     bindm (gu_run exec (boxerctl_or (logs_sh (show_int n)) (''logs --lines '' @ show_int n)) 30) (\<lambda>raw.
     liftr (json_or json parse_logs raw)))"

definition is_valid_pkg :: "string \<Rightarrow> bool" where
  "is_valid_pkg s = (case before_final_newline s of [] \<Rightarrow> False
     | c # r \<Rightarrow> (is_ascii_letter c \<or> is_ascii_digit c) \<and> length r \<le> 100 \<and>
         list_all (\<lambda>d. is_ascii_letter d \<or> is_ascii_digit d \<or> d \<in> set ''+._-'') r)"

definition search_command :: "string \<Rightarrow> string \<Rightarrow> string option" where
  "search_command manager q = map_of
     [(''apt'', ''apt-cache search '' @ q @ '' 2>/dev/null | head -n 30''),
      (''dnf'', ''dnf -q search '' @ q @ '' 2>/dev/null | head -n 30''),
      (''apk'', ''apk search '' @ q @ '' 2>/dev/null | head -n 30''),
      (''zypper'', ''zypper -q search '' @ q @ '' 2>/dev/null | head -n 30''),
      (''pacman'', ''pacman -Ss '' @ q @ '' 2>/dev/null | head -n 30'')] manager"

definition install_command :: "string \<Rightarrow> string \<Rightarrow> string option" where
  "install_command manager q = map_of
     [(''apt'', ''sudo DEBIAN_FRONTEND=noninteractive apt-get install -y '' @ q),
      (''dnf'', ''sudo dnf install -y '' @ q),
      (''apk'', ''sudo apk add '' @ q),
      (''zypper'', ''sudo zypper --non-interactive install '' @ q),
      (''pacman'', ''sudo pacman -S --noconfirm '' @ q)] manager"

definition query_command :: "string \<Rightarrow> string option" where
  "query_command manager =
     (let bs = [CHR 0x5C];
          dpkg = ''dpkg-query -W -f='' @ sq @ ''${Package}'' @ bs @ ''n'' @ sq @ '' 2>/dev/null'';
          rpm = ''rpm -qa 2>/dev/null | wc -l; rpm -qa --qf '' @ sq @ ''%{NAME}'' @ bs @ ''n'' @ sq @
            '' 2>/dev/null | sort | head -n 50''
      in map_of
       [(''apt'', dpkg @ '' | wc -l; '' @ dpkg @ '' | head -n 50''), (''dnf'', rpm),
        (''apk'', ''apk info 2>/dev/null | wc -l; apk info 2>/dev/null | head -n 50''), (''zypper'', rpm),
        (''pacman'', ''pacman -Qq 2>/dev/null | wc -l; pacman -Qq 2>/dev/null | head -n 50'')] manager)"

definition last_n :: "nat \<Rightarrow> 'a list \<Rightarrow> 'a list" where
  "last_n n xs = drop (length xs - n) xs"

text \<open>
  \<open>name\<close> is the request's value: one that is not a string fails the pattern match with a
  \<open>TypeError\<close> when it is truthy.
\<close>

definition valid_name :: "pyval \<Rightarrow> string res" where
  "valid_name name =
     (if \<not> truthy name then Inl (ipc_error ERR_INVALID_PARAMS ''a valid package name is required for search/install'')
      else bindr (need_str (PyExn ''TypeError'' ''expected string or bytes-like object'') (\<lambda>_. True) name) (\<lambda>s.
        if is_valid_pkg s then Inr s
        else Inl (ipc_error ERR_INVALID_PARAMS ''a valid package name is required for search/install'')))"

definition key_error :: "string \<Rightarrow> exn" where
  "key_error k = PyExn ''KeyError'' (repr_str k)"

definition gu_packages :: "'w runner \<Rightarrow> string \<Rightarrow> pyval \<Rightarrow> ('w st, pydict) pm" where
  "gu_packages exec action name =
     bindm (guardm (action \<notin> {''query'', ''search'', ''install''})
       (ipc_error ERR_INVALID_PARAMS ''action must be query, search, or install'')) (\<lambda>_.
     bindm (if action \<in> {''search'', ''install''} then bindm (liftr (valid_name name)) (\<lambda>_. ret ()) else ret ()) (\<lambda>_.
     bindm (gu_run exec PKG_DETECT 15) (\<lambda>out.
     let mgr = splitlines (strip out); manager = (if mgr = [] then ''unknown'' else strip (last mgr)) in
     bindm (guardm (manager = ''unknown'')
       (ipc_error ERR_INVALID_PARAMS ''No supported package manager detected in guest'')) (\<lambda>_.
     bindm (if truthy name then bindm (liftr (need_str (PyExn ''TypeError'' ''expected string or bytes-like object'')
         (\<lambda>_. True) name)) (\<lambda>s. ret (shlex_quote s)) else ret []) (\<lambda>q.
     if action = ''query'' then
       bindm (liftr (need_some (key_error manager) (query_command manager))) (\<lambda>cmd.
       bindm (gu_run exec cmd 30) (\<lambda>raw.
       let out = splitlines raw in
       bindm (case out of [] \<Rightarrow> ret PNone | l # _ \<Rightarrow> if isdigit_str (strip l)
           then bindm (liftr (int_of l)) (\<lambda>n. ret (PInt n)) else ret PNone) (\<lambda>count.
       ret [(''manager'', PStr manager), (''installed_count'', count),
         (''sample'', str_list (filter (\<lambda>l. l \<noteq> []) (map strip (drop 1 out))))])))
     else if action = ''search'' then
       bindm (liftr (need_some (key_error manager) (search_command manager q))) (\<lambda>cmd.
       bindm (gu_run exec cmd 60) (\<lambda>raw.
       ret [(''manager'', PStr manager), (''query'', name), (''results'', str_list (nonblank (splitlines raw)))]))
     else
       bindm (liftr (need_some (key_error manager) (install_command manager q))) (\<lambda>cmd.
       bindm (exec cmd 600) (\<lambda>res.
       ret [(''manager'', PStr manager), (''package'', name), (''exit_code'', dget_or res ''exit_code'' (PInt 1)),
         (''installed'', PBool (dget_or res ''exit_code'' (PInt 1) = PInt 0)),
         (''output_tail'', str_list (last_n 15 (splitlines (dict_text res ''stdout'')))),
         (''error_tail'', str_list (last_n 10 (splitlines (dict_text res ''stderr''))))])))))))"

end
