(* ===== verification/Scheduler.thy ===== *)
theory Scheduler
  imports Db Config
begin

text \<open>
  \<open>boxerd/scheduler.py\<close>: what the host has left, whether a request is admitted, and the runner
  that promotes queued requests. Floating-point quantities are exact rationals: the values are
  quotients by powers of two, far from the limits of a double.
\<close>

section \<open>Numbers\<close>

text \<open>\<open>round(x)\<close> to an integer, halves to even; \<open>round(x, 2)\<close> and the text of such a number.\<close>

definition round_even :: "rat \<Rightarrow> int" where
  "round_even q = (let f = \<lfloor>q\<rfloor>; d = q - of_int f in
     if d < 1 / 2 then f else if d > 1 / 2 then f + 1 else if even f then f else f + 1)"

definition round2 :: "rat \<Rightarrow> rat" where
  "round2 q = of_int (round_even (q * 100)) / 100"

definition repr_hundredths :: "int \<Rightarrow> string" where
  "repr_hundredths n = (let a = \<bar>n\<bar>; w = a div 100; f = a mod 100 in
     (if n < 0 then ''-'' else []) @ show_int w @ ''.'' @
     (if f mod 10 = 0 then show_int (f div 10) else show_int (f div 10) @ show_int (f mod 10)))"

definition float2 :: "rat \<Rightarrow> pyval" where
  "float2 q = PFloat (round2 q) (repr_hundredths (round_even (q * 100)))"

text \<open>\<open>f"{x:.1f}"\<close>.\<close>

definition fmt1 :: "rat \<Rightarrow> string" where
  "fmt1 q = (let n = round_even (q * 10); a = \<bar>n\<bar> in
     (if n < 0 then ''-'' else []) @ show_int (a div 10) @ ''.'' @ show_int (a mod 10))"

text \<open>A decoded JSON value in arithmetic.\<close>

fun num_of :: "pyval \<Rightarrow> rat res" where
  "num_of (PInt i) = Inr (of_int i)"
| "num_of (PBool b) = Inr (if b then 1 else 0)"
| "num_of (PFloat q _) = Inr q"
| "num_of v = Inl (PyExn ''TypeError'' ''unsupported operand type'')"

section \<open>HostCapacity\<close>

definition MIB_PER_GIB_KIB :: rat where "MIB_PER_GIB_KIB = 1024 * 1024"

text \<open>
  \<open>_host_total_ram_gib\<close>: \<open>meminfo\<close> is the content of \<open>/proc/meminfo\<close>, if it can be read. The
  first \<open>MemTotal:\<close> line decides; any failure gives 8.
\<close>

definition host_total_ram_gib :: "string option \<Rightarrow> rat" where
  "host_total_ram_gib meminfo = (case meminfo of None \<Rightarrow> 8
     | Some text \<Rightarrow> (case find (\<lambda>l. starts_with l ''MemTotal:'') (splitlines text) of
         None \<Rightarrow> 8
       | Some l \<Rightarrow> (case split_ws l of
           _ # n # _ \<Rightarrow> (case parse_int n of Some kb \<Rightarrow> of_int kb / MIB_PER_GIB_KIB | None \<Rightarrow> 8)
         | _ \<Rightarrow> 8)))"

text \<open>\<open>os.cpu_count() or 4\<close>.\<close>

definition host_cpu_threads :: "int option \<Rightarrow> int" where
  "host_cpu_threads n = (case n of None \<Rightarrow> 4 | Some k \<Rightarrow> if k = 0 then 4 else k)"

text \<open>What the host itself offers the capacity computation.\<close>

record 'w machine =
  mc_meminfo :: "('w, string option) pm"
  mc_cpu_count :: "('w, int option) pm"

definition BOXER_PREFIX :: string where "BOXER_PREFIX = ''Boxer--''"

definition count_running_boxer_vms :: "'w libvirt \<Rightarrow> ('w, int) pm" where
  "count_running_boxer_vms lv =
     catch_lv (bindm (lv_list_active lv) (\<lambda>ds.
       ret (int (length (filter (\<lambda>d. starts_with d BOXER_PREFIX) ds))))) (\<lambda>_. ret 0)"

text \<open>
  The two accounting loops. A libvirt failure in the middle keeps the sum so far: the \<open>except\<close>
  clause passes and the total is returned.
\<close>

fun sum_info :: "'w libvirt \<Rightarrow> (int \<times> int \<times> int \<times> int \<times> int \<Rightarrow> int) \<Rightarrow> int \<Rightarrow> string list \<Rightarrow> ('w, int) pm" where
  "sum_info lv f acc [] = ret acc"
| "sum_info lv f acc (d # ds) =
     (if \<not> starts_with d BOXER_PREFIX then sum_info lv f acc ds
      else bindm (catch_lv (bindm (lv_info lv d) (\<lambda>i. ret (Some i))) (\<lambda>_. ret None)) (\<lambda>r.
        case r of None \<Rightarrow> ret acc | Some i \<Rightarrow> sum_info lv f (acc + f i) ds))"

definition sum_active :: "'w libvirt \<Rightarrow> (int \<times> int \<times> int \<times> int \<times> int \<Rightarrow> int) \<Rightarrow> ('w, int) pm" where
  "sum_active lv f =
     bindm (catch_lv (bindm (lv_list_active lv) (\<lambda>ds. ret (Some ds))) (\<lambda>_. ret None)) (\<lambda>r.
     case r of None \<Rightarrow> ret 0 | Some ds \<Rightarrow> sum_info lv f 0 ds)"

definition used_ram_gib :: "'w libvirt \<Rightarrow> ('w, rat) pm" where
  "used_ram_gib lv = bindm (sum_active lv (\<lambda>(_, max_mem, _). max_mem)) (\<lambda>t. ret (of_int t / MIB_PER_GIB_KIB))"

definition used_vcpus :: "'w libvirt \<Rightarrow> ('w, int) pm" where
  "used_vcpus lv = sum_active lv (\<lambda>(_, _, _, n, _). n)"

record host_status =
  hs_total_ram_gib :: rat
  hs_usable_ram_gib :: rat
  hs_used_ram_gib :: rat
  hs_host_threads :: int
  hs_max_vcpus :: int
  hs_used_vcpus :: int
  hs_running_vms :: int

definition hs_free_ram_gib :: "host_status \<Rightarrow> rat" where
  "hs_free_ram_gib s = round2 (max 0 (hs_usable_ram_gib s - hs_used_ram_gib s))"

definition hs_free_vcpus :: "host_status \<Rightarrow> int" where
  "hs_free_vcpus s = max 0 (hs_max_vcpus s - hs_used_vcpus s)"

definition get_status :: "cfg \<Rightarrow> 'w libvirt \<Rightarrow> 'w machine \<Rightarrow> ('w, host_status) pm" where
  "get_status c lv m =
     bindm (mc_meminfo m) (\<lambda>text.
     bindm (mc_cpu_count m) (\<lambda>n.
     let ram_total = host_total_ram_gib text; threads = host_cpu_threads n;
         max_vcpus = (case cfg_max_total_vcpus c of Some k \<Rightarrow> if k = 0 then max 1 (threads - 2) else k
           | None \<Rightarrow> max 1 (threads - 2)) in
     bindm (count_running_boxer_vms lv) (\<lambda>running.
     bindm (used_ram_gib lv) (\<lambda>ram.
     bindm (used_vcpus lv) (\<lambda>vcpus.
     ret \<lparr>hs_total_ram_gib = ram_total, hs_usable_ram_gib = ram_total - cfg_host_reserved_ram_gib c,
       hs_used_ram_gib = ram, hs_host_threads = threads, hs_max_vcpus = max_vcpus, hs_used_vcpus = vcpus,
       hs_running_vms = running\<rparr>)))))"

definition status_dict :: "host_status \<Rightarrow> pydict" where
  "status_dict s =
     [(''total_ram_gib'', float2 (hs_total_ram_gib s)), (''usable_ram_gib'', float2 (hs_usable_ram_gib s)),
      (''free_ram_gib'', float2 (max 0 (hs_usable_ram_gib s - hs_used_ram_gib s))),
      (''host_threads'', PInt (hs_host_threads s)), (''max_vcpus'', PInt (hs_max_vcpus s)),
      (''used_vcpus'', PInt (hs_used_vcpus s)), (''free_vcpus'', PInt (hs_free_vcpus s)),
      (''running_vms'', PInt (hs_running_vms s))]"

section \<open>Admission\<close>

text \<open>
  The two halves of the decision: the host's limits, and the limits of the project, whose rows are
  read only when the host's limits pass. The first limit that fails names itself.
\<close>

definition host_limits :: "host_status \<Rightarrow> pyval \<Rightarrow> pyval \<Rightarrow> string option res" where
  "host_limits s cpu ram_mb =
     bindr (num_of ram_mb) (\<lambda>ram.
     if ram / 1024 > hs_free_ram_gib s then
       Inr (Some (''Insufficient host RAM: need '' @ fmt1 (ram / 1024) @ ''G, free '' @ fmt1 (hs_free_ram_gib s) @ ''G''))
     else bindr (num_of cpu) (\<lambda>n.
     if n > of_int (hs_free_vcpus s) then
       Inr (Some (''Insufficient vCPUs: need '' @ py_str cpu @ '', free '' @ show_int (hs_free_vcpus s)))
     else Inr None))"

definition running_of :: "vm list \<Rightarrow> int" where
  "running_of vms = int (length (filter (\<lambda>v. vm_state v = ''running'') vms))"

definition used_disk :: "vm list \<Rightarrow> int" where
  "used_disk vms = sum_list (map vm_disk_gb vms)"

definition project_limits :: "cfg \<Rightarrow> vm list \<Rightarrow> pyval \<Rightarrow> string option res" where
  "project_limits c vms disk_gb =
     (if running_of vms \<ge> cfg_max_running_per_project c then
       Inr (Some (''Project has '' @ show_int (running_of vms) @ '' running VMs (limit '' @
         show_int (cfg_max_running_per_project c) @ '')''))
     else bindr (num_of disk_gb) (\<lambda>disk.
     if of_int (used_disk vms) + disk > of_int (cfg_max_disk_per_project_gib c) then
       Inr (Some (''Project disk limit exceeded: using '' @ show_int (used_disk vms) @ ''G + '' @ py_str disk_gb @
         ''G > '' @ show_int (cfg_max_disk_per_project_gib c) @ ''G''))
     else Inr None))"

definition check_admission :: "cfg \<Rightarrow> 'w libvirt \<Rightarrow> 'w machine \<Rightarrow> pyval \<Rightarrow> pyval \<Rightarrow> pyval \<Rightarrow> pyval \<Rightarrow>
    ('w st, string option) pm" where
  "check_admission c lv m project_id cpu ram_mb disk_gb =
     bindm (in_world (get_status c lv m)) (\<lambda>s.
     bindm (liftr (host_limits s cpu ram_mb)) (\<lambda>r.
     case r of Some reason \<Rightarrow> ret (Some reason)
     | None \<Rightarrow> bindm (list_vms project_id) (\<lambda>vms. liftr (project_limits c vms disk_gb))))"

section \<open>Queue runner\<close>

definition enqueue_request :: "pyval \<Rightarrow> pydict \<Rightarrow> string \<Rightarrow> ('w st, string) pm" where
  "enqueue_request project_id request reason = enqueue project_id request reason"

text \<open>
  One entry of \<open>_process_queue\<close>. \<open>admit\<close> is \<open>check_admission\<close> and \<open>create\<close> the daemon's
  \<open>_create_vm_from_request\<close>. A failure to admit leaves the loop; a failure to create does not.
\<close>

definition process_entry :: "(pyval \<Rightarrow> pyval \<Rightarrow> pyval \<Rightarrow> pyval \<Rightarrow> ('w st, string option) pm) \<Rightarrow>
    (pydict \<Rightarrow> ('w st, unit) pm) \<Rightarrow> queue_entry \<Rightarrow> ('w st, unit) pm" where
  "process_entry admit create q =
     (let request = q_request q in
     bindm (admit (PStr (q_project_id q)) (dget_or request ''cpu'' (PInt 2))
       (dget_or request ''ram_mb'' (PInt 2048)) (dget_or request ''disk_gb'' (PInt 20))) (\<lambda>reason.
     case reason of
       Some (_ # _) \<Rightarrow> ret ()
     | _ \<Rightarrow>
         bindm (update_queue_status (q_id q) ''processing'') (\<lambda>_.
         catch (bindm (create request) (\<lambda>_. update_queue_status (q_id q) ''done''))
           (\<lambda>_. update_queue_status (q_id q) ''expired''))))"

definition process_queue :: "(pyval \<Rightarrow> pyval \<Rightarrow> pyval \<Rightarrow> pyval \<Rightarrow> ('w st, string option) pm) \<Rightarrow>
    (pydict \<Rightarrow> ('w st, unit) pm) \<Rightarrow> ('w st, unit) pm" where
  "process_queue admit create =
     bindm list_pending_queue (\<lambda>entries. for_each entries (process_entry admit create))"

section \<open>Admission respects the limits\<close>

lemma round_even_bounds: "\<bar>of_int (round_even q) - q\<bar> \<le> 1 / 2"
proof -
  have "of_int \<lfloor>q\<rfloor> \<le> q" "q < of_int \<lfloor>q\<rfloor> + 1" by linarith+
  then show ?thesis by (auto simp: round_even_def Let_def abs_le_iff)
qed

lemma round2_bounds: "\<bar>round2 q - q\<bar> \<le> 1 / 200"
proof -
  have "\<bar>of_int (round_even (q * 100)) - q * 100\<bar> \<le> 1 / 2" by (rule round_even_bounds)
  then show ?thesis by (simp add: round2_def field_simps abs_le_iff)
qed

lemma host_limits_None:
  "host_limits s cpu ram_mb = Inr None \<longleftrightarrow> (\<exists>r n. num_of ram_mb = Inr r \<and> num_of cpu = Inr n \<and>
     r / 1024 \<le> hs_free_ram_gib s \<and> n \<le> of_int (hs_free_vcpus s))"
  by (auto simp: host_limits_def bindr_eq_Inr not_less)

lemma project_limits_None:
  "project_limits c vms disk_gb = Inr None \<longleftrightarrow> (\<exists>k. num_of disk_gb = Inr k \<and>
     running_of vms < cfg_max_running_per_project c \<and>
     of_int (used_disk vms) + k \<le> of_int (cfg_max_disk_per_project_gib c))"
  by (auto simp: project_limits_def bindr_eq_Inr not_less)

text \<open>Reads change no table.\<close>

definition same_db :: "'w st \<Rightarrow> 'w st \<Rightarrow> bool" where
  "same_db s t \<longleftrightarrow> db t = db s"

interpretation sdf: frame same_db
  by unfold_locales (auto simp: same_db_def)

lemma same_db_in_world: "keeps same_db (in_world m)"
  by (simp add: keeps_def same_db_def in_world_def split: prod.split)

lemma same_db_list_vms: "keeps same_db (list_vms p)"
  unfolding list_vms_def by (intro sdf.frame_keeps keeps_splits)

lemma same_db_check_admission: "keeps same_db (check_admission c lv m p cpu ram disk)"
  unfolding check_admission_def
  by (intro sdf.frame_keeps same_db_in_world same_db_list_vms keeps_splits)

lemma list_vms_Inr:
  "list_vms pid s = (Inr vms, s') \<Longrightarrow> \<exists>p. vms = vms_of p (db s) \<and> (p = None \<longrightarrow> \<not> truthy pid) \<and>
     (\<forall>q. pid = PStr q \<and> q \<noteq> [] \<longrightarrow> p = Some q) \<and> s' = s"
  by (cases pid) (auto simp: list_vms_def pm_defs split: if_splits)

lemma check_admission_None:
  assumes "check_admission c lv m (PStr p) cpu ram disk s = (Inr None, s')" "p \<noteq> []"
  shows "\<exists>st w. get_status c lv m (world s) = (Inr st, w) \<and> host_limits st cpu ram = Inr None \<and>
      project_limits c (vms_of (Some p) (db s)) disk = Inr None"
proof -
  from assms(1) obtain st w where st: "get_status c lv m (world s) = (Inr st, w)"
    and hl: "host_limits st cpu ram = Inr None"
    and rest: "bindm (list_vms (PStr p)) (\<lambda>vms. liftr (project_limits c vms disk)) (s\<lparr>world := w\<rparr>) = (Inr None, s')"
    by (auto simp: check_admission_def in_world_def bindm_def liftr_def ret_def
        split: prod.splits sum.splits option.splits)
  from rest assms(2) have "project_limits c (vms_of (Some p) (db s)) disk = Inr None"
    by (simp add: bindm_def liftr_def list_vms_def gets_def)
  with st hl show ?thesis by blast
qed

section \<open>The queue\<close>

lemma sorted_filter_nth:
  "sorted (map g (filter (\<lambda>x. f x = k) xs)) \<Longrightarrow> i < j \<Longrightarrow> j < length xs \<Longrightarrow>
   f (xs ! i) = k \<Longrightarrow> f (xs ! j) = k \<Longrightarrow> g (xs ! i) \<le> g (xs ! j)"
proof (induction xs arbitrary: i j)
  case (Cons x xs)
  obtain j' where j: "j = Suc j'" "j' < length xs" using Cons.prems(2,3) by (cases j) auto
  show ?case
  proof (cases i)
    case 0
    have "xs ! j' \<in> set (filter (\<lambda>x. f x = k) xs)" using j Cons.prems(5) by simp
    moreover from Cons.prems(1,4) 0 have "\<forall>y \<in> set (filter (\<lambda>x. f x = k) xs). g x \<le> g y" by simp
    ultimately show ?thesis using 0 j by simp
  next
    case (Suc i')
    moreover have "sorted (map g (filter (\<lambda>x. f x = k) xs))"
      using Cons.prems(1) by (simp split: if_splits)
    ultimately show ?thesis using Cons.IH [of i' j'] Cons.prems j by simp
  qed
qed simp

lemma pending_queue_order:
  "i < j \<Longrightarrow> j < length (pending_queue d) \<Longrightarrow>
   q_priority (pending_queue d ! i) > q_priority (pending_queue d ! j) \<or>
   (q_priority (pending_queue d ! i) = q_priority (pending_queue d ! j) \<and>
    q_created_at (pending_queue d ! i) \<le> q_created_at (pending_queue d ! j))"
proof -
  let ?xs = "sort_key q_created_at (filter (\<lambda>q. q_status q = ''pending'') (t_queue d))"
  assume ij: "i < j" "j < length (pending_queue d)"
  have s: "sorted (map (\<lambda>q. - q_priority q) (pending_queue d))"
    by (simp add: pending_queue_def)
  then have le: "q_priority (pending_queue d ! j) \<le> q_priority (pending_queue d ! i)"
    using ij sorted_nth_mono [OF s, of i j] by simp
  have "filter (\<lambda>q. - q_priority q = k) (pending_queue d) = filter (\<lambda>q. - q_priority q = k) ?xs" for k
    by (simp add: pending_queue_def sort_key_stable)
  moreover have "sorted (map q_created_at (filter P ?xs))" for P
    by (rule sorted_filter) simp
  ultimately have "sorted (map q_created_at (filter (\<lambda>q. - q_priority q = k) (pending_queue d)))" for k
    by simp
  from sorted_filter_nth [OF this ij] le show ?thesis by fastforce
qed

lemma set_pending_queue: "q \<in> set (pending_queue d) \<longleftrightarrow> q \<in> set (t_queue d) \<and> q_status q = ''pending''"
  by (auto simp: pending_queue_def)

text \<open>
  What a request may do to the queue: append entries, leave the others alone. The daemon's
  \<open>_create_vm_from_request\<close> is shown to be such a function where it is defined.
\<close>

definition queue_grows :: "'w st \<Rightarrow> 'w st \<Rightarrow> bool" where
  "queue_grows s t \<longleftrightarrow> (\<exists>new. t_queue (db t) = t_queue (db s) @ new)"

interpretation qgf: frame queue_grows
  by unfold_locales (auto simp: queue_grows_def)

definition settled :: "string \<Rightarrow> tables \<Rightarrow> bool" where
  "settled i d \<longleftrightarrow> (\<exists>q. queue_find i d = Some q \<and> q_status q \<in> {''pending'', ''done'', ''expired''})"

definition stays_settled :: "string \<Rightarrow> 'w st \<Rightarrow> 'w st \<Rightarrow> bool" where
  "stays_settled i s t \<longleftrightarrow> (settled i (db s) \<longrightarrow> settled i (db t))"

interpretation ssf: frame "stays_settled i" for i
  by unfold_locales (auto simp: stays_settled_def)

lemma queue_find_grows:
  "queue_grows s t \<Longrightarrow> queue_find i (db s) = Some q \<Longrightarrow> queue_find i (db t) = Some q"
  by (auto simp: queue_grows_def queue_find_def rows_find_append split: option.splits)

lemma queue_find_set_status:
  "queue_find i (queue_update j (\<lambda>q. q\<lparr>q_status := x\<rparr>) d) =
     map_option (\<lambda>q. if i = j then q\<lparr>q_status := x\<rparr> else q) (queue_find i d)"
  by (rule qt.find_update) simp

lemma wp_update_queue_status [wp_simps]:
  "wp (update_queue_status j x) Q E s = Q () (s\<lparr>db := queue_update j (\<lambda>q. q\<lparr>q_status := x\<rparr>) (db s)\<rparr>)"
  by (simp add: update_queue_status_def wp_simps)

text \<open>Promoting one entry: it ends done or expired, and no other entry changes.\<close>

definition promoted :: "string \<Rightarrow> tables \<Rightarrow> tables \<Rightarrow> bool" where
  "promoted j d e \<longleftrightarrow> (\<exists>q. queue_find j e = Some q \<and> q_status q \<in> {''done'', ''expired''}) \<and>
     (\<forall>i q. i \<noteq> j \<longrightarrow> queue_find i d = Some q \<longrightarrow> queue_find i e = Some q)"

lemma promotedI:
  assumes grows: "queue_grows (s\<lparr>db := queue_update j (\<lambda>q. q\<lparr>q_status := ''processing''\<rparr>) (db s)\<rparr>) t"
    and j: "queue_find j (db s) \<noteq> None" and x: "x \<in> {''done'', ''expired''}"
  shows "promoted j (db s) (queue_update j (\<lambda>q. q\<lparr>q_status := x\<rparr>) (db t))"
proof -
  from j queue_find_grows [OF grows, of j] obtain q where "queue_find j (db t) = Some q"
    by (auto simp: queue_find_set_status)
  moreover have "queue_find i (db t) = Some r" if "i \<noteq> j" "queue_find i (db s) = Some r" for i r
    using that queue_find_grows [OF grows, of i r] by (simp add: queue_find_set_status)
  ultimately show ?thesis using x by (simp add: promoted_def queue_find_set_status)
qed

lemma wp_promote:
  assumes create: "keeps queue_grows (create r)"
    and j: "queue_find j (db s) \<noteq> None"
  shows "wp (bindm (update_queue_status j ''processing'') (\<lambda>_.
         catch (bindm (create r) (\<lambda>_. update_queue_status j ''done'')) (\<lambda>_. update_queue_status j ''expired'')))
     (\<lambda>_ t. promoted j (db s) (db t)) (\<lambda>_ _. False) s"
proof -
  let ?s = "s\<lparr>db := queue_update j (\<lambda>q. q\<lparr>q_status := ''processing''\<rparr>) (db s)\<rparr>"
  have grow: "wp (create r) (\<lambda>_. queue_grows ?s) (\<lambda>_. queue_grows ?s) ?s"
    by (rule keeps_wp [OF create])
  show ?thesis
    unfolding wp_bindm wp_catch wp_update_queue_status
    by (rule wp_mono [OF grow]) (simp_all add: promotedI [OF _ j])
qed

lemma promoted_settled: "promoted j d e \<Longrightarrow> settled i d \<Longrightarrow> settled i e"
  by (cases "i = j") (auto simp: promoted_def settled_def)

lemma promoted_found: "promoted j d e \<Longrightarrow> queue_find i d \<noteq> None \<Longrightarrow> queue_find i e \<noteq> None"
  by (cases "i = j") (auto simp: promoted_def)

lemma process_entry_settles:
  assumes admit: "\<And>p a b c. keeps same_db (admit p a b c)"
    and create: "\<And>r. keeps queue_grows (create r)"
    and q: "queue_find (q_id q) (db s) \<noteq> None"
  shows "wp (process_entry admit create q)
     (\<lambda>_ t. (\<forall>i. settled i (db s) \<longrightarrow> settled i (db t)) \<and> (\<forall>i. queue_find i (db s) \<noteq> None \<longrightarrow> queue_find i (db t) \<noteq> None))
     (\<lambda>_ t. db t = db s) s"
proof -
  note a = keeps_wp [OF admit, of "PStr (q_project_id q)" "dget_or (q_request q) ''cpu'' (PInt 2)"
    "dget_or (q_request q) ''ram_mb'' (PInt 2048)" "dget_or (q_request q) ''disk_gb'' (PInt 20)" s]
  have p: "wp (bindm (update_queue_status (q_id q) ''processing'') (\<lambda>_.
         catch (bindm (create (q_request q)) (\<lambda>_. update_queue_status (q_id q) ''done''))
           (\<lambda>_. update_queue_status (q_id q) ''expired'')))
      (\<lambda>_ u. (\<forall>i. settled i (db s) \<longrightarrow> settled i (db u)) \<and> (\<forall>i. queue_find i (db s) \<noteq> None \<longrightarrow> queue_find i (db u) \<noteq> None))
      (\<lambda>_ u. db u = db s) t" if t: "db t = db s" for t
    by (rule wp_mono [OF wp_promote [OF create]])
      (use q t promoted_settled promoted_found in \<open>(simp; fail | metis)+\<close>)
  show ?thesis
    unfolding process_entry_def Let_def wp_bindm
    by (rule wp_mono [OF a])
      (use p in \<open>auto simp: same_db_def wp_simps split: option.split list.split\<close>)
qed

lemma process_entries_settle:
  assumes admit: "\<And>p a b c. keeps same_db (admit p a b c)"
    and create: "\<And>r. keeps queue_grows (create r)"
  shows "(\<forall>q \<in> set qs. queue_find (q_id q) (db s) \<noteq> None) \<Longrightarrow> settled i (db s) \<Longrightarrow>
    wp (for_each qs (process_entry admit create)) (\<lambda>_ t. settled i (db t)) (\<lambda>_ t. settled i (db t)) s"
proof (induction qs arbitrary: s)
  case (Cons q qs)
  show ?case
    unfolding for_each.simps wp_bindm
    by (rule wp_mono [OF process_entry_settles [OF admit create]])
      (use Cons in auto)
qed (simp add: wp_simps)

section \<open>Properties\<close>

text \<open>C6: No overcommitment: a request the scheduler admits fits. Its memory and the memory of the running
  domains stay within the usable memory (up to half a hundredth of a GiB, the rounding of the free
  amount, or the request asks for nothing more than that), its processors within the free ones, its
  project stays below the number of running VMs and within the disk quota. Every one of the three
  amounts is then a number.\<close>

theorem admission_no_overcommit:
  assumes "check_admission c lv m (PStr p) cpu ram_mb disk_gb s = (Inr None, s')" "p \<noteq> []"
  shows "\<exists>st w ram n disk. get_status c lv m (world s) = (Inr st, w) \<and>
    num_of ram_mb = Inr ram \<and> num_of cpu = Inr n \<and> num_of disk_gb = Inr disk \<and>
    ram / 1024 \<le> max 0 (hs_usable_ram_gib st - hs_used_ram_gib st) + 1 / 200 \<and>
    n \<le> of_int (max 0 (hs_max_vcpus st - hs_used_vcpus st)) \<and>
    running_of (vms_of (Some p) (db s)) < cfg_max_running_per_project c \<and>
    of_int (used_disk (vms_of (Some p) (db s))) + disk \<le> of_int (cfg_max_disk_per_project_gib c)"
proof -
  obtain st w where st: "get_status c lv m (world s) = (Inr st, w)"
    and h: "host_limits st cpu ram_mb = Inr None" and p: "project_limits c (vms_of (Some p) (db s)) disk_gb = Inr None"
    using check_admission_None [OF assms] by blast
  from h obtain ram n where "num_of ram_mb = Inr ram" "num_of cpu = Inr n" "ram / 1024 \<le> hs_free_ram_gib st"
    "n \<le> of_int (hs_free_vcpus st)" by (auto simp: host_limits_None)
  moreover have "hs_free_ram_gib st \<le> max 0 (hs_usable_ram_gib st - hs_used_ram_gib st) + 1 / 200"
    using round2_bounds [of "max 0 (hs_usable_ram_gib st - hs_used_ram_gib st)"]
    unfolding hs_free_ram_gib_def by linarith
  ultimately show ?thesis
    using st p by (auto simp: project_limits_None hs_free_vcpus_def)
qed

text \<open>Requests are promoted by priority and, within one priority, in the order they came: the runner visits
  exactly the pending entries, and an entry visited earlier has a higher priority or the same
  priority and no later arrival.\<close>

theorem queue_order:
  assumes "i < j" "j < length (pending_queue d)"
  shows "set (pending_queue d) = {q \<in> set (t_queue d). q_status q = ''pending''} \<and>
    (q_priority (pending_queue d ! i) > q_priority (pending_queue d ! j) \<or>
     (q_priority (pending_queue d ! i) = q_priority (pending_queue d ! j) \<and>
      q_created_at (pending_queue d ! i) \<le> q_created_at (pending_queue d ! j)))"
  using pending_queue_order [OF assms] by (auto simp: set_pending_queue)

definition demo_entry :: "string \<Rightarrow> int \<Rightarrow> instant \<Rightarrow> queue_entry" where
  "demo_entry i priority t = \<lparr>q_id = i, q_project_id = ''p1'', q_request = [(''ram_mb'', PNone)], q_priority = priority,
     q_status = ''pending'', q_reason = [], q_created_at = t\<rparr>"

definition demo_queue :: tables where
  "demo_queue = empty_tables\<lparr>t_queue := [demo_entry ''a'' 0 5, demo_entry ''b'' 1 7, demo_entry ''c'' 0 3]\<rparr>"

lemma demo_pending: "pending_queue demo_queue = [demo_entry ''b'' 1 7, demo_entry ''c'' 0 3, demo_entry ''a'' 0 5]"
  by (simp add: pending_queue_def demo_queue_def demo_entry_def)

lemma queue_order_witness:
  "q_created_at (pending_queue demo_queue ! 1) \<le> q_created_at (pending_queue demo_queue ! 2)"
  using queue_order [of 1 2 demo_queue] by (simp add: demo_pending demo_entry_def)

text \<open>A request whose memory is null: admitting it raises out of the pass, with every table as it was.\<close>

lemma null_memory_raises:
  assumes "pending_queue (db s) = q # qs" "dget_or (q_request q) ''ram_mb'' (PInt 2048) = PNone"
    "get_status c lv m (world s) = (Inr st, w)"
  shows "process_queue (check_admission c lv m) create s =
    (Inl (PyExn ''TypeError'' ''unsupported operand type''), s\<lparr>world := w\<rparr>)"
  using assms
  by (simp add: process_queue_def list_pending_queue_def gets_def bindm_def process_entry_def Let_def
      check_admission_def in_world_def liftr_def host_limits_def)

end
