(* ===== verification/Backend.thy ===== *)
theory Backend
  imports Emulator Storage GuestUtils Scheduler
begin

text \<open>
  The two device backends behind one contract. \<open>_ops_for\<close> of the daemon and of the lease manager
  chooses by the row's kind: Android devices go to the emulator backend, everything else to
  libvirt. The record \<open>host\<close> gathers what the daemon reaches outside itself.
\<close>

section \<open>The contract\<close>

definition STATES :: "string list" where
  "STATES = [''running'', ''paused'', ''stopping'', ''stopped'', ''error'', ''unknown'']"

definition raises_only :: "string \<Rightarrow> ('s, 'a) pm \<Rightarrow> bool" where
  "raises_only c m \<longleftrightarrow> (\<forall>s. wp m (\<lambda>_ _. True) (\<lambda>e _. in_class c e) s)"

lemma raises_only_catch: "raises_only c m \<Longrightarrow> (\<And>e. no_raise (h e)) \<Longrightarrow> no_raise (catch_class c m h)"
  unfolding raises_only_def no_raise_wp wp_catch_class
  by (intro allI, rule wp_mono, drule spec, assumption) simp_all

lemma raises_only_bindm: "raises_only c m \<Longrightarrow> (\<And>x. raises_only c (f x)) \<Longrightarrow> raises_only c (bindm m f)"
  unfolding raises_only_def wp_bindm by (intro allI, rule wp_mono, drule spec, assumption) simp_all

lemma raises_only_ret [simp]: "raises_only c (ret x)"
  by (simp add: raises_only_def wp_simps)

lemma raises_only_whenm: "raises_only c m \<Longrightarrow> raises_only c (whenm b m)"
  by (simp add: raises_only_def wp_simps)

lemma no_raise_raises_only: "no_raise m \<Longrightarrow> raises_only c m"
  unfolding raises_only_def no_raise_wp by (intro allI, rule wp_mono, drule spec, assumption) simp_all

text \<open>
  \<open>quiet h\<close> is the documented behaviour of the libraries under a backend: each call fails only
  with the library's own exception. Then a backend's own operations do not raise at all. The
  state a backend reports is always one of six names.
\<close>

locale device_backend =
  fixes get_state :: "'h \<Rightarrow> string \<Rightarrow> ('w, string) pm"
    and stop :: "'h \<Rightarrow> string \<Rightarrow> bool \<Rightarrow> ('w, unit) pm"
    and undefine :: "'h \<Rightarrow> string \<Rightarrow> ('w, unit) pm"
    and quiet :: "'h \<Rightarrow> bool"
  assumes state_range: "wp (get_state h n) (\<lambda>x _. x \<in> set STATES) (\<lambda>_ _. True) w"
    and state_quiet: "quiet h \<Longrightarrow> no_raise (get_state h n)"
    and stop_quiet: "quiet h \<Longrightarrow> no_raise (stop h n g)"
    and undefine_quiet: "quiet h \<Longrightarrow> no_raise (undefine h n)"
begin

lemma probe: "quiet h \<Longrightarrow> wp (get_state h n) (\<lambda>x _. x \<in> set STATES) (\<lambda>_ _. False) w"
  using state_range [of h n w] state_quiet [of h n]
  by (auto simp: wp_def no_raise_def split: prod.splits sum.splits) (metis Inl_Inr_False fst_conv)

lemma stop_then_probe:
  "quiet h \<Longrightarrow> wp (bindm (stop h n g) (\<lambda>_. get_state h n)) (\<lambda>x _. x \<in> set STATES) (\<lambda>_ _. False) w"
  unfolding wp_bindm
  by (rule wp_mono, rule spec, rule stop_quiet [unfolded no_raise_wp]) (simp_all add: probe)

end

section \<open>libvirt\<close>

definition libvirt_quiet :: "'w libvirt \<Rightarrow> bool" where
  "libvirt_quiet lv \<longleftrightarrow> (\<forall>n. raises_only ''libvirtError'' (lv_lookup lv n) \<and>
     raises_only ''libvirtError'' (lv_is_active lv n) \<and> raises_only ''libvirtError'' (lv_state lv n) \<and>
     raises_only ''libvirtError'' (lv_shutdown lv n) \<and> raises_only ''libvirtError'' (lv_destroy lv n) \<and>
     raises_only ''libvirtError'' (lv_undefine_flags lv n))"

lemma state_name_range: "state_name k \<in> set STATES"
  by (simp add: state_name_def STATES_def)

lemma unknown_state: "''unknown'' \<in> set STATES"
  by (simp add: STATES_def)

lemma vm_get_state_range: "wp (vm_get_state lv n) (\<lambda>x _. x \<in> set STATES) (\<lambda>_ _. True) w"
  unfolding vm_get_state_def wp_catch_class wp_bindm wp_ret
  by (rule wp_mono [OF wp_True])
    (auto intro!: wp_mono [OF wp_True] simp: state_name_range unknown_state wp_ret)

lemma no_raise_whenm: "(b \<Longrightarrow> no_raise m) \<Longrightarrow> no_raise (whenm b m)"
  by (simp add: whenm_def)

interpretation libvirt_backend: device_backend vm_get_state vm_stop vm_undefine libvirt_quiet
proof (unfold_locales, goal_cases)
  case (1 h n w)
  then show ?case by (rule vm_get_state_range)
next
  case (2 h n)
  then show ?case unfolding vm_get_state_def libvirt_quiet_def
    by (intro raises_only_catch raises_only_bindm) auto
next
  case (3 h n g)
  then show ?case unfolding vm_stop_def libvirt_quiet_def
    by (auto intro!: no_raise_bindm no_raise_whenm raises_only_catch raises_only_bindm split: if_splits)
next
  case (4 h n)
  then show ?case unfolding vm_undefine_def libvirt_quiet_def
    by (intro raises_only_catch raises_only_bindm raises_only_whenm) auto
qed

section \<open>Emulators\<close>

definition emulator_quiet :: "'w os \<times> 'w sdk_env \<Rightarrow> bool" where
  "emulator_quiet h \<longleftrightarrow> no_raise (os_proc (fst h)) \<and> (\<forall>p. no_raise (os_exists (fst h) p)) \<and>
     (\<forall>n. no_raise (sdk_which (snd h) n)) \<and> (\<forall>p s. raises_only ''OSError'' (os_kill (fst h) p s))"

lemma no_raise_for_each: "(\<And>x. no_raise (f x)) \<Longrightarrow> no_raise (for_each xs f)"
  by (induction xs) (auto intro: no_raise_bindm)

lemma no_raise_first_existing: "(\<And>p. no_raise (os_exists h p)) \<Longrightarrow> no_raise (first_existing h ps)"
  by (induction ps) (auto intro!: no_raise_bindm)

lemma no_raise_option: "no_raise a \<Longrightarrow> (\<And>x. no_raise (f x)) \<Longrightarrow>
    no_raise (case y of None \<Rightarrow> a | Some x \<Rightarrow> f x)"
  by (cases y) simp_all

lemma no_raise_sdk_tool:
  "(\<And>p. no_raise (os_exists h p)) \<Longrightarrow> (\<And>n. no_raise (sdk_which e n)) \<Longrightarrow> no_raise (sdk_tool h e cs)"
  unfolding sdk_tool_def
  by (intro no_raise_bindm no_raise_option no_raise_first_existing no_raise_ret)

lemma no_raise_proc: "no_raise (os_proc h) \<Longrightarrow> no_raise (proc_cmdlines h)"
  unfolding proc_cmdlines_def by (intro no_raise_bindm no_raise_ret)

lemma no_raise_emu_stop: "emulator_quiet (h, e) \<Longrightarrow> no_raise (emu_stop h e n g)"
  unfolding emulator_quiet_def emu_stop_def pids_for_avd_def sdk_adb_def ports_in_use_def
  by (auto intro!: no_raise_bindm no_raise_option no_raise_for_each no_raise_sdk_tool no_raise_whenm
      no_raise_catch no_raise_proc raises_only_catch split: if_splits)

interpretation emulator_backend: device_backend "\<lambda>h. emu_get_state (fst h)" "\<lambda>h. emu_stop (fst h) (snd h)"
  "\<lambda>h. emu_undefine (fst h) (snd h)" emulator_quiet
proof (unfold_locales, goal_cases)
  case (1 h n w)
  show ?case unfolding emu_get_state_def wp_bindm
    by (rule wp_mono [OF wp_True]) (simp_all add: wp_simps STATES_def)
next
  case (2 h n)
  then show ?case unfolding emu_get_state_def pids_for_avd_def emulator_quiet_def
    by (intro no_raise_bindm no_raise_ret no_raise_proc) auto
next
  case (3 h n g)
  then show ?case by (simp add: no_raise_emu_stop)
next
  case (4 h n)
  then have s: "no_raise (emu_stop (fst h) (snd h) n False)" by (simp add: no_raise_emu_stop)
  from 4 show ?case unfolding emu_undefine_def sdk_avdmanager_def emulator_quiet_def
    by (intro no_raise_bindm no_raise_option no_raise_catch no_raise_sdk_tool no_raise_ret s) auto
qed

section \<open>Dispatch\<close>

record 'w host =
  ho_cfg :: cfg
  ho_doc :: pydict
  ho_lv :: "'w libvirt"
  ho_os :: "'w os"
  ho_sdk :: "'w sdk_env"
  ho_machine :: "'w machine"
  ho_guest :: "'w guest_env"
  ho_gid :: "int option"
  ho_subnet :: "string \<Rightarrow> int \<times> int \<times> int \<times> int"

text \<open>\<open>ho_doc\<close> is the configuration document of which \<open>ho_cfg\<close> holds the values.\<close>

definition dev_get_state :: "'w host \<Rightarrow> vm \<Rightarrow> ('w st, string) pm" where
  "dev_get_state H v = in_world (if vm_kind v = ''android'' then emu_get_state (ho_os H) (vm_libvirt_name v)
     else vm_get_state (ho_lv H) (vm_libvirt_name v))"

definition dev_stop :: "'w host \<Rightarrow> vm \<Rightarrow> bool \<Rightarrow> ('w st, unit) pm" where
  "dev_stop H v graceful = in_world (if vm_kind v = ''android'' then emu_stop (ho_os H) (ho_sdk H) (vm_libvirt_name v) graceful
     else vm_stop (ho_lv H) (vm_libvirt_name v) graceful)"

definition dev_start :: "'w host \<Rightarrow> vm \<Rightarrow> ('w st, unit) pm" where
  "dev_start H v = bindm uuid4_hex (\<lambda>hex. in_world (if vm_kind v = ''android''
     then emu_start (ho_cfg H) (ho_os H) (ho_sdk H) (vm_libvirt_name v)
     else vm_start (ho_lv H) (ho_os H) hex (vm_libvirt_name v)))"

definition dev_undefine :: "'w host \<Rightarrow> vm \<Rightarrow> ('w st, unit) pm" where
  "dev_undefine H v = in_world (if vm_kind v = ''android'' then emu_undefine (ho_os H) (ho_sdk H) (vm_libvirt_name v)
     else vm_undefine (ho_lv H) (vm_libvirt_name v))"

definition host_quiet :: "'w host \<Rightarrow> bool" where
  "host_quiet H \<longleftrightarrow> libvirt_quiet (ho_lv H) \<and> emulator_quiet (ho_os H, ho_sdk H)"

lemma wp_in_worldI: "(\<And>w. wp m P (\<lambda>e _. Q e) w) \<Longrightarrow> (\<And>x w. P x w \<Longrightarrow> P' x) \<Longrightarrow>
    wp (in_world m) (\<lambda>x t. P' x \<and> (\<exists>w. t = s\<lparr>world := w\<rparr>)) (\<lambda>e t. Q e \<and> (\<exists>w. t = s\<lparr>world := w\<rparr>)) s"
  unfolding wp_in_world by (rule wp_mono, assumption) auto

lemma wp_dev_get_state:
  "wp (dev_get_state H v) (\<lambda>x t. x \<in> set STATES \<and> (\<exists>w. t = s\<lparr>world := w\<rparr>))
     (\<lambda>e t. \<not> host_quiet H \<and> (\<exists>w. t = s\<lparr>world := w\<rparr>)) s"
proof (cases "host_quiet H")
  case True
  then have p: "wp (vm_get_state (ho_lv H) n) (\<lambda>x _. x \<in> set STATES) (\<lambda>_ _. False) w"
    "wp (emu_get_state (ho_os H) n) (\<lambda>x _. x \<in> set STATES) (\<lambda>_ _. False) w" for n w
    using libvirt_backend.probe [of "ho_lv H" n w] emulator_backend.probe [of "(ho_os H, ho_sdk H)" n w]
    by (simp_all add: host_quiet_def)
  show ?thesis unfolding dev_get_state_def
    by (rule wp_mono, rule wp_in_worldI [where Q = "\<lambda>_. False" and P = "\<lambda>x _. x \<in> set STATES"])
      (auto simp: p)
next
  case False
  have p: "wp (vm_get_state (ho_lv H) n) (\<lambda>x _. x \<in> set STATES) (\<lambda>_ _. True) w"
    "wp (emu_get_state (ho_os H) n) (\<lambda>x _. x \<in> set STATES) (\<lambda>_ _. True) w" for n w
    using libvirt_backend.state_range [of "ho_lv H" n w] emulator_backend.state_range [of "(ho_os H, ho_sdk H)" n w]
    by simp_all
  show ?thesis unfolding dev_get_state_def
    by (rule wp_mono, rule wp_in_worldI [where Q = "\<lambda>_. True" and P = "\<lambda>x _. x \<in> set STATES"])
      (auto simp: p False)
qed

end
