(* ===== verification/Demo.thy ===== *)
theory Demo
  imports Backend
begin

text \<open>
  A small host to run the definitions on: a world that knows which domains run, which files exist
  and which processes live, and libraries over it that behave as documented. Witnesses of
  theorems about operations on the host run on it; no theorem about the program depends on it.
\<close>

record demo =
  dm_active :: "string list"
  dm_files :: "string list"
  dm_procs :: "(int \<times> string) list"

definition demo_empty :: demo where
  "demo_empty = \<lparr>dm_active = [], dm_files = [], dm_procs = []\<rparr>"

definition demo_on :: "string \<Rightarrow> (demo, unit) pm" where
  "demo_on n = modify (\<lambda>w. w\<lparr>dm_active := List.insert n (dm_active w)\<rparr>)"

definition demo_off :: "string \<Rightarrow> (demo, unit) pm" where
  "demo_off n = modify (\<lambda>w. w\<lparr>dm_active := removeAll n (dm_active w)\<rparr>)"

definition demo_lv :: "demo libvirt" where
  "demo_lv = \<lparr>lv_lookup = \<lambda>_. ret (),
     lv_is_active = \<lambda>n. gets (\<lambda>w. n \<in> set (dm_active w)),
     lv_create = demo_on, lv_create_paused = demo_on, lv_resume = \<lambda>_. ret (),
     lv_shutdown = demo_off, lv_destroy = demo_off,
     lv_undefine_flags = \<lambda>_. ret (), lv_undefine = \<lambda>_. ret (),
     lv_set_autostart = \<lambda>_ _. ret (), lv_xml_desc = \<lambda>_. ret [],
     lv_state = \<lambda>n. gets (\<lambda>w. if n \<in> set (dm_active w) then 1 else 5),
     lv_info = \<lambda>_. ret (1, 2097152, 2097152, 2, 0),
     lv_snapshot_xml = \<lambda>_ _. ret (), lv_define_xml = ret,
     lv_agent = \<lambda>_ _. raise (PyExn ''libvirtError'' ''guest agent is not connected''),
     lv_qmp = \<lambda>_ _. ret ''{}'', lv_float = \<lambda>s. (0, s), lv_list_domains = gets dm_active, lv_list_active = gets dm_active,
     lv_net_lookup = \<lambda>_. ret (), lv_net_is_active = \<lambda>_. ret True, lv_net_create = \<lambda>_. ret (),
     lv_net_destroy = \<lambda>_. ret (), lv_net_undefine = \<lambda>_. ret (), lv_net_define_xml = ret,
     lv_net_set_autostart = \<lambda>_ _. ret (), lv_net_leases = \<lambda>_ _. ret [],
     lv_xml_parse = \<lambda>_. None, lv_xml_print = xml_text, lv_uuid = \<lambda>a b. a @ b,
     lv_rounds = \<lambda>_ _. ret 1\<rparr>"

definition demo_os :: "demo os" where
  "demo_os = \<lparr>os_exists = \<lambda>p. gets (\<lambda>w. p \<in> set (dm_files w)),
     os_is_file = \<lambda>p. gets (\<lambda>w. p \<in> set (dm_files w)), os_is_dir = \<lambda>_. ret False,
     os_resolve = ret, os_expanduser = ret, os_mkdir = \<lambda>_. ret (),
     os_touch = \<lambda>p. modify (\<lambda>w. w\<lparr>dm_files := List.insert p (dm_files w)\<rparr>),
     os_chown = \<lambda>_ _. ret (), os_chmod = \<lambda>_ _. ret (), os_read_text = \<lambda>_. ret [],
     os_write_text = \<lambda>p _. modify (\<lambda>w. w\<lparr>dm_files := List.insert p (dm_files w)\<rparr>),
     os_copy = \<lambda>_ p. modify (\<lambda>w. w\<lparr>dm_files := List.insert p (dm_files w)\<rparr>),
     os_rename = \<lambda>p q. modify (\<lambda>w. w\<lparr>dm_files := List.insert q (removeAll p (dm_files w))\<rparr>),
     os_stat = \<lambda>_. ret (0, 0), os_rglob = \<lambda>_ _. ret [], os_mktemp = \<lambda>d x. ret (d @ ''/tmp'' @ x),
     os_unlink = \<lambda>p. modify (\<lambda>w. w\<lparr>dm_files := removeAll p (dm_files w)\<rparr>),
     os_rmtree = \<lambda>p. modify (\<lambda>w. w\<lparr>dm_files := filter (\<lambda>q. \<not> starts_with q p) (dm_files w)\<rparr>),
     os_listdir = \<lambda>_. ret [], os_run = \<lambda>_ _. ret \<lparr>pr_returncode = 0, pr_stdout = [], pr_stderr = []\<rparr>,
     os_kill = \<lambda>p _. modify (\<lambda>w. w\<lparr>dm_procs := filter (\<lambda>q. fst q \<noteq> p) (dm_procs w)\<rparr>),
     os_access = \<lambda>_. ret True, os_proc = gets (\<lambda>w. map (\<lambda>(p, c). (show_int p, Some c)) (dm_procs w)), os_json = \<lambda>_. Inr (PDict [])\<rparr>"

definition demo_sdk :: "demo sdk_env" where
  "demo_sdk = \<lparr>sdk_root = Some ''/opt/android'', sdk_which = \<lambda>_. ret None, sdk_sleep_rounds = \<lambda>_ _. ret 1, sdk_environ = [],
     sdk_run = \<lambda>_ _ _. ret \<lparr>pr_returncode = 0, pr_stdout = [], pr_stderr = []\<rparr>, sdk_popen = \<lambda>_ _. ret 1\<rparr>"

definition demo_machine :: "demo machine" where
  "demo_machine = \<lparr>mc_meminfo = ret None, mc_cpu_count = ret (Some 8)\<rparr>"

definition demo_guest :: "demo guest_env" where
  "demo_guest = \<lparr>ge_connect = \<lambda>_ _ _. ret 0,
     ge_run = \<lambda>_ _ _ _. ret \<lparr>sr_exit_status = Some 0, sr_stdout = [], sr_stderr = []\<rparr>,
     ge_retries = \<lambda>_. ret 0, ge_tmpdir = ret ''/tmp'', ge_pil_convert = \<lambda>_ _. ret (), ge_read_bytes = \<lambda>_. ret []\<rparr>"

definition demo_host :: "demo host" where
  "demo_host = \<lparr>ho_cfg = default_cfg, ho_doc = [], ho_lv = demo_lv, ho_os = demo_os, ho_sdk = demo_sdk,
     ho_machine = demo_machine, ho_guest = demo_guest, ho_gid = None, ho_subnet = \<lambda>_. (1, 2, 3, 4)\<rparr>"

definition demo_vm :: vm where
  "demo_vm = \<lparr>vm_id = ''vm_1'', vm_libvirt_name = ''Boxer--p_1--web--vm_1'', vm_project_id = ''p_1'',
     vm_display_name = ''web'', vm_state = ''running'', vm_owner_user = ''ann'', vm_template = ''ubuntu'', vm_cpu = 2,
     vm_ram_mb = 2048, vm_disk_gb = 20, vm_headless = True, vm_created_at = 0, vm_last_touched = 0,
     vm_lease_until = minutes 60, vm_ip = None, vm_tags = [], vm_origin = ''boxer'', vm_artifact_type = ''cloud_image'',
     vm_install_state = None, vm_kind = ''vm''\<rparr>"

definition demo_tables :: tables where
  "demo_tables = empty_tables\<lparr>t_projects := [\<lparr>p_id = ''p_1'', p_path = ''/src/web'', p_first_seen = 0, p_last_seen = 0\<rparr>],
     t_vms := [demo_vm]\<rparr>"

definition demo_state :: "instant \<Rightarrow> tables \<Rightarrow> demo st" where
  "demo_state t d = \<lparr>db = d, now = t, rnd = \<lambda>n. show_nat n, rnd_next = 0,
     world = demo_empty\<lparr>dm_active := [''Boxer--p_1--web--vm_1'']\<rparr>, tasks = []\<rparr>"

lemmas demo_eval = demo_host_def demo_machine_def demo_lv_def demo_os_def demo_sdk_def demo_guest_def
  demo_state_def demo_tables_def demo_vm_def demo_empty_def empty_tables_def default_cfg_def
  demo_on_def demo_off_def

lemma demo_tables_ok: "db_ok demo_tables"
  by (simp add: db_ok_def demo_tables_def empty_tables_def demo_vm_def)

section \<open>Witnesses of the scheduler's properties\<close>

lemma demo_status: "get_status default_cfg demo_lv demo_machine w = (Inr
    \<lparr>hs_total_ram_gib = 8, hs_usable_ram_gib = 4, hs_used_ram_gib = 0, hs_host_threads = 8, hs_max_vcpus = 6,
      hs_used_vcpus = 0, hs_running_vms = 0\<rparr>, w)" if "dm_active w = []"
  using that
  by (simp add: get_status_def demo_eval pm_defs host_total_ram_gib_def host_cpu_threads_def used_ram_gib_def
      used_vcpus_def sum_active_def count_running_boxer_vms_def catch_class_def MIB_PER_GIB_KIB_def)

lemma default_cfg_limits: "cfg_max_running_per_project default_cfg = 2" "cfg_max_disk_per_project_gib default_cfg = 80"
  by (simp_all add: default_cfg_def)

lemma admission_no_overcommit_witness:
  "\<exists>st w. get_status default_cfg demo_lv demo_machine demo_empty = (Inr st, w) \<and>
     running_of (vms_of (Some ''p_1'') demo_tables) < cfg_max_running_per_project default_cfg \<and>
     2 \<le> max 0 (hs_max_vcpus st - hs_used_vcpus st)"
proof -
  let ?s = "(demo_state 0 demo_tables)\<lparr>world := demo_empty\<rparr>"
  have dm: "dm_active demo_empty = []" by (simp add: demo_empty_def)
  have "check_admission default_cfg demo_lv demo_machine (PStr ''p_1'') (PInt 2) (PInt 2048) (PInt 20) ?s = (Inr None, ?s)"
    by (simp add: check_admission_def in_world_def bindm_def liftr_def demo_status host_limits_def
        hs_free_ram_gib_def hs_free_vcpus_def round2_def round_even_def list_vms_def gets_def project_limits_def
        running_of_def used_disk_def vms_of_def vm_from_row_def demo_tables_def demo_state_def empty_tables_def demo_vm_def
        default_cfg_limits dm)
  from admission_no_overcommit [OF this] show ?thesis by (auto simp: demo_state_def)
qed

end
