(* ===== verification/Cache.thy ===== *)
theory Cache
  imports Images Demo
begin

text \<open>
  The cache of \<open>ImageManager\<close> in \<open>boxerd/image_catalog.py\<close>: where an artifact lies, the metadata that
  points at the current one, fetching, reporting and pruning. The clock is an argument \<open>t\<close>.
\<close>

section \<open>Paths and metadata\<close>

definition cache_dir :: "'w images \<Rightarrow> string \<Rightarrow> bool \<Rightarrow> string" where
  "cache_dir im name iso_kind = path_join (if iso_kind then cfg_isos_dir (im_cfg im) else cfg_images_dir (im_cfg im)) name"

definition blob_dir :: "'w images \<Rightarrow> string \<Rightarrow> bool \<Rightarrow> string" where
  "blob_dir im name iso_kind = path_join (cache_dir im name iso_kind) ''blobs''"

definition blob_path :: "'w images \<Rightarrow> string \<Rightarrow> string \<Rightarrow> string \<Rightarrow> bool \<Rightarrow> string" where
  "blob_path im name algorithm digest iso_kind =
     path_join (blob_dir im name iso_kind) (algorithm @ ''-'' @ digest @ ''.'' @ (if iso_kind then ''iso'' else ''qcow2''))"

definition metadata_path :: "'w images \<Rightarrow> string \<Rightarrow> bool \<Rightarrow> string" where
  "metadata_path im name iso_kind = path_join (cache_dir im name iso_kind) ''metadata.json''"

text \<open>\<open>PNone\<close> stands for no metadata, as for a document that is \<open>null\<close>.\<close>

definition read_metadata :: "'w images \<Rightarrow> string \<Rightarrow> bool \<Rightarrow> ('w, pyval) pm" where
  "read_metadata im name iso_kind =
     (let h = im_os im; path = metadata_path im name iso_kind in
      bindm (os_exists h path) (\<lambda>e.
      if \<not> e then ret PNone
      else catch (bindm (os_read_text h path) (\<lambda>text. liftr (os_json h text)))
        (\<lambda>x. if in_class ''JSONDecodeError'' x \<or> in_class ''OSError'' x then ret PNone else raise x)))"

definition current_blob :: "'w images \<Rightarrow> pyval \<Rightarrow> string \<Rightarrow> bool \<Rightarrow> ('w, string option) pm" where
  "current_blob im meta name iso_kind =
     (if \<not> truthy meta then ret None
      else bindm (liftr (bindr (need_dict attr_error meta) (\<lambda>m. need_dict attr_error (py_or (dget m ''current'') (PDict []))))) (\<lambda>current.
        if \<not> truthy (dget current ''algorithm'') \<or> \<not> truthy (dget current ''digest'') then ret None
        else let blob = blob_path im name (py_str (dget current ''algorithm'')) (py_str (dget current ''digest'')) iso_kind in
          bindm (os_exists (im_os im) blob) (\<lambda>e. ret (if e then Some blob else None))))"

definition is_cached :: "'w images \<Rightarrow> string \<Rightarrow> bool \<Rightarrow> ('w, bool) pm" where
  "is_cached im name iso_kind =
     bindm (read_metadata im name iso_kind) (\<lambda>meta. bindm (current_blob im meta name iso_kind) (\<lambda>b. ret (b \<noteq> None)))"

text \<open>What identifies an entry of the history.\<close>

definition digest_ident :: "pydict \<Rightarrow> string" where
  "digest_ident h = py_str (dget h ''algorithm'') @ '':'' @ py_str (dget h ''digest'')"

text \<open>The elements a \<open>for\<close> loop reads from a value and calls \<open>get\<close> on.\<close>

definition dict_items :: "pyval \<Rightarrow> pydict list res" where
  "dict_items v = (case v of
       PList xs \<Rightarrow> mapr (need_dict attr_error) xs
     | PStr s \<Rightarrow> if s = [] then Inr [] else Inl attr_error
     | PDict d \<Rightarrow> if d = [] then Inr [] else Inl attr_error
     | _ \<Rightarrow> Inl (PyExn ''TypeError'' ''object is not iterable''))"

definition new_history :: "digest_info \<Rightarrow> string \<Rightarrow> pydict list \<Rightarrow> pydict list" where
  "new_history e stamp history = take 10
     ([(''algorithm'', PStr (ed_algorithm e)), (''digest'', PStr (ed_digest e)), (''verified_at'', PStr stamp)] #
      filter (\<lambda>h. digest_ident h \<noteq> ed_algorithm e @ '':'' @ ed_digest e) history)"

definition current_entry :: "'w images \<Rightarrow> string \<Rightarrow> bool \<Rightarrow> string \<Rightarrow> digest_info \<Rightarrow> string \<Rightarrow> pydict" where
  "current_entry im name iso_kind url e stamp =
     [(''algorithm'', PStr (ed_algorithm e)), (''digest'', PStr (ed_digest e)),
      (''blob'', PStr (path_name (blob_path im name (ed_algorithm e) (ed_digest e) iso_kind))), (''url'', PStr url),
      (''verified_at'', PStr stamp), (''verification_source'', PStr (ed_source e)),
      (''signature_verified'', PBool (truthy (opt_str (ed_signature e)))), (''signature_provenance'', opt_str (ed_signature e))]"

definition new_metadata :: "'w images \<Rightarrow> instant \<Rightarrow> string \<Rightarrow> bool \<Rightarrow> string \<Rightarrow> string \<Rightarrow> digest_info \<Rightarrow> pyval \<Rightarrow> pydict res" where
  "new_metadata im t name iso_kind policy url e old =
     bindr (need_dict attr_error (py_or old (PDict []))) (\<lambda>meta.
     bindr (dict_items (py_or (dget meta ''history'') (PList []))) (\<lambda>history.
     Inr (dict_merge meta [(''template'', PStr name), (''artifact_type'', PStr (if iso_kind then ''iso'' else ''cloud-image'')),
       (''refresh_policy'', PStr policy), (''current'', PDict (current_entry im name iso_kind url e (iso t))),
       (''history'', PList (map PDict (new_history e (iso t) history)))])))"

definition set_current :: "'w images \<Rightarrow> instant \<Rightarrow> string \<Rightarrow> bool \<Rightarrow> string \<Rightarrow> string \<Rightarrow> digest_info \<Rightarrow> ('w, unit) pm" where
  "set_current im t name iso_kind policy url e =
     bindm (read_metadata im name iso_kind) (\<lambda>old.
     bindm (liftr (new_metadata im t name iso_kind policy url e old)) (\<lambda>meta.
     os_write_text (im_os im) (metadata_path im name iso_kind) (im_dumps im (PDict meta) @ ''\<newline>'')))"

section \<open>Fetching\<close>

definition hash_file :: "'w images \<Rightarrow> string \<Rightarrow> string \<Rightarrow> ('w, string) pm" where
  "hash_file im path algorithm =
     bindm (liftr (validate_hash_algorithm algorithm)) (\<lambda>alg.
     bindm (os_read_text (im_os im) path) (\<lambda>content. ret (im_hash im alg content)))"

text \<open>The body of the \<open>try\<close>, from the request to the new current artifact.\<close>

definition fetch_blob :: "'w images \<Rightarrow> instant \<Rightarrow> string \<Rightarrow> bool \<Rightarrow> string \<Rightarrow> string \<Rightarrow> digest_info option \<Rightarrow> string \<Rightarrow>
    ('w, string) pm" where
  "fetch_blob im t name iso_kind url policy expected tmp =
     bindm (download (im_os im) (im_net im) url tmp) (\<lambda>_.
     let algorithm = (case expected of Some e \<Rightarrow> ed_algorithm e | None \<Rightarrow> ''sha256'') in
     bindm (hash_file im tmp algorithm) (\<lambda>actual.
     bindm (guardm (case expected of Some e \<Rightarrow> ed_digest e \<noteq> actual | None \<Rightarrow> False)
       (ipc_error ERR_INTERNAL (upper algorithm @ '' mismatch for '' @ name @ '': expected '' @
         (case expected of Some e \<Rightarrow> ed_digest e | None \<Rightarrow> []) @ '', got '' @ actual))) (\<lambda>_.
     let blob = blob_path im name algorithm actual iso_kind in
     bindm (os_rename (im_os im) tmp blob) (\<lambda>_.
     bindm (set_current im t name iso_kind policy url (case expected of Some e \<Rightarrow> e
       | None \<Rightarrow> \<lparr>ed_algorithm = algorithm, ed_digest = actual, ed_source = ''download hash only'', ed_signature = None\<rparr>)) (\<lambda>_.
     ret blob)))))"

definition download_to_blob :: "'w images \<Rightarrow> instant \<Rightarrow> string \<Rightarrow> bool \<Rightarrow> string \<Rightarrow> string \<Rightarrow> digest_info option \<Rightarrow>
    ('w, string) pm" where
  "download_to_blob im t name iso_kind url policy expected =
     (let h = im_os im; dir = blob_dir im name iso_kind in
      bindm (os_mkdir h dir) (\<lambda>_.
      bindm (os_mktemp h dir ''.tmp'') (\<lambda>tmp.
      catch (fetch_blob im t name iso_kind url policy expected tmp)
        (\<lambda>e. bindm (os_exists h tmp) (\<lambda>x. bindm (whenm x (os_unlink h tmp)) (\<lambda>_. raise e))))))"

text \<open>
  \<open>entry["url"]\<close>: without it a \<open>KeyError\<close>; \<open>urlparse\<close> takes any false value for the empty URL and
  cannot read other values that are not text.
\<close>

definition entry_url :: "pydict \<Rightarrow> string res" where
  "entry_url entry = (case map_of entry ''url'' of
       None \<Rightarrow> Inl (PyExn ''KeyError'' ''url'')
     | Some v \<Rightarrow> if truthy v then need_str attr_error (\<lambda>_. True) v else Inr [])"

definition settle_artifact :: "'w images \<Rightarrow> instant \<Rightarrow> string \<Rightarrow> bool \<Rightarrow> bool \<Rightarrow> string \<Rightarrow> string \<Rightarrow> pyval \<Rightarrow>
    digest_info option \<Rightarrow> ('w, string) pm" where
  "settle_artifact im t name iso_kind force url policy meta expected = (case expected of
       Some e \<Rightarrow>
         (let blob = blob_path im name (ed_algorithm e) (ed_digest e) iso_kind in
          bindm (os_exists (im_os im) blob) (\<lambda>x.
          if x then bindm (set_current im t name iso_kind policy url e) (\<lambda>_. ret blob)
          else download_to_blob im t name iso_kind url policy (Some e)))
     | None \<Rightarrow>
         if policy = ''pinned'' then raise (ipc_error ERR_INVALID_PARAMS (''refresh_policy '' @ quoted ''pinned'' @ '' for '' @
           name @ '' requires a static sha256 or a checksum manifest''))
         else bindm (current_blob im meta name iso_kind) (\<lambda>current. case current of
             Some blob \<Rightarrow> if force then download_to_blob im t name iso_kind url policy None else ret blob
           | None \<Rightarrow> download_to_blob im t name iso_kind url policy None))"

text \<open>Resolving the digest: the cached artifact stands in for an upstream that cannot be reached.\<close>

definition resolve_or_fallback :: "'w images \<Rightarrow> string \<Rightarrow> bool \<Rightarrow> bool \<Rightarrow> pydict \<Rightarrow> string \<Rightarrow> pyval \<Rightarrow>
    ('w, string + digest_info option) pm" where
  "resolve_or_fallback im name iso_kind force entry url meta =
     catch (bindm (expected_digest im entry url) (\<lambda>e. ret (Inr e)))
       (\<lambda>x. bindm (current_blob im meta name iso_kind) (\<lambda>fallback. case fallback of
            Some blob \<Rightarrow> if \<not> force \<and> is_transient_fetch_error x then ret (Inl blob) else raise x
          | None \<Rightarrow> raise x))"

definition ensure_artifact :: "'w images \<Rightarrow> instant \<Rightarrow> string \<Rightarrow> pydict \<Rightarrow> bool \<Rightarrow> bool \<Rightarrow> ('w, string) pm" where
  "ensure_artifact im t name entry iso_kind force =
     bindm (liftr (entry_url entry)) (\<lambda>url.
     bindm (validate_url (im_net im) url) (\<lambda>_.
     bindm (liftr (refresh_policy entry)) (\<lambda>policy.
     bindm (read_metadata im name iso_kind) (\<lambda>meta.
     bindm (if policy = ''manual'' \<and> \<not> force then current_blob im meta name iso_kind else ret None) (\<lambda>served.
     case served of Some blob \<Rightarrow> ret blob
     | None \<Rightarrow>
         bindm (resolve_or_fallback im name iso_kind force entry url meta) (\<lambda>r. case r of
             Inl blob \<Rightarrow> ret blob
           | Inr expected \<Rightarrow> settle_artifact im t name iso_kind force url policy meta expected))))))"

definition require_entry :: "'w images \<Rightarrow> string \<Rightarrow> pydict res" where
  "require_entry im name = need_some (ipc_error ERR_INVALID_PARAMS (''Unknown template: '' @ name @ ''. Available: '' @
     repr_strs (catalog_list_names (im_catalog im)))) (catalog_get (im_catalog im) name)"

definition ensure_image :: "'w images \<Rightarrow> instant \<Rightarrow> string \<Rightarrow> bool \<Rightarrow> ('w, string) pm" where
  "ensure_image im t name force =
     bindm (liftr (require_entry im name)) (\<lambda>entry.
     bindm (guardm (artifact_type entry \<noteq> ''cloud-image'') (ipc_error ERR_INVALID_PARAMS (''Template '' @ quoted name @
       '' is type '' @ quoted (artifact_type entry) @ ''. Use the ISO installer workflow '' @
       ''(vm.request_installer / box_request_installer) for installer ISO templates.''))) (\<lambda>_.
     ensure_artifact im t name entry False force))"

definition ensure_iso :: "'w images \<Rightarrow> instant \<Rightarrow> string \<Rightarrow> bool \<Rightarrow> ('w, string) pm" where
  "ensure_iso im t name force =
     bindm (liftr (require_entry im name)) (\<lambda>entry.
     bindm (guardm (artifact_type entry \<noteq> ''iso'') (ipc_error ERR_INVALID_PARAMS (''Template '' @ quoted name @
       '' is type '' @ quoted (artifact_type entry) @ '', not an installer ISO.''))) (\<lambda>_.
     ensure_artifact im t name entry True force))"

section \<open>Reports\<close>

definition preflight_status :: "signature_policy option \<Rightarrow> exn + digest_info option \<Rightarrow> pydict" where
  "preflight_status policy r = (case r of
       Inl e \<Rightarrow> [(''status'', PStr ''error''), (''detail'', PStr (exn_text e))]
     | Inr None \<Rightarrow> [(''status'', PStr ''unverified''), (''detail'', PStr ''no checksum manifest or static pin configured'')]
     | Inr (Some d) \<Rightarrow>
         (case ed_signature d of
            Some (c # s) \<Rightarrow> [(''status'', PStr ''signed''), (''detail'', PStr (c # s)), (''algorithm'', PStr (ed_algorithm d))]
          | _ \<Rightarrow> [(''status'', PStr ''checksum-only''),
              (''detail'', PStr (if policy \<noteq> None then ''signature configured but not verified (keyring missing or not required)''
                 else ed_source d)), (''algorithm'', PStr (ed_algorithm d))]))"

definition preflight_entry :: "'w images \<Rightarrow> string \<Rightarrow> pydict \<Rightarrow> ('w, pyval) pm" where
  "preflight_entry im name entry =
     bindm (liftr (need_dict attr_error (py_or (dget entry ''verification'') (PDict [])))) (\<lambda>verification.
     bindm (liftr (parse_signature_policy verification entry)) (\<lambda>policy.
     bindm (catch (bindm (liftr (entry_url entry)) (\<lambda>url. bindm (expected_digest im entry url) (\<lambda>d. ret (Inr d))))
       (\<lambda>e. if is_ipc_error e then ret (Inl e) else raise e)) (\<lambda>r.
     ret (PDict ([(''template'', PStr name), (''artifact_type'', PStr (artifact_type entry)),
       (''signature_required'', PBool (case policy of Some p \<Rightarrow> sp_required p | None \<Rightarrow> False))] @
       preflight_status policy r)))))"

definition preflight :: "'w images \<Rightarrow> pyval list option \<Rightarrow> ('w, pyval list) pm" where
  "preflight im names =
     mapm (\<lambda>name. bindm (liftr (catalog_lookup (im_catalog im) name)) (\<lambda>found. case found of
         None \<Rightarrow> ret (PDict [(''template'', name), (''status'', PStr ''error''), (''detail'', PStr ''unknown template'')])
       | Some entry \<Rightarrow> preflight_entry im (py_str name) entry))
       (case names of Some ns \<Rightarrow> ns | None \<Rightarrow> map PStr (catalog_list_names (im_catalog im)))"

definition current_of :: "pyval \<Rightarrow> pydict res" where
  "current_of meta = bindr (need_dict attr_error (py_or meta (PDict []))) (\<lambda>m.
     need_dict attr_error (py_or (dget m ''current'') (PDict [])))"

definition list_image :: "'w images \<Rightarrow> string \<Rightarrow> ('w, pyval) pm" where
  "list_image im name =
     (let entry = (case catalog_get (im_catalog im) name of Some e \<Rightarrow> e | None \<Rightarrow> []); kind = artifact_type entry;
          iso_kind = (kind = ''iso'') in
      bindm (read_metadata im name iso_kind) (\<lambda>meta.
      bindm (liftr (current_of meta)) (\<lambda>current.
      bindm (current_blob im meta name iso_kind) (\<lambda>b.
      bindm (liftr (refresh_policy entry)) (\<lambda>policy.
      bindm (liftr (if iso_kind then bindr (need_dict attr_error (py_or (dget entry ''install'') (PDict [])))
        (\<lambda>i. Inr (dget i ''method'')) else Inr PNone)) (\<lambda>install_method.
      let cached = (b \<noteq> None) in
      ret (PDict [(''template'', PStr name), (''family'', dget entry ''family''), (''artifact_type'', PStr kind),
        (''description'', dget entry ''description''), (''refresh_policy'', PStr policy),
        (''default_cpu'', dget entry ''default_cpu''), (''default_ram_mb'', dget entry ''default_ram_mb''),
        (''default_disk_gb'', dget entry ''default_disk_gb''), (''install_method'', install_method),
        (''cached'', PBool cached),
        (''current_digest'', if cached \<and> current \<noteq> [] then PStr (digest_ident current) else PNone),
        (''verified_at'', if cached then dget current ''verified_at'' else PNone),
        (''signature_verified'', PBool (cached \<and> truthy (dget current ''signature_verified'')))])))))))"

definition list_images :: "'w images \<Rightarrow> ('w, pyval list) pm" where
  "list_images im = mapm (list_image im) (catalog_list_names (im_catalog im))"

definition refresh_image :: "'w images \<Rightarrow> instant \<Rightarrow> string \<Rightarrow> ('w, pyval) pm" where
  "refresh_image im t name =
     bindm (liftr (require_entry im name)) (\<lambda>entry.
     let iso_kind = (artifact_type entry = ''iso'') in
     bindm (if iso_kind then ensure_iso im t name True else ensure_image im t name True) (\<lambda>_.
     bindm (read_metadata im name iso_kind) (\<lambda>m.
     bindm (liftr (need_dict attr_error (py_or m (PDict [])))) (\<lambda>meta.
     bindm (liftr (current_of (PDict meta))) (\<lambda>current.
     ret (PDict [(''template'', PStr name), (''artifact_type'', dget meta ''artifact_type''),
       (''refresh_policy'', dget meta ''refresh_policy''), (''current_digest'', PStr (digest_ident current)),
       (''verified_at'', dget current ''verified_at''),
       (''signature_verified'', PBool (truthy (dget current ''signature_verified'')))]))))))"

section \<open>Pruning\<close>

definition template_current :: "'w images \<Rightarrow> bool \<Rightarrow> string \<Rightarrow> ('w, string list) pm" where
  "template_current im iso_kind dir =
     bindm (os_is_dir (im_os im) dir) (\<lambda>d.
     if \<not> d then ret []
     else bindm (read_metadata im (path_name dir) iso_kind) (\<lambda>meta.
       bindm (current_blob im meta (path_name dir) iso_kind) (\<lambda>b. case b of
           None \<Rightarrow> ret []
         | Some p \<Rightarrow> bindm (os_resolve (im_os im) p) (\<lambda>r. ret [r]))))"

definition root_current :: "'w images \<Rightarrow> string \<times> bool \<Rightarrow> ('w, string list) pm" where
  "root_current im r = (case r of (dir, iso_kind) \<Rightarrow>
     bindm (os_exists (im_os im) dir) (\<lambda>e.
     if \<not> e then ret []
     else bindm (os_listdir (im_os im) dir) (\<lambda>ds. bindm (mapm (template_current im iso_kind) ds) (\<lambda>bs. ret (concat bs)))))"

definition collect_current_blobs :: "'w images \<Rightarrow> ('w, string list) pm" where
  "collect_current_blobs im =
     bindm (mapm (root_current im) [(cfg_images_dir (im_cfg im), False), (cfg_isos_dir (im_cfg im), True)]) (\<lambda>bs.
     ret (concat bs))"

definition backing_names :: "pyval \<Rightarrow> string list res" where
  "backing_names chain = bindr (dict_items chain) (\<lambda>nodes.
     mapr (need_str (PyExn ''TypeError'' ''argument should be a str'') (\<lambda>_. True))
       (filter truthy (concat (map (\<lambda>n. [dget n ''full-backing-filename'', dget n ''backing-filename'']) nodes))))"

text \<open>The backing files of the remaining overlays, and whether every chain so far was read.\<close>

fun backing_files :: "'w images \<Rightarrow> string list \<Rightarrow> bool \<Rightarrow> string list \<Rightarrow> ('w, string list \<times> bool) pm" where
  "backing_files im in_use known [] = ret (in_use, known)"
| "backing_files im in_use known (overlay # os) =
     bindm (catch_class ''FileNotFoundError''
       (bindm (os_run (im_os im) [''qemu-img'', ''info'', ''--output=json'', ''--backing-chain'', overlay] []) (\<lambda>r. ret (Some r)))
       (\<lambda>_. ret None)) (\<lambda>r. case r of
       None \<Rightarrow> ret ([], False)
     | Some out \<Rightarrow>
         if pr_returncode out \<noteq> 0 then backing_files im in_use False os
         else (case os_json (im_os im) (pr_stdout out) of
             Inl e \<Rightarrow> if in_class ''JSONDecodeError'' e then backing_files im in_use False os else raise e
           | Inr chain \<Rightarrow>
               bindm (liftr (backing_names chain)) (\<lambda>names.
               bindm (mapm (os_resolve (im_os im)) names) (\<lambda>rs. backing_files im (in_use @ rs) known os))))"

definition collect_backing_files :: "'w images \<Rightarrow> ('w, string list \<times> bool) pm" where
  "collect_backing_files im =
     bindm (os_exists (im_os im) (cfg_projects_dir (im_cfg im))) (\<lambda>e.
     if \<not> e then ret ([], True)
     else bindm (os_rglob (im_os im) (cfg_projects_dir (im_cfg im)) ''disk.qcow2'') (backing_files im [] True))"

text \<open>
  \<open>_iter_cached_artifacts\<close> is a generator: the body of the loop over it runs between its tests. It
  is the argument \<open>visit\<close> here, and what it collects is put together.
\<close>

definition visit_file :: "'w images \<Rightarrow> (string \<Rightarrow> ('w, 'a list) pm) \<Rightarrow> string \<Rightarrow> ('w, 'a list) pm" where
  "visit_file im visit p = bindm (os_is_file (im_os im) p) (\<lambda>f. if f then visit p else ret [])"

definition is_blob_name :: "string \<Rightarrow> bool" where
  "is_blob_name n = ((ends_with n ''.qcow2'' \<and> n \<noteq> ''.qcow2'') \<or> (ends_with n ''.iso'' \<and> n \<noteq> ''.iso''))"

text \<open>What a template's directory holds: the digest-named files, then the two of the old layout.\<close>

definition visit_template :: "'w images \<Rightarrow> (string \<Rightarrow> ('w, 'a list) pm) \<Rightarrow> string \<Rightarrow> ('w, 'a list) pm" where
  "visit_template im visit dir = (let h = im_os im in
     bindm (os_is_dir h dir) (\<lambda>d.
     if \<not> d then ret []
     else
       bindm (os_is_dir h (path_join dir ''blobs'')) (\<lambda>b.
       bindm (if b then bindm (os_listdir h (path_join dir ''blobs'')) (mapm (\<lambda>p.
           bindm (os_is_file h p) (\<lambda>f. if f \<and> is_blob_name (path_name p) then visit p else ret []))) else ret []) (\<lambda>xs.
       bindm (mapm (visit_file im visit) [path_join dir ''base.qcow2'', path_join dir ''installer.iso'']) (\<lambda>ys.
       ret (concat xs @ concat ys))))))"

definition visit_root :: "'w images \<Rightarrow> (string \<Rightarrow> ('w, 'a list) pm) \<Rightarrow> string \<Rightarrow> ('w, 'a list) pm" where
  "visit_root im visit dir = (let h = im_os im in
     bindm (os_exists h dir) (\<lambda>e.
     if \<not> e then ret []
     else bindm (os_listdir h dir) (\<lambda>ds. bindm (mapm (visit_template im visit) ds) (\<lambda>xs. ret (concat xs)))))"

definition iter_cached_artifacts :: "'w images \<Rightarrow> (string \<Rightarrow> ('w, 'a list) pm) \<Rightarrow> ('w, 'a list) pm" where
  "iter_cached_artifacts im visit =
     bindm (mapm (visit_root im visit) [cfg_images_dir (im_cfg im), cfg_isos_dir (im_cfg im)]) (\<lambda>xs. ret (concat xs))"

definition parent_name :: "string \<Rightarrow> string" where
  "parent_name p = path_name (rev (drop 1 (dropWhile (\<lambda>c. c \<noteq> CHR ''/'') (rev p))))"

text \<open>One artifact: whether it goes, and its size.\<close>

definition prune_blob :: "'w images \<Rightarrow> string list \<Rightarrow> bool \<Rightarrow> instant \<Rightarrow> bool \<Rightarrow> string \<Rightarrow> ('w, (string \<times> int) list) pm" where
  "prune_blob im protected known cutoff dry_run blob =
     bindm (os_resolve (im_os im) blob) (\<lambda>real.
     if real \<in> set protected then ret []
     else if \<not> known \<and> parent_name blob = ''blobs'' then ret []
     else
       bindm (catch_class ''OSError'' (bindm (os_stat (im_os im) blob) (\<lambda>s. ret (Some s))) (\<lambda>_. ret None)) (\<lambda>s. case s of
           None \<Rightarrow> ret []
         | Some (bytes, mtime) \<Rightarrow>
             if cutoff < mtime then ret []
             else bindm (whenm (\<not> dry_run) (os_unlink (im_os im) blob)) (\<lambda>_. ret [(blob, bytes)])))"

definition prune :: "'w images \<Rightarrow> instant \<Rightarrow> int \<Rightarrow> bool \<Rightarrow> ('w, pyval) pm" where
  "prune im t older_than dry_run =
     bindm (collect_current_blobs im) (\<lambda>current.
     bindm (collect_backing_files im) (\<lambda>(in_use, known).
     bindm (iter_cached_artifacts im (prune_blob im (current @ in_use) known (t - seconds (max 0 older_than)) dry_run)) (\<lambda>rows.
     ret (PDict [(''dry_run'', PBool dry_run), (''removed_count'', PInt (int (length rows))),
       (''freed_bytes'', PInt (sum_list (map snd rows))), (''backing_chain_known'', PBool known),
       (''removed'', PList (map (\<lambda>(p, n). PDict [(''path'', PStr p), (''bytes'', PInt n)]) rows))]))))"

section \<open>What the cache promises\<close>

lemma catch_eq_Inr: "catch m h s = (Inr x, t) \<longleftrightarrow> m s = (Inr x, t) \<or> (\<exists>e u. m s = (Inl e, u) \<and> h e u = (Inr x, t))"
  by (auto simp: catch_def split: prod.splits sum.splits)

lemma ret_eq_Inr: "ret x s = (Inr y, t) \<longleftrightarrow> y = x \<and> t = s"
  by (auto simp: ret_def)

lemma raise_eq_Inr: "raise e s \<noteq> (Inr y, t)"
  by (simp add: raise_def)

lemma liftr_eq_Inr: "liftr r s = (Inr y, t) \<longleftrightarrow> r = Inr y \<and> t = s"
  by (auto simp: liftr_def)

lemma guardm_eq_Inr: "guardm b e s = (Inr y, t) \<longleftrightarrow> \<not> b \<and> t = s"
  by (auto simp: guardm_def ret_def raise_def)

lemmas run_simps = bindm_eq_Inr catch_eq_Inr ret_eq_Inr raise_eq_Inr liftr_eq_Inr guardm_eq_Inr

definition verified_fetch :: "'w images \<Rightarrow> string \<Rightarrow> bool \<Rightarrow> string \<Rightarrow> digest_info option \<Rightarrow> string \<Rightarrow> bool" where
  "verified_fetch im name iso_kind url expected p \<longleftrightarrow>
     (let algorithm = (case expected of Some e \<Rightarrow> ed_algorithm e | None \<Rightarrow> ''sha256'') in
      \<exists>alg content tmp w1 w2 w3. download (im_os im) (im_net im) url tmp w1 = (Inr (), w2) \<and>
        os_read_text (im_os im) tmp w2 = (Inr content, w3) \<and> validate_hash_algorithm algorithm = Inr alg \<and>
        p = blob_path im name algorithm (im_hash im alg content) iso_kind \<and>
        (\<forall>e. expected = Some e \<longrightarrow> ed_digest e = im_hash im alg content))"

lemma download_verified:
  assumes "download_to_blob im t name iso_kind url policy expected w = (Inr p, w')"
  shows "verified_fetch im name iso_kind url expected p"
proof -
  from assms obtain tmp w1 w2 where "fetch_blob im t name iso_kind url policy expected tmp w1 = (Inr p, w2)"
    by (auto simp: download_to_blob_def run_simps Let_def)
  then show ?thesis
    unfolding verified_fetch_def fetch_blob_def hash_file_def Let_def run_simps
    by (elim exE conjE, intro exI conjI) (assumption | auto)+
qed

lemma verified_fetch_path:
  "verified_fetch im name iso_kind url (Some d) p \<Longrightarrow> p = blob_path im name (ed_algorithm d) (ed_digest d) iso_kind"
  by (auto simp: verified_fetch_def Let_def)

lemma settle_some: "settle_artifact im t name iso_kind force url policy meta (Some d) w = (Inr p, w') \<Longrightarrow>
    p = blob_path im name (ed_algorithm d) (ed_digest d) iso_kind \<and>
    ((\<exists>w1 w2. os_exists (im_os im) p w1 = (Inr True, w2)) \<or> verified_fetch im name iso_kind url (Some d) p)"
  by (auto simp: settle_artifact_def run_simps Let_def split: if_splits
      dest!: download_verified intro: verified_fetch_path)

lemma settle_none: "settle_artifact im t name iso_kind force url policy meta None w = (Inr p, w') \<Longrightarrow>
    policy \<noteq> ''pinned'' \<and> (verified_fetch im name iso_kind url None p \<or>
      \<not> force \<and> (\<exists>w1 w2. current_blob im meta name iso_kind w1 = (Inr (Some p), w2)))"
  by (auto simp: settle_artifact_def run_simps Let_def split: if_splits option.splits dest!: download_verified)

lemma resolve_cases:
  assumes "resolve_or_fallback im name iso_kind force entry url meta w = (Inr r, w')"
  shows "\<exists>v w1. expected_digest im entry url w = (v, w1) \<and> (case r of
      Inl b \<Rightarrow> \<not> force \<and> (\<exists>e. v = Inl e \<and> is_transient_fetch_error e) \<and> current_blob im meta name iso_kind w1 = (Inr (Some b), w')
    | Inr d \<Rightarrow> v = Inr d)"
proof (cases "expected_digest im entry url w")
  case (Pair v w1)
  with assms show ?thesis
    by (cases v) (auto simp: resolve_or_fallback_def bindm_def [of "expected_digest _ _ _"] catch_def ret_def bindm_eq_Inr
        raise_eq_Inr split: option.splits if_splits)
qed


section \<open>Required signatures\<close>

text \<open>A run of gpgv with a keyring whose verdict is good for the pinned fingerprints.\<close>

definition signature_confirmed :: "'w images \<Rightarrow> signature_policy \<Rightarrow> bool" where
  "signature_confirmed im p \<longleftrightarrow> (\<exists>keyring args st w0 w1 w2 w3.
     resolve_keyring_path (im_os im) (sp_keyring p) (cfg_keyrings_dir (im_cfg im)) w0 = (Inr keyring, w1) \<and>
     run_gpgv (im_gpg im) (''--keyring'' # keyring # args) w2 = (Inr st, w3) \<and>
     vr_valid (verdict st) \<and> check_fingerprints (verdict st) (sp_fingerprints p))"

lemma judge_required: "judge_signature p k r w = (Inr s, w') \<Longrightarrow> sp_required p \<Longrightarrow>
    vr_valid r \<and> check_fingerprints r (sp_fingerprints p) \<and> s \<noteq> None"
  by (auto simp: judge_signature_def signature_fail_def run_simps split: if_splits)

lemma fail_required: "sp_required p \<Longrightarrow> signature_fail p m w \<noteq> (Inr s, w')"
  by (simp add: signature_fail_def raise_eq_Inr)

lemma verify_with_keyring_required:
  assumes "verify_with_keyring im p bytes keyring w = (Inr s, w')" "sp_required p"
  shows "s \<noteq> None \<and> (\<exists>args st w2 w3. run_gpgv (im_gpg im) (''--keyring'' # keyring # args) w2 = (Inr st, w3) \<and>
     vr_valid (verdict st) \<and> check_fingerprints (verdict st) (sp_fingerprints p))"
proof (cases "sp_mode p = ''clearsigned''")
  case True
  with assms show ?thesis
    by (auto simp: verify_with_keyring_def verify_clearsigned_def run_simps Let_def dest!: judge_required) blast
next
  case False
  with assms show ?thesis
    by (auto simp: verify_with_keyring_def verify_detached_def run_simps fail_required Let_def
        split: option.splits list.splits dest!: judge_required) blast
qed

lemma verify_required:
  assumes "verify_manifest_signature im p bytes w = (Inr s, w')" and req: "sp_required p"
  shows "s \<noteq> None \<and> signature_confirmed im p"
proof -
  from assms obtain keyring w1 where
    k: "resolve_keyring_path (im_os im) (sp_keyring p) (cfg_keyrings_dir (im_cfg im)) w = (Inr keyring, w1)"
    and v: "verify_with_keyring im p bytes keyring w1 = (Inr s, w')"
    by (auto simp: verify_manifest_signature_def run_simps)
  from verify_with_keyring_required [OF v req] k show ?thesis
    unfolding signature_confirmed_def by blast
qed

lemma expected_digest_required:
  assumes "expected_digest im entry url w = (Inr r, w')"
    and "\<not> truthy (dget entry ''sha256'')" "py_or (dget entry ''verification'') (PDict []) = PDict verification"
    and "parse_signature_policy verification entry = Inr (Some p)" "sp_required p"
  shows "signature_confirmed im p \<and> (\<exists>d. r = Some d \<and> ed_signature d \<noteq> None)"
  using assms
  by (auto simp: expected_digest_def manifest_digest_def run_simps need_dict_def Let_def split: if_splits dest!: verify_required)


section \<open>Digests, metadata and pruning\<close>

lemma some_of_all: "some_of P s = Some (x, r) \<Longrightarrow> list_all P x"
  by (auto simp: some_of_def Let_def list_all_iff dest: set_takeWhileD split: if_splits)

lemma bind_scan_Some: "bind_scan m f s = Some (y, r) \<longleftrightarrow> (\<exists>x t. m s = Some (x, t) \<and> f x t = Some (y, r))"
  by (auto simp: bind_scan_def split: option.splits prod.splits)

lemma lower_hex: "is_hex c \<Longrightarrow> is_lower_hex (lower_char c)"
  by (auto simp: is_hex_def is_lower_hex_def lower_char_def Let_def)

lemma fedora_hex: "fedora_match line = Some (alg, name, digest) \<Longrightarrow> list_all is_hex digest"
  unfolding fedora_match_def fedora_scan_def
  by (auto simp: bind_scan_Some split: if_splits dest: some_of_all)

lemma lower_hex_all: "list_all is_hex d \<Longrightarrow> list_all is_lower_hex (lower d)"
  by (induction d) (auto simp: lower_def lower_hex)

lemma manifest_line_digest: "manifest_line wanted alg line = Some d \<Longrightarrow>
    length d = hash_length alg \<and> list_all is_lower_hex d"
  by (auto simp: manifest_line_def lower_hex_all split: if_splits option.splits list.splits dest!: fedora_hex)
    (simp_all add: lower_def)

lemma find_map_filter: "List.find (\<lambda>_. True) (List.map_filter f xs) = Some d \<Longrightarrow> \<exists>x \<in> set xs. f x = Some d"
  by (induction xs) (auto simp: map_filter_simps split: option.splits)

text \<open>C40: A digest read from a manifest has the length of its algorithm and only lower-case hexadecimal
  digits, and the algorithm is one of the two supported, so the name of a cached file is formed from
  characters that mean nothing in a path.\<close>

theorem manifest_digest_shape:
  assumes "parse_checksum_manifest text filename alg = Inr d"
  shows "\<exists>a \<in> {''sha256'', ''sha512''}. lower alg = a \<and> list_all is_lower_hex d \<and>
    length d = (if a = ''sha256'' then 64 else 128)"
proof -
  from assms obtain a where a: "validate_hash_algorithm alg = Inr a"
    and f: "List.find (\<lambda>_. True) (List.map_filter (manifest_line (pure_name filename) a) (map strip (splitlines text))) = Some d"
    by (auto simp: parse_checksum_manifest_def bindr_eq_Inr need_Inr)
  from find_map_filter [OF f] have "length d = hash_length a \<and> list_all is_lower_hex d"
    by (auto dest: manifest_line_digest)
  with a show ?thesis
    by (auto simp: validate_hash_algorithm_def SUPPORTED_HASHES_def hash_length_def split: if_splits)
qed

lemma manifest_digest_shape_witness:
  "\<exists>a \<in> {''sha256'', ''sha512''}. lower ''SHA256'' = a \<and>
     parse_checksum_manifest (replicate 64 CHR ''A'' @ ''  *a.img'') ''a.img'' ''SHA256'' = Inr (replicate 64 CHR ''a'') \<and>
     length (replicate 64 CHR ''a'') = (if a = ''sha256'' then 64 else 128)"
proof -
  have "parse_checksum_manifest (replicate 64 CHR ''A'' @ ''  *a.img'') ''a.img'' ''SHA256'' = Inr (replicate 64 CHR ''a'')"
    by code_simp
  from manifest_digest_shape [OF this] this show ?thesis by auto
qed

section \<open>The current artifact\<close>

lemma map_of_new_metadata:
  assumes "new_metadata im t name iso_kind policy url e old = Inr meta"
  shows "\<exists>history. map_of meta ''current'' = Some (PDict (current_entry im name iso_kind url e (iso t))) \<and>
    map_of meta ''history'' = Some (PList (map PDict (new_history e (iso t) history)))"
  using assms by (auto simp: new_metadata_def bindr_eq_Inr map_of_dict_merge)

lemma digest_ident_new: "digest_ident [(''algorithm'', PStr a), (''digest'', PStr d), (''verified_at'', t)] = a @ '':'' @ d"
  by (simp add: digest_ident_def dget_def)

text \<open>C39: The metadata written for an artifact is found again: read back, its current entry leads to the file
  of that artifact whenever the file exists. Its history starts with that artifact, mentions it
  once and never has more than ten entries.\<close>

theorem metadata_finds_artifact:
  assumes "new_metadata im t name iso_kind policy url e old = Inr meta" "ed_algorithm e \<noteq> []" "ed_digest e \<noteq> []"
  shows "current_blob im (PDict meta) name iso_kind =
      (let blob = blob_path im name (ed_algorithm e) (ed_digest e) iso_kind in
       bindm (os_exists (im_os im) blob) (\<lambda>x. ret (if x then Some blob else None))) \<and>
    (\<exists>h hs. map_of meta ''history'' = Some (PList (map PDict (h # hs))) \<and> length (h # hs) \<le> 10 \<and>
       digest_ident h = ed_algorithm e @ '':'' @ ed_digest e \<and> digest_ident h \<notin> digest_ident ` set hs)"
proof (rule conjI)
  from map_of_new_metadata [OF assms(1)] obtain history where
    cur: "map_of meta ''current'' = Some (PDict (current_entry im name iso_kind url e (iso t)))"
    and his: "map_of meta ''history'' = Some (PList (map PDict (new_history e (iso t) history)))" by blast
  from cur have "meta \<noteq> []" by auto
  with cur assms show "current_blob im (PDict meta) name iso_kind =
      (let blob = blob_path im name (ed_algorithm e) (ed_digest e) iso_kind in
       bindm (os_exists (im_os im) blob) (\<lambda>x. ret (if x then Some blob else None)))"
    by (simp add: current_blob_def need_dict_def dget_def py_or_def current_entry_def liftr_def bindm_def Let_def)
  show "\<exists>h hs. map_of meta ''history'' = Some (PList (map PDict (h # hs))) \<and> length (h # hs) \<le> 10 \<and>
       digest_ident h = ed_algorithm e @ '':'' @ ed_digest e \<and> digest_ident h \<notin> digest_ident ` set hs"
    unfolding his new_history_def
    by (auto simp: take_Cons' digest_ident_new dest!: in_set_takeD)
qed

section \<open>Pruning\<close>

lemma wp_mapm_all: "(\<And>x s. wp (f x) (\<lambda>y _. P y) (\<lambda>_ _. True) s) \<Longrightarrow> wp (mapm f xs) (\<lambda>ys _. list_all P ys) (\<lambda>_ _. True) s"
proof (induction xs arbitrary: s)
  case (Cons x xs)
  show ?case unfolding mapm.simps wp_bindm wp_ret
    by (rule wp_mono [OF Cons.prems], rule wp_mono [OF Cons.IH [OF Cons.prems]]) auto
qed (simp add: wp_ret)

lemma list_all_concat: "list_all (list_all P) xss \<Longrightarrow> list_all P (concat xss)"
  by (induction xss) auto

definition yields :: "('a \<Rightarrow> bool) \<Rightarrow> ('w, 'a list) pm \<Rightarrow> bool" where
  "yields P m \<longleftrightarrow> (\<forall>w. wp m (\<lambda>xs _. list_all P xs) (\<lambda>_ _. True) w)"

lemma yields_ret_nil: "yields P (ret [])"
  by (simp add: yields_def wp_ret)

lemma yields_bindm: "(\<And>x. yields P (f x)) \<Longrightarrow> yields P (bindm m f)"
  unfolding yields_def wp_bindm by (intro allI, rule wp_mono [OF wp_True]) simp_all

lemma yields_if: "(b \<Longrightarrow> yields P m) \<Longrightarrow> (\<not> b \<Longrightarrow> yields P n) \<Longrightarrow> yields P (if b then m else n)"
  by simp

lemma yields_mapm_concat: "(\<And>x. yields P (f x)) \<Longrightarrow> yields (list_all P) (mapm f xs)"
  unfolding yields_def by (intro allI, rule wp_mapm_all) blast

lemma yields_concat: "yields (list_all P) m \<Longrightarrow> yields P (bindm m (\<lambda>xs. ret (concat xs)))"
  unfolding yields_def wp_bindm wp_ret by (auto intro: wp_mono list_all_concat)

lemma yields_append: "yields (list_all P) m \<Longrightarrow> yields (list_all P) n \<Longrightarrow>
    yields P (bindm m (\<lambda>xs. bindm n (\<lambda>ys. ret (concat xs @ concat ys))))"
  unfolding yields_def wp_bindm wp_ret
  by (intro allI, drule spec, erule wp_mono, drule spec, erule wp_mono) (simp_all add: list_all_concat)

lemmas yields_intros = yields_if yields_ret_nil yields_mapm_concat

lemma yields_visit:
  assumes "\<And>p. yields P (visit p)"
  shows "yields P (iter_cached_artifacts im visit)"
proof -
  have f: "yields P (visit_file im visit p)" for p
    unfolding visit_file_def by (intro yields_bindm yields_intros assms)
  have d: "yields P (visit_template im visit dir)" for dir
    unfolding visit_template_def Let_def
    by (rule yields_bindm, rule yields_if, rule yields_ret_nil, rule yields_bindm, rule yields_append)
      (intro yields_intros yields_bindm assms f)+
  have r: "yields P (visit_root im visit dir)" for dir
    unfolding visit_root_def Let_def
    by (rule yields_bindm, rule yields_if, rule yields_ret_nil, rule yields_bindm, rule yields_concat)
      (intro yields_intros d)
  show ?thesis
    unfolding iter_cached_artifacts_def by (intro yields_concat yields_mapm_concat r)
qed

text \<open>What may be removed: a file that is neither current nor in use, not named by a digest unless the
  backing chains are known, and old enough.\<close>

definition prunable :: "'w images \<Rightarrow> string list \<Rightarrow> bool \<Rightarrow> instant \<Rightarrow> string \<times> int \<Rightarrow> bool" where
  "prunable im protected known cutoff row \<longleftrightarrow>
     (\<exists>real w0 w1 w2 w3 mtime. os_resolve (im_os im) (fst row) w0 = (Inr real, w1) \<and> real \<notin> set protected \<and>
        (known \<or> parent_name (fst row) \<noteq> ''blobs'') \<and> os_stat (im_os im) (fst row) w2 = (Inr (snd row, mtime), w3) \<and>
        mtime \<le> cutoff)"

lemma yieldsI: "(\<And>w xs w'. m w = (Inr xs, w') \<Longrightarrow> list_all P xs) \<Longrightarrow> yields P m"
  unfolding yields_def by (intro allI wp_runI) auto

lemma prune_blob_row:
  assumes "prune_blob im protected known cutoff dry_run blob w = (Inr xs, w')" "xs \<noteq> []"
  obtains real w0 w1 w2 bytes mtime where "os_resolve (im_os im) blob w0 = (Inr real, w1)" "real \<notin> set protected"
    "known \<or> parent_name blob \<noteq> ''blobs''" "os_stat (im_os im) blob w1 = (Inr (bytes, mtime), w2)" "mtime \<le> cutoff"
    "xs = [(blob, bytes)]"
proof -
  from assms obtain real w1 s w2 where r: "os_resolve (im_os im) blob w = (Inr real, w1)" "real \<notin> set protected"
      "known \<or> parent_name blob \<noteq> ''blobs''"
    and s: "catch_class ''OSError'' (bindm (os_stat (im_os im) blob) (\<lambda>s. ret (Some s))) (\<lambda>_. ret None) w1 = (Inr s, w2)"
    and rest: "(case s of None \<Rightarrow> ret []
         | Some (bytes, mtime) \<Rightarrow>
             if cutoff < mtime then ret []
             else bindm (whenm (\<not> dry_run) (os_unlink (im_os im) blob)) (\<lambda>_. ret [(blob, bytes)])) w2 = (Inr xs, w')"
    by (auto simp: prune_blob_def bindm_eq_Inr ret_eq_Inr split: if_splits)
  from rest assms(2) obtain bytes mtime where b: "s = Some (bytes, mtime)" "mtime \<le> cutoff" "xs = [(blob, bytes)]"
    by (auto simp: bindm_eq_Inr ret_eq_Inr split: option.splits if_splits)
  from s b(1) have "os_stat (im_os im) blob w1 = (Inr (bytes, mtime), w2)"
    by (auto simp: catch_class_def run_simps split: if_splits)
  with r b show thesis by (intro that [of w real w1 bytes mtime w2]) simp_all
qed

lemma prune_blob_yields: "yields (prunable im protected known cutoff) (prune_blob im protected known cutoff dry_run blob)"
proof (rule yieldsI)
  fix w xs w'
  assume run: "prune_blob im protected known cutoff dry_run blob w = (Inr xs, w')"
  show "list_all (prunable im protected known cutoff) xs"
  proof (cases "xs = []")
    case False
    with run show ?thesis by (elim prune_blob_row) (auto simp: prunable_def)
  qed simp
qed

text \<open>The same operations with another way to remove files.\<close>

definition with_unlink :: "'w images \<Rightarrow> (string \<Rightarrow> ('w, unit) pm) \<Rightarrow> 'w images" where
  "with_unlink im u = im\<lparr>im_os := (im_os im)\<lparr>os_unlink := u\<rparr>\<rparr>"

lemma with_unlink_fields [simp]:
  "os_exists (im_os (with_unlink im u)) = os_exists (im_os im)" "os_is_file (im_os (with_unlink im u)) = os_is_file (im_os im)"
  "os_is_dir (im_os (with_unlink im u)) = os_is_dir (im_os im)" "os_resolve (im_os (with_unlink im u)) = os_resolve (im_os im)"
  "os_read_text (im_os (with_unlink im u)) = os_read_text (im_os im)" "os_write_text (im_os (with_unlink im u)) = os_write_text (im_os im)"
  "os_stat (im_os (with_unlink im u)) = os_stat (im_os im)" "os_rglob (im_os (with_unlink im u)) = os_rglob (im_os im)"
  "os_listdir (im_os (with_unlink im u)) = os_listdir (im_os im)" "os_run (im_os (with_unlink im u)) = os_run (im_os im)"
  "os_json (im_os (with_unlink im u)) = os_json (im_os im)"
  "im_cfg (with_unlink im u) = im_cfg im" "im_catalog (with_unlink im u) = im_catalog im"
  "os_unlink (im_os (with_unlink im u)) = u"
  by (simp_all add: with_unlink_def)

lemma with_unlink_paths [simp]:
  "metadata_path (with_unlink im u) = metadata_path im" "blob_path (with_unlink im u) = blob_path im"
  by (simp_all add: fun_eq_iff metadata_path_def blob_path_def blob_dir_def cache_dir_def)

lemma with_unlink_reads [simp]:
  "read_metadata (with_unlink im u) = read_metadata im" "current_blob (with_unlink im u) = current_blob im"
  by (simp_all add: fun_eq_iff read_metadata_def current_blob_def Let_def cong: if_cong)

lemma with_unlink_collect [simp]: "collect_current_blobs (with_unlink im u) = collect_current_blobs im"
  by (simp add: collect_current_blobs_def root_current_def [abs_def] template_current_def [abs_def]
      cong: if_cong option.case_cong)

lemma with_unlink_backing: "backing_files (with_unlink im u) xs k os = backing_files im xs k os"
  by (induction os arbitrary: xs k) (simp_all cong: if_cong option.case_cong sum.case_cong)

lemma with_unlink_backing_files [simp]: "collect_backing_files (with_unlink im u) = collect_backing_files im"
  by (simp add: collect_backing_files_def with_unlink_backing [abs_def] cong: if_cong)

lemma with_unlink_visit [simp]: "iter_cached_artifacts (with_unlink im u) visit = iter_cached_artifacts im visit"
  by (simp add: iter_cached_artifacts_def visit_root_def [abs_def] visit_template_def [abs_def] visit_file_def [abs_def] Let_def
      cong: if_cong)


section \<open>Examples\<close>

text \<open>A host whose gpgv confirms every signature with one key, and a template that needs one.\<close>

definition demo_key :: string where "demo_key = replicate 40 CHR ''A''"

definition demo_gpg :: "'w gpg" where
  "demo_gpg = \<lparr>sg_which = \<lambda>_. ret (Some ''/usr/bin/gpgv''),
     sg_run = \<lambda>_. ret (0, ''[GNUPG:] VALIDSIG '' @ demo_key, []), sg_tmpdir = ret ''/tmp''\<rparr>"

definition demo_template :: pydict where
  "demo_template = [(''url'', PStr ''https://e.o/a''),
     (''verification'', PDict [(''checksum_url'', PStr ''https://e.o/S''),
       (''signature'', PDict [(''required'', PBool True), (''keyring'', PStr ''k''), (''signature_url'', PStr ''https://e.o/G''),
         (''fingerprints'', PList [PStr demo_key])])])]"

definition demo_images :: "demo images" where
  "demo_images = \<lparr>im_cfg = default_cfg, im_catalog = [(''a'', demo_template)], im_os = demo_os\<lparr>os_is_file := \<lambda>_. ret True, os_read_text := \<lambda>_. ret demo_sum\<rparr>,
     im_net = demo_net, im_gpg = demo_gpg, im_hash = \<lambda>_ c. c, im_decode = id, im_dumps = \<lambda>_. []\<rparr>"

text \<open>The runs below are evaluated in the kernel.\<close>

definition demo_artifact :: string where
  "demo_artifact = ''/var/lib/boxer/images/a/blobs/sha256-'' @ demo_sum @ ''.qcow2''"

lemma fst_eqD: "fst p = x \<Longrightarrow> \<exists>y. p = (x, y)"
  by (cases p) simp

definition demo_pinned :: pydict where
  "demo_pinned = [(''url'', PStr ''https://example.org/a''), (''sha256'', PStr demo_sum)]"


definition demo_policy :: signature_policy where
  "demo_policy = \<lparr>sp_mode = ''detached'', sp_keyring = Some ''k'', sp_signature_url = Some ''https://e.o/G'',
     sp_fingerprints = [demo_key], sp_required = True\<rparr>"

lemma demo_policy_parsed: "parse_signature_policy (case dget demo_template ''verification'' of PDict v \<Rightarrow> v | _ \<Rightarrow> []) demo_template = Inr (Some demo_policy)"
  by code_simp

lemma demo_download: "validate_url (im_net demo_images) ''https://e.o/S'' demo_empty = (Inr (), demo_empty)"
  "download_bytes (im_net demo_images) ''https://e.o/S'' demo_empty = (Inr demo_sum, demo_empty)"
  by code_simp+

lemma demo_signature: "\<not> isl (fst (verify_manifest_signature demo_images demo_policy demo_sum demo_empty))"
  by code_simp

lemma demo_manifest: "parse_checksum_manifest demo_sum ''a'' ''sha256'' = Inr demo_sum"
  by code_simp

lemma demo_file: "manifest_filename ''https://e.o/a'' PNone = Inr ''a''" by code_simp
lemma demo_alg: "validate_hash_algorithm ''sha256'' = Inr ''sha256''" by code_simp

lemma demo_expected: "\<exists>r w. expected_digest demo_images demo_template ''https://e.o/a'' demo_empty = (Inr r, w)"
proof -
  let ?v = "case dget demo_template ''verification'' of PDict v \<Rightarrow> v | _ \<Rightarrow> []"
  obtain sig w where s: "verify_manifest_signature demo_images demo_policy demo_sum demo_empty = (Inr sig, w)"
    using demo_signature by (metis prod.collapse sum.collapse(2))
  have v: "py_or (dget demo_template ''verification'') (PDict []) = PDict ?v"
    "py_or (dget ?v ''checksum_url'') (dget demo_template ''checksum_url'') = PStr ''https://e.o/S''"
    "py_or (py_or (dget ?v ''checksum_algorithm'') (dget demo_template ''checksum_algorithm'')) (PStr ''sha256'') = PStr ''sha256''"
    "py_or (dget ?v ''checksum_filename'') (dget demo_template ''checksum_filename'') = PNone" "\<not> truthy (dget demo_template ''sha256'')"
    by code_simp+
  have "manifest_text (Some demo_policy) (im_decode demo_images demo_sum) = Inr demo_sum"
    by (simp add: manifest_text_def demo_policy_def demo_images_def)
  with s show ?thesis
    by (simp add: expected_digest_def manifest_digest_def v need_dict_def need_str_def demo_policy_parsed demo_download
        demo_manifest demo_file demo_alg pm_defs Let_def)
qed

lemma metadata_finds_artifact_witness:
  "\<exists>meta. new_metadata demo_images 0 ''a'' False ''latest'' [] \<lparr>ed_algorithm = ''sha256'', ed_digest = demo_sum, ed_source = [],
      ed_signature = None\<rparr> PNone = Inr meta \<and> fst (current_blob demo_images (PDict meta) ''a'' False demo_empty) = Inr None"
proof -
  let ?e = "\<lparr>ed_algorithm = ''sha256'', ed_digest = demo_sum, ed_source = [], ed_signature = None\<rparr>"
  have "\<not> isl (new_metadata demo_images 0 ''a'' False ''latest'' [] ?e PNone)" by code_simp
  then obtain meta where m: "new_metadata demo_images 0 ''a'' False ''latest'' [] ?e PNone = Inr meta"
    by (cases "new_metadata demo_images 0 ''a'' False ''latest'' [] ?e PNone") auto
  have "demo_sum \<noteq> []" by (simp add: demo_sum_def)
  with metadata_finds_artifact [OF m] m show ?thesis
    by (auto simp: Let_def demo_images_def demo_os_def demo_empty_def bindm_def gets_def ret_def)
qed


end
