(* ===== verification/CloudInit.thy ===== *)
theory CloudInit
  imports Base64
begin

text \<open>
  \<open>boxerd/cloud_init.py\<close>, \<open>boxerd/agent_inject.py\<close> and the rendering half of
  \<open>boxerd/installer_seed.py\<close>: the documents a new guest is configured by. Printing a document
  as YAML or JSON and packing files into an ISO are the work of libraries and of
  \<open>genisoimage\<close>: \<open>yaml\<close> and \<open>json\<close> are arguments, and the renderers give the document.
\<close>

record write_file =
  wf_path :: string
  wf_content :: string
  wf_permissions :: string
  wf_owner :: string

record cloud_init_options =
  ci_ssh_authorized_keys :: "string list"
  ci_packages :: "string list"
  ci_runcmd :: "string list"
  ci_write_files :: "write_file list"

definition ci_dedupe :: "string list \<Rightarrow> string list" where
  "ci_dedupe items = dedupe_loop (\<lambda>_. True) [] items"

definition ci_base_runcmd :: "string list" where
  "ci_base_runcmd =
     [''systemctl enable --now qemu-guest-agent 2>/dev/null || rc-service qemu-guest-agent start 2>/dev/null || true'',
      ''ssh-keygen -A 2>/dev/null || true'',
      ''systemctl enable --now ssh 2>/dev/null || systemctl enable --now sshd 2>/dev/null || rc-service sshd start 2>/dev/null || true'']"

definition ci_user :: "string list \<Rightarrow> pydict" where
  "ci_user keys =
     [(''name'', PStr ''boxer''), (''groups'', str_list [''sudo'', ''wheel'']), (''shell'', PStr ''/bin/sh''),
      (''sudo'', PStr ''ALL=(ALL) NOPASSWD:ALL''), (''passwd'', PStr ''*''), (''lock_passwd'', PBool False)]
     @ (if keys = [] then [] else [(''ssh_authorized_keys'', str_list keys)])"

definition ci_network :: pydict where
  "ci_network =
     [(''version'', PInt 2),
      (''ethernets'', PDict
        [(''all-eth'', PDict [(''match'', PDict [(''name'', PStr ''eth*'')]), (''dhcp4'', PBool True),
           (''dhcp6'', PBool False), (''set-name'', PStr ''eth0'')]),
         (''all-en'', PDict [(''match'', PDict [(''name'', PStr ''en*'')]), (''dhcp4'', PBool True),
           (''dhcp6'', PBool False)])])]"

definition ci_file :: "write_file \<Rightarrow> pyval" where
  "ci_file f = PDict
     [(''path'', PStr (wf_path f)), (''encoding'', PStr ''b64''),
      (''content'', PStr (b64encode (utf8_encode (wf_content f)))),
      (''permissions'', PStr (wf_permissions f)), (''owner'', PStr (wf_owner f))]"

definition user_data_doc :: "string \<Rightarrow> cloud_init_options \<Rightarrow> pydict" where
  "user_data_doc hostname opts =
     [(''hostname'', PStr hostname), (''manage_etc_hosts'', PBool True),
      (''users'', PList [PDict (ci_user (ci_ssh_authorized_keys opts))]),
      (''network'', PDict ci_network), (''package_update'', PBool True),
      (''packages'', str_list (ci_dedupe ([''qemu-guest-agent'', ''openssh-server''] @ ci_packages opts))),
      (''runcmd'', str_list (ci_base_runcmd @ ci_runcmd opts))]
     @ (if ci_write_files opts = [] then [] else [(''write_files'', PList (map ci_file (ci_write_files opts)))])"

definition render_user_data :: "(pyval \<Rightarrow> string) \<Rightarrow> string \<Rightarrow> cloud_init_options \<Rightarrow> string" where
  "render_user_data yaml hostname opts = ''#cloud-config\<newline>'' @ yaml (PDict (user_data_doc hostname opts))"

definition configdrive_files ::
    "(pyval \<Rightarrow> string) \<Rightarrow> string \<Rightarrow> string \<Rightarrow> string \<Rightarrow> cloud_init_options \<Rightarrow> (string \<times> string) list" where
  "configdrive_files json vid hostname user_data opts =
     (let keys = ci_ssh_authorized_keys opts;
          meta = PDict [(''uuid'', PStr vid), (''hostname'', PStr hostname), (''name'', PStr hostname),
            (''launch_index'', PInt 0), (''availability_zone'', PStr ''nova''), (''project_id'', PStr ''boxer''),
            (''public_keys'', PDict (map (\<lambda>(i, k). (''key-'' @ show_nat i, PStr k)) (zip [0..<length keys] keys)))]
      in [(''openstack/latest/meta_data.json'', json meta),
          (''openstack/latest/user_data'', user_data),
          (''openstack/latest/vendor_data.json'', ''{}''),
          (''openstack/2012-08-10/meta_data.json'', json meta),
          (''openstack/2012-08-10/user_data'', user_data),
          (''openstack/2012-08-10/vendor_data.json'', ''{}''),
          (''ec2/latest/meta-data.json'', json (PDict [(''instance-id'', PStr vid), (''hostname'', PStr hostname)]))])"

text \<open>The options \<open>CloudInitBuilder.build\<close> renders: the configured key first, no key twice.\<close>

definition build_options :: "string option \<Rightarrow> string list \<Rightarrow> string list \<Rightarrow> string list \<Rightarrow> write_file list \<Rightarrow>
    cloud_init_options" where
  "build_options pubkey keys packages runcmd files =
     \<lparr>ci_ssh_authorized_keys = ci_dedupe
        ((case pubkey of None \<Rightarrow> [] | Some k \<Rightarrow> if k = [] then [] else [k]) @ keys),
      ci_packages = packages, ci_runcmd = runcmd, ci_write_files = files\<rparr>"

section \<open>boxerd/agent_inject.py\<close>

definition BOXERCTL_PROFILE :: string where "BOXERCTL_PROFILE = ''boxerctl''"

definition STAGE_PATH :: string where "STAGE_PATH = ''/opt/boxer/boxerctl.b64''"

definition BOXERCTL_RUNCMD :: "string list" where
  "BOXERCTL_RUNCMD =
     [''mkdir -p /usr/local/bin /opt/boxer'',
      ''base64 -d '' @ STAGE_PATH @ '' > /usr/local/bin/boxerctl'',
      ''chmod 0755 /usr/local/bin/boxerctl'',
      ''rm -f '' @ STAGE_PATH]"

text \<open>\<open>binary\<close> is the content of the prebuilt agent, if it has been built.\<close>

definition boxerctl_injection :: "string option \<Rightarrow> (write_file \<times> string list) option" where
  "boxerctl_injection binary = (case binary of None \<Rightarrow> None
     | Some bytes \<Rightarrow> Some (\<lparr>wf_path = STAGE_PATH, wf_content = b64encode bytes,
         wf_permissions = ''0644'', wf_owner = ''root:root''\<rparr>, BOXERCTL_RUNCMD))"

text \<open>
  The guest receives the agent's bytes: decoding the staged text of the injected file gives the
  binary back.
\<close>

lemma boxerctl_injection_payload:
  "boxerctl_injection (Some bytes) = Some (f, cmds) \<Longrightarrow> b64decode (PStr (wf_content f)) = Inr bytes"
  by (auto simp: boxerctl_injection_def b64decode_encode)

lemma user_data_base:
  "set (ci_dedupe ([''qemu-guest-agent'', ''openssh-server''] @ ps)) =
     {''qemu-guest-agent'', ''openssh-server''} \<union> set ps"
  "distinct (ci_dedupe ps)"
  by (auto simp: ci_dedupe_def set_dedupe_loop distinct_dedupe_loop)

end
