(* ===== verification/Profiles.thy ===== *)
theory Profiles
  imports Types
begin

text \<open>
  \<open>boxerd/profiles.py\<close>: the closed list of bootstrap profiles and their expansion into packages
  and commands.
\<close>

record profile =
  pr_name :: string
  pr_description :: string
  pr_packages :: "string list"
  pr_runcmd :: "string list"

definition PROFILES :: "profile list" where
  "PROFILES =
     [\<lparr>pr_name = ''python'',
       pr_description = ''Python 3 toolchain (pip, venv, build tools, git)'',
       pr_packages = [''python3'', ''python3-pip'', ''python3-venv'', ''build-essential'', ''git''],
       pr_runcmd = []\<rparr>,
      \<lparr>pr_name = ''node'',
       pr_description = ''Node.js runtime with npm and git'',
       pr_packages = [''nodejs'', ''npm'', ''git''],
       pr_runcmd = [''corepack enable || true'']\<rparr>,
      \<lparr>pr_name = ''docker'',
       pr_description = ''Docker engine with the boxer user in the docker group'',
       pr_packages = [''docker.io''],
       pr_runcmd = [''systemctl enable --now docker || true'', ''usermod -aG docker boxer || true'']\<rparr>,
      \<lparr>pr_name = ''browser'',
       pr_description = ''Headless Chromium for browser automation (Xvfb + fonts)'',
       pr_packages = [''chromium'', ''xvfb'', ''fonts-liberation'', ''ca-certificates''],
       pr_runcmd = []\<rparr>,
      \<lparr>pr_name = ''desktop'',
       pr_description = ''Minimal XFCE desktop for headed VMs'',
       pr_packages = [''xfce4'', ''xfce4-goodies'', ''lightdm''],
       pr_runcmd = [''systemctl set-default graphical.target || true'']\<rparr>]"

definition MAX_PROFILES :: nat where "MAX_PROFILES = 5"

definition profile_named :: "string \<Rightarrow> profile option" where
  "profile_named n = find (\<lambda>p. pr_name p = n) PROFILES"

definition SPECIAL_PROFILES :: "pyval list" where
  "SPECIAL_PROFILES =
     [PDict [(''name'', PStr ''boxerctl''),
             (''description'', PStr ''Install the in-guest boxerctl agent for structured guest-utils telemetry''),
             (''packages'', PList [])]]"

definition available_profiles :: "pyval list" where
  "available_profiles =
     map (\<lambda>p. PDict [(''name'', PStr (pr_name p)), (''description'', PStr (pr_description p)),
                      (''packages'', str_list (pr_packages p))]) PROFILES
     @ SPECIAL_PROFILES"

text \<open>The two loops of the expansion, over the profiles in the order named.\<close>

definition profile_packages :: "string list \<Rightarrow> string list" where
  "profile_packages names = dedupe_loop (\<lambda>_. True) []
     (concat (map (\<lambda>n. case profile_named n of None \<Rightarrow> [] | Some p \<Rightarrow> pr_packages p) names))"

definition profile_runcmd :: "string list \<Rightarrow> string list" where
  "profile_runcmd names = dedupe_loop (\<lambda>_. True) []
     (concat (map (\<lambda>n. case profile_named n of None \<Rightarrow> [] | Some p \<Rightarrow> pr_runcmd p) names))"

definition resolve_profiles :: "string list \<Rightarrow> (string list \<times> string list) res" where
  "resolve_profiles names =
     (if names = [] then Inr ([], [])
      else if length names > MAX_PROFILES then
        Inl (ipc_error ERR_INVALID_PARAMS (''At most '' @ show_nat MAX_PROFILES @ '' profiles may be combined''))
      else let unknown = filter (\<lambda>n. profile_named n = None) names in
        if unknown \<noteq> [] then
          Inl (ipc_error ERR_INVALID_PARAMS (''Unknown profile(s): '' @ repr_strs unknown @
            ''. Available: '' @ repr_strs (sort (map pr_name PROFILES))))
        else Inr (profile_packages names, profile_runcmd names))"

lemma profile_named_Some: "profile_named n = Some p \<Longrightarrow> p \<in> set PROFILES \<and> pr_name p = n"
  by (auto simp: profile_named_def find_Some_iff)

lemma resolve_profiles_Inr:
  "resolve_profiles names = Inr (ps, cs) \<longleftrightarrow>
   length names \<le> 5 \<and> (\<forall>n \<in> set names. profile_named n \<noteq> None) \<and>
   ps = profile_packages names \<and> cs = profile_runcmd names"
  by (cases "names = []")
    (auto simp: resolve_profiles_def MAX_PROFILES_def profile_packages_def profile_runcmd_def
      Let_def filter_empty_conv not_less)

lemma profile_sizes: "p \<in> set PROFILES \<Longrightarrow> length (pr_packages p) \<le> 5 \<and> length (pr_runcmd p) \<le> 2"
  by (auto simp: PROFILES_def)

lemma length_concat_bound:
  "(\<And>x. x \<in> set xs \<Longrightarrow> length (f x) \<le> k) \<Longrightarrow> length (concat (map f xs)) \<le> k * length xs"
  by (induction xs) (auto simp: add_mono)

lemma profile_packages_bound: "length (profile_packages names) \<le> 5 * length names"
proof -
  have "length (concat (map (\<lambda>n. case profile_named n of None \<Rightarrow> [] | Some p \<Rightarrow> pr_packages p) names))
      \<le> 5 * length names"
    by (rule length_concat_bound) (auto split: option.split dest!: profile_named_Some profile_sizes)
  with length_dedupe_loop [of "\<lambda>_. True" "[]"] show ?thesis
    unfolding profile_packages_def by (metis add_0 le_trans list.size(3))
qed

lemma profile_runcmd_bound: "length (profile_runcmd names) \<le> 2 * length names"
proof -
  have "length (concat (map (\<lambda>n. case profile_named n of None \<Rightarrow> [] | Some p \<Rightarrow> pr_runcmd p) names))
      \<le> 2 * length names"
    by (rule length_concat_bound) (auto split: option.split dest!: profile_named_Some profile_sizes)
  with length_dedupe_loop [of "\<lambda>_. True" "[]"] show ?thesis
    unfolding profile_runcmd_def by (metis add_0 le_trans list.size(3))
qed

lemma set_case_option: "set (case x of None \<Rightarrow> [] | Some p \<Rightarrow> f p) =
    (case x of None \<Rightarrow> {} | Some p \<Rightarrow> set (f p))"
  by (cases x) simp_all

lemma set_profile_packages: "set (profile_packages names) =
    (\<Union>n \<in> set names. case profile_named n of None \<Rightarrow> {} | Some p \<Rightarrow> set (pr_packages p))"
  unfolding profile_packages_def set_dedupe_loop
  by (simp add: set_case_option) blast

lemma set_profile_runcmd: "set (profile_runcmd names) =
    (\<Union>n \<in> set names. case profile_named n of None \<Rightarrow> {} | Some p \<Rightarrow> set (pr_runcmd p))"
  unfolding profile_runcmd_def set_dedupe_loop
  by (simp add: set_case_option) blast

lemma distinct_profile_packages: "distinct (profile_packages names)" "distinct (profile_runcmd names)"
  by (simp_all add: profile_packages_def profile_runcmd_def distinct_dedupe_loop)

end
