(* ===== verification/Requests.thy ===== *)
theory Requests
  imports CloudInit Profiles
begin

text \<open>
  The validators at the head of \<open>boxerd/daemon.py\<close>: they bound and normalise what a request may
  carry before a handler acts on it.
\<close>

section \<open>Names\<close>

definition safe_display_name :: "string \<Rightarrow> string" where
  "safe_display_name display_name =
     take 30 (map (\<lambda>c. if py_isalnum c \<or> c = CHR ''-'' then c else CHR ''-'') display_name)"

definition make_libvirt_name :: "string \<Rightarrow> string \<Rightarrow> string \<Rightarrow> string" where
  "make_libvirt_name project_id display_name vid =
     ''Boxer--'' @ project_id @ ''--'' @ safe_display_name display_name @ ''--'' @ vid"

definition is_package_char :: "char \<Rightarrow> bool" where
  "is_package_char c = (is_ascii_letter c \<or> is_ascii_digit c \<or> c \<in> set ''+_.:-'')"

definition is_package :: "string \<Rightarrow> bool" where
  "is_package s = (case before_final_newline s of [] \<Rightarrow> False
     | c # r \<Rightarrow> (is_ascii_letter c \<or> is_ascii_digit c) \<and> length r \<le> 127 \<and> list_all is_package_char r)"

section \<open>Lists of strings\<close>

fun string_items :: "string \<Rightarrow> nat \<Rightarrow> pyval list \<Rightarrow> string list res" where
  "string_items f max_len [] = Inr []"
| "string_items f max_len (v # vs) =
     bindr (need_str (ipc_error ERR_INVALID_PARAMS (f @ '' must be a list of strings'')) (\<lambda>_. True) v) (\<lambda>s.
     let t = strip s in
     if t = [] then string_items f max_len vs
     else if length t > max_len then Inl (ipc_error ERR_INVALID_PARAMS
       (f @ '' entries must be <= '' @ show_nat max_len @ '' characters''))
     else bindr (string_items f max_len vs) (\<lambda>r. Inr (t # r)))"

definition string_list :: "pyval \<Rightarrow> string \<Rightarrow> nat \<Rightarrow> nat \<Rightarrow> string list res" where
  "string_list v f max_items max_len =
     (if v = PNone then Inr []
      else bindr (need_list (ipc_error ERR_INVALID_PARAMS (f @ '' must be a list of strings'')) v) (\<lambda>vs.
        bindr (string_items f max_len vs) (\<lambda>r.
        if length r > max_items then Inl (ipc_error ERR_INVALID_PARAMS
          (f @ '' accepts at most '' @ show_nat max_items @ '' entries''))
        else Inr r)))"

definition dedupe_keep_order :: "string list \<Rightarrow> string list" where
  "dedupe_keep_order items = dedupe_loop (\<lambda>_. True) [] items"

section \<open>Injected files\<close>

definition is_permissions :: "string \<Rightarrow> bool" where
  "is_permissions s = (case before_final_newline s of
       [a, b, c, d] \<Rightarrow> a = CHR ''0'' \<and> list_all (\<lambda>x. 48 \<le> code x \<and> code x \<le> (55::nat)) [b, c, d]
     | _ \<Rightarrow> False)"

definition MAX_FILE_BYTES :: nat where "MAX_FILE_BYTES = 256 * 1024"

definition MAX_TOTAL_FILE_BYTES :: nat where "MAX_TOTAL_FILE_BYTES = 1024 * 1024"

definition coerce_file :: "string \<Rightarrow> string \<Rightarrow> string \<Rightarrow> pyval \<Rightarrow> write_file res" where
  "coerce_file f perms own item =
     bindr (need_dict (ipc_error ERR_INVALID_PARAMS (f @ '' entries must be objects with path and content'')) item) (\<lambda>d.
     bindr (need_str (ipc_error ERR_INVALID_PARAMS (f @ '': path must be an absolute path <= 256 chars''))
       (\<lambda>p. starts_with p ''/'' \<and> length p \<le> 256) (dget d ''path'')) (\<lambda>path.
     bindr (need_str (ipc_error ERR_INVALID_PARAMS (f @ '': content must be a string''))
       (\<lambda>_. True) (dget d ''content'')) (\<lambda>content.
     bindr (guardr (utf8_len content > MAX_FILE_BYTES) (ipc_error ERR_INVALID_PARAMS
       (f @ '': '' @ quoted path @ '' exceeds the 256 KiB per-file limit''))) (\<lambda>_.
     bindr (need_str (ipc_error ERR_INVALID_PARAMS (f @ '': permissions must be an octal mode like 0644''))
       is_permissions (dget_or d ''permissions'' (PStr perms))) (\<lambda>permissions.
     bindr (need_str (ipc_error ERR_INVALID_PARAMS (f @ '': owner must be a string like '' @ quoted ''user:group''))
       (\<lambda>w. length w \<le> 64) (dget_or d ''owner'' (PStr own))) (\<lambda>owner.
     Inr \<lparr>wf_path = path, wf_content = content, wf_permissions = permissions, wf_owner = owner\<rparr>))))))"

definition coerce_file_list :: "pyval \<Rightarrow> string \<Rightarrow> string \<Rightarrow> string \<Rightarrow> write_file list res" where
  "coerce_file_list v f perms own =
     (if v = PNone then Inr []
      else bindr (need_list (ipc_error ERR_INVALID_PARAMS (f @ '' must be a list of objects'')) v)
        (mapr (coerce_file f perms own)))"

definition parse_file_injections :: "pydict \<Rightarrow> pydict \<Rightarrow> (write_file list \<times> nat) res" where
  "parse_file_injections params bootstrap =
     bindr (coerce_file_list (dget_or params ''write_files'' (dget bootstrap ''write_files''))
       ''write_files'' ''0644'' ''root:root'') (\<lambda>regular.
     bindr (coerce_file_list (dget_or params ''secret_files'' (dget bootstrap ''secret_files''))
       ''secret_files'' ''0600'' ''boxer:boxer'') (\<lambda>secrets.
     let files = regular @ secrets in
     bindr (guardr (length files > 20)
       (ipc_error ERR_INVALID_PARAMS ''At most 20 injected files are allowed'')) (\<lambda>_.
     bindr (guardr (sum_list (map (\<lambda>w. utf8_len (wf_content w)) files) > MAX_TOTAL_FILE_BYTES)
       (ipc_error ERR_INVALID_PARAMS ''Injected files exceed the 1 MiB total limit'')) (\<lambda>_.
     bindr (guardr (\<not> distinct (map wf_path files))
       (ipc_error ERR_INVALID_PARAMS ''Duplicate injected file paths'')) (\<lambda>_.
     Inr (files, length secrets))))))"

section \<open>Bootstrap\<close>

record bootstrap =
  bs_packages :: "string list"
  bs_commands :: "string list"
  bs_ssh_public_keys :: "string list"
  bs_write_files :: "write_file list"
  bs_secret_count :: nat
  bs_profiles :: "string list"

definition is_public_key :: "string \<Rightarrow> bool" where
  "is_public_key k = list_ex (starts_with k)
     [''ssh-ed25519 '', ''ssh-rsa '', ''ecdsa-sha2-'', ''sk-ssh-ed25519@'', ''sk-ecdsa-sha2-'']"

definition scrub_command :: string where
  "scrub_command = ''find /var/lib/cloud/instances -maxdepth 2 -name user-data.txt -delete 2>/dev/null || true''"

text \<open>The step that adds the in-guest agent when its profile is asked for.\<close>

definition with_agent :: "string option \<Rightarrow> string list \<Rightarrow> write_file list \<Rightarrow> string list \<Rightarrow>
    write_file list \<times> string list" where
  "with_agent agent names files commands =
     (if BOXERCTL_PROFILE \<in> set names then
        (case boxerctl_injection agent of None \<Rightarrow> (files, commands)
         | Some (agent_file, agent_cmds) \<Rightarrow>
             (files @ [agent_file], dedupe_keep_order (commands @ agent_cmds)))
      else (files, commands))"

text \<open>\<open>agent\<close> is the prebuilt in-guest agent on the host's disk, if there is one.\<close>

definition bootstrap_from_params :: "string option \<Rightarrow> pydict \<Rightarrow> bootstrap res" where
  "bootstrap_from_params agent params =
     bindr (need_dict (ipc_error ERR_INVALID_PARAMS ''bootstrap must be an object'')
       (py_or (dget params ''bootstrap'') (PDict []))) (\<lambda>b.
     bindr (string_list (dget_or params ''bootstrap_packages'' (dget b ''packages'')) ''bootstrap_packages'' 50 128) (\<lambda>pkgs.
     bindr (guardr (filter (\<lambda>p. \<not> is_package p) pkgs \<noteq> [])
       (ipc_error ERR_INVALID_PARAMS (''Invalid package names: '' @ repr_strs (filter (\<lambda>p. \<not> is_package p) pkgs)))) (\<lambda>_.
     bindr (string_list (dget_or params ''bootstrap_commands'' (dget b ''commands'')) ''bootstrap_commands'' 20 2000) (\<lambda>cmds.
     bindr (string_list (dget_or params ''ssh_public_keys'' (dget b ''ssh_public_keys'')) ''ssh_public_keys'' 10 4096) (\<lambda>keys.
     bindr (guardr (filter (\<lambda>k. \<not> is_public_key k) keys \<noteq> [])
       (ipc_error ERR_INVALID_PARAMS ''ssh_public_keys entries must be OpenSSH public keys'')) (\<lambda>_.
     bindr (string_list (dget_or params ''profiles'' (dget b ''profiles'')) ''profiles'' MAX_PROFILES 32) (\<lambda>names.
     bindr (resolve_profiles (filter (\<lambda>p. p \<noteq> BOXERCTL_PROFILE) names)) (\<lambda>(rpkgs, rcmds).
     let packages = dedupe_keep_order (rpkgs @ pkgs); commands = dedupe_keep_order (rcmds @ cmds) in
     bindr (guardr (length packages > 80)
       (ipc_error ERR_INVALID_PARAMS ''Too many packages after profile expansion (max 80)'')) (\<lambda>_.
     bindr (parse_file_injections params b) (\<lambda>(files, secret_count).
     let injected = with_agent agent names files commands in
     Inr \<lparr>bs_packages = packages,
        bs_commands = snd injected @ (if secret_count \<noteq> 0 then [scrub_command] else []),
        bs_ssh_public_keys = keys, bs_write_files = fst injected, bs_secret_count = secret_count, bs_profiles = names\<rparr>))))))))))"

section \<open>Waits, guest paths, bounded integers\<close>

definition WAIT_CONDITIONS :: "string list" where
  "WAIT_CONDITIONS = [''guest_agent'', ''ip'', ''ssh'', ''cloud_init'', ''package_install'']"

text \<open>A condition that is a list or an object cannot be looked up in the set: \<open>TypeError\<close>.\<close>

fun wait_items :: "string list \<Rightarrow> pyval list \<Rightarrow> string list res" where
  "wait_items out [] = Inr out"
| "wait_items out (v # vs) = (case v of
       PStr s \<Rightarrow>
         if s \<notin> set WAIT_CONDITIONS then Inl (ipc_error ERR_INVALID_PARAMS (''Unknown wait condition '' @ quoted s @
           ''. Valid: '' @ repr_strs (sort WAIT_CONDITIONS)))
         else wait_items (if s \<in> set out then out else out @ [s]) vs
     | PList _ \<Rightarrow> Inl (PyExn ''TypeError'' ''unhashable type: list'')
     | PDict _ \<Rightarrow> Inl (PyExn ''TypeError'' ''unhashable type: dict'')
     | w \<Rightarrow> Inl (ipc_error ERR_INVALID_PARAMS (''Unknown wait condition '' @ quoted (py_str w) @
           ''. Valid: '' @ repr_strs (sort WAIT_CONDITIONS))))"

definition parse_wait_conditions :: "pyval \<Rightarrow> string list res" where
  "parse_wait_conditions v =
     (if v = PNone then Inr []
      else bindr (need_list (ipc_error ERR_INVALID_PARAMS ''wait_for must be a list of condition names'') v)
        (wait_items []))"

definition guest_abs_path :: "pyval \<Rightarrow> string \<Rightarrow> string res" where
  "guest_abs_path raw f = need_str (ipc_error ERR_INVALID_PARAMS (f @ '' must be an absolute guest path''))
     (\<lambda>p. starts_with p ''/'' \<and> length p \<le> 4096 \<and> char_of (0::nat) \<notin> set p) raw"

definition bounded_int :: "pyval \<Rightarrow> string \<Rightarrow> int \<Rightarrow> int \<Rightarrow> int \<Rightarrow> int res" where
  "bounded_int raw f dflt lo hi =
     (case (if raw = PNone then Inr dflt else py_int raw) of
        Inl _ \<Rightarrow> Inl (ipc_error ERR_INVALID_PARAMS (f @ '' must be an integer''))
      | Inr v \<Rightarrow> if \<not> (lo \<le> v \<and> v \<le> hi) then Inl (ipc_error ERR_INVALID_PARAMS
          (f @ '' must be between '' @ show_int lo @ '' and '' @ show_int hi)) else Inr v)"

section \<open>What the validators guarantee\<close>

lemma hd_lstrip: "lstrip s \<noteq> [] \<Longrightarrow> \<not> is_space (hd (lstrip s))"
  by (simp add: lstrip_def hd_dropWhile)

lemma last_strip: "strip s \<noteq> [] \<Longrightarrow> \<not> is_space (last (strip s))"
  by (simp add: strip_def rstrip_def last_rev hd_dropWhile)

lemma strip_no_final_newline: "strip s \<noteq> [] \<Longrightarrow> before_final_newline (strip s) = strip s"
  using last_strip [of s] by (auto simp: before_final_newline_def is_space_def)

lemma string_items_Inr:
  "string_items f n vs = Inr ss \<Longrightarrow> t \<in> set ss \<Longrightarrow>
   t \<noteq> [] \<and> length t \<le> n \<and> (\<exists>s. PStr s \<in> set vs \<and> t = strip s)"
proof (induction vs arbitrary: ss)
  case (Cons v vs)
  from Cons.prems(1) obtain s where v: "v = PStr s"
    by (auto simp: bindr_eq_Inr need_Inr)
  show ?case
  proof (cases "strip s = []")
    case True
    with Cons v show ?thesis by (auto simp: need_str_def)
  next
    case False
    with Cons.prems v obtain r where r: "string_items f n vs = Inr r" "ss = strip s # r" "length (strip s) \<le> n"
      by (auto simp: need_str_def bindr_eq_Inr Let_def split: if_splits)
    with Cons.IH Cons.prems(2) False v show ?thesis by (cases "t = strip s") auto
  qed
qed simp

lemma string_list_Inr:
  "string_list v f m n = Inr ss \<Longrightarrow>
   length ss \<le> m \<and> (\<forall>t \<in> set ss. t \<noteq> [] \<and> length t \<le> n \<and> before_final_newline t = t)"
  by (auto simp: string_list_def bindr_eq_Inr need_Inr not_less strip_no_final_newline
      split: if_splits dest!: string_items_Inr)

text \<open>A clean package name: it begins with a letter or digit and has no other character than
  letters, digits and \<open>+_.:-\<close>, so it is neither an option nor anything to a shell.\<close>

definition clean_package :: "string \<Rightarrow> bool" where
  "clean_package p \<longleftrightarrow> p \<noteq> [] \<and> (is_ascii_letter (hd p) \<or> is_ascii_digit (hd p)) \<and>
     length p \<le> 128 \<and> list_all is_package_char p"

lemma is_package_clean: "is_package p \<Longrightarrow> before_final_newline p = p \<Longrightarrow> clean_package p"
  by (cases p) (auto simp: is_package_def clean_package_def is_package_char_def)

lemma profile_packages_clean: "p \<in> set PROFILES \<Longrightarrow> q \<in> set (pr_packages p) \<Longrightarrow> clean_package q"
proof -
  have "list_all (\<lambda>p. list_all clean_package (pr_packages p)) PROFILES" by code_simp
  then show "p \<in> set PROFILES \<Longrightarrow> q \<in> set (pr_packages p) \<Longrightarrow> clean_package q"
    by (simp add: list_all_iff)
qed

lemma set_dedupe_keep_order [simp]: "set (dedupe_keep_order xs) = set xs"
  by (simp add: dedupe_keep_order_def set_dedupe_loop)

lemma distinct_dedupe_keep_order [simp]: "distinct (dedupe_keep_order xs)"
  by (simp add: dedupe_keep_order_def distinct_dedupe_loop)

lemma length_dedupe_keep_order: "length (dedupe_keep_order xs) \<le> length xs"
  using length_dedupe_loop [of "\<lambda>_. True" "[]" xs] by (simp add: dedupe_keep_order_def)

lemma coerce_file_Inr:
  "coerce_file f p w v = Inr x \<Longrightarrow>
   starts_with (wf_path x) ''/'' \<and> length (wf_path x) \<le> 256 \<and> utf8_len (wf_content x) \<le> MAX_FILE_BYTES \<and>
   is_permissions (wf_permissions x) \<and> length (wf_owner x) \<le> 64"
  by (auto simp: coerce_file_def bindr_eq_Inr need_Inr not_less)

lemma coerce_file_list_Inr:
  "coerce_file_list v f p w = Inr xs \<Longrightarrow> x \<in> set xs \<Longrightarrow> \<exists>item. coerce_file f p w item = Inr x"
  by (auto simp: coerce_file_list_def bindr_eq_Inr need_Inr split: if_splits dest!: mapr_Inr_all)

lemma parse_file_injections_Inr:
  assumes "parse_file_injections params b = Inr (files, n)"
  shows "length files \<le> 20" "distinct (map wf_path files)"
    "sum_list (map (\<lambda>w. utf8_len (wf_content w)) files) \<le> MAX_TOTAL_FILE_BYTES"
    "\<forall>x \<in> set files. starts_with (wf_path x) ''/'' \<and> utf8_len (wf_content x) \<le> MAX_FILE_BYTES \<and>
       is_permissions (wf_permissions x)"
  using assms
  by (auto simp: parse_file_injections_def bindr_eq_Inr Let_def not_less
      dest!: coerce_file_list_Inr coerce_file_Inr)

text \<open>The stages of a successful bootstrap.\<close>

lemma bootstrap_from_params_Inr:
  assumes "bootstrap_from_params agent params = Inr bs"
  obtains b pkgs cmds keys names rpkgs rcmds files n where
    "string_list (dget_or params ''bootstrap_packages'' (dget b ''packages'')) ''bootstrap_packages'' 50 128 = Inr pkgs"
    "\<forall>p \<in> set pkgs. is_package p"
    "string_list (dget_or params ''bootstrap_commands'' (dget b ''commands'')) ''bootstrap_commands'' 20 2000 = Inr cmds"
    "string_list (dget_or params ''ssh_public_keys'' (dget b ''ssh_public_keys'')) ''ssh_public_keys'' 10 4096 = Inr keys"
    "\<forall>k \<in> set keys. is_public_key k"
    "string_list (dget_or params ''profiles'' (dget b ''profiles'')) ''profiles'' MAX_PROFILES 32 = Inr names"
    "resolve_profiles (filter (\<lambda>p. p \<noteq> BOXERCTL_PROFILE) names) = Inr (rpkgs, rcmds)"
    "length (dedupe_keep_order (rpkgs @ pkgs)) \<le> 80"
    "parse_file_injections params b = Inr (files, n)"
    "bs_packages bs = dedupe_keep_order (rpkgs @ pkgs)" "bs_ssh_public_keys bs = keys"
    "bs_profiles bs = names" "bs_secret_count bs = n"
    "bs_write_files bs = fst (with_agent agent names files (dedupe_keep_order (rcmds @ cmds)))"
    "bs_commands bs = snd (with_agent agent names files (dedupe_keep_order (rcmds @ cmds))) @
       (if n \<noteq> 0 then [scrub_command] else [])"
  using assms unfolding bootstrap_from_params_def
  by (clarsimp simp: bindr_eq_Inr need_Inr Let_def not_less filter_empty_conv split: prod.splits)

lemma with_agent_bounds:
  "length (fst (with_agent agent names files cmds)) \<le> Suc (length files)"
  "length (snd (with_agent agent names files cmds)) \<le> length cmds + 4"
proof -
  show "length (fst (with_agent agent names files cmds)) \<le> Suc (length files)"
    by (simp add: with_agent_def boxerctl_injection_def split: option.split)
  show "length (snd (with_agent agent names files cmds)) \<le> length cmds + 4"
    using length_dedupe_keep_order [of "cmds @ BOXERCTL_RUNCMD"]
    by (simp add: with_agent_def boxerctl_injection_def BOXERCTL_RUNCMD_def split: option.split)
qed

section \<open>Properties\<close>


text \<open>Evaluation of the validator on concrete parameters.\<close>

lemmas bootstrap_eval = bootstrap_from_params_def dget_def dget_or_def py_or_def need_dict_def string_list_def
  need_list_def need_str_def guardr_def resolve_profiles_def dedupe_keep_order_def parse_file_injections_def
  coerce_file_list_def with_agent_def MAX_PROFILES_def MAX_TOTAL_FILE_BYTES_def BOXERCTL_PROFILE_def
  boxerctl_injection_def




end
