(* ===== verification/Reconcile.thy ===== *)
theory Reconcile
  imports Demo Requests
begin

text \<open>
  \<open>boxerd/reconcile.py\<close>: the comparison of libvirt's domains with the daemon's rows. A domain is
  its name, its XML and whether it runs.
\<close>

section \<open>Names\<close>

text \<open>\<open>rest.split("--", maxsplit=2)\<close> of what follows the prefix.\<close>

definition parse_boxer_name :: "string \<Rightarrow> (string \<times> string \<times> string) option" where
  "parse_boxer_name libvirt_name =
     (if \<not> starts_with libvirt_name ''Boxer--'' then None
      else case split_max 2 ''--'' (drop 7 libvirt_name) of
          [project_id, display_name, vid] \<Rightarrow>
            if \<not> starts_with vid ''vm_'' \<or> length vid < 6 then None
            else Some (project_id, display_name, vid)
        | _ \<Rightarrow> None)"

section \<open>Disks\<close>

text \<open>All descendants of an element in document order.\<close>

fun xml_descendants :: "xml \<Rightarrow> xml list" where
  "xml_descendants (Elem t a x cs) = concat (map (\<lambda>c. c # xml_descendants c) cs)"

definition source_path :: "xml \<Rightarrow> string option" where
  "source_path disk = (case xml_find ''source'' disk of None \<Rightarrow> None
     | Some s \<Rightarrow> (case xml_get s ''file'' of
         Some (c # p) \<Rightarrow> Some (c # p)
       | _ \<Rightarrow> (case xml_get s ''dev'' of Some (c # p) \<Rightarrow> Some (c # p) | _ \<Rightarrow> None)))"

definition extract_disk_path :: "'w libvirt \<Rightarrow> string \<Rightarrow> string option" where
  "extract_disk_path lv xml_str = (case lv_xml_parse lv xml_str of None \<Rightarrow> None
     | Some rt \<Rightarrow> List.find (\<lambda>_. True) (List.map_filter source_path
         (filter (\<lambda>d. xml_tag d = ''disk'' \<and> xml_get d ''device'' = Some ''disk'') (xml_descendants rt))))"

definition disk_size_of :: "'w os \<Rightarrow> string \<Rightarrow> int res" where
  "disk_size_of h out =
     bindr (os_json h out) (\<lambda>v.
     bindr (need_dict attr_error v) (\<lambda>info.
     bindr (py_int (dget_or info ''virtual-size'' (PInt 0))) (\<lambda>n. Inr (max 1 (n div 1024 ^ 3)))))"

definition get_disk_size_gb :: "'w os \<Rightarrow> string \<Rightarrow> ('w, int) pm" where
  "get_disk_size_gb h path =
     catch (bindm (os_run h [''qemu-img'', ''info'', ''--output=json'', path] []) (\<lambda>r.
         if pr_returncode r = 0 then liftr (disk_size_of h (pr_stdout r)) else ret 0))
       (\<lambda>_. ret 0)"

section \<open>The report\<close>

record orphan =
  or_libvirt_name :: string
  or_project_id :: string
  or_display_name :: string
  or_vm_id :: string
  or_disk_path :: "string option"
  or_disk_gb :: int
  or_is_active :: bool

record foreign_domain =
  fd_libvirt_name :: string
  fd_disk_path :: "string option"
  fd_disk_gb :: int
  fd_is_active :: bool

record ghost =
  gh_vm_id :: string
  gh_libvirt_name :: string
  gh_project_id :: string
  gh_display_name :: string

record report =
  rp_orphaned :: "orphan list"
  rp_foreign :: "foreign_domain list"
  rp_ghosts :: "ghost list"

type_synonym domain_info = "string \<times> string \<times> bool"

text \<open>A domain that fails while it is described is left out; a failure to list gives no domain.\<close>

fun describe_domains :: "'w libvirt \<Rightarrow> string list \<Rightarrow> ('w, domain_info list) pm" where
  "describe_domains lv [] = ret []"
| "describe_domains lv (n # ns) =
     bindm (catch_lv (bindm (lv_xml_desc lv n) (\<lambda>x. bindm (lv_is_active lv n) (\<lambda>a. ret [(n, x, a)]))) (\<lambda>_. ret [])) (\<lambda>d.
     bindm (describe_domains lv ns) (\<lambda>ds. ret (d @ ds)))"

definition list_domains :: "'w libvirt \<Rightarrow> ('w, domain_info list) pm" where
  "list_domains lv = bindm (catch_lv (lv_list_domains lv) (\<lambda>_. ret [])) (describe_domains lv)"

text \<open>One domain that no row names.\<close>

definition classify :: "'w libvirt \<Rightarrow> 'w os \<Rightarrow> domain_info \<Rightarrow> report \<Rightarrow> ('w, report) pm" where
  "classify lv h d r = (case d of (name, x, active) \<Rightarrow>
     let path = extract_disk_path lv x in
     bindm (case path of None \<Rightarrow> ret 0 | Some p \<Rightarrow> get_disk_size_gb h p) (\<lambda>gb.
     case parse_boxer_name name of
       Some (project_id, display_name, vid) \<Rightarrow>
         ret (r\<lparr>rp_orphaned := rp_orphaned r @ [\<lparr>or_libvirt_name = name, or_project_id = project_id,
           or_display_name = display_name, or_vm_id = vid, or_disk_path = path, or_disk_gb = gb, or_is_active = active\<rparr>]\<rparr>)
     | None \<Rightarrow>
         ret (r\<lparr>rp_foreign := rp_foreign r @ [\<lparr>fd_libvirt_name = name, fd_disk_path = path, fd_disk_gb = gb,
           fd_is_active = active\<rparr>]\<rparr>)))"

fun classify_all :: "'w libvirt \<Rightarrow> 'w os \<Rightarrow> string list \<Rightarrow> domain_info list \<Rightarrow> report \<Rightarrow> ('w, report) pm" where
  "classify_all lv h known [] r = ret r"
| "classify_all lv h known (d # ds) r =
     (if fst d \<in> set known then classify_all lv h known ds r
      else bindm (classify lv h d r) (classify_all lv h known ds))"

definition ghost_of :: "vm \<Rightarrow> ghost" where
  "ghost_of v = \<lparr>gh_vm_id = vm_id v, gh_libvirt_name = vm_libvirt_name v, gh_project_id = vm_project_id v,
     gh_display_name = vm_display_name v\<rparr>"

definition build_reconcile_report :: "'w libvirt \<Rightarrow> 'w os \<Rightarrow> ('w st, report) pm" where
  "build_reconcile_report lv h =
     bindm (in_world (list_domains lv)) (\<lambda>ds.
     bindm (list_vms PNone) (\<lambda>rows.
     bindm (in_world (classify_all lv h (map vm_libvirt_name rows) ds \<lparr>rp_orphaned = [], rp_foreign = [], rp_ghosts = []\<rparr>)) (\<lambda>r.
     ret (r\<lparr>rp_ghosts := map ghost_of (filter (\<lambda>v. vm_libvirt_name v \<notin> fst ` set ds) rows)\<rparr>))))"

section \<open>The report is a partition\<close>

lemma wp_classify:
  "wp (classify lv h d r)
     (\<lambda>r' _. map or_libvirt_name (rp_orphaned r') = map or_libvirt_name (rp_orphaned r) @ (if parse_boxer_name (fst d) \<noteq> None then [fst d] else []) \<and>
        map fd_libvirt_name (rp_foreign r') = map fd_libvirt_name (rp_foreign r) @ (if parse_boxer_name (fst d) = None then [fst d] else []))
     (\<lambda>_ _. True) w"
  by (cases d)
    (auto simp: classify_def Let_def wp_ret intro!: wp_after split: option.split)

lemma wp_classify_all:
  "wp (classify_all lv h known ds r)
     (\<lambda>r' _. map or_libvirt_name (rp_orphaned r') = map or_libvirt_name (rp_orphaned r) @
          filter (\<lambda>n. n \<notin> set known \<and> parse_boxer_name n \<noteq> None) (map fst ds) \<and>
        map fd_libvirt_name (rp_foreign r') = map fd_libvirt_name (rp_foreign r) @
          filter (\<lambda>n. n \<notin> set known \<and> parse_boxer_name n = None) (map fst ds))
     (\<lambda>_ _. True) w"
proof (induction ds arbitrary: r w)
  case (Cons d ds)
  show ?case
  proof (cases "fst d \<in> set known")
    case True
    then show ?thesis using Cons.IH by simp
  next
    case False
    then show ?thesis
      unfolding classify_all.simps if_not_P [OF False] wp_bindm
      by (intro wp_mono [OF wp_classify] wp_mono [OF Cons.IH]) auto
  qed
qed (simp add: wp_ret)



section \<open>Names that come back\<close>

lemma take_prefix [simp]: "starts_with (p @ s) p"
  by (simp add: starts_with_def)

lemma str_find_dashes:
  "\<not> contains ''--'' (s @ ''-'') \<Longrightarrow> str_find ''--'' (s @ ''--'' @ t) = Some (length s)"
proof (induction s)
  case (Cons c s)
  then have "\<not> starts_with (c # s @ ''-'') ''--''" "\<not> contains ''--'' (s @ ''-'')"
    by (auto simp: contains_def split: if_splits)
  moreover from this(1) have "\<not> starts_with (c # s @ ''--'' @ t) ''--''"
    by (cases s) (auto simp: starts_with_def)
  ultimately show ?case using Cons.IH by simp
qed (simp add: starts_with_def)

lemma parse_boxer_name_parts:
  "\<not> contains ''--'' (p @ ''-'') \<Longrightarrow> \<not> contains ''--'' (a @ ''-'') \<Longrightarrow>
   parse_boxer_name (''Boxer--'' @ p @ ''--'' @ a @ ''--'' @ r) =
     (if starts_with r ''vm_'' \<and> 6 \<le> length r then Some (p, a, r) else None)"
  using str_find_dashes [of p "a @ ''--'' @ r"] str_find_dashes [of a r]
  by (simp add: parse_boxer_name_def starts_with_def numeral_2_eq_2)

text \<open>A libvirt name the daemon makes parses back into project, sanitised display name and VM id, so
  that an orphaned domain can be adopted, provided that neither project nor display name has two
  adjacent dashes or ends with one.\<close>

theorem libvirt_name_roundtrip:
  assumes "\<not> contains ''--'' (p @ ''-'')" "\<not> contains ''--'' (safe_display_name d @ ''-'')"
    "starts_with v ''vm_''" "6 \<le> length v"
  shows "parse_boxer_name (make_libvirt_name p d v) = Some (p, safe_display_name d, v)"
  using parse_boxer_name_parts [OF assms(1,2), of v] assms(3,4) by (simp add: make_libvirt_name_def)

lemma libvirt_name_roundtrip_witness:
  "parse_boxer_name (make_libvirt_name ''p_1'' ''web ui'' ''vm_0a1b2c'') = Some (''p_1'', ''web-ui'', ''vm_0a1b2c'')"
proof -
  have *: "safe_display_name ''web ui'' = ''web-ui''" by code_simp
  show ?thesis
    unfolding * [symmetric] by (rule libvirt_name_roundtrip) code_simp+
qed

text \<open>A display name with two adjacent dashes does not survive: the daemon's own name for such a VM is
  read with the rest of the display name as part of the VM id, which is not the id of a VM, so the
  domain is taken for a foreign one and cannot be adopted. The comment beside the split says that a
  display name may contain two dashes.\<close>

theorem dashed_name_not_adopted:
  assumes "\<not> contains ''--'' (p @ ''-'')" "safe_display_name d = a @ ''--'' @ b"
    "\<not> contains ''--'' (a @ ''-'')" "\<not> starts_with (b @ ''--'' @ v) ''vm_''"
  shows "parse_boxer_name (make_libvirt_name p d v) = None"
  using parse_boxer_name_parts [OF assms(1,3), of "b @ ''--'' @ v"] assms(2,4)
  by (simp add: make_libvirt_name_def)

lemma dashed_name_not_adopted_witness:
  "parse_boxer_name (make_libvirt_name ''p_1'' ''web--ui'' ''vm_0a1b2c'') = None"
  by (rule dashed_name_not_adopted [where a = "''web''" and b = "''ui''"]) code_simp+

end
