(* ===== verification/Seed.thy ===== *)
theory Seed
  imports Guest CloudInit
begin

text \<open>
  \<open>boxerd/installer_seed.py\<close>: the answer files of unattended installations and the ISO they travel
  in. \<open>yaml\<close> is the library's printer.
\<close>

record seed_options =
  so_method :: string
  so_hostname :: string
  so_username :: string
  so_ssh_authorized_keys :: "string list"
  so_packages :: "string list"
  so_password_hash :: "string option"

definition SUPPORTED_METHODS :: "string list" where
  "SUPPORTED_METHODS = [''ubuntu'', ''debian'', ''fedora'', ''rhel'', ''manual'']"

definition VOLID :: "(string \<times> string) list" where
  "VOLID = [(''ubuntu'', ''cidata''), (''debian'', ''PRESEED''), (''fedora'', ''OEMDRV''), (''rhel'', ''OEMDRV'')]"

definition LOCKED_PASSWORD :: string where "LOCKED_PASSWORD = ''!''"

definition seed_dedupe :: "string list \<Rightarrow> string list" where
  "seed_dedupe = dedupe_loop (\<lambda>x. x \<noteq> []) []"

section \<open>The three answer files\<close>

definition autoinstall_doc :: "seed_options \<Rightarrow> pydict" where
  "autoinstall_doc opts =
     [(''autoinstall'', PDict
       [(''version'', PInt 1),
        (''identity'', PDict
          [(''hostname'', PStr (so_hostname opts)), (''username'', PStr (so_username opts)),
           (''password'', PStr (case so_password_hash opts of Some (c # p) \<Rightarrow> c # p | _ \<Rightarrow> LOCKED_PASSWORD))]),
        (''ssh'', PDict
          [(''install-server'', PBool True), (''allow-pw'', PBool (so_password_hash opts \<noteq> None)),
           (''authorized-keys'', str_list (so_ssh_authorized_keys opts))]),
        (''packages'', str_list (seed_dedupe (''qemu-guest-agent'' # so_packages opts))),
        (''late-commands'', str_list [''curtin in-target --target=/target -- systemctl enable qemu-guest-agent''])])]"

definition render_autoinstall :: "(pyval \<Rightarrow> string) \<Rightarrow> seed_options \<Rightarrow> string" where
  "render_autoinstall yaml opts = ''#cloud-config\<newline>'' @ yaml (PDict (autoinstall_doc opts))"

definition preseed_answers :: "seed_options \<Rightarrow> string list" where
  "preseed_answers opts =
     [''d-i debian-installer/locale string en_US'',
      ''d-i keyboard-configuration/xkb-keymap select us'',
      ''d-i netcfg/get_hostname string '' @ so_hostname opts,
      ''d-i netcfg/get_domain string local'',
      ''d-i passwd/root-login boolean false'',
      ''d-i passwd/username string '' @ so_username opts,
      ''d-i passwd/user-uid string 1000'',
      ''d-i user-setup/allow-password-weak boolean false'',
      ''d-i pkgsel/include string openssh-server qemu-guest-agent sudo '' @ join '' '' (so_packages opts),
      ''d-i grub-installer/only_debian boolean true'',
      ''d-i finish-install/reboot_in_progress note'']"

definition preseed_late_command :: "seed_options \<Rightarrow> string" where
  "preseed_late_command opts = (let u = so_username opts in
     (''d-i preseed/late_command string in-target mkdir -p /home/'' @ u @ ''/.ssh'') @
     (''; echo '' @ quoted (join nl (so_ssh_authorized_keys opts)) @ '' > '') @
     (''/target/home/'' @ u @ ''/.ssh/authorized_keys; in-target chown -R '' @ u @ '':'' @ u @ '' /home/'' @ u @ ''/.ssh''))"

definition render_preseed :: "seed_options \<Rightarrow> string" where
  "render_preseed opts = join nl (preseed_answers opts @ [preseed_late_command opts]) @ nl"

definition render_kickstart :: "seed_options \<Rightarrow> string" where
  "render_kickstart opts =
     (let keys_block = join nl (map (\<lambda>key. ''sshkey --username='' @ so_username opts @ '' '' @ [dquote] @ key @ [dquote])
            (so_ssh_authorized_keys opts));
          pkgs = join nl ([''@^minimal-environment'', ''openssh-server'', ''qemu-guest-agent''] @ so_packages opts);
          pw_line = (case so_password_hash opts of
              Some (c # p) \<Rightarrow> ''rootpw --iscrypted --lock '' @ c # p | _ \<Rightarrow> ''rootpw --lock'')
      in ''text\<newline>reboot\<newline>network --bootproto=dhcp --hostname='' @ so_hostname opts @ nl @ pw_line @ nl @
         ''user --name='' @ so_username opts @ '' --groups=wheel --lock\<newline>'' @ keys_block @ nl @
         ''bootloader --location=mbr\<newline>clearpart --all --initlabel\<newline>autopart\<newline>%packages\<newline>'' @ pkgs @ nl @
         ''%end\<newline>%post\<newline>systemctl enable qemu-guest-agent sshd\<newline>%end\<newline>'')"

definition render_seed :: "(pyval \<Rightarrow> string) \<Rightarrow> seed_options \<Rightarrow> (string \<times> string) option res" where
  "render_seed yaml opts =
     (let m = lower (so_method opts) in
      if m \<notin> set SUPPORTED_METHODS then
        Inl (PyExn ''ValueError'' (''Unsupported install method '' @ quoted (so_method opts)))
      else if m = ''manual'' then Inr None
      else if m = ''ubuntu'' then Inr (Some (''user-data'', render_autoinstall yaml opts))
      else if m = ''debian'' then Inr (Some (''preseed.cfg'', render_preseed opts))
      else Inr (Some (''ks.cfg'', render_kickstart opts)))"

section \<open>The seed image\<close>

fun seed_iso_tools :: "'w os \<Rightarrow> string \<Rightarrow> string list \<Rightarrow> string \<Rightarrow> string list \<Rightarrow> ('w, unit) pm" where
  "seed_iso_tools h volid files dest [] =
     raise (PyExn ''RuntimeError'' ''Neither genisoimage nor mkisofs found; install one to build seed ISOs'')"
| "seed_iso_tools h volid files dest (cmd # cmds) =
     bindm (catch_class ''FileNotFoundError''
       (bindm (os_run h ([cmd, ''-output'', dest, ''-volid'', volid, ''-joliet'', ''-rock''] @ files) []) (\<lambda>r.
         if pr_returncode r \<noteq> 0 then raise (PyExn ''RuntimeError'' (cmd @ '' failed: '' @ pr_stderr r)) else ret True))
       (\<lambda>_. ret False)) (\<lambda>made.
     if made then ret () else seed_iso_tools h volid files dest cmds)"

text \<open>\<open>tmp\<close> makes the temporary directory, which is removed at the end.\<close>

definition seed_build :: "'w os \<Rightarrow> ('w, string) pm \<Rightarrow> (pyval \<Rightarrow> string) \<Rightarrow> seed_options \<Rightarrow> string \<Rightarrow> ('w, string option) pm" where
  "seed_build h tmp yaml opts dest_dir =
     bindm (liftr (render_seed yaml opts)) (\<lambda>r. case r of
       None \<Rightarrow> ret None
     | Some (filename, contents) \<Rightarrow>
         let m = lower (so_method opts); iso_path = path_join dest_dir ''seed.iso'' in
         bindm (os_exists h iso_path) (\<lambda>e.
         if e then ret (Some iso_path)
         else
           bindm (os_mkdir h dest_dir) (\<lambda>_.
           bindm tmp (\<lambda>tmpdir.
           let file = path_join tmpdir filename; meta = path_join tmpdir ''meta-data'' in
           bindm (os_write_text h file contents) (\<lambda>_.
           bindm (whenm (m = ''ubuntu'') (os_write_text h meta
             (''instance-id: '' @ so_hostname opts @ ''\<newline>local-hostname: '' @ so_hostname opts @ nl))) (\<lambda>_.
           bindm (seed_iso_tools h (the (map_of VOLID m)) (if m = ''ubuntu'' then [file, meta] else [file]) iso_path
             [''genisoimage'', ''mkisofs'']) (\<lambda>_.
           ret (Some iso_path))))))))"

section \<open>What the seeds promise\<close>

lemma volid_defined: "render_seed yaml opts = Inr (Some fc) \<Longrightarrow> map_of VOLID (lower (so_method opts)) \<noteq> None"
  by (auto simp: render_seed_def Let_def SUPPORTED_METHODS_def VOLID_def split: if_splits)

text \<open>Every supported method but the manual one has an answer file with the name its installer looks for
  and a volume label for the image; the manual one has none, and any other method is refused.\<close>

theorem seed_files_complete:
  "case render_seed yaml opts of
     Inr (Some (f, _)) \<Rightarrow> (lower (so_method opts), f) \<in>
        {(''ubuntu'', ''user-data''), (''debian'', ''preseed.cfg''), (''fedora'', ''ks.cfg''), (''rhel'', ''ks.cfg'')} \<and>
        map_of VOLID (lower (so_method opts)) \<noteq> None
   | Inr None \<Rightarrow> lower (so_method opts) = ''manual''
   | Inl e \<Rightarrow> lower (so_method opts) \<notin> set SUPPORTED_METHODS"
  by (auto simp: render_seed_def Let_def SUPPORTED_METHODS_def VOLID_def split: if_splits)

lemma sh_word_shorter: "sh_word q (s @ [squote]) = Some r \<Longrightarrow> length r \<le> length s"
proof (induction q s arbitrary: r rule: sh_word.induct)
  case (2 q)
  then show ?case by (auto split: if_splits)
next
  case (3 c s)
  then show ?case by (auto split: if_splits)
next
  case (4 q c s)
  then show ?case by (auto split: if_splits)
qed simp

lemma sh_word_single_quoted:
  "squote \<notin> set a \<Longrightarrow> sh_word (Some squote) (a @ squote # b) = map_option (append a) (sh_word None b)"
proof (induction a)
  case (Cons c a)
  then show ?case by (cases "sh_word None b") auto
qed (simp add: option.map_ident append_Nil [abs_def])

lemma join_snoc: "join sep (xs @ [p @ x @ q]) = join sep (xs @ [p]) @ x @ q"
proof (induction xs)
  case (Cons y ys)
  then show ?case by (cases ys) auto
qed simp

text \<open>The Debian seed passes the keys to the installer's shell between single quotes: the shell reads back
  the keys' text exactly when it has no single quote of its own, so a key with one changes the
  command that the installer runs.\<close>

theorem preseed_keys_quoting:
  "(\<exists>a b. render_preseed opts = a @ ''; echo '' @ quoted (join nl (so_ssh_authorized_keys opts)) @ '' > '' @ b) \<and>
   (sh_word None (quoted (join nl (so_ssh_authorized_keys opts))) = Some (join nl (so_ssh_authorized_keys opts)) \<longleftrightarrow>
    squote \<notin> set (join nl (so_ssh_authorized_keys opts)))"
proof (rule conjI)
  show "\<exists>a b. render_preseed opts = a @ ''; echo '' @ quoted (join nl (so_ssh_authorized_keys opts)) @ '' > '' @ b"
    unfolding render_preseed_def preseed_late_command_def Let_def
    by (subst join_snoc) (metis append_assoc)
  let ?k = "join nl (so_ssh_authorized_keys opts)"
  show "sh_word None (quoted ?k) = Some ?k \<longleftrightarrow> squote \<notin> set ?k"
  proof
    assume w: "sh_word None (quoted ?k) = Some ?k"
    show "squote \<notin> set ?k"
    proof
      assume "squote \<in> set ?k"
      then obtain a b where k: "?k = a @ squote # b" "squote \<notin> set a" by (meson split_list_first)
      with w obtain r where "sh_word None (b @ [squote]) = Some r" "?k = a @ r"
        by (auto simp: quoted_def sh_word_single_quoted)
      with sh_word_shorter [of None b r] k(1) show False by simp
    qed
  next
    assume "squote \<notin> set ?k"
    then show "sh_word None (quoted ?k) = Some ?k"
      using sh_word_single_quoted [of ?k "[]"] by (simp add: quoted_def)
  qed
qed

end
