(* ===== verification/Adb.thy ===== *)
theory Adb
  imports Emulator Guest Scan
begin

text \<open>
  \<open>boxerd/adb_ops.py\<close>: the parsers of what the Android tools print and the operations that run them.
  The regular expressions of the module are written out as scanners; none of them can match a text
  in two ways.
\<close>

section \<open>Bounds and the UI tree\<close>

definition point_scan :: "(int \<times> int) scan" where
  "point_scan = bind_scan (lit ''['') (\<lambda>_. bind_scan number (\<lambda>x. bind_scan (lit '','') (\<lambda>_. bind_scan number (\<lambda>y.
     bind_scan (lit '']'') (\<lambda>_. ret_scan (x, y))))))"

definition bounds_scan :: "((int \<times> int) \<times> (int \<times> int)) scan" where
  "bounds_scan = bind_scan point_scan (\<lambda>a. bind_scan point_scan (\<lambda>b. ret_scan (a, b)))"

definition parse_bounds :: "string \<Rightarrow> (string \<times> int) list option" where
  "parse_bounds raw = map_option (\<lambda>((x1, y1), (x2, y2)).
     [(''x1'', x1), (''y1'', y1), (''x2'', x2), (''y2'', y2), (''cx'', (x1 + x2) div 2), (''cy'', (y1 + y2) div 2)])
     (search bounds_scan raw)"

fun xml_iter :: "xml \<Rightarrow> xml list" where
  "xml_iter (Elem t a x cs) = Elem t a x cs # concat (map xml_iter cs)"

definition xml_get_or :: "xml \<Rightarrow> string \<Rightarrow> string" where
  "xml_get_or e k = (case xml_get e k of None \<Rightarrow> [] | Some v \<Rightarrow> v)"

definition text_field :: "string \<Rightarrow> string \<Rightarrow> pydict" where
  "text_field k v = (if v = [] then [] else [(k, PStr v)])"

text \<open>\<open>cls.rsplit(".", 1)[-1]\<close>.\<close>

definition after_last_dot :: "string \<Rightarrow> string" where
  "after_last_dot s = rev (takeWhile (\<lambda>c. c \<noteq> CHR ''.'') (rev s))"

definition is_interesting :: "xml \<Rightarrow> bool" where
  "is_interesting e \<longleftrightarrow> xml_get_or e ''resource-id'' \<noteq> [] \<or> xml_get_or e ''text'' \<noteq> [] \<or>
     xml_get_or e ''content-desc'' \<noteq> [] \<or> xml_get e ''clickable'' = Some ''true''"

definition ui_node :: "xml \<Rightarrow> pydict" where
  "ui_node e = text_field ''id'' (xml_get_or e ''resource-id'') @ text_field ''text'' (xml_get_or e ''text'') @
     text_field ''desc'' (xml_get_or e ''content-desc'') @
     (if xml_get_or e ''class'' = [] then [] else [(''class'', PStr (after_last_dot (xml_get_or e ''class'')))]) @
     (if xml_get e ''clickable'' = Some ''true'' then [(''clickable'', PBool True)] else []) @
     (case parse_bounds (xml_get_or e ''bounds'') of None \<Rightarrow> []
      | Some b \<Rightarrow> [(''cx'', PInt (the (map_of b ''cx''))), (''cy'', PInt (the (map_of b ''cy'')))])"

definition parse_ui_xml :: "'w libvirt \<Rightarrow> string \<Rightarrow> pyval list res" where
  "parse_ui_xml lv x = (case lv_xml_parse lv x of
       None \<Rightarrow> Inl (ipc_error ERR_INTERNAL ''Could not parse UIAutomator dump'')
     | Some rt \<Rightarrow> Inr (map (\<lambda>e. PDict (ui_node e))
         (filter is_interesting (filter (\<lambda>e. xml_tag e = ''node'') (xml_iter rt)))))"

section \<open>Telemetry\<close>

text \<open>The timestamp pattern returns its own text.\<close>

definition timestamp_scan :: "string scan" where
  "timestamp_scan =
     bind_scan digits2 (\<lambda>mo. bind_scan (lit ''-'') (\<lambda>_. bind_scan digits2 (\<lambda>d. bind_scan (some_of is_space) (\<lambda>sp.
     bind_scan digits2 (\<lambda>hh. bind_scan (lit '':'') (\<lambda>_. bind_scan digits2 (\<lambda>mi. bind_scan (lit '':'') (\<lambda>_.
     bind_scan digits2 (\<lambda>ss. bind_scan (lit ''.'') (\<lambda>_. bind_scan (some_of is_ascii_digit) (\<lambda>f.
     ret_scan (mo @ ''-'' @ d @ sp @ hh @ '':'' @ mi @ '':'' @ ss @ ''.'' @ f))))))))))))"

definition level_scan :: "string scan" where
  "level_scan s = (case s of c # r \<Rightarrow> if c \<in> set ''VDIWEF'' then Some ([c], r) else None | [] \<Rightarrow> None)"

definition logcat_scan :: "pydict scan" where
  "logcat_scan =
     bind_scan timestamp_scan (\<lambda>ts. bind_scan (some_of is_space) (\<lambda>_. bind_scan number (\<lambda>pid.
     bind_scan (some_of is_space) (\<lambda>_. bind_scan number (\<lambda>tid. bind_scan (some_of is_space) (\<lambda>_.
     bind_scan level_scan (\<lambda>level. bind_scan (some_of is_space) (\<lambda>_ s.
       let tag = takeWhile (\<lambda>c. c \<noteq> CHR '':'') s in
       bind_scan (lit '':'') (\<lambda>_. bind_scan blank_opt (\<lambda>_ msg.
         Some ([(''ts'', PStr ts), (''pid'', PInt pid), (''tid'', PInt tid), (''level'', PStr level),
           (''tag'', PStr (strip tag)), (''msg'', PStr msg)], []))) (drop (length tag) s)))))))))"

text \<open>\<open>records[-limit:]\<close> when the limit is not zero and exceeded; a negative limit drops from the front.\<close>

definition last_records :: "int \<Rightarrow> 'a list \<Rightarrow> 'a list" where
  "last_records limit xs = (if limit = 0 \<or> int (length xs) \<le> limit then xs
     else if limit > 0 then drop (length xs - nat limit) xs else drop (nat (- limit)) xs)"

definition parse_logcat :: "string \<Rightarrow> int \<Rightarrow> pyval list" where
  "parse_logcat text limit = last_records limit
     (map (\<lambda>(d, _). PDict d) (List.map_filter logcat_scan (splitlines text)))"

definition device_serial :: "string \<Rightarrow> string option" where
  "device_serial raw = (let line = strip raw in
     if line = [] \<or> starts_with line ''List of devices'' then None
     else case split_ws line of serial # state # _ \<Rightarrow> if state = ''device'' then Some serial else None | _ \<Rightarrow> None)"

definition parse_adb_devices :: "string \<Rightarrow> string list" where
  "parse_adb_devices text = List.map_filter device_serial (splitlines text)"

definition tests_scan :: "int scan" where
  "tests_scan = bind_scan (lit ''Tests run:'') (\<lambda>_. bind_scan blanks (\<lambda>_. number))"

definition failures_scan :: "int scan" where
  "failures_scan = bind_scan (lit ''Failure'') (\<lambda>_ s.
     bind_scan (lit '':'') (\<lambda>_. bind_scan blanks (\<lambda>_. number)) (if starts_with s ''s'' then drop 1 s else s))"

definition stack_scan :: "string scan" where
  "stack_scan = bind_scan (lit ''INSTRUMENTATION_STATUS:'') (\<lambda>_. bind_scan blanks (\<lambda>_.
     bind_scan (lit ''stack='') (\<lambda>_. some_of (\<lambda>c. code c \<noteq> (10::nat)))))"

definition count_field :: "string \<Rightarrow> int option \<Rightarrow> pydict" where
  "count_field k n = (case n of None \<Rightarrow> [] | Some i \<Rightarrow> [(k, PInt i)])"

definition parse_instrument_output :: "string \<Rightarrow> pydict" where
  "parse_instrument_output text =
     (let tests = search tests_scan text; failures = search failures_scan text;
          ok = contains ''OK ('' text \<or> contains ''INSTRUMENTATION_CODE: -1'' text;
          blocks = findall stack_scan 0 text; tail = splitlines (strip text)
      in [(''raw_tail'', str_list (drop (length tail - 20) tail))] @
         count_field ''tests'' tests @ count_field ''failures'' failures @
         (if blocks = [] then [] else [(''stacks'', str_list (map (\<lambda>b. take 1000 (strip b)) (take 5 blocks)))]) @
         [(''passed'', PBool (ok \<and> \<not> (case failures of None \<Rightarrow> False | Some n \<Rightarrow> n > 0)))])"

section \<open>Operations\<close>

text \<open>\<open>_adb\<close>: its exceptions for a command that fails; a timeout is raised by the library.\<close>

definition run_adb :: "'w os \<Rightarrow> 'w sdk_env \<Rightarrow> string \<Rightarrow> string list \<Rightarrow> ('w, string) pm" where
  "run_adb h e serial args =
     bindm (sdk_adb h e) (\<lambda>a. case a of
       None \<Rightarrow> raise (ipc_error ERR_INTERNAL ''adb not found'')
     | Some adb \<Rightarrow>
         bindm (os_run h ([adb, ''-s'', serial] @ args) []) (\<lambda>r.
         if pr_returncode r \<noteq> 0 then raise (ipc_error ERR_INTERNAL
           (''adb '' @ join '' '' (take 2 args) @ '' failed: '' @ take 400 (strip (pr_stderr r))))
         else ret (pr_stdout r)))"

definition do_adb :: "'w os \<Rightarrow> 'w sdk_env \<Rightarrow> string \<Rightarrow> string list \<Rightarrow> ('w, unit) pm" where
  "do_adb h e serial args = bindm (run_adb h e serial args) (\<lambda>_. ret ())"

definition rfind :: "string \<Rightarrow> string \<Rightarrow> nat option" where
  "rfind pat s = map_option (\<lambda>i. length s - i - length pat) (str_find (rev pat) (rev s))"

definition ui_document :: "string \<Rightarrow> string" where
  "ui_document x = (case (case str_find ''<?xml'' x of Some i \<Rightarrow> Some i | None \<Rightarrow> str_find ''<hierarchy'' x) of
       Some i \<Rightarrow> (case rfind ''</hierarchy>'' x of Some j \<Rightarrow> drop i (take (j + 12) x) | None \<Rightarrow> x)
     | None \<Rightarrow> x)"

definition ui_dump :: "'w libvirt \<Rightarrow> 'w os \<Rightarrow> 'w sdk_env \<Rightarrow> string \<Rightarrow> ('w, pyval list) pm" where
  "ui_dump lv h e serial =
     bindm (run_adb h e serial [''exec-out'', ''uiautomator'', ''dump'', ''/dev/tty'']) (\<lambda>x.
     liftr (parse_ui_xml lv (ui_document x)))"

definition adb_tap :: "'w os \<Rightarrow> 'w sdk_env \<Rightarrow> string \<Rightarrow> int \<Rightarrow> int \<Rightarrow> ('w, unit) pm" where
  "adb_tap h e serial x y = do_adb h e serial [''shell'', ''input'', ''tap'', show_int x, show_int y]"

definition adb_swipe :: "'w os \<Rightarrow> 'w sdk_env \<Rightarrow> string \<Rightarrow> int \<Rightarrow> int \<Rightarrow> int \<Rightarrow> int \<Rightarrow> int \<Rightarrow> ('w, unit) pm" where
  "adb_swipe h e serial x1 y1 x2 y2 ms = do_adb h e serial
     [''shell'', ''input'', ''swipe'', show_int x1, show_int y1, show_int x2, show_int y2, show_int ms]"

definition adb_text :: "'w os \<Rightarrow> 'w sdk_env \<Rightarrow> string \<Rightarrow> string \<Rightarrow> ('w, unit) pm" where
  "adb_text h e serial value = do_adb h e serial [''shell'', ''input'', ''text'', replace_char CHR '' '' ''%s'' value]"

definition adb_key :: "'w os \<Rightarrow> 'w sdk_env \<Rightarrow> string \<Rightarrow> string \<Rightarrow> ('w, unit) pm" where
  "adb_key h e serial keycode = do_adb h e serial [''shell'', ''input'', ''keyevent'', keycode]"

definition install_apk :: "'w os \<Rightarrow> 'w sdk_env \<Rightarrow> string \<Rightarrow> string \<Rightarrow> ('w, unit) pm" where
  "install_apk h e serial apk_path = do_adb h e serial [''install'', ''-r'', ''-g'', apk_path]"

definition type_error :: exn where
  "type_error = PyExn ''TypeError'' ''expected str, bytes or os.PathLike object''"

text \<open>The component of an activity that is any truthy JSON value.\<close>

definition activity_component :: "string \<Rightarrow> pyval \<Rightarrow> string res" where
  "activity_component package activity = (case activity of
       PStr a \<Rightarrow> Inr (if contains ''/'' a then a else package @ ''/'' @ a)
     | PList xs \<Rightarrow> if PStr ''/'' \<in> set xs then Inl type_error else Inr (package @ ''/'' @ py_str activity)
     | PDict d \<Rightarrow> if ''/'' \<in> fst ` set d then Inl type_error else Inr (package @ ''/'' @ py_str activity)
     | _ \<Rightarrow> Inl (PyExn ''TypeError'' ''argument is not iterable''))"

definition adb_launch :: "'w os \<Rightarrow> 'w sdk_env \<Rightarrow> string \<Rightarrow> string \<Rightarrow> pyval \<Rightarrow> ('w, string) pm" where
  "adb_launch h e serial package activity =
     (if truthy activity then
        bindm (liftr (activity_component package activity)) (\<lambda>comp.
        run_adb h e serial [''shell'', ''am'', ''start'', ''-n'', comp])
      else run_adb h e serial
        [''shell'', ''monkey'', ''-p'', package, ''-c'', ''android.intent.category.LAUNCHER'', ''1''])"

definition stop_app :: "'w os \<Rightarrow> 'w sdk_env \<Rightarrow> string \<Rightarrow> string \<Rightarrow> ('w, unit) pm" where
  "stop_app h e serial package = do_adb h e serial [''shell'', ''am'', ''force-stop'', package]"

definition clear_app :: "'w os \<Rightarrow> 'w sdk_env \<Rightarrow> string \<Rightarrow> string \<Rightarrow> ('w, unit) pm" where
  "clear_app h e serial package = do_adb h e serial [''shell'', ''pm'', ''clear'', package]"

definition current_activity :: "'w os \<Rightarrow> 'w sdk_env \<Rightarrow> string \<Rightarrow> ('w, string) pm" where
  "current_activity h e serial = run_adb h e serial [''shell'', ''dumpsys'', ''activity'', ''activities'']"

definition adb_pull :: "'w os \<Rightarrow> 'w sdk_env \<Rightarrow> string \<Rightarrow> string \<Rightarrow> string \<Rightarrow> ('w, unit) pm" where
  "adb_pull h e serial remote dest = do_adb h e serial [''pull'', remote, dest]"

definition adb_screenshot :: "'w os \<Rightarrow> 'w sdk_env \<Rightarrow> string \<Rightarrow> ('w, string) pm" where
  "adb_screenshot h e serial =
     bindm (run_adb h e serial [''exec-out'', ''screencap'', ''-p'']) (\<lambda>png. ret (b64encode png))"

definition adb_logcat :: "'w os \<Rightarrow> 'w sdk_env \<Rightarrow> string \<Rightarrow> pyval \<Rightarrow> string \<Rightarrow> int option \<Rightarrow> int \<Rightarrow> ('w, pyval list) pm" where
  "adb_logcat h e serial tag priority package_pid limit =
     bindm (run_adb h e serial ([''logcat'', ''-d'', ''-v'', ''threadtime''] @
         (case package_pid of Some p \<Rightarrow> if p = 0 then [] else [''--pid'', show_int p] | None \<Rightarrow> []) @
         (if truthy tag then [py_str tag @ '':'' @ priority, ''*:S''] else []))) (\<lambda>out.
     ret (parse_logcat out limit))"

definition pidof :: "'w os \<Rightarrow> 'w sdk_env \<Rightarrow> string \<Rightarrow> string \<Rightarrow> ('w, int option) pm" where
  "pidof h e serial package =
     bindm (run_adb h e serial [''shell'', ''pidof'', package]) (\<lambda>out.
     case split_ws out of [] \<Rightarrow> ret None
     | w # _ \<Rightarrow> bindm (liftr (py_int (PStr w))) (\<lambda>p. ret (Some p)))"

definition adb_instrument :: "'w os \<Rightarrow> 'w sdk_env \<Rightarrow> string \<Rightarrow> string \<Rightarrow> string \<Rightarrow> pyval \<Rightarrow> ('w, pydict) pm" where
  "adb_instrument h e serial test_package runner class_or_method =
     bindm (if truthy class_or_method
         then bindm (liftr (need_str type_error (\<lambda>_. True) class_or_method)) (\<lambda>c. ret [''-e'', ''class'', c])
         else ret []) (\<lambda>sel.
     bindm (run_adb h e serial ([''shell'', ''am'', ''instrument'', ''-w'', ''-r''] @ sel @ [test_package @ ''/'' @ runner])) (\<lambda>out.
     ret (parse_instrument_output out)))"

section \<open>Bounds come back\<close>

definition show_point :: "nat \<Rightarrow> nat \<Rightarrow> string" where
  "show_point x y = ''['' @ show_nat x @ '','' @ show_nat y @ '']''"

lemma point_scan_show: "point_scan (show_point x y @ s) = Some ((int x, int y), s)"
proof -
  have nd: "\<not> is_ascii_digit CHR '',''" "\<not> is_ascii_digit CHR '']''" by (simp_all add: is_ascii_digit_def)
  have l: "lit ''['' (CHR ''['' # r) = Some ((), r)" "lit '','' (CHR '','' # r) = Some ((), r)"
    "lit '']'' (CHR '']'' # r) = Some ((), r)" for r by (simp_all add: lit_def starts_with_def)
  show ?thesis
    by (simp add: point_scan_def show_point_def bind_scan_def ret_scan_def l number_show nd)
qed

text \<open>The bounds attribute of a screen element is read correctly: the text that Android prints for a
  rectangle gives back its corners, and the tap point lies inside it.\<close>

theorem bounds_roundtrip:
  assumes "x1 \<le> x2" "y1 \<le> y2"
  shows "\<exists>b cx cy. parse_bounds (show_point x1 y1 @ show_point x2 y2) = Some b \<and>
    map_of b ''x1'' = Some (int x1) \<and> map_of b ''y1'' = Some (int y1) \<and>
    map_of b ''x2'' = Some (int x2) \<and> map_of b ''y2'' = Some (int y2) \<and>
    map_of b ''cx'' = Some cx \<and> int x1 \<le> cx \<and> cx \<le> int x2 \<and>
    map_of b ''cy'' = Some cy \<and> int y1 \<le> cy \<and> cy \<le> int y2"
proof -
  have "bounds_scan (show_point x1 y1 @ show_point x2 y2) = Some (((int x1, int y1), (int x2, int y2)), [])"
    using point_scan_show [of x2 y2 "[]"] by (simp add: bounds_scan_def bind_scan_def ret_scan_def point_scan_show)
  then have "search bounds_scan (show_point x1 y1 @ show_point x2 y2) = Some ((int x1, int y1), (int x2, int y2))"
    by (cases "show_point x1 y1 @ show_point x2 y2") simp_all
  moreover have "int x1 \<le> (int x1 + int x2) div 2" "(int x1 + int x2) div 2 \<le> int x2"
    "int y1 \<le> (int y1 + int y2) div 2" "(int y1 + int y2) div 2 \<le> int y2" using assms by linarith+
  ultimately show ?thesis by (simp add: parse_bounds_def)
qed

lemma bounds_roundtrip_witness: "\<exists>b. parse_bounds ''[10,20][30,60]'' = Some b \<and> map_of b ''x2'' = Some 30"
proof -
  have "show_point 10 20 @ show_point 30 60 = ''[10,20][30,60]''" by code_simp
  with bounds_roundtrip [of 10 30 20 60] show ?thesis by auto
qed

end
