(* ===== verification/Labs.thy ===== *)
theory Labs
  imports Types
begin

text \<open>
  \<open>boxerd/labs.py\<close>: the lab recipes and the request one of them expands to. A lab request is an
  ordinary VM request with the recipe's template, profiles, waits, sizes and tags.
\<close>

section \<open>Recipes\<close>

record lab_recipe =
  lab_name :: string
  lab_title :: string
  lab_niche :: string
  lab_description :: string
  lab_default_template :: string
  lab_profiles :: "string list"
  lab_headless :: bool
  lab_ttl_minutes :: int
  lab_wait_for :: "string list"
  lab_wait_timeout_seconds :: int
  lab_wait_command :: "string option"
  lab_cpu :: "int option"
  lab_ram_mb :: "int option"
  lab_disk_gb :: "int option"
  lab_recommended_templates :: "string list"
  lab_next_steps :: "string list"

definition SIZE_OVERRIDES :: "(string \<times> (string \<times> int) list) list" where
  "SIZE_OVERRIDES =
     [(''small'', [(''cpu'', 1), (''ram_mb'', 1536), (''disk_gb'', 12)]),
      (''default'', []),
      (''large'', [(''cpu'', 4), (''ram_mb'', 6144), (''disk_gb'', 40)])]"

definition lab_linux_repro :: lab_recipe where
  "lab_linux_repro =
     \<lparr>lab_name = ''linux-repro'', lab_title = ''Clean Linux Reproduction Lab'',
      lab_niche = ''reproduce a bug or run untrusted project commands away from the host'',
      lab_description = ''Creates one clean cloud-image VM with Python tooling and SSH/cloud-init readiness waits. '' @
        ''Use for reproducing issues, running project tests, or inspecting generated artifacts without '' @
        ''touching the host environment.'',
      lab_default_template = ''ubuntu-24.04'', lab_profiles = [''python''], lab_headless = True,
      lab_ttl_minutes = 90, lab_wait_for = [''ssh'', ''cloud_init''], lab_wait_timeout_seconds = 300,
      lab_wait_command = None, lab_cpu = None, lab_ram_mb = None, lab_disk_gb = None,
      lab_recommended_templates = [''ubuntu-24.04'', ''debian-12'', ''fedora-44'', ''almalinux-9'', ''rocky-9''],
      lab_next_steps = [''Run minimal repro commands with box_exec.'',
        ''Use box_get_serial_log if cloud-init or boot readiness times out.'',
        ''Delete the lab VM when the repro is captured.'']\<rparr>"

definition lab_distro_smoke :: lab_recipe where
  "lab_distro_smoke =
     \<lparr>lab_name = ''distro-smoke'', lab_title = ''Distro Portability Smoke Lab'',
      lab_niche = ''check whether scripts or packages assume one Linux family'',
      lab_description = ''Creates a single VM on the requested distro template with minimal tooling and readiness waits. '' @
        ''Run the same command across multiple lab VMs when you need a small distro matrix.'',
      lab_default_template = ''debian-12'', lab_profiles = [''python''], lab_headless = True,
      lab_ttl_minutes = 75, lab_wait_for = [''ssh'', ''cloud_init''], lab_wait_timeout_seconds = 300,
      lab_wait_command = None, lab_cpu = None, lab_ram_mb = None, lab_disk_gb = None,
      lab_recommended_templates = [''ubuntu-24.04'', ''debian-12'', ''fedora-44'', ''almalinux-9'', ''rocky-9'',
        ''alpine-3.23-cloud''],
      lab_next_steps = [''Run the same smoke command on each distro lab.'',
        ''Compare stdout/stderr and package availability.'',
        ''Keep output snippets small and delete completed labs.'']\<rparr>"

definition lab_docker_build :: lab_recipe where
  "lab_docker_build =
     \<lparr>lab_name = ''docker-build'', lab_title = ''Isolated Docker Build Lab'',
      lab_niche = ''build or test containers without sharing the host Docker daemon'',
      lab_description = ''Creates one VM with Docker installed and the boxer user added to the docker group. '' @
        ''Use when an agent needs container builds but should not touch host Docker state.'',
      lab_default_template = ''ubuntu-24.04'', lab_profiles = [''docker''], lab_headless = True,
      lab_ttl_minutes = 120, lab_wait_for = [''ssh'', ''cloud_init''], lab_wait_timeout_seconds = 480,
      lab_wait_command = Some ''docker version >/dev/null 2>&1'', lab_cpu = None, lab_ram_mb = Some 4096,
      lab_disk_gb = Some 30,
      lab_recommended_templates = [''ubuntu-24.04'', ''debian-12''],
      lab_next_steps = [''Copy or fetch only the build inputs needed for the container test.'',
        ''Run docker build/test commands with box_exec.'',
        ''Use box_delete_vm when the image cache is no longer useful.'']\<rparr>"

definition lab_web_ui :: lab_recipe where
  "lab_web_ui =
     \<lparr>lab_name = ''web-ui'', lab_title = ''Headless Web UI Test Lab'',
      lab_niche = ''run browser automation away from the host browser profile'',
      lab_description = ''Creates one VM with Chromium, Xvfb, fonts, and Python tooling. Use for Playwright, '' @
        ''Selenium, or headless browser checks where host browser state should stay private.'',
      lab_default_template = ''ubuntu-24.04'', lab_profiles = [''python'', ''browser''], lab_headless = True,
      lab_ttl_minutes = 120, lab_wait_for = [''ssh'', ''cloud_init''], lab_wait_timeout_seconds = 300,
      lab_wait_command = None, lab_cpu = None, lab_ram_mb = Some 4096, lab_disk_gb = Some 25,
      lab_recommended_templates = [''ubuntu-24.04'', ''debian-12''],
      lab_next_steps = [''Start the app or test server inside the VM.'',
        ''Run browser tests through box_exec.'',
        ''Use boxer forward only when a human needs to inspect a local port.'']\<rparr>"

definition lab_headed_desktop :: lab_recipe where
  "lab_headed_desktop =
     \<lparr>lab_name = ''headed-desktop'', lab_title = ''Headed Desktop Inspection Lab'',
      lab_niche = ''inspect GUI behavior or desktop installers through SPICE screenshots/input'',
      lab_description = ''Creates one headed VM with a minimal XFCE desktop. Use when the task truly needs a graphical '' @
        ''session rather than a shell-only repro.'',
      lab_default_template = ''ubuntu-24.04'', lab_profiles = [''desktop''], lab_headless = False,
      lab_ttl_minutes = 120, lab_wait_for = [''cloud_init''], lab_wait_timeout_seconds = 600,
      lab_wait_command = None, lab_cpu = None, lab_ram_mb = Some 4096, lab_disk_gb = Some 30,
      lab_recommended_templates = [''ubuntu-24.04''],
      lab_next_steps = [''Use box_screenshot and box_input from a rich MCP profile for GUI inspection.'',
        ''Prefer web-ui for browser automation that does not need a full desktop.'',
        ''Delete the lab VM after capturing the visual evidence.'']\<rparr>"

lemmas lab_recipe_defs = lab_linux_repro_def lab_distro_smoke_def lab_docker_build_def
  lab_web_ui_def lab_headed_desktop_def

definition LAB_RECIPES :: "lab_recipe list" where
  "LAB_RECIPES = [lab_linux_repro, lab_distro_smoke, lab_docker_build, lab_web_ui, lab_headed_desktop]"

definition list_labs :: "pyval list" where
  "list_labs = map (\<lambda>l. PDict
     [(''name'', PStr (lab_name l)), (''title'', PStr (lab_title l)), (''niche'', PStr (lab_niche l)),
      (''description'', PStr (lab_description l)), (''default_template'', PStr (lab_default_template l)),
      (''recommended_templates'', str_list (lab_recommended_templates l)),
      (''profiles'', str_list (lab_profiles l)), (''headless'', PBool (lab_headless l)),
      (''ttl_minutes'', PInt (lab_ttl_minutes l)), (''wait_for'', str_list (lab_wait_for l)),
      (''wait_timeout_seconds'', PInt (lab_wait_timeout_seconds l)),
      (''next_steps'', str_list (lab_next_steps l))]) LAB_RECIPES"

section \<open>Requests\<close>

definition is_lab_name :: "string \<Rightarrow> bool" where
  "is_lab_name s = (case before_final_newline s of [] \<Rightarrow> False
     | c # r \<Rightarrow> is_ascii_lower c \<and> length r \<le> 40 \<and>
         list_all (\<lambda>d. is_ascii_lower d \<or> is_ascii_digit d \<or> d = CHR ''-'') r)"

definition is_purpose :: "string \<Rightarrow> bool" where
  "is_purpose s = (case before_final_newline s of [] \<Rightarrow> False
     | c # r \<Rightarrow> (is_ascii_letter c \<or> is_ascii_digit c) \<and> length r \<le> 48 \<and>
         list_all (\<lambda>d. is_ascii_letter d \<or> is_ascii_digit d \<or> d \<in> set ''_.-'') r)"

definition get_lab :: "pyval \<Rightarrow> lab_recipe res" where
  "get_lab name =
     bindr (need_str (ipc_error ERR_INVALID_PARAMS ''lab must be a lab recipe name'') is_lab_name name) (\<lambda>s.
     need_some (ipc_error ERR_INVALID_PARAMS (''Unknown lab '' @ quoted s @ ''. Available labs: '' @
         repr_strs (sort (map lab_name LAB_RECIPES))))
       (find (\<lambda>l. lab_name l = s) LAB_RECIPES))"

text \<open>The loop over the caller's tags.\<close>

fun merge_tags :: "(string \<times> pyval) list \<Rightarrow> (string \<times> pyval) list \<Rightarrow> (string \<times> pyval) list res" where
  "merge_tags tags [] = Inr tags"
| "merge_tags tags ((k, v) # kvs) = (case v of
       PStr s \<Rightarrow>
         if starts_with k ''boxer.'' then
           Inl (ipc_error ERR_INVALID_PARAMS ''tags may not override boxer.* lab metadata'')
         else merge_tags (AList.update (take 64 k) (PStr (take 256 s)) tags) kvs
     | _ \<Rightarrow> Inl (ipc_error ERR_INVALID_PARAMS ''tags must be string key/value pairs''))"

definition lab_tags :: "lab_recipe \<Rightarrow> (string \<times> pyval) list" where
  "lab_tags l = [(''boxer.lab'', PStr (lab_name l)), (''boxer.niche'', PStr (lab_niche l)),
     (''boxer.interface'', PStr ''lab'')]"

definition opt_int :: "string \<Rightarrow> int option \<Rightarrow> pydict" where
  "opt_int k i = (case i of None \<Rightarrow> [] | Some n \<Rightarrow> [(k, PInt n)])"

text \<open>The request a validated recipe, template, purpose, size, lifetime and tags give.\<close>

definition lab_request :: "lab_recipe \<Rightarrow> string \<Rightarrow> string \<Rightarrow> (string \<times> int) list \<Rightarrow> bool \<Rightarrow> int \<Rightarrow>
    (string \<times> pyval) list \<Rightarrow> pydict" where
  "lab_request l template purpose sz wait ttl tags =
     dict_merge
       ([(''template'', PStr template), (''purpose'', PStr purpose), (''headless'', PBool (lab_headless l)),
         (''ttl_minutes'', PInt ttl), (''profiles'', str_list (lab_profiles l)), (''tags'', PDict tags)]
        @ (if wait then [(''wait_for'', str_list (lab_wait_for l)),
             (''wait_timeout_seconds'', PInt (lab_wait_timeout_seconds l))] @
             (case lab_wait_command l of None \<Rightarrow> []
                | Some c \<Rightarrow> if c = [] then [] else [(''wait_command'', PStr c)]) else [])
        @ opt_int ''cpu'' (lab_cpu l) @ opt_int ''ram_mb'' (lab_ram_mb l) @ opt_int ''disk_gb'' (lab_disk_gb l))
       (map (\<lambda>(k, i). (k, PInt i)) sz)"

definition build_lab_request :: "pydict \<Rightarrow> (lab_recipe \<times> pydict) res" where
  "build_lab_request params =
     bindr (get_lab (dget_or params ''lab'' (PStr []))) (\<lambda>l.
     bindr (need_str (ipc_error ERR_INVALID_PARAMS
         ''purpose must be a short slug using letters, numbers, dot, dash, or underscore'') is_purpose
       (py_or (dget params ''purpose'') (PStr (lab_name l)))) (\<lambda>purpose.
     bindr (need_str (ipc_error ERR_INVALID_PARAMS ''template must be a catalog template name'') (\<lambda>t. t \<noteq> [])
       (py_or (dget params ''template'') (PStr (lab_default_template l)))) (\<lambda>template.
     bindr (need_some (ipc_error ERR_INVALID_PARAMS
         (''size must be one of '' @ repr_strs (sort (map fst SIZE_OVERRIDES))))
       (map_of SIZE_OVERRIDES (lower (py_str (dget_or params ''size'' (PStr ''default'')))))) (\<lambda>sz.
     let wait = truthy (dget_or params ''wait'' (PBool True)) in
     bindr (py_int (py_or (dget_or params ''ttl_minutes'' (PInt (lab_ttl_minutes l))) (PInt (lab_ttl_minutes l)))) (\<lambda>ttl.
     bindr (guardr (ttl < 10 \<or> ttl > 24 * 60)
       (ipc_error ERR_INVALID_PARAMS ''ttl_minutes must be between 10 and 1440'')) (\<lambda>_.
     bindr (need_dict (ipc_error ERR_INVALID_PARAMS ''tags must be an object'')
       (py_or (dget params ''tags'') (PDict []))) (\<lambda>kvs.
     bindr (merge_tags (lab_tags l) kvs) (\<lambda>tags.
     Inr (l, lab_request l template purpose sz wait ttl tags)))))))))"

section \<open>Replies\<close>

definition queued_steps :: "string list" where
  "queued_steps = [''Poll box_queue_status until the lab is promoted.'',
     ''After promotion, use box_list_vms to find the lab VM tagged with boxer.lab.'',
     ''Keep the lab count small; Boxer enforces host and project capacity.'']"

definition lab_payload :: "lab_recipe \<Rightarrow> pydict \<Rightarrow> pydict" where
  "lab_payload l vm_result =
     AList.update ''lab'' (PDict
       [(''name'', PStr (lab_name l)), (''title'', PStr (lab_title l)), (''niche'', PStr (lab_niche l)),
        (''vm_id'', dget vm_result ''vm_id''),
        (''status'', dget_or vm_result ''status'' (dget vm_result ''state'')),
        (''next_steps'', str_list (if dget vm_result ''status'' = PStr ''queued'' then queued_steps
           else lab_next_steps l))]) vm_result"

definition lab_status_payload :: "pydict \<Rightarrow> pydict res" where
  "lab_status_payload v =
     bindr (need_dict (PyExn ''AttributeError'' ''object has no attribute get'')
       (py_or (dget v ''tags'') (PDict []))) (\<lambda>tags.
     let name = dget tags ''boxer.lab'';
         lab = (case name of PStr n \<Rightarrow> find (\<lambda>l. lab_name l = n) LAB_RECIPES | _ \<Rightarrow> None);
         ready = (dget_or v ''live_state'' (dget v ''state'') = PStr ''running'' \<and> truthy (dget v ''ip_address''))
     in Inr [(''vm'', PDict v),
       (''lab'', PDict
         [(''name'', name), (''title'', opt_str (map_option lab_title lab)),
          (''niche'', opt_str (map_option lab_niche lab)), (''ready'', PBool ready),
          (''next_steps'', str_list (case lab of None \<Rightarrow> [] | Some l \<Rightarrow> lab_next_steps l))])])"

section \<open>What a lab request contains\<close>

lemma merge_tags_reserved:
  "merge_tags tags kvs = Inr ts \<Longrightarrow> starts_with k ''boxer.'' \<Longrightarrow> map_of ts k = map_of tags k"
proof (induction tags kvs rule: merge_tags.induct)
  case (2 tags k' v kvs)
  then obtain s where v: "v = PStr s" and k': "\<not> starts_with k' ''boxer.''"
    by (auto split: pyval.splits if_splits)
  have "take 64 k' \<noteq> k"
  proof
    assume "take 64 k' = k"
    then have "take 6 (take 64 k') = take 6 k" by simp
    with 2(3) k' show False by (simp add: starts_with_def numeral_eq_Suc)
  qed
  with 2 v k' show ?case by (simp add: update_conv' fun_upd_other)
qed simp

definition all_strings :: "(string \<times> pyval) list \<Rightarrow> bool" where
  "all_strings kvs = list_all (\<lambda>(k, v). case v of PStr _ \<Rightarrow> True | _ \<Rightarrow> False) kvs"

lemma all_strings_update: "all_strings tags \<Longrightarrow> all_strings (AList.update k (PStr s) tags)"
proof (induction tags)
  case (Cons p tags)
  then show ?case by (cases p) (simp add: all_strings_def)
qed (simp add: all_strings_def)

lemma merge_tags_strings: "merge_tags tags kvs = Inr ts \<Longrightarrow> all_strings tags \<Longrightarrow> all_strings ts"
proof (induction tags kvs rule: merge_tags.induct)
  case (2 tags k' v kvs)
  then show ?case
    by (cases v) (simp_all add: all_strings_update split: if_splits)
qed simp

lemma get_lab_Inr: "get_lab n = Inr l \<Longrightarrow> l \<in> set LAB_RECIPES \<and> n = PStr (lab_name l)"
  by (auto simp: get_lab_def find_Some_iff bindr_eq_Inr need_Inr)

text \<open>The stages a successful expansion has passed.\<close>

lemma build_lab_request_Inr:
  assumes "build_lab_request params = Inr (l, r)"
  obtains purpose template sz tags ttl where
    "get_lab (dget_or params ''lab'' (PStr [])) = Inr l" "is_purpose purpose" "template \<noteq> []"
    "map_of SIZE_OVERRIDES (lower (py_str (dget_or params ''size'' (PStr ''default'')))) = Some sz"
    "10 \<le> ttl" "ttl \<le> 1440"
    "\<exists>kvs. merge_tags (lab_tags l) kvs = Inr tags"
    "r = lab_request l template purpose sz (truthy (dget_or params ''wait'' (PBool True))) ttl tags"
  using assms unfolding build_lab_request_def
  by (auto simp: bindr_eq_Inr need_Inr Let_def not_less) blast

lemma SIZE_OVERRIDES_keys:
  "map_of SIZE_OVERRIDES n = Some sz \<Longrightarrow> sz = [] \<or> map fst sz = [''cpu'', ''ram_mb'', ''disk_gb'']"
  by (auto simp: SIZE_OVERRIDES_def split: if_splits)

lemma map_of_lab_request:
  assumes "map_of SIZE_OVERRIDES n = Some sz"
  shows "map_of (lab_request l t p sz w ttl tags) ''tags'' = Some (PDict tags)"
    "map_of (lab_request l t p sz w ttl tags) ''ttl_minutes'' = Some (PInt ttl)"
    "map_of (lab_request l t p sz w ttl tags) ''template'' = Some (PStr t)"
    "map_of (lab_request l t p sz w ttl tags) ''purpose'' = Some (PStr p)"
    "map_of (lab_request l t p sz w ttl tags) ''profiles'' = Some (str_list (lab_profiles l))"
  using SIZE_OVERRIDES_keys [OF assms]
  by (auto simp: lab_request_def map_of_dict_merge map_add_def o_def case_prod_beta
      split: option.split dest!: map_of_SomeD)

section \<open>Properties\<close>

text \<open>C15: A lab request that is accepted is built from a recipe of the catalogue: it carries the recipe's
  profiles, a non-empty template, a purpose that is a slug, a lifetime of ten minutes to a day, and
  string tags among which the reserved \<open>boxer.\<close> keys are the recipe's own, whatever the caller sent.\<close>

theorem lab_request_sound:
  assumes "build_lab_request params = Inr (l, r)"
  shows "l \<in> set LAB_RECIPES \<and> dget_or params ''lab'' (PStr []) = PStr (lab_name l) \<and>
    map_of r ''profiles'' = Some (str_list (lab_profiles l)) \<and>
    (\<exists>t. t \<noteq> [] \<and> map_of r ''template'' = Some (PStr t)) \<and>
    (\<exists>p. is_purpose p \<and> map_of r ''purpose'' = Some (PStr p)) \<and>
    (\<exists>ttl. 10 \<le> ttl \<and> ttl \<le> 1440 \<and> map_of r ''ttl_minutes'' = Some (PInt ttl)) \<and>
    (\<exists>tags. map_of r ''tags'' = Some (PDict tags) \<and> all_strings tags \<and>
       (\<forall>k. starts_with k ''boxer.'' \<longrightarrow> map_of tags k = map_of (lab_tags l) k))"
proof (rule build_lab_request_Inr [OF assms], goal_cases)
  case (1 p t sz tags ttl)
  then obtain kvs where "merge_tags (lab_tags l) kvs = Inr tags" by blast
  moreover have "all_strings (lab_tags l)" by (simp add: all_strings_def lab_tags_def)
  ultimately have "all_strings tags" "\<forall>k. starts_with k ''boxer.'' \<longrightarrow> map_of tags k = map_of (lab_tags l) k"
    using merge_tags_strings merge_tags_reserved by blast+
  with get_lab_Inr [OF 1(1)] 1(2,3,5,6) show ?case
    unfolding 1(8) by (simp add: map_of_lab_request [OF 1(4)])
qed

lemma lab_request_sound_witness:
  "\<exists>l r. build_lab_request [(''lab'', PStr ''docker-build''), (''size'', PStr ''large''), (''ttl_minutes'', PInt 30)]
      = Inr (l, r) \<and> l \<in> set LAB_RECIPES \<and> map_of r ''profiles'' = Some (str_list (lab_profiles l))"
proof -
  let ?p = "[(''lab'', PStr ''docker-build''), (''size'', PStr ''large''), (''ttl_minutes'', PInt 30)]"
  have "\<not> isl (build_lab_request ?p)" by code_simp
  then obtain l r where "build_lab_request ?p = Inr (l, r)" by (cases "build_lab_request ?p") auto
  with lab_request_sound [OF this] show ?thesis by blast
qed

end
