(* ===== verification/Policy.thy ===== *)
theory Policy
  imports Db
begin

text \<open>
  \<open>boxerd/policy.py\<close>: who may act on a VM. The engine compares the identity the request claims
  with the row's project and owner; a listing shows a project its own rows.
\<close>

definition OWNERSHIP_REQUIRED_ACTIONS :: "string list" where
  "OWNERSHIP_REQUIRED_ACTIONS =
     [''vm.start'', ''vm.stop'', ''vm.restart'', ''vm.ssh_access'', ''vm.delete'',
      ''vm.extend_lease'', ''vm.snapshot'', ''vm.exec'', ''vm.push_files'', ''vm.pull'',
      ''vm.screenshot'', ''vm.input'', ''vm.serial_log'', ''vm.purge_ghost'', ''android.adb'',
      ''guest.sysinfo'', ''guest.services'', ''guest.logs'', ''guest.packages'']"

definition ADMIN_ONLY_ACTIONS :: "string list" where
  "ADMIN_ONLY_ACTIONS = []"

definition check_action :: "string \<Rightarrow> caller \<Rightarrow> vm option \<Rightarrow> unit res" where
  "check_action action c v =
     bindr (guardr (action \<in> set ADMIN_ONLY_ACTIONS \<and> \<not> is_admin c)
       (ipc_error ERR_POLICY_VIOLATION (''Action '' @ quoted action @ '' requires admin privileges''))) (\<lambda>_.
     if action \<in> set OWNERSHIP_REQUIRED_ACTIONS then
       (case v of
          None \<Rightarrow> Inl (ipc_error ERR_NOT_FOUND ''VM not found'')
        | Some r \<Rightarrow>
            if is_admin c then Inr ()
            else if PStr (vm_project_id r) \<noteq> c_project_id c then
              Inl (ipc_error ERR_POLICY_VIOLATION
                (''VM belongs to project '' @ vm_project_id r @ '', caller is in '' @ py_str (c_project_id c)))
            else if PStr (vm_owner_user r) \<noteq> c_user c then
              Inl (ipc_error ERR_POLICY_VIOLATION
                (''VM is owned by '' @ quoted (vm_owner_user r) @ '', caller is '' @ quoted (py_str (c_user c))))
            else Inr ())
     else Inr ())"

definition check_vm_list_visibility :: "caller \<Rightarrow> vm \<Rightarrow> bool" where
  "check_vm_list_visibility c r = (is_admin c \<or> PStr (vm_project_id r) = c_project_id c)"

definition caller_from_params :: "pydict \<Rightarrow> caller" where
  "caller_from_params params =
     \<lparr>c_project_id = dget_or params ''caller_project_id'' (PStr ''p_unknown''),
      c_user = dget_or params ''caller_user'' (PStr ''unknown''),
      c_is_admin = dget_or params ''caller_is_admin'' (PBool False)\<rparr>"

text \<open>The caller owns the row: an administrator, or the same project and the same user.\<close>

definition owns :: "caller \<Rightarrow> vm \<Rightarrow> bool" where
  "owns c r \<longleftrightarrow> is_admin c \<or>
     (PStr (vm_project_id r) = c_project_id c \<and> PStr (vm_owner_user r) = c_user c)"

lemma check_action_Inr:
  "action \<in> set OWNERSHIP_REQUIRED_ACTIONS \<Longrightarrow>
   check_action action c v = Inr u \<longleftrightarrow> (\<exists>r. v = Some r \<and> owns c r)"
  by (auto simp: check_action_def ADMIN_ONLY_ACTIONS_def owns_def guardr_def split: option.split)

lemma check_action_Inl:
  "check_action action c v = Inl e \<Longrightarrow>
   (v = None \<and> exn_code e = Some ERR_NOT_FOUND) \<or>
   (\<exists>r. v = Some r \<and> \<not> owns c r \<and> exn_code e = Some ERR_POLICY_VIOLATION)"
  by (auto simp: check_action_def ADMIN_ONLY_ACTIONS_def owns_def guardr_def
      split: option.splits if_splits)

lemma check_action_free:
  "action \<notin> set OWNERSHIP_REQUIRED_ACTIONS \<Longrightarrow> check_action action c v = Inr ()"
  by (simp add: check_action_def ADMIN_ONLY_ACTIONS_def guardr_def)

lemma owns_vm_from_row [simp]: "owns c (vm_from_row d r) = owns c r"
  by (simp add: owns_def)

text \<open>The policy decision is exactly ownership: an action on a VM is allowed when it needs no owner, or when
  the caller is an administrator or both the project and the user of the VM; a refusal is a policy
  violation, or says that there is no such VM.\<close>

theorem check_action_decision:
  "case check_action action c v of
     Inr _ \<Rightarrow> action \<notin> set OWNERSHIP_REQUIRED_ACTIONS \<or> (\<exists>r. v = Some r \<and> owns c r)
   | Inl e \<Rightarrow> action \<in> set OWNERSHIP_REQUIRED_ACTIONS \<and>
       (case v of None \<Rightarrow> exn_code e = Some ERR_NOT_FOUND
        | Some r \<Rightarrow> \<not> owns c r \<and> exn_code e = Some ERR_POLICY_VIOLATION)"
proof (cases "action \<in> set OWNERSHIP_REQUIRED_ACTIONS")
  case True
  show ?thesis
  proof (cases "check_action action c v")
    case (Inl e)
    with True show ?thesis
      using check_action_Inl [OF Inl] check_action_Inr [OF True, of c v "()"]
      by (auto split: option.splits)
  next
    case (Inr u)
    with True show ?thesis using check_action_Inr [OF True, of c v u] by simp
  qed
next
  case False
  then show ?thesis by (simp add: check_action_free)
qed

lemma check_action_decision_witness:
  "\<exists>e. check_action ''vm.stop'' \<lparr>c_project_id = PStr ''p_1'', c_user = PStr ''ann'', c_is_admin = PBool False\<rparr> None = Inl e \<and>
     exn_code e = Some ERR_NOT_FOUND"
proof -
  let ?c = "\<lparr>c_project_id = PStr ''p_1'', c_user = PStr ''ann'', c_is_admin = PBool False\<rparr>"
  show ?thesis using check_action_decision [of "''vm.stop''" ?c None]
    by (cases "check_action ''vm.stop'' ?c None") (simp_all add: OWNERSHIP_REQUIRED_ACTIONS_def)
qed

end
