(* ===== verification/Handlers.thy ===== *)
theory Handlers
  imports Cache Reconcile Seed Adb Labs Requests Policy Profiles
begin

text \<open>
  The request handlers of \<open>boxerd/daemon.py\<close> that act on an existing VM. A handler takes the
  decoded parameters and returns a JSON value; it runs without interleaving on the daemon's state. The record
  \<open>daemon\<close> is what \<open>BoxerDaemon\<close> holds: the host's libraries and the image manager.
\<close>

section \<open>The daemon\<close>

text \<open>
  \<open>da_yaml\<close> and \<open>da_json\<close> print documents, \<open>da_fromiso\<close> is \<open>datetime.fromisoformat\<close>, \<open>da_others\<close> is what the
  other coroutines do while a handler sleeps.
\<close>

record 'w daemon =
  da_host :: "'w host"
  da_images :: "'w images"
  da_android :: catalog
  da_agent :: "string option"
  da_uri :: string
  da_yaml :: "pyval \<Rightarrow> string"
  da_json :: "pyval \<Rightarrow> string"
  da_fromiso :: "string \<Rightarrow> instant res"
  da_others :: "('w st, unit) pm"

abbreviation da_os :: "'w daemon \<Rightarrow> 'w os" where "da_os D \<equiv> ho_os (da_host D)"
abbreviation da_lv :: "'w daemon \<Rightarrow> 'w libvirt" where "da_lv D \<equiv> ho_lv (da_host D)"
abbreviation da_cfg :: "'w daemon \<Rightarrow> cfg" where "da_cfg D \<equiv> ho_cfg (da_host D)"
abbreviation da_sdk :: "'w daemon \<Rightarrow> 'w sdk_env" where "da_sdk D \<equiv> ho_sdk (da_host D)"
abbreviation da_guest :: "'w daemon \<Rightarrow> 'w guest_env" where "da_guest D \<equiv> ho_guest (da_host D)"
abbreviation da_doc :: "'w daemon \<Rightarrow> pydict" where "da_doc D \<equiv> ho_doc (da_host D)"

text \<open>\<open>int(params.get(k, d))\<close>, \<open>int(params.get(k, d) or d)\<close> and \<open>bool(params.get(k, d))\<close>.\<close>

definition int_param :: "pydict \<Rightarrow> string \<Rightarrow> int \<Rightarrow> int res" where
  "int_param params k d = py_int (dget_or params k (PInt d))"

definition int_or_param :: "pydict \<Rightarrow> string \<Rightarrow> int \<Rightarrow> int res" where
  "int_or_param params k d = py_int (py_or (dget_or params k (PInt d)) (PInt d))"

definition bool_param :: "pydict \<Rightarrow> string \<Rightarrow> bool \<Rightarrow> bool" where
  "bool_param params k d = truthy (dget_or params k (PBool d))"

text \<open>A value that must be text where it is used.\<close>

definition text_value :: "pyval \<Rightarrow> string res" where
  "text_value v = need_str type_error (\<lambda>_. True) v"

definition none_error :: exn where
  "none_error = PyExn ''AttributeError'' ''object has no attribute''"

text \<open>\<open>_vm_to_dict\<close>: \<open>owner\<close>, \<open>tags\<close> and \<open>name\<close> are the values a record was just made with.\<close>

definition vm_dict :: "pyval \<Rightarrow> pyval \<Rightarrow> vm \<Rightarrow> pydict" where
  "vm_dict owner tags v =
     [(''vm_id'', PStr (vm_id v)), (''libvirt_name'', PStr (vm_libvirt_name v)),
      (''display_name'', PStr (vm_display_name v)), (''project_id'', PStr (vm_project_id v)),
      (''state'', PStr (vm_state v)), (''owner_user'', owner), (''template'', PStr (vm_template v)),
      (''cpu'', PInt (vm_cpu v)), (''ram_mb'', PInt (vm_ram_mb v)), (''disk_gb'', PInt (vm_disk_gb v)),
      (''headless'', PBool (vm_headless v)), (''ip_address'', opt_str (vm_ip v)),
      (''created_at'', PStr (iso (vm_created_at v))), (''last_touched'', PStr (iso (vm_last_touched v))),
      (''lease_until'', PStr (iso (vm_lease_until v))), (''tags'', tags), (''origin'', PStr (vm_origin v)),
      (''artifact_type'', PStr (vm_artifact_type v)), (''install_state'', opt_str (vm_install_state v)),
      (''kind'', PStr (vm_kind v))]"

definition vm_to_dict :: "vm \<Rightarrow> pydict" where
  "vm_to_dict v = vm_dict (PStr (vm_owner_user v)) (PDict (map (\<lambda>(k, x). (k, PStr x)) (vm_tags v))) v"

section \<open>Finding the VM\<close>

text \<open>
  The steps every handler of an existing VM starts with: the id must be given, the row is read, the
  policy decides. A missing row that the policy lets pass fails at its first use.
\<close>

definition owned_vm :: "string \<Rightarrow> string \<Rightarrow> pydict \<Rightarrow> ('w st, vm) pm" where
  "owned_vm action missing params =
     bindm (guardm (\<not> truthy (dget params ''vm_id'')) (ipc_error ERR_INVALID_PARAMS missing)) (\<lambda>_.
     bindm (get_vm (dget params ''vm_id'')) (\<lambda>v.
     bindm (liftr (check_action action (caller_from_params params) v)) (\<lambda>_.
     case v of Some r \<Rightarrow> ret r | None \<Rightarrow> raise none_error)))"

definition guest_target :: "'w daemon \<Rightarrow> string \<Rightarrow> pydict \<Rightarrow> ('w st, vm \<times> string \<times> string option) pm" where
  "guest_target D action params =
     bindm (owned_vm action ''vm_id required'' params) (\<lambda>v.
     bindm (guardm (vm_kind v \<noteq> ''vm'') (ipc_error ERR_INVALID_PARAMS (action @ '' is only supported on Linux VMs''))) (\<lambda>_.
     case vm_ip v of
       Some (c # ip) \<Rightarrow>
         (let dir = vm_dir (da_cfg D) (vm_project_id v) (vm_id v) in
          bindm (in_world (has_key (da_os D) dir)) (\<lambda>k. ret (v, c # ip, if k then Some (key_path dir) else None)))
     | _ \<Rightarrow> raise (ipc_error ERR_INVALID_PARAMS ''VM has no IP address yet; wait for boot to complete'')))"

section \<open>Background tasks\<close>

definition poll_ip :: "'w daemon \<Rightarrow> string \<Rightarrow> string \<Rightarrow> ('w st, unit) pm" where
  "poll_ip D vid name =
     bindm (in_world (get_ip_via_guest_agent (da_lv D) name 120)) (\<lambda>ip. case ip of
       Some (c # a) \<Rightarrow> update_vm_ip vid (c # a)
     | _ \<Rightarrow> ret ())"

text \<open>
  The address after a start: wait for it up to 300 seconds when asked to, else leave it to a task.
  The result is the address now known.
\<close>

definition address_after :: "'w daemon \<Rightarrow> string \<Rightarrow> string \<Rightarrow> int \<Rightarrow> string option \<Rightarrow> ('w st, string option) pm" where
  "address_after D vid name wait_for_ip known =
     (if wait_for_ip > 0 then
        bindm (in_world (get_ip_via_guest_agent (da_lv D) name (max 1 (min wait_for_ip 300)))) (\<lambda>ip. case ip of
          Some (c # a) \<Rightarrow> bindm (update_vm_ip vid (c # a)) (\<lambda>_. ret (Some (c # a)))
        | _ \<Rightarrow> bindm (spawn (PollIp vid name)) (\<lambda>_. ret known))
      else bindm (spawn (PollIp vid name)) (\<lambda>_. ret known))"

section \<open>Life cycle\<close>

definition list_entry :: "'w daemon \<Rightarrow> bool \<Rightarrow> vm \<Rightarrow> ('w st, pyval list) pm" where
  "list_entry D include_stale v =
     bindm (dev_get_state (da_host D) v) (\<lambda>state.
     bindm clock (\<lambda>t.
     let stale = (vm_lease_until v < t) in
     ret (if \<not> include_stale \<and> stale \<and> state = ''stopped'' then []
       else [PDict (vm_to_dict v @ [(''live_state'', PStr state), (''is_stale'', PBool stale)])])))"

definition h_vm_list :: "'w daemon \<Rightarrow> pydict \<Rightarrow> ('w st, pyval) pm" where
  "h_vm_list D params =
     (let caller = caller_from_params params in
      bindm (list_vms (if is_admin caller then PNone else c_project_id caller)) (\<lambda>vms.
      bindm (mapm (\<lambda>v. if \<not> check_vm_list_visibility caller v then ret []
        else list_entry D (bool_param params ''include_stale'' False) v) vms) (\<lambda>rows.
      ret (PList (concat rows)))))"

definition vm_get :: "'w daemon \<Rightarrow> pydict \<Rightarrow> ('w st, pydict) pm" where
  "vm_get D params =
     (let vid = dget params ''vm_id'' in
      bindm (guardm (\<not> truthy vid) (ipc_error ERR_INVALID_PARAMS ''vm_id required'')) (\<lambda>_.
      bindm (get_vm vid) (\<lambda>found.
      bindm (liftr (check_action ''vm.get'' (caller_from_params params) found)) (\<lambda>_.
      case found of
        None \<Rightarrow> raise none_error
      | Some v \<Rightarrow>
          bindm (touch_vm (vm_id v)) (\<lambda>_.
          bindm (dev_get_state (da_host D) v) (\<lambda>state.
          let d = vm_to_dict v @ [(''live_state'', PStr state)] in
          if vm_kind v = ''vm'' \<and> (vm_ip v = None \<or> vm_ip v = Some []) \<and> state = ''running'' then
            bindm (in_world (get_ip_via_guest_agent (da_lv D) (vm_libvirt_name v) 3)) (\<lambda>ip. case ip of
              Some (c # a) \<Rightarrow> bindm (update_vm_ip (vm_id v) (c # a)) (\<lambda>_.
                ret (AList.update ''ip_address'' (PStr (c # a)) d))
            | _ \<Rightarrow> ret d)
          else ret d))))))"

definition h_vm_get :: "'w daemon \<Rightarrow> pydict \<Rightarrow> ('w st, pyval) pm" where
  "h_vm_get D params = bindm (vm_get D params) (\<lambda>d. ret (PDict d))"

definition running_reply :: "pyval \<Rightarrow> string option \<Rightarrow> pyval" where
  "running_reply vid ip = PDict [(''vm_id'', vid), (''state'', PStr ''running''), (''ip_address'', opt_str ip)]"

text \<open>What starting and restarting end with.\<close>

definition after_start :: "'w daemon \<Rightarrow> pydict \<Rightarrow> vm \<Rightarrow> int \<Rightarrow> ('w st, pyval) pm" where
  "after_start D params v wait_for_ip =
     bindm (update_vm_state (vm_id v) ''running'') (\<lambda>_.
     bindm (if vm_kind v = ''android'' then ret (vm_ip v)
       else address_after D (vm_id v) (vm_libvirt_name v) wait_for_ip (vm_ip v)) (\<lambda>ip.
     ret (running_reply (dget params ''vm_id'') ip)))"

definition h_vm_start :: "'w daemon \<Rightarrow> pydict \<Rightarrow> ('w st, pyval) pm" where
  "h_vm_start D params =
     bindm (liftr (int_or_param params ''wait_for_ip_seconds'' 0)) (\<lambda>wait_for_ip.
     bindm (owned_vm ''vm.start'' ''vm_id required'' params) (\<lambda>v.
     bindm (dev_start (da_host D) v) (\<lambda>_.
     after_start D params v wait_for_ip)))"

definition h_vm_stop :: "'w daemon \<Rightarrow> pydict \<Rightarrow> ('w st, pyval) pm" where
  "h_vm_stop D params =
     bindm (owned_vm ''vm.stop'' ''vm_id required'' params) (\<lambda>v.
     bindm (dev_stop (da_host D) v (bool_param params ''graceful'' True)) (\<lambda>_.
     bindm (update_vm_state (vm_id v) ''stopped'') (\<lambda>_.
     ret (PDict [(''vm_id'', dget params ''vm_id''), (''state'', PStr ''stopped'')]))))"

definition h_vm_restart :: "'w daemon \<Rightarrow> pydict \<Rightarrow> ('w st, pyval) pm" where
  "h_vm_restart D params =
     bindm (liftr (int_or_param params ''wait_for_ip_seconds'' 0)) (\<lambda>wait_for_ip.
     bindm (owned_vm ''vm.restart'' ''vm_id required'' params) (\<lambda>v.
     bindm (dev_stop (da_host D) v (bool_param params ''graceful'' True)) (\<lambda>_.
     bindm (dev_start (da_host D) v) (\<lambda>_.
     after_start D params v wait_for_ip))))"

text \<open>Deleting: a row of another kind, or of a machine that was not made here, keeps its files.\<close>

definition h_vm_delete :: "'w daemon \<Rightarrow> pydict \<Rightarrow> ('w st, pyval) pm" where
  "h_vm_delete D params =
     (let caller = caller_from_params params in
      bindm (owned_vm ''vm.delete'' ''vm_id is required for delete (name alone is not accepted)'' params) (\<lambda>v.
      bindm (update_vm_state (vm_id v) ''deleting'') (\<lambda>_.
      bindm (dev_undefine (da_host D) v) (\<lambda>_.
      bindm (whenm (vm_kind v = ''vm'' \<and> vm_origin v = ''boxer'')
        (in_world (delete_vm_storage (da_cfg D) (da_os D) (vm_project_id v) (vm_id v)))) (\<lambda>_.
      bindm (delete_vm (vm_id v)) (\<lambda>_.
      bindm (whenm (vm_kind v = ''vm'')
        (bindm (in_world (has_active_vms (da_lv D) (vm_project_id v))) (\<lambda>active.
         whenm (\<not> active)
           (bindm (list_vms (PStr (vm_project_id v))) (\<lambda>vms_left.
            whenm (vms_left = []) (in_world (teardown_project_network (da_lv D) (vm_project_id v)))))))) (\<lambda>_.
      bindm (add_event ''INFO'' (''VM '' @ quoted (vm_display_name v) @ '' ('' @ py_str (dget params ''vm_id'') @ '') deleted by '' @
        py_str (c_user caller)) (Some (vm_project_id v)) (Some (vm_id v))) (\<lambda>_.
      ret (PDict [(''vm_id'', dget params ''vm_id''), (''deleted'', PBool True)])))))))))"

definition h_vm_extend_lease :: "'w daemon \<Rightarrow> pydict \<Rightarrow> ('w st, pyval) pm" where
  "h_vm_extend_lease D params =
     bindm (liftr (int_param params ''ttl_minutes'' (cfg_default_ttl_minutes (da_cfg D)))) (\<lambda>ttl.
     bindm (owned_vm ''vm.extend_lease'' ''vm_id required'' params) (\<lambda>v.
     bindm clock (\<lambda>t.
     let lease = max (vm_lease_until v) t + minutes ttl in
     bindm (update_vm_lease (vm_id v) lease) (\<lambda>_.
     ret (PDict [(''vm_id'', dget params ''vm_id''), (''lease_until'', PStr (iso lease))])))))"

definition h_vm_snapshot :: "'w daemon \<Rightarrow> pydict \<Rightarrow> ('w st, pyval) pm" where
  "h_vm_snapshot D params =
     bindm (owned_vm ''vm.snapshot'' ''vm_id required'' params) (\<lambda>v.
     bindm uuid4_hex (\<lambda>hex.
     bindm (in_world (vm_snapshot (da_lv D) hex (vm_libvirt_name v) (py_str (dget_or params ''label'' (PStr ''snap''))))) (\<lambda>snap.
     ret (PDict [(''vm_id'', dget params ''vm_id''), (''snapshot_name'', PStr snap)]))))"

section \<open>Access and files\<close>

definition ssh_access_payload :: "vm \<Rightarrow> string option \<Rightarrow> key_material \<Rightarrow> bool \<Rightarrow> pydict" where
  "ssh_access_payload v ip k include_private_key =
     [(''vm_id'', PStr (vm_id v)), (''username'', PStr ''boxer''), (''host'', opt_str ip),
      (''public_key'', PStr (km_public k)), (''private_key_path'', PStr (km_private_path k)),
      (''ssh_command'', PStr (''ssh -i '' @ km_private_path k @
        '' -o IdentitiesOnly=yes -o StrictHostKeyChecking=accept-new boxer@'' @
        (case ip of Some (c # a) \<Rightarrow> c # a | _ \<Rightarrow> ''<pending-ip>'')))] @
     (if include_private_key then [(''private_key'', PStr (km_private k))] else [])"

definition h_vm_ssh_access :: "'w daemon \<Rightarrow> pydict \<Rightarrow> ('w st, pyval) pm" where
  "h_vm_ssh_access D params =
     bindm (liftr (int_or_param params ''timeout_seconds'' 30)) (\<lambda>timeout.
     bindm (owned_vm ''vm.ssh_access'' ''vm_id required'' params) (\<lambda>v.
     let dir = vm_dir (da_cfg D) (vm_project_id v) (vm_id v); no_ip = (vm_ip v = None \<or> vm_ip v = Some []) in
     bindm (in_world (has_key (da_os D) dir)) (\<lambda>present.
     bindm (guardm (\<not> present \<and> \<not> bool_param params ''create'' True) (ipc_error ERR_NOT_FOUND
       ''No ephemeral SSH key exists for this VM. Re-run with create=true.'')) (\<lambda>_.
     bindm (guardm (\<not> present \<and> no_ip) (ipc_error ERR_INVALID_PARAMS
       ''VM has no IP address yet; wait for boot before creating SSH access'')) (\<lambda>_.
     bindm (in_world (ensure_keypair (da_os D) dir (vm_id v))) (\<lambda>k.
     bindm (whenm (\<not> present)
       (bindm (catch (install_ssh_public_key (da_os D) (da_guest D) (da_doc D) (the (vm_ip v)) (km_public k) timeout)
         (\<lambda>e. bindm (in_world (os_unlink (da_os D) (km_private_path k))) (\<lambda>_.
              bindm (in_world (os_unlink (da_os D) (km_public_path k))) (\<lambda>_. raise e)))) (\<lambda>_.
        add_event ''INFO'' (''Ephemeral SSH access created for '' @ quoted (vm_display_name v) @ '' ('' @
          py_str (dget params ''vm_id'') @ '')'') (Some (vm_project_id v)) (Some (vm_id v))))) (\<lambda>_.
     bindm (touch_vm (vm_id v)) (\<lambda>_.
     ret (PDict (ssh_access_payload v (vm_ip v) k (bool_param params ''include_private_key'' False)))))))))))"

definition MAX_PUSH_BYTES :: int where "MAX_PUSH_BYTES = 32 * 1024 * 1024"
definition MAX_PUSH_FILES :: nat where "MAX_PUSH_FILES = 64"
definition MAX_PULL_BYTES :: int where "MAX_PULL_BYTES = 32 * 1024 * 1024"
definition MAX_EXEC_TIMEOUT :: int where "MAX_EXEC_TIMEOUT = 3600"
definition MAX_WAIT_SSH_SECONDS :: int where "MAX_WAIT_SSH_SECONDS = 600"

definition h_vm_exec :: "'w daemon \<Rightarrow> pydict \<Rightarrow> ('w st, pyval) pm" where
  "h_vm_exec D params =
     bindm (liftr (bounded_int (dget params ''timeout_seconds'') ''timeout_seconds'' 30 1 MAX_EXEC_TIMEOUT)) (\<lambda>timeout.
     bindm (liftr (bounded_int (dget params ''wait_ssh_seconds'') ''wait_ssh_seconds'' 0 0 MAX_WAIT_SSH_SECONDS)) (\<lambda>wait_ssh.
     bindm (guardm (\<not> truthy (dget params ''vm_id'') \<or> \<not> truthy (dget params ''command''))
       (ipc_error ERR_INVALID_PARAMS ''vm_id and command required'')) (\<lambda>_.
     bindm (guest_target D ''vm.exec'' params) (\<lambda>(v, ip, key).
     bindm (liftr (text_value (dget params ''command''))) (\<lambda>command.
     bindm (exec_ssh (da_os D) (da_guest D) (da_doc D) ip command timeout key (bool_param params ''detach'' False) wait_ssh) (\<lambda>r.
     bindm (touch_vm (vm_id v)) (\<lambda>_.
     ret (PDict r))))))))"

text \<open>One file of a push, with the number of bytes before it; then all of them.\<close>

definition push_item :: "string \<Rightarrow> int \<Rightarrow> pyval \<Rightarrow> (push_file \<times> int) res" where
  "push_item f sofar item =
     bindr (need_dict (ipc_error ERR_INVALID_PARAMS (f @ '' must be an object'')) item) (\<lambda>d.
     bindr (guest_abs_path (dget d ''path'') (f @ ''.path'')) (\<lambda>path.
     bindr (case b64decode (dget_or d ''data_b64'' (PStr [])) of
         Inr data \<Rightarrow> Inr data
       | Inl e \<Rightarrow> if in_class ''binascii.Error'' e \<or> in_class ''ValueError'' e
           then Inl (ipc_error ERR_INVALID_PARAMS (f @ ''.data_b64 is not valid base64'')) else Inl e) (\<lambda>data.
     bindr (guardr (sofar + int (length data) > MAX_PUSH_BYTES)
       (ipc_error ERR_INVALID_PARAMS (''push exceeds '' @ show_int MAX_PUSH_BYTES @ '' bytes''))) (\<lambda>_.
     bindr (if dget d ''mode'' = PNone then Inr None
       else map_sum id Some (bounded_int (dget d ''mode'') (f @ ''.mode'') 420 0 4095)) (\<lambda>mode.
     Inr (\<lparr>pf_path = path, pf_data = data, pf_mode = mode, pf_extract = truthy (dget_or d ''extract'' (PBool False))\<rparr>,
       sofar + int (length data)))))))"

fun push_items :: "nat \<Rightarrow> int \<Rightarrow> pyval list \<Rightarrow> (push_file list \<times> int) res" where
  "push_items i sofar [] = Inr ([], sofar)"
| "push_items i sofar (x # xs) =
     bindr (push_item (''files['' @ show_nat i @ '']'') sofar x) (\<lambda>(f, t).
     bindr (push_items (Suc i) t xs) (\<lambda>(fs, t'). Inr (f # fs, t')))"

definition h_vm_push_files :: "'w daemon \<Rightarrow> pydict \<Rightarrow> ('w st, pyval) pm" where
  "h_vm_push_files D params =
     (let missing = ipc_error ERR_INVALID_PARAMS ''vm_id and a non-empty files list required'' in
      bindm (guardm (\<not> truthy (dget params ''vm_id'') \<or> \<not> truthy (dget params ''files'')) missing) (\<lambda>_.
      bindm (liftr (need_list missing (dget params ''files''))) (\<lambda>raw.
      bindm (guardm (length raw > MAX_PUSH_FILES)
        (ipc_error ERR_INVALID_PARAMS (''at most '' @ show_nat MAX_PUSH_FILES @ '' files per push''))) (\<lambda>_.
      bindm (liftr (push_items 0 0 raw)) (\<lambda>(files, sofar).
      bindm (liftr (bounded_int (dget params ''timeout_seconds'') ''timeout_seconds'' 120 1 MAX_EXEC_TIMEOUT)) (\<lambda>timeout.
      bindm (guest_target D ''vm.push_files'' params) (\<lambda>(v, ip, key).
      bindm (push_files (da_os D) (da_guest D) (da_doc D) ip files timeout key (bool_param params ''sudo'' False)) (\<lambda>written.
      bindm (touch_vm (vm_id v)) (\<lambda>_.
      ret (PDict [(''vm_id'', dget params ''vm_id''), (''files'', PList written), (''total_bytes'', PInt sofar)]))))))))))"

definition pull_payload :: "pyval \<Rightarrow> string \<Rightarrow> pydict \<Rightarrow> pydict" where
  "pull_payload vid path r =
     [(''vm_id'', vid), (''path'', PStr path), (''is_archive'', dget r ''is_archive''),
      (''bytes'', PInt (int (length (dict_text r ''data'')))),
      (''data_b64'', PStr (b64encode (dict_text r ''data'')))]"

definition h_vm_pull :: "'w daemon \<Rightarrow> pydict \<Rightarrow> ('w st, pyval) pm" where
  "h_vm_pull D params =
     bindm (guardm (\<not> truthy (dget params ''vm_id'')) (ipc_error ERR_INVALID_PARAMS ''vm_id required'')) (\<lambda>_.
     bindm (liftr (guest_abs_path (dget params ''path'') ''path'')) (\<lambda>path.
     bindm (liftr (bounded_int (dget params ''max_bytes'') ''max_bytes'' MAX_PULL_BYTES 1 MAX_PULL_BYTES)) (\<lambda>max_bytes.
     bindm (liftr (bounded_int (dget params ''timeout_seconds'') ''timeout_seconds'' 120 1 MAX_EXEC_TIMEOUT)) (\<lambda>timeout.
     bindm (guest_target D ''vm.pull'' params) (\<lambda>(v, ip, key).
     bindm (pull_path (da_os D) (da_guest D) (da_doc D) ip path max_bytes timeout key (bool_param params ''sudo'' False)) (\<lambda>r.
     bindm (touch_vm (vm_id v)) (\<lambda>_.
     ret (PDict (pull_payload (dget params ''vm_id'') path r)))))))))"

definition h_vm_screenshot :: "'w daemon \<Rightarrow> pydict \<Rightarrow> ('w st, pyval) pm" where
  "h_vm_screenshot D params =
     bindm (owned_vm ''vm.screenshot'' ''vm_id required'' params) (\<lambda>v.
     bindm (in_world (screenshot (da_lv D) (da_os D) (da_guest D) (da_uri D) (vm_libvirt_name v))) (\<lambda>png.
     bindm (touch_vm (vm_id v)) (\<lambda>_.
     ret (PDict [(''vm_id'', dget params ''vm_id''), (''format'', PStr ''png''), (''data'', PStr png)]))))"

definition h_vm_input :: "'w daemon \<Rightarrow> pydict \<Rightarrow> ('w st, pyval) pm" where
  "h_vm_input D params =
     (let actions = dget_or params ''actions'' (PList []) in
      bindm (owned_vm ''vm.input'' ''vm_id required'' params) (\<lambda>v.
      bindm (in_world (send_input (da_os D) (da_uri D) (vm_libvirt_name v) actions)) (\<lambda>_.
      bindm (touch_vm (vm_id v)) (\<lambda>_.
      bindm (liftr (py_iter actions)) (\<lambda>items.
      ret (PDict [(''vm_id'', dget params ''vm_id''), (''actions_sent'', PInt (int (length items)))]))))))"

definition h_vm_serial_log :: "'w daemon \<Rightarrow> pydict \<Rightarrow> ('w st, pyval) pm" where
  "h_vm_serial_log D params =
     bindm (liftr (int_or_param params ''tail_lines'' 200)) (\<lambda>n.
     let tail_lines = max 1 (min n 5000) in
     bindm (owned_vm ''vm.serial_log'' ''vm_id required'' params) (\<lambda>v.
     let log_path = path_join (vm_dir (da_cfg D) (vm_project_id v) (vm_id v)) ''serial.log'' in
     bindm (in_world (os_exists (da_os D) log_path)) (\<lambda>e.
     if \<not> e then ret (PDict [(''vm_id'', dget params ''vm_id''), (''lines'', PList []), (''total_lines'', PInt 0),
         (''returned_lines'', PInt 0), (''note'', PStr ''No serial log yet'')])
     else
       bindm (in_world (os_read_text (da_os D) log_path)) (\<lambda>bytes.
       let ls = splitlines (im_decode (da_images D) bytes); sofar = int (length ls) in
       ret (PDict [(''vm_id'', dget params ''vm_id''), (''lines'', str_list (last_n (nat tail_lines) ls)),
         (''total_lines'', PInt sofar), (''returned_lines'', PInt (min tail_lines sofar))])))))"

section \<open>Guest utilities\<close>

definition guest_runner :: "'w daemon \<Rightarrow> string \<Rightarrow> string option \<Rightarrow> 'w runner" where
  "guest_runner D ip key = (\<lambda>command timeout. exec_ssh (da_os D) (da_guest D) (da_doc D) ip command timeout key False 0)"

definition h_guest :: "'w daemon \<Rightarrow> string \<Rightarrow> string \<Rightarrow> ('w runner \<Rightarrow> ('w st, pyval) pm) \<Rightarrow> pydict \<Rightarrow> ('w st, pyval) pm" where
  "h_guest D action key_name op params =
     bindm (guest_target D action params) (\<lambda>(v, ip, key).
     bindm (op (guest_runner D ip key)) (\<lambda>data.
     bindm (touch_vm (vm_id v)) (\<lambda>_.
     ret (PDict [(''vm_id'', PStr (vm_id v)), (key_name, data)]))))"

definition h_guest_sysinfo :: "'w daemon \<Rightarrow> pydict \<Rightarrow> ('w st, pyval) pm" where
  "h_guest_sysinfo D = h_guest D ''guest.sysinfo'' ''sysinfo'' (gu_sysinfo (os_json (da_os D)))"

definition h_guest_services :: "'w daemon \<Rightarrow> pydict \<Rightarrow> ('w st, pyval) pm" where
  "h_guest_services D = h_guest D ''guest.services'' ''services'' (gu_services (os_json (da_os D)))"

definition h_guest_logs :: "'w daemon \<Rightarrow> pydict \<Rightarrow> ('w st, pyval) pm" where
  "h_guest_logs D params = h_guest D ''guest.logs'' ''logs'' (\<lambda>run.
     bindm (liftr (int_or_param params ''lines'' 50)) (\<lambda>n. gu_logs (os_json (da_os D)) run n)) params"

definition h_guest_packages :: "'w daemon \<Rightarrow> pydict \<Rightarrow> ('w st, pyval) pm" where
  "h_guest_packages D params = h_guest D ''guest.packages'' ''packages'' (\<lambda>run.
     bindm (gu_packages run (py_str (dget_or params ''action'' (PStr ''query''))) (dget params ''name'')) (\<lambda>d. ret (PDict d))) params"

end
