(* ===== verification/Services.thy ===== *)
theory Services
  imports Handlers
begin

text \<open>
  The other handlers of \<open>boxerd/daemon.py\<close> that create nothing: Android devices through adb, the
  image cache, status and events, and the reconciliation of libvirt with the database.
\<close>

section \<open>android.adb and android.list_images\<close>

definition need_key :: "pydict \<Rightarrow> string \<Rightarrow> pyval res" where
  "need_key d k = need_some (key_error k) (map_of d k)"

definition int_at :: "pydict \<Rightarrow> string \<Rightarrow> ('s, int) pm" where
  "int_at d k = bindm (liftr (need_key d k)) (\<lambda>v. liftr (py_int v))"

definition str_at :: "pydict \<Rightarrow> string \<Rightarrow> ('s, string) pm" where
  "str_at d k = bindm (liftr (need_key d k)) (\<lambda>v. ret (py_str v))"

definition android_serial :: "vm \<Rightarrow> string res" where
  "android_serial v =
     (let ip = (case vm_ip v of None \<Rightarrow> [] | Some a \<Rightarrow> a);
          serial = (case map_of (vm_tags v) ''boxer.android.adb_serial'' of Some (c # s) \<Rightarrow> c # s | _ \<Rightarrow> ip)
      in if serial = [] then Inl (ipc_error ERR_INVALID_PARAMS ''Android device has no adb serial yet'') else Inr serial)"

text \<open>The actions that drive the screen, with what each replies.\<close>

definition adb_screen_action :: "'w daemon \<Rightarrow> string \<Rightarrow> string \<Rightarrow> pydict \<Rightarrow> ('w, pyval) pm option" where
  "adb_screen_action D serial action p =
     (let h = da_os D; e = da_sdk D in
      if action = ''ui_dump'' then Some (bindm (ui_dump (da_lv D) h e serial) (\<lambda>ns. ret (PList ns)))
      else if action = ''tap'' then Some (
        bindm (int_at p ''x'') (\<lambda>x. bindm (int_at p ''y'') (\<lambda>y. bindm (adb_tap h e serial x y) (\<lambda>_.
        ret (PDict [(''tapped'', PList [dget p ''x'', dget p ''y''])])))))
      else if action = ''swipe'' then Some (
        bindm (int_at p ''x1'') (\<lambda>x1. bindm (int_at p ''y1'') (\<lambda>y1. bindm (int_at p ''x2'') (\<lambda>x2. bindm (int_at p ''y2'') (\<lambda>y2.
        bindm (liftr (int_param p ''ms'' 300)) (\<lambda>ms. bindm (adb_swipe h e serial x1 y1 x2 y2 ms) (\<lambda>_.
        ret (PDict [(''swiped'', PBool True)]))))))))
      else if action = ''text'' then Some (
        bindm (adb_text h e serial (py_str (dget_or p ''value'' (PStr [])))) (\<lambda>_. ret (PDict [(''typed'', PBool True)])))
      else if action = ''key'' then Some (
        bindm (str_at p ''keycode'') (\<lambda>k. bindm (adb_key h e serial k) (\<lambda>_. ret (PDict [(''key'', dget p ''keycode'')]))))
      else None)"

definition adb_app_action :: "'w daemon \<Rightarrow> string \<Rightarrow> string \<Rightarrow> pydict \<Rightarrow> ('w, pyval) pm option" where
  "adb_app_action D serial action p =
     (let h = da_os D; e = da_sdk D in
      if action = ''install'' then Some (
        bindm (str_at p ''apk_path'') (\<lambda>a. bindm (install_apk h e serial a) (\<lambda>_.
        ret (PDict [(''installed'', dget p ''apk_path'')]))))
      else if action = ''launch'' then Some (
        bindm (str_at p ''package'') (\<lambda>a. bindm (adb_launch h e serial a (dget p ''activity'')) (\<lambda>out.
        ret (PDict [(''launched'', dget p ''package''), (''output'', PStr (take 500 (strip out)))]))))
      else if action = ''stop'' then Some (
        bindm (str_at p ''package'') (\<lambda>a. bindm (stop_app h e serial a) (\<lambda>_. ret (PDict [(''stopped'', dget p ''package'')]))))
      else if action = ''clear'' then Some (
        bindm (str_at p ''package'') (\<lambda>a. bindm (clear_app h e serial a) (\<lambda>_. ret (PDict [(''cleared'', dget p ''package'')]))))
      else if action = ''current_activity'' then Some (
        bindm (current_activity h e serial) (\<lambda>out.
        ret (PDict [(''dumpsys_tail'', str_list (last_n 12 (splitlines (strip out))))])))
      else if action = ''logcat'' then Some (
        bindm (if truthy (dget p ''package'') then pidof h e serial (py_str (dget p ''package'')) else ret None) (\<lambda>pid.
        bindm (liftr (int_param p ''limit'' 200)) (\<lambda>limit.
        bindm (adb_logcat h e serial (dget p ''tag'') (py_str (dget_or p ''priority'' (PStr ''V''))) pid limit) (\<lambda>rs.
        ret (PList rs)))))
      else if action = ''instrument'' then Some (
        bindm (str_at p ''test_package'') (\<lambda>a.
        bindm (adb_instrument h e serial a (py_str (dget_or p ''runner'' (PStr ''androidx.test.runner.AndroidJUnitRunner'')))
          (dget p ''class'')) (\<lambda>r. ret (PDict r))))
      else if action = ''pull'' then Some (
        bindm (str_at p ''remote'') (\<lambda>r. bindm (str_at p ''local'') (\<lambda>l. bindm (adb_pull h e serial r l) (\<lambda>_.
        ret (PDict [(''pulled'', dget p ''remote'')])))))
      else None)"

definition adb_reply :: "'w daemon \<Rightarrow> string \<Rightarrow> pydict \<Rightarrow> ('w, pyval) pm" where
  "adb_reply D serial p =
     (let payload = (\<lambda>data. PDict [(''vm_id'', dget p ''vm_id''), (''action'', dget p ''action''), (''result'', data)]);
          unknown = raise (ipc_error ERR_INVALID_PARAMS (''Unknown adb action: '' @ py_str (dget p ''action''))) in
      case dget p ''action'' of
        PStr a \<Rightarrow>
          if a = ''screenshot'' then
            bindm (adb_screenshot (da_os D) (da_sdk D) serial) (\<lambda>data.
            ret (PDict [(''vm_id'', dget p ''vm_id''), (''action'', PStr a), (''format'', PStr ''png''), (''data'', PStr data)]))
          else (case adb_screen_action D serial a p of
              Some m \<Rightarrow> bindm m (\<lambda>data. ret (payload data))
            | None \<Rightarrow> (case adb_app_action D serial a p of
                  Some m \<Rightarrow> bindm m (\<lambda>data. ret (payload data))
                | None \<Rightarrow> unknown))
      | _ \<Rightarrow> unknown)"

definition h_android_adb :: "'w daemon \<Rightarrow> pydict \<Rightarrow> ('w st, pyval) pm" where
  "h_android_adb D params =
     bindm (guardm (\<not> truthy (dget params ''vm_id'') \<or> \<not> truthy (dget params ''action''))
       (ipc_error ERR_INVALID_PARAMS ''vm_id and action are required'')) (\<lambda>_.
     bindm (owned_vm ''android.adb'' ''vm_id and action are required'' params) (\<lambda>v.
     bindm (guardm (vm_kind v \<noteq> ''android'') (ipc_error ERR_INVALID_PARAMS ''vm_id is not an Android device'')) (\<lambda>_.
     bindm (liftr (android_serial v)) (\<lambda>serial.
     bindm (touch_vm (vm_id v)) (\<lambda>_.
     in_world (adb_reply D serial params))))))"

definition h_android_list_images :: "'w daemon \<Rightarrow> pydict \<Rightarrow> ('w st, pyval) pm" where
  "h_android_list_images D params =
     bindm (in_world (sdk_availability (da_cfg D) (da_os D) (da_sdk D))) (\<lambda>a.
     ret (PDict [(''images'', PList (catalog_list_entries (da_android D))), (''availability'', PDict a),
       (''note'', PStr (''Automation defaults to google_apis/aosp_atd variants; '' @
         ''google_apis_playstore blocks adb root and is intentionally excluded.''))]))"

section \<open>Images\<close>

text \<open>The first thing an administrator's handler does.\<close>

definition admin_only :: "string \<Rightarrow> pydict \<Rightarrow> ('s, unit) pm" where
  "admin_only method params = guardm (\<not> is_admin (caller_from_params params))
     (ipc_error ERR_POLICY_VIOLATION (method @ '' requires admin privileges''))"

definition h_image_preflight :: "'w daemon \<Rightarrow> pydict \<Rightarrow> ('w st, pyval) pm" where
  "h_image_preflight D params =
     bindm (admin_only ''image.preflight'' params) (\<lambda>_.
     bindm (if dget params ''templates'' = PNone then ret None
       else bindm (liftr (need_list (ipc_error ERR_INVALID_PARAMS ''templates must be a list of template names'')
         (dget params ''templates''))) (\<lambda>ts. ret (Some ts))) (\<lambda>templates.
     bindm (in_world (preflight (da_images D) templates)) (\<lambda>rs.
     ret (PDict [(''reports'', PList rs)]))))"

definition h_image_list :: "'w daemon \<Rightarrow> pydict \<Rightarrow> ('w st, pyval) pm" where
  "h_image_list D params = bindm (in_world (list_images (da_images D))) (\<lambda>rows. ret (PDict [(''images'', PList rows)]))"

definition template_required :: exn where
  "template_required = ipc_error ERR_INVALID_PARAMS ''template required''"

definition h_image_prewarm :: "'w daemon \<Rightarrow> pydict \<Rightarrow> ('w st, pyval) pm" where
  "h_image_prewarm D params =
     (let template = dget params ''template''; im = da_images D; name = py_str template in
      bindm (guardm (\<not> truthy template) template_required) (\<lambda>_.
      bindm (liftr (catalog_lookup (im_catalog im) template)) (\<lambda>found.
      bindm (liftr (need_some (ipc_error ERR_INVALID_PARAMS (''Unknown template: '' @ name)) found)) (\<lambda>entry.
      let is_iso = (py_str (py_or (dget entry ''type'') (dget entry ''artifact_type'')) = ''iso'') in
      bindm clock (\<lambda>t.
      bindm (in_world (if is_iso then ensure_iso im t name False else ensure_image im t name False)) (\<lambda>path.
      bindm (in_world (read_metadata im name is_iso)) (\<lambda>meta.
      bindm (liftr (current_of meta)) (\<lambda>current.
      ret (PDict [(''template'', template), (''artifact_type'', PStr (if is_iso then ''iso'' else ''cloud-image'')),
        (''cached'', PBool True), (''path'', PStr path), (''current_digest'', PStr (digest_ident current)),
        (''signature_verified'', PBool (truthy (dget current ''signature_verified'')))])))))))))"

definition h_image_refresh :: "'w daemon \<Rightarrow> pydict \<Rightarrow> ('w st, pyval) pm" where
  "h_image_refresh D params =
     (let template = dget params ''template''; im = da_images D in
      bindm (admin_only ''image.refresh'' params) (\<lambda>_.
      bindm (guardm (\<not> truthy template) template_required) (\<lambda>_.
      bindm (liftr (catalog_lookup (im_catalog im) template)) (\<lambda>_.
      bindm clock (\<lambda>t. in_world (refresh_image im t (py_str template)))))))"

definition h_image_prune :: "'w daemon \<Rightarrow> pydict \<Rightarrow> ('w st, pyval) pm" where
  "h_image_prune D params =
     bindm (admin_only ''image.prune'' params) (\<lambda>_.
     bindm (liftr (int_or_param params ''older_than_seconds'' 0)) (\<lambda>age.
     bindm clock (\<lambda>t. in_world (prune (da_images D) t age (bool_param params ''dry_run'' False)))))"

section \<open>Status and events\<close>

definition h_profile_list :: "'w daemon \<Rightarrow> pydict \<Rightarrow> ('w st, pyval) pm" where
  "h_profile_list D params = ret (PDict [(''profiles'', PList available_profiles)])"

definition h_lab_list :: "'w daemon \<Rightarrow> pydict \<Rightarrow> ('w st, pyval) pm" where
  "h_lab_list D params = ret (PDict [(''labs'', PList list_labs),
     (''constraints'', PDict [(''unit'', PStr ''single-vm lab''),
       (''capacity'', PStr ''Requests use the same Boxer scheduler, per-project caps, leases, and queue as vm.request.''),
       (''scope'', PStr (''Labs are opinionated wrappers over Boxer VMs; they do not bypass catalog, network, '' @
         ''or policy controls.''))])])"

definition h_lab_status :: "'w daemon \<Rightarrow> pydict \<Rightarrow> ('w st, pyval) pm" where
  "h_lab_status D params = bindm (vm_get D params) (\<lambda>v. bindm (liftr (lab_status_payload v)) (\<lambda>d. ret (PDict d)))"

definition h_resource_status :: "'w daemon \<Rightarrow> pydict \<Rightarrow> ('w st, pyval) pm" where
  "h_resource_status D params = bindm (in_world (get_status (da_cfg D) (da_lv D) (ho_machine (da_host D)))) (\<lambda>s.
     ret (PDict (status_dict s)))"

definition queue_row :: "queue_entry \<Rightarrow> pyval" where
  "queue_row q = PDict [(''queue_id'', PStr (q_id q)), (''project_id'', PStr (q_project_id q)), (''status'', PStr (q_status q)),
     (''reason'', PStr (q_reason q)), (''created_at'', PStr (iso (q_created_at q)))]"

definition h_queue_status :: "'w daemon \<Rightarrow> pydict \<Rightarrow> ('w st, pyval) pm" where
  "h_queue_status D params =
     (let caller = caller_from_params params in
      bindm list_pending_queue (\<lambda>entries.
      let own = filter (\<lambda>q. is_admin caller \<or> PStr (q_project_id q) = c_project_id caller) entries in
      ret (PDict [(''pending'', PInt (int (length own))), (''entries'', PList (map queue_row own))])))"

definition notification_payload :: "notification \<Rightarrow> pyval" where
  "notification_payload n = PDict
     [(''notification_id'', PStr (n_id n)), (''level'', PStr (n_level n)), (''vm_id'', opt_str (n_vm_id n)),
      (''message'', PStr (n_message n)), (''created_at'', PStr (iso (n_created_at n))), (''details'', PDict (n_details n))]"

definition stale_row :: "vm \<Rightarrow> pyval" where
  "stale_row v = PDict [(''vm_id'', PStr (vm_id v)), (''display_name'', PStr (vm_display_name v)), (''state'', PStr (vm_state v)),
     (''lease_expired'', PStr (iso (vm_lease_until v))), (''last_touched'', PStr (iso (vm_last_touched v)))]"

definition h_cleanup_plan :: "'w daemon \<Rightarrow> pydict \<Rightarrow> ('w st, pyval) pm" where
  "h_cleanup_plan D params =
     (let caller = caller_from_params params; c = da_cfg D in
      bindm clock (\<lambda>t.
      bindm (list_vms (if is_admin caller then PNone else c_project_id caller)) (\<lambda>vms.
      let stale = filter (\<lambda>v. vm_lease_until v < t) vms in
      bindm (if is_admin caller then ret [] else list_pending_project_notifications (c_project_id caller) 20) (\<lambda>notes.
      ret (PDict [(''stale_count'', PInt (int (length stale))),
        (''cleanup_policy'', PDict [(''scan_interval_minutes'', PInt (cfg_stale_cleanup_interval_minutes c)),
          (''inactive_call_window_minutes'', PInt (cfg_inactive_call_window_minutes c)),
          (''inactive_call_threshold'', PInt (cfg_inactive_call_threshold c)),
          (''force_shutdown_after_minutes'', PInt (cfg_stale_force_shutdown_after_minutes c))]),
        (''pending_cleanup_notices'', PList (map notification_payload notes)),
        (''stale_vms'', PList (map stale_row stale))])))))"

definition event_row :: "event \<Rightarrow> pyval" where
  "event_row e = PDict [(''event_id'', PStr (ev_id e)), (''project_id'', opt_str (ev_project_id e)),
     (''vm_id'', opt_str (ev_vm_id e)), (''level'', PStr (ev_level e)), (''message'', PStr (ev_message e)),
     (''created_at'', PStr (iso (ev_created_at e)))]"

definition h_event_poll :: "'w daemon \<Rightarrow> pydict \<Rightarrow> ('w st, pyval) pm" where
  "h_event_poll D params =
     bindm (if truthy (dget params ''since'')
       then bindm (liftr (bindr (text_value (dget params ''since'')) (da_fromiso D))) (\<lambda>t. ret (Some t)) else ret None) (\<lambda>since.
     bindm (liftr (int_param params ''limit'' 50)) (\<lambda>limit.
     bindm (list_events since (dget params ''level'') limit) (\<lambda>es.
     ret (PList (map event_row es)))))"

end
