(* ===== verification/Inventory.thy ===== *)
theory Inventory
  imports Services
begin

text \<open>
  The handlers of \<open>boxerd/daemon.py\<close> that reconcile libvirt with the database: the report, importing a
  foreign domain, adopting an orphaned one, and dropping a record whose domain is gone.
\<close>

section \<open>vm.scan\<close>

definition orphan_row :: "orphan \<Rightarrow> pyval" where
  "orphan_row o1 = PDict [(''libvirt_name'', PStr (or_libvirt_name o1)), (''parsed_project_id'', PStr (or_project_id o1)),
     (''parsed_display_name'', PStr (or_display_name o1)), (''parsed_vm_id'', PStr (or_vm_id o1)),
     (''disk_path'', opt_str (or_disk_path o1)), (''disk_gb'', PInt (or_disk_gb o1)),
     (''is_active'', PBool (or_is_active o1)), (''suggested_action'', PStr ''adopt'')]"

definition foreign_row :: "foreign_domain \<Rightarrow> pyval" where
  "foreign_row f = PDict [(''libvirt_name'', PStr (fd_libvirt_name f)), (''disk_path'', opt_str (fd_disk_path f)),
     (''disk_gb'', PInt (fd_disk_gb f)), (''is_active'', PBool (fd_is_active f)),
     (''suggested_action'', PStr ''import'')]"

definition ghost_row :: "ghost \<Rightarrow> pyval" where
  "ghost_row g = PDict [(''vm_id'', PStr (gh_vm_id g)), (''libvirt_name'', PStr (gh_libvirt_name g)),
     (''project_id'', PStr (gh_project_id g)), (''display_name'', PStr (gh_display_name g)),
     (''suggested_action'', PStr ''purge'')]"

definition h_vm_scan :: "'w daemon \<Rightarrow> pydict \<Rightarrow> ('w st, pyval) pm" where
  "h_vm_scan D params =
     bindm (build_reconcile_report (da_lv D) (da_os D)) (\<lambda>r.
     ret (PDict [(''orphaned_boxer'', PList (map orphan_row (rp_orphaned r))),
       (''foreign_vms'', PList (map foreign_row (rp_foreign r))),
       (''ghost_records'', PList (map ghost_row (rp_ghosts r)))]))"

section \<open>vm.import and vm.adopt\<close>

text \<open>The XML of a domain, or the error of a handler that looks for it.\<close>

definition domain_xml_of :: "'w daemon \<Rightarrow> string \<Rightarrow> ('w st, string) pm" where
  "domain_xml_of D name =
     catch_lv (in_world (bindm (lv_lookup (da_lv D) name) (\<lambda>_. lv_xml_desc (da_lv D) name)))
       (\<lambda>_. raise (ipc_error ERR_NOT_FOUND (''Domain '' @ quoted name @ '' not found in libvirt'')))"

definition domain_disk_gb :: "'w daemon \<Rightarrow> string \<Rightarrow> ('w st, int) pm" where
  "domain_disk_gb D doc = (case extract_disk_path (da_lv D) doc of
       None \<Rightarrow> ret 0
     | Some p \<Rightarrow> in_world (get_disk_size_gb (da_os D) p))"

text \<open>The record both handlers make of a domain that was not created here.\<close>

definition found_vm :: "string \<Rightarrow> string \<Rightarrow> string \<Rightarrow> string \<Rightarrow> string \<Rightarrow> string \<Rightarrow> int \<Rightarrow> instant \<Rightarrow> int \<Rightarrow> string \<Rightarrow> vm" where
  "found_vm vid name project_id display_name owner template disk_gb t ttl origin =
     \<lparr>vm_id = vid, vm_libvirt_name = name, vm_project_id = project_id, vm_display_name = display_name,
      vm_state = ''running'', vm_owner_user = owner, vm_template = template, vm_cpu = 0, vm_ram_mb = 0,
      vm_disk_gb = disk_gb, vm_headless = True, vm_created_at = t, vm_last_touched = t,
      vm_lease_until = t + minutes ttl, vm_ip = None, vm_tags = [], vm_origin = origin,
      vm_artifact_type = ''cloud-image'', vm_install_state = None, vm_kind = ''vm''\<rparr>"

definition make_vm_id :: "('w st, string) pm" where
  "make_vm_id = bindm uuid4_hex (\<lambda>hex. ret (''vm_'' @ take 6 hex))"

text \<open>
  A project id that is not text is stored as SQLite converts it, and its path is made of its \<open>str\<close>. The
  reply has the values of the request.
\<close>

definition h_vm_import :: "'w daemon \<Rightarrow> pydict \<Rightarrow> ('w st, pyval) pm" where
  "h_vm_import D params =
     (let caller = caller_from_params params; raw_name = dget params ''libvirt_name'';
          display = py_or (dget params ''display_name'') raw_name;
          project = py_or (dget params ''project_id'') (c_project_id caller) in
      bindm (guardm (\<not> truthy raw_name) (ipc_error ERR_INVALID_PARAMS ''libvirt_name required'')) (\<lambda>_.
      bindm (liftr (int_param params ''ttl_minutes'' (cfg_default_ttl_minutes (da_cfg D)))) (\<lambda>ttl.
      bindm (liftr (text_value raw_name)) (\<lambda>name.
      bindm (domain_xml_of D name) (\<lambda>doc.
      bindm (get_vm_by_libvirt_name name) (\<lambda>existing.
      bindm (case existing of None \<Rightarrow> ret ()
        | Some r \<Rightarrow> raise (ipc_error ERR_INVALID_PARAMS (''Domain '' @ quoted name @ '' is already tracked as vm_id='' @ vm_id r))) (\<lambda>_.
      bindm (domain_disk_gb D doc) (\<lambda>gb.
      bindm make_vm_id (\<lambda>vid.
      bindm clock (\<lambda>t.
      bindm (liftr (store_text ''projects.id'' project)) (\<lambda>pid.
      bindm (upsert_project pid (''unknown:'' @ py_str project)) (\<lambda>_.
      bindm (liftr (store_text ''vms.display_name'' display)) (\<lambda>dname.
      bindm (liftr (store_text ''vms.owner_user'' (c_user caller))) (\<lambda>owner.
      let v = found_vm vid name pid dname owner ''imported'' gb t ttl ''imported'' in
      bindm (insert_vm v (PDict [])) (\<lambda>_.
      bindm (add_event ''INFO'' (''Imported foreign VM '' @ quoted name @ '' as '' @ quoted (py_str display) @ '' ('' @ vid @ '')'')
        (Some pid) (Some vid)) (\<lambda>_.
      ret (PDict (AList.update ''display_name'' display (AList.update ''project_id'' project
        (vm_dict (c_user caller) (PDict []) v))))))))))))))))))))"

definition h_vm_adopt :: "'w daemon \<Rightarrow> pydict \<Rightarrow> ('w st, pyval) pm" where
  "h_vm_adopt D params =
     (let caller = caller_from_params params; raw_name = dget params ''libvirt_name'' in
      bindm (guardm (\<not> truthy raw_name) (ipc_error ERR_INVALID_PARAMS ''libvirt_name required'')) (\<lambda>_.
      bindm (liftr (need_str attr_error (\<lambda>_. True) raw_name)) (\<lambda>name.
      bindm (liftr (need_some (ipc_error ERR_INVALID_PARAMS (quoted name @
        '' does not match Boxer--<project>--<name>--<vm_id> pattern'')) (parse_boxer_name name))) (\<lambda>(pid, dname, vid).
      bindm (domain_xml_of D name) (\<lambda>doc.
      bindm (get_vm (PStr vid)) (\<lambda>existing.
      bindm (guardm (existing \<noteq> None)
        (ipc_error ERR_INVALID_PARAMS (''vm_id '' @ quoted vid @ '' is already tracked in DB''))) (\<lambda>_.
      bindm (domain_disk_gb D doc) (\<lambda>gb.
      bindm clock (\<lambda>t.
      bindm (upsert_project pid ''unknown'') (\<lambda>_.
      bindm (liftr (store_text ''vms.owner_user'' (c_user caller))) (\<lambda>owner.
      let v = found_vm vid name pid dname owner ''adopted'' gb t (cfg_default_ttl_minutes (da_cfg D)) ''adopted'' in
      bindm (insert_vm v (PDict [])) (\<lambda>_.
      bindm (add_event ''INFO'' (''Adopted orphaned Boxer domain '' @ quoted name @ '' (vm_id='' @ vid @ '')'') (Some pid) (Some vid)) (\<lambda>_.
      ret (PDict (vm_dict (c_user caller) (PDict []) v)))))))))))))))"

section \<open>vm.purge_ghost\<close>

definition domain_exists :: "'w libvirt \<Rightarrow> string \<Rightarrow> ('w, bool) pm" where
  "domain_exists lv name = catch_lv (bindm (lv_lookup lv name) (\<lambda>_. ret True)) (\<lambda>_. ret False)"

definition h_vm_purge_ghost :: "'w daemon \<Rightarrow> pydict \<Rightarrow> ('w st, pyval) pm" where
  "h_vm_purge_ghost D params =
     (let vid = dget params ''vm_id'' in
      bindm (guardm (\<not> truthy vid) (ipc_error ERR_INVALID_PARAMS ''vm_id required'')) (\<lambda>_.
      bindm (get_vm vid) (\<lambda>found.
      bindm (liftr (need_some (ipc_error ERR_NOT_FOUND (''vm_id '' @ quoted (py_str vid) @ '' not found in DB'')) found)) (\<lambda>v.
      bindm (liftr (check_action ''vm.purge_ghost'' (caller_from_params params) (Some v))) (\<lambda>_.
      bindm (in_world (domain_exists (da_lv D) (vm_libvirt_name v))) (\<lambda>alive.
      bindm (guardm alive (ipc_error ERR_INVALID_PARAMS (''Domain '' @ quoted (vm_libvirt_name v) @
        '' still exists in libvirt -- use vm.delete instead''))) (\<lambda>_.
      bindm (purge_ghost_record (vm_id v)) (\<lambda>_.
      bindm (add_event ''INFO'' (''Purged ghost DB record for '' @ quoted (vm_display_name v) @ '' ('' @ py_str vid @ '')'')
        (Some (vm_project_id v)) (Some (vm_id v))) (\<lambda>_.
      ret (PDict [(''vm_id'', vid), (''purged'', PBool True)]))))))))))"

end
