(* ===== verification/Provision.thy ===== *)
theory Provision
  imports Inventory
begin

text \<open>
  The handlers of \<open>boxerd/daemon.py\<close> that create machines: cloud-image VMs, installations from an ISO
  and Android devices, with the seed images of \<open>boxerd/cloud_init.py\<close>, the waits after a start and the
  task that watches an installation.
\<close>

section \<open>Seed images\<close>

fun ci_iso_tools :: "'w os \<Rightarrow> string list \<Rightarrow> string list \<Rightarrow> ('w, unit) pm" where
  "ci_iso_tools h args [] = raise (PyExn ''RuntimeError'' ''Neither genisoimage nor mkisofs found'')"
| "ci_iso_tools h args (cmd # cmds) =
     bindm (catch_class ''FileNotFoundError''
       (bindm (os_run h (cmd # args) []) (\<lambda>r.
         if pr_returncode r \<noteq> 0 then raise (PyExn ''RuntimeError'' (cmd @ '' failed: '' @ pr_stderr r)) else ret True))
       (\<lambda>_. ret False)) (\<lambda>made.
     if made then ret () else ci_iso_tools h args cmds)"

definition genisoimage_nocloud :: "'w os \<Rightarrow> string \<Rightarrow> string \<Rightarrow> string \<Rightarrow> ('w, unit) pm" where
  "genisoimage_nocloud h user_data meta_data dest =
     ci_iso_tools h [''-output'', dest, ''-volid'', ''cidata'', ''-rock'', user_data, meta_data] [''genisoimage'', ''mkisofs'']"

definition genisoimage_configdrive :: "'w os \<Rightarrow> string \<Rightarrow> string \<Rightarrow> ('w, unit) pm" where
  "genisoimage_configdrive h src_dir dest =
     ci_iso_tools h [''-output'', dest, ''-volid'', ''config-2'', ''-rock'', ''-joliet'', ''-full-iso9660-filenames'', src_dir]
       [''genisoimage'', ''mkisofs'']"

definition META_DATA_TEMPLATE :: "string \<Rightarrow> string \<Rightarrow> string" where
  "META_DATA_TEMPLATE vid hostname = ''instance-id: '' @ vid @ ''\<newline>local-hostname: '' @ hostname @ ''\<newline>''"

text \<open>\<open>tmp\<close> makes a temporary directory, which is gone after its use.\<close>

definition cloud_init_build :: "'w os \<Rightarrow> ('w, string) pm \<Rightarrow> (pyval \<Rightarrow> string) \<Rightarrow> (pyval \<Rightarrow> string) \<Rightarrow> string \<Rightarrow> string \<Rightarrow> string \<Rightarrow>
    cloud_init_options \<Rightarrow> ('w, string \<times> string) pm" where
  "cloud_init_build h tmp yaml json vid dest_dir hostname opts =
     (let nocloud_iso = path_join dest_dir ''cloud-init.iso''; configdrive_iso = path_join dest_dir ''configdrive.iso'';
          user_data = render_user_data yaml hostname opts in
      bindm (os_exists h nocloud_iso) (\<lambda>a.
      bindm (whenm (\<not> a)
        (bindm tmp (\<lambda>dir.
         bindm (os_write_text h (path_join dir ''user-data'') user_data) (\<lambda>_.
         bindm (os_write_text h (path_join dir ''meta-data'') (META_DATA_TEMPLATE vid hostname)) (\<lambda>_.
         genisoimage_nocloud h (path_join dir ''user-data'') (path_join dir ''meta-data'') nocloud_iso))))) (\<lambda>_.
      bindm (os_exists h configdrive_iso) (\<lambda>b.
      bindm (whenm (\<not> b)
        (bindm tmp (\<lambda>dir.
         bindm (for_each (configdrive_files json vid hostname user_data opts) (\<lambda>(rel, content).
           bindm (os_mkdir h (parent_dir (path_join dir rel))) (\<lambda>_. os_write_text h (path_join dir rel) content))) (\<lambda>_.
         genisoimage_configdrive h dir configdrive_iso)))) (\<lambda>_.
      ret (nocloud_iso, configdrive_iso))))))"

section \<open>The order of a machine\<close>

text \<open>The keyword arguments the creating functions share.\<close>

record order =
  vo_project :: pyval
  vo_path :: string
  vo_user :: pyval
  vo_template :: string
  vo_purpose :: pyval
  vo_headless :: bool
  vo_ttl :: int
  vo_cpu :: int
  vo_ram_mb :: int
  vo_disk_gb :: int
  vo_tags :: pyval
  vo_bootstrap :: bootstrap

definition caller_project_path :: "'w os \<Rightarrow> pydict \<Rightarrow> pyval \<Rightarrow> ('w, string) pm" where
  "caller_project_path h params project_id = (case dget params ''caller_project_path'' of
       PStr p \<Rightarrow> if strip p \<noteq> [] then bindm (os_expanduser h p) (os_resolve h) else ret (''unknown:'' @ py_str project_id)
     | _ \<Rightarrow> ret (''unknown:'' @ py_str project_id))"

text \<open>\<open>real.relative_to(dir)\<close> succeeds.\<close>

definition path_under :: "string \<Rightarrow> string \<Rightarrow> bool" where
  "path_under p dir \<longleftrightarrow> p = dir \<or> starts_with p (path_join dir [])"

definition validate_local_iso_path :: "'w os \<Rightarrow> pyval \<Rightarrow> string option \<Rightarrow> ('w, string) pm" where
  "validate_local_iso_path h raw local_iso_dir =
     bindm (liftr (need_str attr_error (\<lambda>_. True) raw)) (\<lambda>path.
     bindm (guardm (\<not> starts_with path ''/'') (ipc_error ERR_INVALID_PARAMS ''iso_path must be an absolute path'')) (\<lambda>_.
     bindm (os_exists h path) (\<lambda>e.
     bindm (guardm (\<not> e) (ipc_error ERR_INVALID_PARAMS (''iso_path does not exist: '' @ path))) (\<lambda>_.
     bindm (os_is_file h path) (\<lambda>f.
     bindm (guardm (\<not> f) (ipc_error ERR_INVALID_PARAMS (''iso_path is not a regular file: '' @ path))) (\<lambda>_.
     bindm (os_resolve h path) (\<lambda>real.
     case local_iso_dir of
       None \<Rightarrow> ret real
     | Some dir \<Rightarrow>
         bindm (os_resolve h dir) (\<lambda>real_dir.
         bindm (guardm (\<not> path_under real real_dir) (ipc_error ERR_INVALID_PARAMS
           (''iso_path must be under local_iso_dir ('' @ dir @ ''). Resolved path: '' @ real))) (\<lambda>_.
         ret real)))))))))"

text \<open>The row of a new libvirt machine.\<close>

definition ordered_vm :: "order \<Rightarrow> string \<Rightarrow> string \<Rightarrow> string \<Rightarrow> string \<Rightarrow> string \<Rightarrow> instant \<Rightarrow> vm" where
  "ordered_vm r vid name pid purpose owner t =
     \<lparr>vm_id = vid, vm_libvirt_name = name, vm_project_id = pid, vm_display_name = purpose, vm_state = ''running'',
      vm_owner_user = owner, vm_template = vo_template r, vm_cpu = vo_cpu r, vm_ram_mb = vo_ram_mb r,
      vm_disk_gb = vo_disk_gb r, vm_headless = vo_headless r, vm_created_at = t, vm_last_touched = t,
      vm_lease_until = t + minutes (vo_ttl r), vm_ip = None, vm_tags = [], vm_origin = ''boxer'',
      vm_artifact_type = ''cloud-image'', vm_install_state = None, vm_kind = ''vm''\<rparr>"

definition spec_of :: "order \<Rightarrow> string \<Rightarrow> string \<Rightarrow> string \<Rightarrow> string \<Rightarrow> string \<Rightarrow> vm_spec" where
  "spec_of r name vid disk net serial_log =
     \<lparr>vs_name = name, vs_id = vid, vs_cpu = vo_cpu r, vs_ram_mb = vo_ram_mb r, vs_disk_path = disk, vs_net_name = net,
      vs_headless = vo_headless r, vs_serial_log = serial_log\<rparr>"

text \<open>A domain that cannot be started takes its files with it.\<close>

definition or_drop_storage :: "'w daemon \<Rightarrow> string \<Rightarrow> string \<Rightarrow> ('w, string) pm \<Rightarrow> ('w st, string) pm" where
  "or_drop_storage D pid vid m =
     catch (in_world m) (\<lambda>e. bindm (in_world (delete_vm_storage (da_cfg D) (da_os D) pid vid)) (\<lambda>_. raise e))"

section \<open>vm.request\<close>

text \<open>
  The machine, its row and its SSH access. A project id or a user that is not text is stored as SQLite
  converts it; a purpose or project that cannot be part of a name or a path raises where it is used.
\<close>

definition create_vm :: "'w daemon \<Rightarrow> order \<Rightarrow> bool \<Rightarrow> bool \<Rightarrow> int \<Rightarrow> ('w st, vm \<times> pydict option) pm" where
  "create_vm D r ssh_access include_private_key wait_for_ip =
     (let os = da_os D; c = da_cfg D; gid = ho_gid (da_host D); b = vo_bootstrap r in
      bindm make_vm_id (\<lambda>vid.
      bindm (liftr (text_value (vo_purpose r))) (\<lambda>purpose.
      let name = make_libvirt_name (py_str (vo_project r)) purpose vid in
      bindm clock (\<lambda>t.
      bindm (liftr (store_text ''projects.id'' (vo_project r))) (\<lambda>row_id.
      bindm (upsert_project row_id (vo_path r)) (\<lambda>_.
      bindm (in_world (ensure_image (da_images D) t (vo_template r) False)) (\<lambda>base.
      bindm (liftr (text_value (vo_project r))) (\<lambda>pid.
      let dir = vm_dir c pid vid; serial_log = path_join dir ''serial.log'' in
      bindm (in_world (create_overlay c os gid pid vid base (vo_disk_gb r))) (\<lambda>overlay.
      bindm (if ssh_access then bindm (in_world (ensure_keypair os dir vid)) (\<lambda>k. ret (Some k)) else ret None) (\<lambda>key.
      bindm (in_world (boxer_ssh_pubkey os (da_doc D))) (\<lambda>pubkey.
      let keys = bs_ssh_public_keys b @ (case key of None \<Rightarrow> [] | Some k \<Rightarrow> [km_public k]);
          opts = build_options pubkey keys (bs_packages b) (bs_commands b) (bs_write_files b) in
      bindm (in_world (cloud_init_build os (ge_tmpdir (da_guest D)) (da_yaml D) (da_json D) vid dir (take 20 purpose) opts)) (\<lambda>(ci, cd).
      bindm (in_world (prepare_readonly_file os gid (Some ci))) (\<lambda>_.
      bindm (in_world (prepare_readonly_file os gid (Some cd))) (\<lambda>_.
      bindm (in_world (ensure_project_network (da_lv D) (ho_subnet (da_host D)) pid False)) (\<lambda>net.
      bindm (in_world (prepare_mutable_file os gid serial_log True)) (\<lambda>_.
      bindm (or_drop_storage D pid vid
        (define_and_start (da_lv D) (spec_of r name vid overlay net serial_log) (Some ci) (Some cd))) (\<lambda>_.
      bindm (liftr (store_text ''vms.owner_user'' (vo_user r))) (\<lambda>owner.
      let v = ordered_vm r vid name pid purpose owner t in
      bindm (insert_vm v (vo_tags r)) (\<lambda>_.
      bindm (address_after D vid name wait_for_ip None) (\<lambda>ip.
      bindm (add_event ''INFO'' (''VM '' @ quoted purpose @ '' ('' @ vid @ '') created by '' @ py_str (vo_user r)) (Some pid) (Some vid)) (\<lambda>_.
      ret (v\<lparr>vm_ip := ip\<rparr>, map_option (\<lambda>k. ssh_access_payload v ip k include_private_key) key))))))))))))))))))))))"

text \<open>Waiting for a condition: a command that succeeds in the guest, every five seconds.\<close>

primrec poll_ssh_rounds :: "'w daemon \<Rightarrow> string \<Rightarrow> string \<Rightarrow> int \<Rightarrow> nat \<Rightarrow> ('w st, string) pm" where
  "poll_ssh_rounds D ip cmd timeout 0 = ret ''timeout''"
| "poll_ssh_rounds D ip cmd timeout (Suc n) =
     bindm (catch (bindm (exec_ssh (da_os D) (da_guest D) (da_doc D) ip cmd (min 30 (max 1 timeout)) None False 0)
         (\<lambda>res. ret (dget_or res ''exit_code'' (PInt 1) = PInt 0))) (\<lambda>_. ret False)) (\<lambda>ready.
     if ready then ret ''ready'' else poll_ssh_rounds D ip cmd timeout n)"

definition poll_ssh :: "'w daemon \<Rightarrow> string option \<Rightarrow> string \<Rightarrow> int \<Rightarrow> ('w st, string) pm" where
  "poll_ssh D ip cmd timeout = (case ip of
       Some (c # a) \<Rightarrow> bindm (in_world (lv_rounds (da_lv D) timeout 5)) (poll_ssh_rounds D (c # a) cmd timeout)
     | _ \<Rightarrow> ret ''skipped'')"

definition wait_condition :: "'w daemon \<Rightarrow> string option \<Rightarrow> int \<Rightarrow> string \<Rightarrow> ('w st, string) pm" where
  "wait_condition D ip timeout cond =
     (if cond = ''guest_agent'' \<or> cond = ''ip'' then ret (if ip = None \<or> ip = Some [] then ''timeout'' else ''ready'')
      else if cond = ''ssh'' then poll_ssh D ip ''true'' timeout
      else if cond = ''cloud_init'' \<or> cond = ''package_install''
        then poll_ssh D ip ''cloud-init status --wait >/dev/null 2>&1 || cloud-init status | grep -q done'' timeout
      else ret ''error'')"

definition wait_for_conditions :: "'w daemon \<Rightarrow> vm \<Rightarrow> string list \<Rightarrow> string option \<Rightarrow> int \<Rightarrow> ('w st, pydict) pm" where
  "wait_for_conditions D v conditions command timeout =
     bindm (mapm (\<lambda>cond. bindm (wait_condition D (vm_ip v) timeout cond) (\<lambda>x. ret (cond, PStr x))) conditions) (\<lambda>report.
     case command of
       Some (c # cmd) \<Rightarrow> bindm (poll_ssh D (vm_ip v) (c # cmd) timeout) (\<lambda>x. ret (AList.update ''command'' (PStr x) report))
     | _ \<Rightarrow> ret report)"

definition with_caller :: "caller \<Rightarrow> pydict \<Rightarrow> pydict" where
  "with_caller caller params = AList.update ''caller_user'' (c_user caller)
     (AList.update ''caller_project_id'' (c_project_id caller) params)"

text \<open>A request that does not fit is queued as it came, with the caller's identity.\<close>

definition queued_reply :: "'w daemon \<Rightarrow> caller \<Rightarrow> pydict \<Rightarrow> string \<Rightarrow> int \<Rightarrow> bool \<Rightarrow> pydict \<Rightarrow> ('w st, pydict) pm" where
  "queued_reply D caller request reason retry capacity extra =
     bindm (enqueue_request (c_project_id caller) request reason) (\<lambda>queue_id.
     bindm (if capacity then bindm (in_world (get_status (da_cfg D) (da_lv D) (ho_machine (da_host D))))
         (\<lambda>s. ret [(''current_capacity'', PDict (status_dict s))]) else ret []) (\<lambda>cap.
     ret ([(''status'', PStr ''queued''), (''queue_id'', PStr queue_id), (''reason'', PStr reason),
       (''retry_after_seconds'', PInt retry)] @ cap @ extra)))"

definition sized :: "pydict \<Rightarrow> string \<Rightarrow> pyval \<Rightarrow> int res" where
  "sized params k dflt = py_int (py_or (dget params k) dflt)"

definition unknown_template :: "catalog \<Rightarrow> pyval \<Rightarrow> exn" where
  "unknown_template cat template = (case template of
       PStr s \<Rightarrow> if starts_with s ''/'' \<and> ends_with (lower s) ''.iso''
         then ipc_error ERR_INVALID_PARAMS (quoted s @ '' looks like a local ISO file path, not a catalog template. '' @
           ''To boot a custom ISO use box_request_installer with the iso_path parameter: '' @
           ''box_request_installer(iso_path='' @ quoted s @ '', purpose='' @ quoted ''<name>'' @ ''). '' @
           ''box_request_vm only accepts cloud-image catalog names (e.g. ubuntu-24.04).'')
         else ipc_error ERR_INVALID_PARAMS (''Unknown template: '' @ s @ ''. Available: '' @ repr_strs (catalog_list_names cat))
     | _ \<Rightarrow> attr_error)"

definition vm_request :: "'w daemon \<Rightarrow> pydict \<Rightarrow> ('w st, pydict) pm" where
  "vm_request D params =
     (let caller = caller_from_params params; c = da_cfg D; cat = im_catalog (da_images D);
          template = dget_or params ''template'' (PStr ''ubuntu-24.04''); wait_command = dget params ''wait_command'' in
      bindm (in_world (caller_project_path (da_os D) params (c_project_id caller))) (\<lambda>path.
      bindm (liftr (int_param params ''ttl_minutes'' (cfg_default_ttl_minutes c))) (\<lambda>ttl.
      bindm (liftr (bootstrap_from_params (da_agent D) params)) (\<lambda>b.
      bindm (liftr (int_or_param params ''wait_for_ip_seconds'' 0)) (\<lambda>wait_ip.
      bindm (liftr (parse_wait_conditions (dget params ''wait_for''))) (\<lambda>wait_for.
      bindm (liftr (if wait_command = PNone then Inr None
        else map_sum id Some (need_str (ipc_error ERR_INVALID_PARAMS ''wait_command must be a string'') (\<lambda>_. True) wait_command))) (\<lambda>command.
      bindm (liftr (int_or_param params ''wait_timeout_seconds'' 0)) (\<lambda>wt.
      let wait_timeout = max 0 (min wt 900); waits = (wait_for \<noteq> [] \<or> (command \<noteq> None \<and> command \<noteq> Some []));
          wait_ip = (if waits \<and> wait_ip = 0 then if wait_timeout \<noteq> 0 then wait_timeout else 120 else wait_ip) in
      bindm (liftr (catalog_lookup cat template)) (\<lambda>found.
      bindm (liftr (need_some (unknown_template cat template) found)) (\<lambda>entry.
      bindm (liftr (sized params ''cpu'' (dget_or entry ''default_cpu'' (PInt 2)))) (\<lambda>cpu.
      bindm (liftr (sized params ''ram_mb'' (dget_or entry ''default_ram_mb'' (PInt 2048)))) (\<lambda>ram_mb.
      bindm (liftr (sized params ''disk_gb'' (dget_or entry ''default_disk_gb'' (PInt 20)))) (\<lambda>disk_gb.
      bindm (check_admission c (da_lv D) (ho_machine (da_host D)) (c_project_id caller) (PInt cpu) (PInt ram_mb) (PInt disk_gb)) (\<lambda>reason.
      case reason of
        Some (x # why) \<Rightarrow> queued_reply D caller (with_caller caller params) (x # why) 60 True
          [(''note'', PStr ''If ssh_access was requested, retrieve it after promotion with box_get_ssh_access.'')]
      | _ \<Rightarrow>
          bindm (create_vm D \<lparr>vo_project = c_project_id caller, vo_path = path, vo_user = c_user caller,
              vo_template = py_str template, vo_purpose = dget_or params ''purpose'' (PStr ''vm''),
              vo_headless = bool_param params ''headless'' True, vo_ttl = ttl, vo_cpu = cpu, vo_ram_mb = ram_mb,
              vo_disk_gb = disk_gb, vo_tags = py_or (dget params ''tags'') (PDict []), vo_bootstrap = b\<rparr>
            (bool_param params ''ssh_access'' False \<or> bool_param params ''return_ssh_private_key'' False)
            (bool_param params ''return_ssh_private_key'' False) wait_ip) (\<lambda>(v, ssh).
          bindm (if waits then bindm (wait_for_conditions D v wait_for command (if wait_timeout \<noteq> 0 then wait_timeout else 300))
              (\<lambda>w. ret [(''wait_results'', PDict w)]) else ret []) (\<lambda>w.
          ret (vm_dict (c_user caller) (py_or (dget params ''tags'') (PDict [])) v @
            (case ssh of None \<Rightarrow> [] | Some d \<Rightarrow> [(''ssh_access'', PDict d)]) @ w)))))))))))))))))"

definition h_vm_request :: "'w daemon \<Rightarrow> pydict \<Rightarrow> ('w st, pyval) pm" where
  "h_vm_request D params = bindm (vm_request D params) (\<lambda>d. ret (PDict d))"

text \<open>A lab is a request for one VM; the caller's identity is passed on.\<close>

definition h_lab_request :: "'w daemon \<Rightarrow> pydict \<Rightarrow> ('w st, pyval) pm" where
  "h_lab_request D params =
     bindm (liftr (build_lab_request params)) (\<lambda>(l, request).
     bindm (vm_request D (dict_merge (filter (\<lambda>(k, _). starts_with k ''caller_'') params) request)) (\<lambda>d.
     ret (PDict (lab_payload l d))))"

end
