(* ===== verification/Install.thy ===== *)
theory Install
  imports Provision
begin

text \<open>
  Installations from an ISO and Android devices in \<open>boxerd/daemon.py\<close>: the two request handlers, the
  machine they make, the task that watches an installation, and the promotion of a queued request.
\<close>

section \<open>Watching an installation\<close>

text \<open>
  The rounds of a loop that sleeps between two looks; \<open>da_others\<close> runs meanwhile. The value is whether the
  domain was seen stopped before the deadline.
\<close>

primrec watch_rounds :: "'w daemon \<Rightarrow> string \<Rightarrow> nat \<Rightarrow> ('w st, bool) pm" where
  "watch_rounds D name 0 = ret False"
| "watch_rounds D name (Suc n) =
     bindm (in_world (vm_get_state (da_lv D) name)) (\<lambda>state.
     if state = ''stopped'' then ret True
     else bindm (da_others D) (\<lambda>_. watch_rounds D name n))"

definition finish_install :: "'w daemon \<Rightarrow> string \<Rightarrow> string \<Rightarrow> ('w st, unit) pm" where
  "finish_install D vid name =
     bindm (in_world (switch_boot_to_disk (da_lv D) name)) (\<lambda>_.
     bindm uuid4_hex (\<lambda>hex.
     bindm (in_world (VmOps.vm_start (da_lv D) (da_os D) hex name)) (\<lambda>_.
     bindm (update_vm_install_state vid (Some ''installed'')) (\<lambda>_.
     bindm (update_vm_state vid ''running'') (\<lambda>_.
     bindm (add_event ''INFO'' (''ISO install for '' @ vid @ '' completed; booted from disk'') None (Some vid)) (\<lambda>_.
     spawn (PollIp vid name)))))))"

definition watch_install :: "'w daemon \<Rightarrow> string \<Rightarrow> string \<Rightarrow> int \<Rightarrow> ('w st, unit) pm" where
  "watch_install D vid name timeout =
     bindm (da_others D) (\<lambda>_.
     catch (bindm (in_world (lv_rounds (da_lv D) timeout 15)) (\<lambda>n.
       bindm (watch_rounds D name n) (\<lambda>stopped.
       if stopped then finish_install D vid name
       else bindm (update_vm_install_state vid (Some ''failed'')) (\<lambda>_.
         add_event ''WARN'' (''ISO install for '' @ vid @ '' did not finish within '' @ show_int timeout @ ''s'') None (Some vid)))))
       (\<lambda>_. update_vm_install_state vid (Some ''failed'')))"

text \<open>A task that a handler left behind.\<close>

definition run_task :: "'w daemon \<Rightarrow> bg_task \<Rightarrow> ('w st, unit) pm" where
  "run_task D t = (case t of PollIp vid name \<Rightarrow> poll_ip D vid name | WatchInstall vid name \<Rightarrow> watch_install D vid name 7200)"

primrec install_rounds :: "'w daemon \<Rightarrow> string \<Rightarrow> nat \<Rightarrow> ('w st, string) pm" where
  "install_rounds D vid 0 = ret ''timeout''"
| "install_rounds D vid (Suc n) =
     bindm (get_vm (PStr vid)) (\<lambda>found.
     case map_option vm_install_state found of
       Some (Some x) \<Rightarrow> if x = ''installed'' \<or> x = ''failed'' then ret x
         else bindm (da_others D) (\<lambda>_. install_rounds D vid n)
     | _ \<Rightarrow> bindm (da_others D) (\<lambda>_. install_rounds D vid n))"

definition wait_for_install :: "'w daemon \<Rightarrow> string \<Rightarrow> int \<Rightarrow> ('w st, string) pm" where
  "wait_for_install D vid timeout = bindm (in_world (lv_rounds (da_lv D) timeout 10)) (install_rounds D vid)"

section \<open>vm.request_installer\<close>

text \<open>What is installed and how: from a local ISO or from the catalogue.\<close>

record install_source =
  is_iso :: string
  is_method :: string
  is_headless :: bool
  is_template :: string
  is_cpu :: int
  is_ram_mb :: int
  is_disk_gb :: int
  is_test_boot :: bool
  is_staged :: bool

definition supported_text :: string where
  "supported_text = ''Supported: '' @ repr_strs (sort SUPPORTED_METHODS)"

definition local_source :: "'w daemon \<Rightarrow> pydict \<Rightarrow> ('w st, install_source) pm" where
  "local_source D params =
     (let raw = dget params ''iso_path''; m = lower (py_str (dget_or params ''install_method'' (PStr ''manual''))) in
      bindm (in_world (validate_local_iso_path (da_os D) raw (cfg_local_iso_dir (da_cfg D)))) (\<lambda>iso.
      bindm (guardm (m \<notin> set SUPPORTED_METHODS)
        (ipc_error ERR_INVALID_PARAMS (''Unsupported install_method '' @ quoted m @ ''. '' @ supported_text))) (\<lambda>_.
      bindm (liftr (sized params ''cpu'' (PInt 2))) (\<lambda>cpu.
      bindm (liftr (sized params ''ram_mb'' (PInt 2048))) (\<lambda>ram_mb.
      bindm (liftr (sized params ''disk_gb'' (PInt 20))) (\<lambda>disk_gb.
      ret \<lparr>is_iso = iso, is_method = m, is_headless = bool_param params ''headless'' True,
        is_template = ''local:'' @ path_name (py_str raw), is_cpu = cpu, is_ram_mb = ram_mb, is_disk_gb = disk_gb,
        is_test_boot = (m = ''manual''), is_staged = True\<rparr>))))))"

definition catalog_source :: "'w daemon \<Rightarrow> pydict \<Rightarrow> ('w st, install_source) pm" where
  "catalog_source D params =
     (let template = dget params ''template''; im = da_images D; name = py_str template in
      bindm (liftr (catalog_lookup (im_catalog im) template)) (\<lambda>found.
      bindm (liftr (need_some (ipc_error ERR_INVALID_PARAMS (''Unknown template: '' @ name)) found)) (\<lambda>entry.
      bindm (guardm (py_str (py_or (dget entry ''type'') (dget entry ''artifact_type'')) \<noteq> ''iso'')
        (ipc_error ERR_INVALID_PARAMS (''Template '' @ quoted name @
          '' is not an installer ISO. Use box_request_vm for cloud images.''))) (\<lambda>_.
      bindm (liftr (need_dict attr_error (py_or (dget entry ''install'') (PDict [])))) (\<lambda>install_cfg.
      let m = lower (py_str (dget_or install_cfg ''method'' (PStr ''manual''))) in
      bindm (guardm (m \<notin> set SUPPORTED_METHODS) (ipc_error ERR_INVALID_PARAMS (''Template '' @ quoted name @
        '' has unsupported install method '' @ quoted m @ ''. '' @ supported_text))) (\<lambda>_.
      bindm (liftr (sized params ''cpu'' (dget_or entry ''default_cpu'' (PInt 2)))) (\<lambda>cpu.
      bindm (liftr (sized params ''ram_mb'' (dget_or entry ''default_ram_mb'' (PInt 2048)))) (\<lambda>ram_mb.
      bindm (liftr (sized params ''disk_gb'' (dget_or entry ''default_disk_gb'' (PInt 20)))) (\<lambda>disk_gb.
      bindm clock (\<lambda>t.
      bindm (in_world (ensure_iso im t name False)) (\<lambda>iso.
      ret \<lparr>is_iso = iso, is_method = m, is_headless = (m \<noteq> ''manual'' \<and> bool_param params ''headless'' False),
        is_template = name, is_cpu = cpu, is_ram_mb = ram_mb, is_disk_gb = disk_gb,
        is_test_boot = False, is_staged = False\<rparr>)))))))))))"

text \<open>The machine of an installation or of a test boot. The key of the host comes first.\<close>

definition create_installer_vm :: "'w daemon \<Rightarrow> order \<Rightarrow> install_source \<Rightarrow> ('w st, vm) pm" where
  "create_installer_vm D r x =
     (let os = da_os D; c = da_cfg D; gid = ho_gid (da_host D); b = vo_bootstrap r; test_boot = is_test_boot x;
          disk_format = (if test_boot then ''raw'' else ''qcow2'') in
      bindm make_vm_id (\<lambda>vid.
      bindm (liftr (text_value (vo_purpose r))) (\<lambda>purpose.
      let name = make_libvirt_name (py_str (vo_project r)) purpose vid in
      bindm clock (\<lambda>t.
      bindm (liftr (store_text ''projects.id'' (vo_project r))) (\<lambda>row_id.
      bindm (upsert_project row_id (vo_path r)) (\<lambda>_.
      bindm (liftr (text_value (vo_project r))) (\<lambda>pid.
      let dir = vm_dir c pid vid; serial_log = path_join dir ''serial.log'' in
      bindm (in_world (create_blank_disk c os gid pid vid (vo_disk_gb r) disk_format)) (\<lambda>disk.
      bindm (if is_staged x then in_world (stage_iso c os gid pid vid (is_iso x))
        else bindm (in_world (prepare_readonly_file os gid (Some (is_iso x)))) (\<lambda>_. ret (is_iso x))) (\<lambda>iso.
      bindm (in_world (boxer_ssh_pubkey os (da_doc D))) (\<lambda>pubkey.
      let keys = (case pubkey of Some (k # ks) \<Rightarrow> [k # ks] | _ \<Rightarrow> []) @ bs_ssh_public_keys b in
      bindm (in_world (seed_build os (ge_tmpdir (da_guest D)) (da_yaml D)
        \<lparr>so_method = is_method x, so_hostname = (if purpose = [] then ''boxer'' else take 20 purpose), so_username = ''boxer'',
         so_ssh_authorized_keys = keys, so_packages = bs_packages b, so_password_hash = None\<rparr> dir)) (\<lambda>seed.
      bindm (in_world (prepare_readonly_file os gid seed)) (\<lambda>_.
      bindm (in_world (ensure_project_network (da_lv D) (ho_subnet (da_host D)) pid False)) (\<lambda>net.
      bindm (in_world (prepare_mutable_file os gid serial_log True)) (\<lambda>_.
      bindm uuid4_hex (\<lambda>hex.
      bindm (or_drop_storage D pid vid
        (define_and_start_installer (da_lv D) os hex (spec_of r name vid disk net serial_log) iso seed
          (if test_boot then ''restart'' else ''destroy'') disk_format test_boot)) (\<lambda>_.
      bindm (liftr (store_text ''vms.owner_user'' (vo_user r))) (\<lambda>owner.
      let v = (ordered_vm r vid name pid purpose owner t)\<lparr>vm_artifact_type := ''iso'',
        vm_install_state := (if test_boot then None else Some ''installing'')\<rparr> in
      bindm (insert_vm v (vo_tags r)) (\<lambda>_.
      bindm (add_event ''INFO'' ((if test_boot then ''Test boot'' else ''ISO install'') @ '' '' @ quoted purpose @ '' ('' @ vid @
        '') started from '' @ vo_template r @ '' (method='' @ is_method x @ '')'') (Some pid) (Some vid)) (\<lambda>_.
      bindm (whenm (\<not> test_boot) (spawn (WatchInstall vid name))) (\<lambda>_.
      ret v))))))))))))))))))))"

definition install_note :: "'w daemon \<Rightarrow> bool \<Rightarrow> int \<Rightarrow> string \<Rightarrow> ('w st, pydict \<Rightarrow> pydict) pm" where
  "install_note D test_boot wait vid =
     (let note = (\<lambda>s d. d @ [(''note'', PStr s)]) in
      if test_boot then ret (note (''VM is booting from the local ISO. No install watcher -- the VM runs '' @
        ''until you stop or delete it. The blank target disk is exposed as NVMe. '' @ ''Use box_get_serial_log to read console output.''))
      else if wait > 0 then
        bindm (wait_for_install D vid wait) (\<lambda>final.
        ret (\<lambda>d. note (if final = ''installed'' then ''Install completed. VM is now running from disk.''
            else if final = ''failed'' then ''Install failed. Use box_get_serial_log to inspect the console output.''
            else ''Wait timeout ('' @ show_int wait @ ''s) reached before install finished. '' @
              ''Poll box_get_vm for install_state or box_get_serial_log for progress.'')
          (AList.update ''install_state'' (PStr final) d)))
      else ret (note (''Install in progress. Boxer will switch boot order to disk and start the VM '' @
        ''once the installer powers off. Poll box_get_vm for install_state, or '' @
        ''use box_get_serial_log to monitor console output.'')))"

definition installer_reason :: "'w daemon \<Rightarrow> pyval \<Rightarrow> install_source \<Rightarrow> ('w st, string option) pm" where
  "installer_reason D project x =
     (let c = da_cfg D in
      bindm count_installing_vms (\<lambda>n.
      if n \<ge> cfg_max_concurrent_installs c then ret (Some (''Installer concurrency limit reached ('' @ show_int n @ ''/'' @
        show_int (cfg_max_concurrent_installs c) @ '' installs running)''))
      else check_admission c (da_lv D) (ho_machine (da_host D)) project (PInt (is_cpu x)) (PInt (is_ram_mb x)) (PInt (is_disk_gb x))))"

definition h_vm_request_installer :: "'w daemon \<Rightarrow> pydict \<Rightarrow> ('w st, pyval) pm" where
  "h_vm_request_installer D params =
     (let caller = caller_from_params params; tags = py_or (dget params ''tags'') (PDict []);
          from_catalog = truthy (dget params ''template''); from_file = truthy (dget params ''iso_path'') in
      bindm (in_world (caller_project_path (da_os D) params (c_project_id caller))) (\<lambda>path.
      bindm (liftr (int_or_param params ''wait_install_seconds'' 0)) (\<lambda>wait.
      bindm (guardm (\<not> from_catalog \<and> \<not> from_file)
        (ipc_error ERR_INVALID_PARAMS ''Either template or iso_path is required for an ISO install'')) (\<lambda>_.
      bindm (guardm (from_catalog \<and> from_file)
        (ipc_error ERR_INVALID_PARAMS ''template and iso_path are mutually exclusive'')) (\<lambda>_.
      bindm (liftr (int_param params ''ttl_minutes'' (max (cfg_default_ttl_minutes (da_cfg D)) 180))) (\<lambda>ttl.
      bindm (liftr (bootstrap_from_params (da_agent D) params)) (\<lambda>b.
      bindm (if from_file then local_source D params else catalog_source D params) (\<lambda>x.
      bindm (installer_reason D (c_project_id caller) x) (\<lambda>reason.
      case reason of
        Some (a # why) \<Rightarrow> bindm (queued_reply D caller
          (with_caller caller (AList.update ''job_type'' (PStr ''installer'') params)) (a # why) 120 True []) (\<lambda>d. ret (PDict d))
      | _ \<Rightarrow>
          bindm (create_installer_vm D \<lparr>vo_project = c_project_id caller, vo_path = path, vo_user = c_user caller,
              vo_template = is_template x, vo_purpose = dget_or params ''purpose'' (PStr ''install''),
              vo_headless = is_headless x, vo_ttl = ttl, vo_cpu = is_cpu x, vo_ram_mb = is_ram_mb x,
              vo_disk_gb = is_disk_gb x, vo_tags = tags, vo_bootstrap = b\<rparr> x) (\<lambda>v.
          bindm (install_note D (is_test_boot x) (max 0 (min wait 1800)) (vm_id v)) (\<lambda>f.
          ret (PDict (f (vm_dict (c_user caller) tags v @ [(''install_method'', PStr (is_method x))]))))))))))))))"

section \<open>android.request\<close>

text \<open>How many emulators run: one look at the processes for each row of an Android device.\<close>

fun running_emulators :: "'w os \<Rightarrow> vm list \<Rightarrow> ('w, int) pm" where
  "running_emulators h [] = ret 0"
| "running_emulators h (v # vs) =
     (if vm_kind v = ''android'' then
        bindm (emu_get_state h (vm_libvirt_name v)) (\<lambda>s.
        bindm (running_emulators h vs) (\<lambda>n. ret (n + (if s = ''running'' then 1 else 0))))
      else running_emulators h vs)"

definition android_reason :: "'w daemon \<Rightarrow> pyval \<Rightarrow> int \<Rightarrow> int \<Rightarrow> int \<Rightarrow> ('w st, string option) pm" where
  "android_reason D project cores ram_mb data_gb =
     (let c = da_cfg D in
      bindm (check_admission c (da_lv D) (ho_machine (da_host D)) project (PInt cores) (PInt ram_mb) (PInt data_gb)) (\<lambda>reason.
      case reason of
        Some (a # why) \<Rightarrow> ret (Some (a # why))
      | _ \<Rightarrow>
          bindm (list_vms PNone) (\<lambda>vms.
          bindm (in_world (running_emulators (da_os D) vms)) (\<lambda>n.
          ret (if n \<ge> cfg_max_concurrent_emulators c then Some (''Emulator concurrency limit reached ('' @ show_int n @ ''/'' @
            show_int (cfg_max_concurrent_emulators c) @ '')'') else reason)))))"

definition device_tags :: "pydict \<Rightarrow> pydict \<Rightarrow> pydict \<Rightarrow> (string \<times> string) list" where
  "device_tags entry tags launch =
     map (\<lambda>(k, v). (k, py_str v)) (filter (\<lambda>(k, _). \<not> starts_with k ''boxer.'') tags) @
     [(''boxer.android.api'', py_str (dget_or entry ''api'' (PStr []))),
      (''boxer.android.variant'', py_str (dget_or entry ''variant'' (PStr []))),
      (''boxer.android.abi'', py_str (dget_or entry ''abi'' (PStr []))),
      (''boxer.android.adb_serial'', py_str (dget launch ''serial'')),
      (''boxer.android.console_port'', py_str (dget launch ''console_port''))]"

text \<open>The device once it is admitted. The package of a catalogue entry is text.\<close>

definition create_device :: "'w daemon \<Rightarrow> caller \<Rightarrow> string \<Rightarrow> string \<Rightarrow> pydict \<Rightarrow> pydict \<Rightarrow> int \<Rightarrow> int \<Rightarrow> int \<Rightarrow> int \<Rightarrow>
    ('w st, pydict) pm" where
  "create_device D caller path template entry params ttl cores ram_mb data_gb =
     (let os = da_os D; c = da_cfg D; sdk = da_sdk D; purpose = dget_or params ''purpose'' (PStr ''android'') in
      bindm make_vm_id (\<lambda>vid.
      bindm (liftr (validate_avd_name (''boxer_'' @ vid))) (\<lambda>avd.
      bindm (liftr (bindr (need_key entry ''package'') text_value)) (\<lambda>package.
      bindm clock (\<lambda>t.
      bindm (liftr (store_text ''projects.id'' (c_project_id caller))) (\<lambda>pid.
      bindm (upsert_project pid path) (\<lambda>_.
      bindm (in_world (ensure_system_image os sdk package)) (\<lambda>_.
      bindm (in_world (create_avd os sdk avd package (py_str (dget_or entry ''device'' (PStr ''pixel_6''))))) (\<lambda>_.
      bindm (in_world (emu_launch c os sdk avd (Some ram_mb) (Some cores))) (\<lambda>launch.
      bindm (liftr (need_dict attr_error (py_or (dget params ''tags'') (PDict [])))) (\<lambda>tags.
      let serial = py_str (dget launch ''serial'');
          dtags = PDict (map (\<lambda>(k, x). (k, PStr x)) (device_tags entry tags launch)) in
      bindm (liftr (store_text ''vms.display_name'' purpose)) (\<lambda>dname.
      bindm (liftr (store_text ''vms.owner_user'' (c_user caller))) (\<lambda>owner.
      let v = \<lparr>vm_id = vid, vm_libvirt_name = avd, vm_project_id = pid, vm_display_name = dname, vm_state = ''running'',
        vm_owner_user = owner, vm_template = template, vm_cpu = cores, vm_ram_mb = ram_mb, vm_disk_gb = data_gb,
        vm_headless = True, vm_created_at = t, vm_last_touched = t, vm_lease_until = t + minutes ttl, vm_ip = Some serial,
        vm_tags = [], vm_origin = ''boxer'', vm_artifact_type = ''android-emulator'', vm_install_state = None,
        vm_kind = ''android''\<rparr> in
      bindm (insert_vm v dtags) (\<lambda>_.
      bindm (add_event ''INFO'' (''Android device '' @ quoted (py_str purpose) @ '' ('' @ vid @ '') booted on '' @ template @
        '' by '' @ py_str (c_user caller)) (Some pid) (Some vid)) (\<lambda>_.
      ret (AList.update ''display_name'' purpose (AList.update ''project_id'' (c_project_id caller)
        (vm_dict (c_user caller) dtags v)) @ [(''adb_serial'', PStr serial)]))))))))))))))))"

definition h_android_request :: "'w daemon \<Rightarrow> pydict \<Rightarrow> ('w st, pyval) pm" where
  "h_android_request D params =
     (let caller = caller_from_params params; template = dget params ''template''; cat = da_android D in
      bindm (in_world (caller_project_path (da_os D) params (c_project_id caller))) (\<lambda>path.
      bindm (liftr (int_param params ''ttl_minutes'' (max (cfg_default_ttl_minutes (da_cfg D)) 90))) (\<lambda>ttl.
      bindm (liftr (int_or_param params ''wait_boot_seconds'' 0)) (\<lambda>wait.
      bindm (liftr (need_some (ipc_error ERR_INVALID_PARAMS (''Unknown Android image: '' @ py_str template @ ''. Available: '' @
          repr_strs (catalog_list_names cat)))
        (case template of PStr n \<Rightarrow> catalog_get cat n | _ \<Rightarrow> None))) (\<lambda>entry.
      bindm (in_world (require_ready (da_cfg D) (da_os D) (da_sdk D))) (\<lambda>_.
      bindm (liftr (sized params ''cores'' (dget_or entry ''default_cores'' (PInt 4)))) (\<lambda>cores.
      bindm (liftr (sized params ''ram_mb'' (dget_or entry ''default_ram_mb'' (PInt 3072)))) (\<lambda>ram_mb.
      bindm (liftr (sized params ''data_gb'' (dget_or entry ''default_data_gb'' (PInt 6)))) (\<lambda>data_gb.
      bindm (android_reason D (c_project_id caller) cores ram_mb data_gb) (\<lambda>reason.
      case reason of
        Some (a # why) \<Rightarrow> bindm (queued_reply D caller (with_caller caller (AList.update ''disk_gb'' (PInt data_gb)
            (AList.update ''ram_mb'' (PInt ram_mb) (AList.update ''cpu'' (PInt cores)
              (AList.update ''job_type'' (PStr ''android'') params))))) (a # why) 60 False []) (\<lambda>d. ret (PDict d))
      | _ \<Rightarrow>
          bindm (create_device D caller path (py_str template) entry params ttl cores ram_mb data_gb) (\<lambda>d.
          bindm (if max 0 (min wait 900) > 0
            then bindm (in_world (wait_boot (da_os D) (da_sdk D) (dict_text d ''adb_serial'') (max 0 (min wait 900))))
              (\<lambda>booted. ret [(''boot_completed'', PBool booted)])
            else ret []) (\<lambda>w.
          ret (PDict (d @ w))))))))))))))"

section \<open>Promotion of a queued request\<close>

definition create_vm_from_request :: "'w daemon \<Rightarrow> pydict \<Rightarrow> ('w st, unit) pm" where
  "create_vm_from_request D request =
     (let request = AList.update ''wait_install_seconds'' (PInt 0)
        (AList.update ''return_ssh_private_key'' (PBool False) request);
          job_type = dget request ''job_type'' in
      bindm (if job_type = PStr ''installer'' then h_vm_request_installer D request
        else if job_type = PStr ''android'' then h_android_request D request
        else h_vm_request D request) (\<lambda>_. ret ()))"

end
