(* ===== verification/Server.thy ===== *)
theory Server
  imports Install
begin

text \<open>
  \<open>BoxerDaemon._with_project_activity\<close>, the table of methods the daemon registers, and
  \<open>boxerd/ipc_server.py\<close>: the loop that reads requests from a connection, calls the handlers and writes
  one reply per request.
\<close>

section \<open>Project activity and notices\<close>

definition tracked_project :: "caller \<Rightarrow> string option" where
  "tracked_project c = (case c_project_id c of
       PStr p \<Rightarrow> if \<not> is_admin c \<and> starts_with p ''p_'' \<and> p \<noteq> ''p_unknown'' then Some p else None
     | _ \<Rightarrow> None)"

definition take_notices :: "string \<Rightarrow> ('w st, pyval list) pm" where
  "take_notices p = bindm (list_pending_project_notifications (PStr p) 5) (\<lambda>notes.
     bindm (mark_project_notifications_delivered (map n_id notes)) (\<lambda>_. ret (map notification_payload notes)))"

text \<open>Notices join a reply that is an object, and the data of an error of the protocol.\<close>

definition add_notices :: "pydict \<Rightarrow> pyval list \<Rightarrow> pydict" where
  "add_notices d ns = AList.update ''boxer_notices'' (PList ((case dget d ''boxer_notices'' of PList xs \<Rightarrow> xs | _ \<Rightarrow> []) @ ns)) d"

definition error_data :: "pyval option \<Rightarrow> pydict" where
  "error_data data = (case data of None \<Rightarrow> [] | Some PNone \<Rightarrow> [] | Some (PDict d) \<Rightarrow> d | Some v \<Rightarrow> [(''error_data'', v)])"

definition notice_error :: "string \<Rightarrow> exn \<Rightarrow> ('w st, pyval) pm" where
  "notice_error p e = (case e of
       IPCError c m data \<Rightarrow> bindm (take_notices p) (\<lambda>ns.
         if ns = [] then raise e
         else raise (IPCError c m (Some (PDict (AList.update ''boxer_notices'' (PList ns) (error_data data))))))
     | PyExn _ _ \<Rightarrow> raise e)"

definition notice_result :: "string \<Rightarrow> pyval \<Rightarrow> ('w st, pyval) pm" where
  "notice_result p result = (case result of
       PDict d \<Rightarrow> bindm (take_notices p) (\<lambda>ns. ret (if ns = [] then result else PDict (add_notices d ns)))
     | _ \<Rightarrow> ret result)"

definition with_project_activity :: "string \<Rightarrow> (pydict \<Rightarrow> ('w st, pyval) pm) \<Rightarrow> pydict \<Rightarrow> ('w st, pyval) pm" where
  "with_project_activity method handler params =
     (let caller = caller_from_params params in
      case tracked_project caller of
        None \<Rightarrow> handler params
      | Some p \<Rightarrow>
          bindm (record_project_call p method (c_user caller)) (\<lambda>_.
          bindm (catch (handler params) (notice_error p)) (notice_result p)))"

section \<open>The methods\<close>

definition vm_handlers :: "'w daemon \<Rightarrow> (string \<times> (pydict \<Rightarrow> ('w st, pyval) pm)) list" where
  "vm_handlers D =
     [(''vm.start'', h_vm_start D), (''vm.stop'', h_vm_stop D), (''vm.restart'', h_vm_restart D),
      (''vm.ssh_access'', h_vm_ssh_access D), (''vm.delete'', h_vm_delete D), (''vm.extend_lease'', h_vm_extend_lease D),
      (''vm.snapshot'', h_vm_snapshot D), (''vm.exec'', h_vm_exec D), (''vm.push_files'', h_vm_push_files D),
      (''vm.pull'', h_vm_pull D), (''vm.screenshot'', h_vm_screenshot D), (''vm.input'', h_vm_input D),
      (''vm.serial_log'', h_vm_serial_log D), (''android.adb'', h_android_adb D), (''guest.sysinfo'', h_guest_sysinfo D),
      (''guest.services'', h_guest_services D), (''guest.logs'', h_guest_logs D), (''guest.packages'', h_guest_packages D),
      (''vm.purge_ghost'', h_vm_purge_ghost D)]"

definition service_handlers :: "'w daemon \<Rightarrow> (string \<times> (pydict \<Rightarrow> ('w st, pyval) pm)) list" where
  "service_handlers D =
     [(''vm.request'', h_vm_request D), (''vm.request_installer'', h_vm_request_installer D), (''vm.list'', h_vm_list D),
      (''vm.get'', h_vm_get D), (''image.preflight'', h_image_preflight D), (''profile.list'', h_profile_list D),
      (''lab.list'', h_lab_list D), (''lab.request'', h_lab_request D), (''lab.status'', h_lab_status D),
      (''android.list_images'', h_android_list_images D), (''android.request'', h_android_request D),
      (''image.list'', h_image_list D), (''image.prewarm'', h_image_prewarm D), (''image.refresh'', h_image_refresh D),
      (''image.prune'', h_image_prune D), (''resource.status'', h_resource_status D), (''queue.status'', h_queue_status D),
      (''cleanup.plan'', h_cleanup_plan D), (''event.poll'', h_event_poll D), (''vm.scan'', h_vm_scan D),
      (''vm.import'', h_vm_import D), (''vm.adopt'', h_vm_adopt D)]"

text \<open>What \<open>_register_handlers\<close> registers. No name occurs twice, so the order does not matter.\<close>

definition registered :: "'w daemon \<Rightarrow> (string \<times> (pydict \<Rightarrow> ('w st, pyval) pm)) list" where
  "registered D = map (\<lambda>(m, h). (m, with_project_activity m h)) (service_handlers D @ vm_handlers D)"

definition notify_registered :: "'w daemon \<Rightarrow> (string \<times> (pydict \<Rightarrow> ('w st, pyval) pm)) list" where
  "notify_registered D = [(''event.poll'', h_event_poll D)]"

section \<open>The connection\<close>

text \<open>What \<open>read_message\<close> gives: a JSON value, the end of the connection, or any other failure with its text.\<close>

datatype received = Message pyval | Disconnected | Unreadable string

definition error_reply :: "pyval \<Rightarrow> exn \<Rightarrow> pyval" where
  "error_reply req_id e = (case e of
       IPCError c m data \<Rightarrow> make_error_response req_id c m (case data of Some PNone \<Rightarrow> None | d \<Rightarrow> d)
     | PyExn _ t \<Rightarrow> make_error_response req_id ERR_INTERNAL t None)"

text \<open>A handler begins by reading its parameters as a dict.\<close>

definition call_handler :: "(pydict \<Rightarrow> ('w st, pyval) pm) \<Rightarrow> pyval \<Rightarrow> ('w st, pyval) pm" where
  "call_handler h params = (case params of PDict d \<Rightarrow> h d | _ \<Rightarrow> raise attr_error)"

text \<open>
  The answer to one message. \<open>None\<close>: the message is not an object, or its method cannot be looked up; the
  exception ends the loop and the connection is closed.
\<close>

definition answer :: "(string \<times> (pydict \<Rightarrow> ('w st, pyval) pm)) list \<Rightarrow> pyval \<Rightarrow> ('w st, pyval) pm option" where
  "answer handlers msg = (case msg of
       PDict d \<Rightarrow>
         (let req_id = dget d ''id''; method = dget d ''method'';
              params = py_or (dget_or d ''params'' (PDict [])) (PDict []);
              unknown = ret (make_error_response req_id ERR_METHOD_NOT_FOUND (''unknown method: '' @ py_str method) None) in
          case method of
            PList _ \<Rightarrow> None
          | PDict _ \<Rightarrow> None
          | PStr m \<Rightarrow> (case map_of handlers m of
                None \<Rightarrow> Some unknown
              | Some h \<Rightarrow> Some (catch (bindm (call_handler h params) (\<lambda>r. ret (make_response req_id r)))
                  (\<lambda>e. ret (error_reply req_id e))))
          | _ \<Rightarrow> Some unknown)
     | _ \<Rightarrow> None)"

fun serve_loop :: "(string \<times> (pydict \<Rightarrow> ('w st, pyval) pm)) list \<Rightarrow> received list \<Rightarrow> ('w st, pyval list) pm" where
  "serve_loop handlers [] = ret []"
| "serve_loop handlers (Disconnected # rest) = ret []"
| "serve_loop handlers (Unreadable e # rest) = ret [make_error_response PNone ERR_PARSE e None]"
| "serve_loop handlers (Message m # rest) = (case answer handlers m of
       None \<Rightarrow> ret []
     | Some act \<Rightarrow> bindm act (\<lambda>r. bindm (serve_loop handlers rest) (\<lambda>rs. ret (r # rs))))"

text \<open>The two sockets.\<close>

definition handle_connection :: "'w daemon \<Rightarrow> received list \<Rightarrow> ('w st, pyval list) pm" where
  "handle_connection D = serve_loop (registered D)"

definition handle_notify_connection :: "'w daemon \<Rightarrow> received list \<Rightarrow> ('w st, pyval list) pm" where
  "handle_notify_connection D = serve_loop (notify_registered D)"

end
