(* ===== verification/FileTransfer.thy ===== *)
theory FileTransfer
  imports Server
begin

text \<open>
  \<open>boxer/transfer.py\<close>: how the clients pack local files for \<open>vm.push_files\<close>, write what \<open>vm.pull\<close> gives and
  save screenshots. Bytes are characters below 256; tarfile is a parameter.
\<close>

section \<open>Decoding\<close>

text \<open>
  \<open>base64.b64decode\<close> without \<open>validate\<close>: characters outside the alphabet are skipped, enough padding ends the
  data. \<open>pos\<close> counts the sextets of the open group, \<open>left\<close> holds its unused bits.
\<close>

definition binascii_error :: exn where
  "binascii_error = PyExn ''binascii.Error'' ''Incorrect padding''"

definition sextet :: "nat \<Rightarrow> nat \<Rightarrow> nat \<Rightarrow> string \<times> nat" where
  "sextet pos left v =
     (if pos = 0 then ([], v)
      else if pos = 1 then ([char_of (left * 4 + v div 16)], v mod 16)
      else if pos = 2 then ([char_of (left * 16 + v div 4)], v mod 4)
      else ([char_of (left * 64 + v)], 0))"

fun a2b_base64 :: "nat \<Rightarrow> nat \<Rightarrow> nat \<Rightarrow> string \<Rightarrow> string res" where
  "a2b_base64 pads pos left [] = (if pos = 0 then Inr [] else Inl binascii_error)"
| "a2b_base64 pads pos left (c # s) =
     (if c = CHR ''='' then
        (if pos < 2 then a2b_base64 pads pos left s
         else if pos + Suc pads \<ge> 4 then Inr []
         else a2b_base64 (Suc pads) pos left s)
      else case b64_value c of
          None \<Rightarrow> a2b_base64 pads pos left s
        | Some v \<Rightarrow> map_sum id (\<lambda>rest. fst (sextet pos left v) @ rest)
            (a2b_base64 0 (Suc pos mod 4) (snd (sextet pos left v)) s))"

definition b64decode_any :: "pyval \<Rightarrow> string res" where
  "b64decode_any v = (case v of
       PStr s \<Rightarrow> (if list_all (\<lambda>c. code c < 128) s then a2b_base64 0 0 0 s
         else Inl (PyExn ''ValueError'' ''string argument should contain only ASCII characters''))
     | _ \<Rightarrow> Inl type_error)"

lemma a2b_char: "n < 64 \<Longrightarrow> a2b_base64 pads pos left (b64_char n # s) =
    map_sum id (\<lambda>rest. fst (sextet pos left n) @ rest) (a2b_base64 0 (Suc pos mod 4) (snd (sextet pos left n)) s)"
  by (simp add: b64_value_char)

lemma a2b_pad: "a2b_base64 0 3 left [CHR ''=''] = Inr []" "a2b_base64 0 2 left [CHR ''='', CHR ''=''] = Inr []"
  by simp_all

declare a2b_base64.simps(2) [simp del]

lemma sextet_simps:
  "sextet 0 l v = ([], v)" "sextet (Suc 0) l v = ([char_of (l * 4 + v div 16)], v mod 16)"
  "sextet (Suc (Suc 0)) l v = ([char_of (l * 16 + v div 4)], v mod 4)"
  by (simp_all add: sextet_def)

lemma a2b_two: "p < 64 \<Longrightarrow> q < 64 \<Longrightarrow> a2b_base64 0 0 0 (b64_char p # b64_char q # s) =
    map_sum id (\<lambda>rest. char_of (p * 4 + q div 16) # rest) (a2b_base64 0 (Suc (Suc 0)) (q mod 16) s)"
  by (simp add: a2b_char sextet_simps sum.map_comp comp_def id_def)

lemma a2b_third: "r < 64 \<Longrightarrow> a2b_base64 0 (Suc (Suc 0)) l (b64_char r # s) =
    map_sum id (\<lambda>rest. char_of (l * 16 + r div 4) # rest) (a2b_base64 0 3 (r mod 4) s)"
  by (simp add: a2b_char sextet_simps)

lemma a2b_fourth: "t < 64 \<Longrightarrow> a2b_base64 0 3 l (b64_char t # s) =
    map_sum id (\<lambda>rest. char_of (l * 64 + t) # rest) (a2b_base64 0 0 0 s)"
  by (simp add: a2b_char sextet_def)

lemmas a2b_steps = a2b_two a2b_third a2b_fourth a2b_pad(1) a2b_pad(2) [unfolded numeral_2_eq_2] b64_bounds

lemma a2b_encode: "a2b_base64 0 0 0 (b64encode s) = Inr s"
proof (induction s rule: b64encode.induct)
  case (2 a)
  have "code a div 4 * 4 + code a mod 4 * 16 div 16 = (code a :: nat)" by simp
  then show ?case by (simp add: a2b_steps)
next
  case (3 a b)
  have "code b mod 16 * 4 div 4 = (code b mod 16 :: nat)" by simp
  then have "(code a mod 4 * 16 + code b div 16) mod 16 * 16 + code b mod 16 * 4 div 4 = (code b :: nat)"
    using split_bytes(2) [OF code_bound [of b], where c = 0 and a = "code a"] by simp
  then show ?case
    using split_bytes(1) [OF code_bound [of b], where c = 0 and a = "code a"]
    by (simp add: a2b_steps)
next
  case (4 a b c s)
  show ?case
    using split_bytes(1,2) [OF code_bound [of b] code_bound [of c], where a = "code a"]
      split_bytes(3) [OF code_bound [of b] code_bound [of c]]
    by (simp add: a2b_steps "4.IH")
qed simp

lemma b64decode_any_encode: "b64decode_any (PStr (b64encode s)) = Inr s"
  by (simp add: b64decode_any_def b64encode_ascii a2b_encode)

section \<open>Packing\<close>

definition SKIP_NAMES :: "string list" where
  "SKIP_NAMES = [''.git'', ''__pycache__'', ''.zig-cache'', ''zig-out'', ''node_modules'', ''.venv'']"

record tar_info =
  ti_name :: string
  ti_uid :: int
  ti_gid :: int
  ti_uname :: string
  ti_gname :: string

definition tar_filter :: "tar_info \<Rightarrow> tar_info option" where
  "tar_filter i =
     (if list_ex (\<lambda>p. p \<in> set SKIP_NAMES) (split_max (length (ti_name i)) ''/'' (ti_name i)) then None
      else Some (i\<lparr>ti_uid := 0, ti_gid := 0, ti_uname := [], ti_gname := []\<rparr>))"

text \<open>
  What a client reaches: the file system, the bytes of a file and its mode, and tarfile, which adds the named
  paths through a filter and extracts an archive into a directory.
\<close>

record 's local_env =
  le_os :: "'s os"
  le_read_bytes :: "string \<Rightarrow> ('s, string) pm"
  le_write_bytes :: "string \<Rightarrow> string \<Rightarrow> ('s, unit) pm"
  le_mode :: "string \<Rightarrow> ('s, nat) pm"
  le_tar_create :: "(string \<times> string) list \<Rightarrow> (tar_info \<Rightarrow> tar_info option) \<Rightarrow> ('s, string) pm"
  le_tar_extract :: "string \<Rightarrow> string \<Rightarrow> ('s, unit) pm"

definition pack_local :: "'s local_env \<Rightarrow> string \<Rightarrow> pyval \<Rightarrow> ('s, pydict) pm" where
  "pack_local E local_path remote_path =
     bindm (os_expanduser (le_os E) local_path) (\<lambda>src.
     bindm (os_exists (le_os E) src) (\<lambda>e.
     bindm (guardm (\<not> e) (PyExn ''FileNotFoundError'' (''local path not found: '' @ src))) (\<lambda>_.
     bindm (os_is_dir (le_os E) src) (\<lambda>d.
     if d then
       bindm (os_listdir (le_os E) src) (\<lambda>children.
       bindm (le_tar_create E (map (\<lambda>c. (c, path_name c)) (sort children)) tar_filter) (\<lambda>data.
       ret [(''path'', remote_path), (''data_b64'', PStr (b64encode data)), (''extract'', PBool True)]))
     else
       bindm (le_read_bytes E src) (\<lambda>data.
       bindm (le_mode E src) (\<lambda>m.
       ret [(''path'', remote_path), (''data_b64'', PStr (b64encode data)), (''mode'', PInt (int (m mod 512)))]))))))"

section \<open>Writing\<close>

definition need_reply :: "pyval \<Rightarrow> pydict res" where
  "need_reply v = need_dict type_error v"

definition write_pull :: "'s local_env \<Rightarrow> pydict \<Rightarrow> string \<Rightarrow> bool \<Rightarrow> ('s, pydict) pm" where
  "write_pull E result local_path overwrite =
     (let os = le_os E in
      bindm (os_expanduser os local_path) (\<lambda>dest.
      bindm (liftr (bindr (need_key result ''data_b64'') b64decode_any)) (\<lambda>data.
      if truthy (dget result ''is_archive'') then
        bindm (os_exists os dest) (\<lambda>e.
        bindm (if e then os_listdir os dest else ret []) (\<lambda>children.
        bindm (guardm (children \<noteq> [] \<and> \<not> overwrite)
          (PyExn ''FileExistsError'' (dest @ '' exists and is not empty (pass overwrite)''))) (\<lambda>_.
        bindm (os_mkdir os dest) (\<lambda>_.
        bindm (le_tar_extract E data dest) (\<lambda>_.
        ret [(''local_path'', PStr dest), (''bytes'', PInt (int (length data))), (''is_archive'', PBool True)])))))
      else
        bindm (os_exists os dest) (\<lambda>e.
        bindm (guardm (e \<and> \<not> overwrite) (PyExn ''FileExistsError'' (dest @ '' exists (pass overwrite)''))) (\<lambda>_.
        bindm (os_mkdir os (parent_dir dest)) (\<lambda>_.
        bindm (le_write_bytes E dest data) (\<lambda>_.
        ret [(''local_path'', PStr dest), (''bytes'', PInt (int (length data))), (''is_archive'', PBool False)])))))))"

text \<open>\<open>int.from_bytes(data, "big")\<close>.\<close>

definition from_bytes_big :: "string \<Rightarrow> nat" where
  "from_bytes_big = foldl (\<lambda>n c. n * 256 + code c) 0"

definition PNG_MAGIC :: string where
  "PNG_MAGIC = map char_of [137 :: nat, 80, 78, 71, 13, 10, 26, 10]"

definition png_size :: "string \<Rightarrow> pyval \<times> pyval" where
  "png_size data =
     (if take 8 data = PNG_MAGIC \<and> 24 \<le> length data
      then (PInt (int (from_bytes_big (take 4 (drop 16 data)))), PInt (int (from_bytes_big (take 4 (drop 20 data)))))
      else (PNone, PNone))"

definition save_png :: "'s local_env \<Rightarrow> pyval \<Rightarrow> string \<Rightarrow> ('s, pydict) pm" where
  "save_png E png_b64 local_path =
     (let os = le_os E in
      bindm (os_expanduser os local_path) (\<lambda>dest.
      bindm (os_mkdir os (parent_dir dest)) (\<lambda>_.
      bindm (liftr (b64decode_any png_b64)) (\<lambda>data.
      bindm (le_write_bytes E dest data) (\<lambda>_.
      ret [(''local_path'', PStr dest), (''bytes'', PInt (int (length data))),
        (''width'', fst (png_size data)), (''height'', snd (png_size data))])))))"

end
