(* ===== verification/Leases.thy ===== *)
theory Leases
  imports Demo
begin

text \<open>
  \<open>boxerd/lease_manager.py\<close>: the periodic scan that warns about, stops and finally deletes VMs
  whose lease has run out. \<open>H\<close> is the host. One scan reads the clock once; the statements inside
  it that need a time use that value.
\<close>

definition vm_title :: "vm \<Rightarrow> string" where
  "vm_title v = quoted (vm_display_name v) @ '' ('' @ vm_id v @ '')''"

section \<open>Process snapshot\<close>

definition snapshot_unavailable :: "instant \<Rightarrow> pydict \<Rightarrow> string \<Rightarrow> pydict" where
  "snapshot_unavailable t extra reason =
     [(''available'', PBool False), (''captured_at'', PStr (iso t))] @ extra @
     [(''reason'', PStr reason), (''lines'', PList [])]"

definition snapshot_command :: string where
  "snapshot_command = (let bs = [CHR 0x5C] in
     ''printf 'top cpu'' @ bs @ ''n'' @ sq @ ''; '' @
     ''ps -eo pid,ppid,stat,pcpu,pmem,comm --sort=-pcpu | head -n 8; '' @
     ''printf '' @ sq @ bs @ ''ntop mem'' @ bs @ ''n'' @ sq @ ''; '' @
     ''ps -eo pid,ppid,stat,pcpu,pmem,comm --sort=-pmem | head -n 8'')"

text \<open>The report of a command that ran.\<close>

definition snapshot_of :: "cfg \<Rightarrow> instant \<Rightarrow> string \<Rightarrow> pydict \<Rightarrow> pydict" where
  "snapshot_of c t ip result =
     (let ls = splitlines (strip (dict_text result ''stdout''));
          max_lines = max 1 (min (cfg_cleanup_process_snapshot_lines c) 100);
          code = dget_or result ''exit_code'' (PInt 1);
          stderr = strip (dict_text result ''stderr'')
      in [(''available'', PBool (code = PInt 0)), (''captured_at'', PStr (iso t)), (''ip_address'', PStr ip),
          (''exit_code'', code), (''lines'', str_list (take (nat max_lines) ls))]
         @ (if stderr = [] then [] else [(''stderr'', PStr (take 500 stderr))]))"

definition collect_process_snapshot :: "'w host \<Rightarrow> vm \<Rightarrow> instant \<Rightarrow> ('w st, pydict) pm" where
  "collect_process_snapshot H v t =
     (if vm_kind v \<noteq> ''vm'' then ret (snapshot_unavailable t [] ''process snapshot unavailable for non-VM device kind'')
      else
      bindm (case vm_ip v of
          Some (c # ip) \<Rightarrow> ret (Some (c # ip))
        | _ \<Rightarrow>
            bindm (catch (in_world (get_ip_via_guest_agent (ho_lv H) (vm_libvirt_name v) 5)) (\<lambda>_. ret None)) (\<lambda>r.
            case r of Some (c # ip) \<Rightarrow> bindm (update_vm_ip (vm_id v) (c # ip)) (\<lambda>_. ret (Some (c # ip)))
            | _ \<Rightarrow> ret None)) (\<lambda>r.
      case r of
        None \<Rightarrow> ret (snapshot_unavailable t [] ''guest process snapshot unavailable: VM has no known IP address'')
      | Some ip \<Rightarrow>
          let dir = vm_dir (ho_cfg H) (vm_project_id v) (vm_id v) in
          bindm (in_world (has_key (ho_os H) dir)) (\<lambda>k.
          catch (bindm (exec_ssh (ho_os H) (ho_guest H) (ho_doc H) ip snapshot_command 10
                (if k then Some (key_path dir) else None) False 0)
              (\<lambda>result. ret (snapshot_of (ho_cfg H) t ip result)))
            (\<lambda>e. ret (snapshot_unavailable t [(''ip_address'', PStr ip)]
               (''guest process snapshot unavailable: '' @ exn_text e))))))"

definition snapshot_lines :: "pydict \<Rightarrow> string list" where
  "snapshot_lines snapshot = (case dget_or snapshot ''lines'' (PList []) of
     PList xs \<Rightarrow> filter (\<lambda>l. l \<noteq> []) (map (\<lambda>x. strip (py_str x)) xs) | _ \<Rightarrow> [])"

definition snapshot_notice_line :: "pydict \<Rightarrow> string" where
  "snapshot_notice_line snapshot =
     (if \<not> truthy (dget snapshot ''available'') then
        ''Process snapshot: '' @ py_str (py_or (dget snapshot ''reason'') (PStr ''process snapshot unavailable'')) @ ''.''
      else let process_lines = filter (\<lambda>l. \<not> starts_with (lower l) ''top '' \<and> \<not> starts_with (lstrip l) ''PID'')
             (snapshot_lines snapshot);
           summary = join ''; '' (take 3 process_lines)
        in ''Process snapshot top rows: '' @
           (if summary = [] then ''captured, but no process rows were returned'' else summary) @ ''.'')"

section \<open>Stopping a VM in two steps\<close>

definition request_graceful_shutdown :: "'w host \<Rightarrow> vm \<Rightarrow> instant \<Rightarrow> int \<Rightarrow> ('w st, unit) pm" where
  "request_graceful_shutdown H v t recent_calls =
     (let c = ho_cfg H; force_after = t + minutes (cfg_stale_force_shutdown_after_minutes c) in
     bindm (catch (bindm (dev_stop H v True) (\<lambda>_. ret [])) (\<lambda>e. ret (exn_text e))) (\<lambda>error.
     bindm (update_vm_state (vm_id v) ''stopping'') (\<lambda>_.
     bindm (upsert_cleanup_action \<lparr>ca_vm_id = vm_id v, ca_project_id = vm_project_id v,
        ca_stage = ''graceful_requested'', ca_graceful_requested_at = t, ca_force_after = force_after,
        ca_last_error = error\<rparr>) (\<lambda>_.
     add_event ''WARN''
       (''Stale VM '' @ vm_title v @ '' belongs to an inactive repo ('' @ show_int recent_calls @
        '' call(s) in the last '' @ show_int (cfg_inactive_call_window_minutes c) @
        '' minute(s)); requested graceful shutdown. Boxer will force power off after '' @ iso force_after @
        '' if it is still running.'')
       (Some (vm_project_id v)) (Some (vm_id v))))))"

definition force_details :: "cfg \<Rightarrow> vm \<Rightarrow> instant \<Rightarrow> string \<Rightarrow> int \<Rightarrow> pydict \<Rightarrow> pydict" where
  "force_details c v t live_state recent_calls snapshot =
     [(''vm_id'', PStr (vm_id v)), (''display_name'', PStr (vm_display_name v)),
      (''libvirt_name'', PStr (vm_libvirt_name v)), (''forced_at'', PStr (iso t)),
      (''live_state_after'', PStr live_state), (''recent_call_count'', PInt recent_calls),
      (''call_window_minutes'', PInt (cfg_inactive_call_window_minutes c)),
      (''process_snapshot'', PDict snapshot)]"

definition force_shutdown :: "'w host \<Rightarrow> vm \<Rightarrow> instant \<Rightarrow> int \<Rightarrow> ('w st, unit) pm" where
  "force_shutdown H v t recent_calls =
     (let c = ho_cfg H in
     bindm (collect_process_snapshot H v t) (\<lambda>snapshot.
     bindm (catch (bindm (dev_stop H v False) (\<lambda>_. ret [])) (\<lambda>e. ret (exn_text e))) (\<lambda>force_error.
     bindm (dev_get_state H v) (\<lambda>live_state.
     if force_error \<noteq> [] \<or> live_state \<in> {''running'', ''paused'', ''stopping''} then
       let retry_after = t + minutes (cfg_stale_force_shutdown_after_minutes c);
           last_error = (if force_error \<noteq> [] then force_error else ''domain still '' @ live_state) in
       bindm (upsert_cleanup_action \<lparr>ca_vm_id = vm_id v, ca_project_id = vm_project_id v,
          ca_stage = ''graceful_requested'', ca_graceful_requested_at = t, ca_force_after = retry_after,
          ca_last_error = last_error\<rparr>) (\<lambda>_.
       add_event ''ERROR'' (''Failed to force stale VM '' @ vm_title v @ '' off: '' @ last_error @
          ''. Will retry after '' @ iso retry_after @ ''.'') (Some (vm_project_id v)) (Some (vm_id v)))
     else
       bindm (update_vm_state (vm_id v) (if live_state = ''unknown'' then ''unknown'' else ''stopped'')) (\<lambda>_.
       bindm (delete_cleanup_action (vm_id v)) (\<lambda>_.
       let message = ''Boxer forced off stale VM '' @ vm_title v @ '' after graceful shutdown did not stop it. '' @
           ''Repo activity was '' @ show_int recent_calls @ '' call(s) in the last '' @
           show_int (cfg_inactive_call_window_minutes c) @ '' minute(s). '' @ snapshot_notice_line snapshot in
       bindm (add_event ''WARN'' message (Some (vm_project_id v)) (Some (vm_id v))) (\<lambda>_.
       bindm (add_project_notification (vm_project_id v) ''WARN'' message (Some (vm_id v))
          (force_details c v t live_state recent_calls snapshot)) (\<lambda>_. ret ()))))))))"

text \<open>The three ways a running VM past its lease is treated.\<close>

datatype cleanup_step = Leave | RequestShutdown | ForceShutdown

definition cleanup_decision :: "cfg \<Rightarrow> instant \<Rightarrow> int \<Rightarrow> cleanup_action option \<Rightarrow> cleanup_step" where
  "cleanup_decision c t recent_calls action =
     (if recent_calls \<ge> cfg_inactive_call_threshold c then Leave
      else case action of
          None \<Rightarrow> RequestShutdown
        | Some a \<Rightarrow> if t \<ge> ca_force_after a then ForceShutdown else Leave)"

definition cleanup_running_stale_vm :: "'w host \<Rightarrow> vm \<Rightarrow> instant \<Rightarrow> instant \<Rightarrow> ('w st, unit) pm" where
  "cleanup_running_stale_vm H v t activity_since =
     bindm (count_project_calls_since (vm_project_id v) activity_since) (\<lambda>recent_calls.
     bindm (get_cleanup_action (vm_id v)) (\<lambda>action.
     case cleanup_decision (ho_cfg H) t recent_calls action of
       Leave \<Rightarrow> ret ()
     | RequestShutdown \<Rightarrow> request_graceful_shutdown H v t recent_calls
     | ForceShutdown \<Rightarrow> force_shutdown H v t recent_calls))"

definition auto_delete :: "'w host \<Rightarrow> vm \<Rightarrow> ('w st, unit) pm" where
  "auto_delete H v =
     catch
       (bindm (dev_undefine H v) (\<lambda>_.
        bindm (whenm (vm_kind v = ''vm'' \<and> vm_origin v = ''boxer'')
          (in_world (delete_vm_storage (ho_cfg H) (ho_os H) (vm_project_id v) (vm_id v)))) (\<lambda>_.
        bindm (delete_cleanup_action (vm_id v)) (\<lambda>_.
        bindm (delete_vm (vm_id v)) (\<lambda>_.
        add_event ''INFO'' (''Auto-deleted stale VM '' @ vm_id v @ '' ('' @ vm_libvirt_name v @ '')'')
          (Some (vm_project_id v)) (Some (vm_id v)))))))
       (\<lambda>_. ret ())"

section \<open>The scan\<close>

definition lease_warning :: "vm \<Rightarrow> string" where
  "lease_warning v = ''VM '' @ vm_title v @ '' lease expired at '' @ iso (vm_lease_until v) @
     ''. Use box_extend_lease or box_stop_vm.''"

text \<open>The body of the loop over the rows, at time \<open>t\<close>.\<close>

definition scan_vm :: "'w host \<Rightarrow> instant \<Rightarrow> vm \<Rightarrow> ('w st, unit) pm" where
  "scan_vm H t v =
     (let c = ho_cfg H;
          delete_threshold = t - hours (cfg_stale_delete_grace_hours c);
          activity_since = t - minutes (cfg_inactive_call_window_minutes c) in
     bindm (dev_get_state H v) (\<lambda>live.
     let effective = (if live \<noteq> ''unknown'' then live else vm_state v) in
     bindm (whenm (live \<noteq> ''unknown'' \<and> live \<noteq> vm_state v) (update_vm_state (vm_id v) live)) (\<lambda>_.
     if \<not> vm_lease_until v < t then delete_cleanup_action (vm_id v)
     else if effective \<in> {''running'', ''paused'', ''stopping''} then
       bindm (add_event ''WARN'' (lease_warning v) (Some (vm_project_id v)) (Some (vm_id v))) (\<lambda>_.
       cleanup_running_stale_vm H v t activity_since)
     else if effective \<in> {''stopped'', ''error'', ''unknown''} then
       bindm (get_cleanup_action (vm_id v)) (\<lambda>action.
       bindm (case action of None \<Rightarrow> ret ()
         | Some _ \<Rightarrow>
             bindm (delete_cleanup_action (vm_id v)) (\<lambda>_.
             add_event ''INFO'' (''VM '' @ vm_title v @ '' stopped after stale cleanup requested graceful shutdown.'')
               (Some (vm_project_id v)) (Some (vm_id v)))) (\<lambda>_.
       whenm (vm_lease_until v < delete_threshold) (auto_delete H v)))
     else ret ())))"

definition scan :: "'w host \<Rightarrow> ('w st, unit) pm" where
  "scan H =
     bindm clock (\<lambda>t.
     bindm (list_vms PNone) (\<lambda>vms.
     bindm (for_each vms (scan_vm H t)) (\<lambda>_.
     bindm (expire_old_queue_entries 2) (\<lambda>_.
     bindm (prune_project_call_log (t - hours (cfg_project_call_log_retention_hours (ho_cfg H)))) (\<lambda>_.
     ret ())))))"

section \<open>What a scan may change in the rows\<close>

text \<open>
  The part of a row no scan touches: everything but state, address and the time of the last
  update. \<open>rows_kept P\<close>: every row keeps its core, no row appears, and only a row whose id
  satisfies \<open>P\<close> disappears.
\<close>

definition core :: "vm \<Rightarrow> vm" where
  "core r = r\<lparr>vm_state := [], vm_last_touched := 0, vm_ip := None\<rparr>"

definition rows_kept :: "(string \<Rightarrow> bool) \<Rightarrow> 'w st \<Rightarrow> 'w st \<Rightarrow> bool" where
  "rows_kept P s t \<longleftrightarrow> (\<forall>i. case vms_find i (db t) of
       Some r' \<Rightarrow> \<exists>r. vms_find i (db s) = Some r \<and> core r' = core r
     | None \<Rightarrow> vms_find i (db s) = None \<or> P i)"

lemma rows_kept_trans: "rows_kept P s t \<Longrightarrow> rows_kept P t u \<Longrightarrow> rows_kept P s u"
proof (unfold rows_kept_def, intro allI)
  fix i
  assume a: "\<forall>i. case vms_find i (db t) of Some r' \<Rightarrow> \<exists>r. vms_find i (db s) = Some r \<and> core r' = core r
      | None \<Rightarrow> vms_find i (db s) = None \<or> P i"
    and b: "\<forall>i. case vms_find i (db u) of Some r' \<Rightarrow> \<exists>r. vms_find i (db t) = Some r \<and> core r' = core r
      | None \<Rightarrow> vms_find i (db t) = None \<or> P i"
  show "case vms_find i (db u) of Some r' \<Rightarrow> \<exists>r. vms_find i (db s) = Some r \<and> core r' = core r
      | None \<Rightarrow> vms_find i (db s) = None \<or> P i"
    using a [rule_format, of i] b [rule_format, of i]
    by (cases "vms_find i (db u)"; cases "vms_find i (db t)") auto
qed

interpretation rkf: frame "rows_kept P" for P
proof unfold_locales
  show "rows_kept P s s" for s by (simp add: rows_kept_def split: option.split)
qed (rule rows_kept_trans)

lemma rows_kept_same_vms: "(\<And>s. t_vms (db (snd (m s))) = t_vms (db s)) \<Longrightarrow> keeps (rows_kept P) m"
  by (auto simp: keeps_def rows_kept_def vms_find_def split: option.split)

lemma rows_kept_update_vm:
  "(\<And>r. vm_id (f r) = vm_id r) \<Longrightarrow> (\<And>r. core (f r) = core r) \<Longrightarrow> keeps (rows_kept P) (update_vm k f)"
  by (rule keepsI_wp)
    (auto simp: update_vm_def wp_simps rows_kept_def vmt.find_update core_def split: option.split)

named_theorems kept \<open>steps that only change a row's state, address and touch time\<close>

lemma kept_updates [kept]:
  "keeps (rows_kept P) (update_vm_state k x)" "keeps (rows_kept P) (update_vm_ip k ip)"
  unfolding update_vm_state_def update_vm_ip_def
  by (rule rows_kept_update_vm; simp add: core_def)+

lemma kept_in_world [kept]: "keeps (rows_kept P) (in_world m)"
  by (rule rows_kept_same_vms) (simp add: in_world_def split: prod.split)

lemma kept_dev [kept]:
  "keeps (rows_kept P) (dev_get_state H v)" "keeps (rows_kept P) (dev_stop H v g)"
  "keeps (rows_kept P) (dev_undefine H v)"
  by (simp_all add: dev_get_state_def dev_stop_def dev_undefine_def kept_in_world)

lemma kept_mod_db: "(\<And>d. t_vms (f d) = t_vms d) \<Longrightarrow> keeps (rows_kept P) (mod_db f)"
  by (rule rows_kept_same_vms) (simp add: mod_db_def modify_def)

lemma kept_clock [kept]: "keeps (rows_kept P) clock" "keeps (rows_kept P) uuid4_hex"
  by (rule rows_kept_same_vms; simp add: clock_def gets_def uuid4_hex_def)+

lemma kept_notes [kept]:
  "keeps (rows_kept P) (add_event l m p v)" "keeps (rows_kept P) (add_project_notification q l m v d)"
  "keeps (rows_kept P) (upsert_cleanup_action a)" "keeps (rows_kept P) (delete_cleanup_action k)"
  "keeps (rows_kept P) (expire_old_queue_entries j)" "keeps (rows_kept P) (prune_project_call_log u)"
  "keeps (rows_kept P) (get_cleanup_action k)" "keeps (rows_kept P) (count_project_calls_since q u)"
  "keeps (rows_kept P) (list_vms x)"
  unfolding add_event_def add_project_notification_def upsert_cleanup_action_def
    delete_cleanup_action_def expire_old_queue_entries_def prune_project_call_log_def
    get_cleanup_action_def count_project_calls_since_def list_vms_def Let_def
  by (intro rkf.frame_keeps kept kept_mod_db keeps_splits;
      simp add: cleanup_update_def cleanup_put_def cleanup_delete_def)+

lemma kept_exec_ssh [kept]: "keeps (rows_kept P) (exec_ssh h g d ip c t k x y)"
  unfolding exec_ssh_def ssh_guard_def Let_def
  by (intro rkf.frame_keeps kept keeps_splits)

lemma kept_delete_vm: "P k \<Longrightarrow> keeps (rows_kept P) (delete_vm k)"
  by (rule keepsI_wp)
    (auto simp: delete_vm_def wp_simps rows_kept_def vmt.find_delete split: option.split)

lemma kept_shutdowns [kept]:
  "keeps (rows_kept P) (collect_process_snapshot H v t)"
  "keeps (rows_kept P) (request_graceful_shutdown H v t n)"
  unfolding collect_process_snapshot_def request_graceful_shutdown_def Let_def
  by (intro rkf.frame_keeps kept keeps_splits)+

lemma kept_force [kept]: "keeps (rows_kept P) (force_shutdown H v t n)"
  unfolding force_shutdown_def Let_def
  by (intro rkf.frame_keeps kept keeps_splits)

lemma keeps_cleanup_step: "keeps R a \<Longrightarrow> keeps R b \<Longrightarrow> keeps R c \<Longrightarrow>
    keeps R (case x of Leave \<Rightarrow> a | RequestShutdown \<Rightarrow> b | ForceShutdown \<Rightarrow> c)"
  by (cases x) simp_all

lemma kept_cleanup_running [kept]: "keeps (rows_kept P) (cleanup_running_stale_vm H v t u)"
  unfolding cleanup_running_stale_vm_def
  by (intro rkf.frame_keeps kept keeps_cleanup_step)

lemma kept_auto_delete: "P (vm_id v) \<Longrightarrow> keeps (rows_kept P) (auto_delete H v)"
  unfolding auto_delete_def
  by (intro rkf.frame_keeps kept kept_delete_vm)

lemma kept_scan_vm:
  "(vm_lease_until v < t - hours (cfg_stale_delete_grace_hours (ho_cfg H)) \<Longrightarrow> P (vm_id v)) \<Longrightarrow>
   keeps (rows_kept P) (scan_vm H t v)"
  unfolding scan_vm_def Let_def
  by (intro rkf.frame_keeps kept keeps_splits kept_auto_delete) auto

section \<open>Properties\<close>

text \<open>C8: The lease scan deletes a VM's row only when its lease ran out longer ago than the delete
  grace, never invents a row, and never changes anything of a row that remains except its state,
  its address and the time it was last touched; in particular no scan moves a lease.\<close>

theorem scan_keeps_leased_vms:
  assumes ok: "db_ok (db s)"
  shows "case vms_find i (db (snd (scan H s))) of
      Some row' \<Rightarrow> \<exists>row. vms_find i (db s) = Some row \<and> core row' = core row
    | None \<Rightarrow> (case vms_find i (db s) of None \<Rightarrow> True
        | Some row \<Rightarrow> vm_lease_until row < now s - hours (cfg_stale_delete_grace_hours (ho_cfg H)))"
proof -
  obtain r s' where run: "scan H s = (r, s')" by (cases "scan H s")
  let ?t = "now s" and ?g = "hours (cfg_stale_delete_grace_hours (ho_cfg H))"
  let ?P = "\<lambda>i. \<exists>row \<in> set (t_vms (db s)). vm_id row = i \<and> vm_lease_until row < ?t - ?g"
  have "keeps (rows_kept ?P)
      (bindm (for_each (vms_of None (db s)) (scan_vm H ?t)) (\<lambda>_.
       bindm (expire_old_queue_entries 2) (\<lambda>_.
       bindm (prune_project_call_log (?t - hours (cfg_project_call_log_retention_hours (ho_cfg H)))) (\<lambda>_. ret ()))))"
    by (intro rkf.frame_keeps kept kept_scan_vm) (auto simp: vms_of_def)
  from keepsD [OF this] run have "rows_kept ?P s s'"
    by (simp add: scan_def bindm_def clock_def gets_def list_vms_def)
  then have kept: "case vms_find i (db s') of
      Some r' \<Rightarrow> \<exists>r. vms_find i (db s) = Some r \<and> core r' = core r
    | None \<Rightarrow> vms_find i (db s) = None \<or> ?P i"
    unfolding rows_kept_def by (rule spec)
  have "vm_lease_until row < ?t - ?g" if "?P i" "vms_find i (db s) = Some row" for row
  proof -
    from that(1) obtain r' where "r' \<in> set (t_vms (db s))" "vm_id r' = i" "vm_lease_until r' < ?t - ?g"
      by blast
    moreover from this ok have "vms_find i (db s) = Some r'"
      by (auto simp: db_ok_def vms_find_def rows_find_unique)
    ultimately show ?thesis using that(2) by simp
  qed
  with kept run show ?thesis
    by (cases "vms_find i (db s')"; cases "vms_find i (db s)") auto
qed

text \<open>A repository that made at least the threshold number of calls in the activity window is
  left alone: cleaning up one of its running VMs past the lease changes neither the tables nor the
  world outside, whatever state an earlier cleanup left.\<close>

theorem active_repo_untouched:
  assumes "calls_since (vm_project_id v) activity_since (db s) \<ge> cfg_inactive_call_threshold (ho_cfg H)"
  shows "cleanup_running_stale_vm H v t activity_since s = (Inr (), s)"
  using assms
  by (simp add: cleanup_running_stale_vm_def count_project_calls_since_def get_cleanup_action_def
      cleanup_decision_def bindm_def gets_def ret_def)


section \<open>Grace before force\<close>

text \<open>
  Every cleanup action carries a deadline one force window after the graceful request it records.
\<close>

definition grace_ok :: "cfg \<Rightarrow> tables \<Rightarrow> bool" where
  "grace_ok c d \<longleftrightarrow> (\<forall>a \<in> set (t_cleanup d).
     ca_force_after a = ca_graceful_requested_at a + minutes (cfg_stale_force_shutdown_after_minutes c))"

definition keeps_grace :: "cfg \<Rightarrow> 'w st \<Rightarrow> 'w st \<Rightarrow> bool" where
  "keeps_grace c s t \<longleftrightarrow> (grace_ok c (db s) \<longrightarrow> grace_ok c (db t))"

interpretation grf: frame "keeps_grace c" for c
  by unfold_locales (auto simp: keeps_grace_def)

named_theorems grace \<open>steps that keep the deadlines of cleanup actions\<close>

lemma grace_mod_db: "(\<And>d. set (t_cleanup (f d)) \<subseteq> set (t_cleanup d)) \<Longrightarrow> keeps (keeps_grace c) (mod_db f)"
  by (rule keepsI_wp) (force simp: wp_simps keeps_grace_def grace_ok_def)

lemma grace_in_world [grace]: "keeps (keeps_grace c) (in_world m)"
  by (simp add: keeps_def keeps_grace_def in_world_def split: prod.split)

lemma grace_clock [grace]: "keeps (keeps_grace c) clock" "keeps (keeps_grace c) uuid4_hex"
  by (rule keepsI_wp; simp add: wp_simps keeps_grace_def)+

lemma grace_upsert [grace]:
  "ca_force_after a = ca_graceful_requested_at a + minutes (cfg_stale_force_shutdown_after_minutes c) \<Longrightarrow>
   keeps (keeps_grace c) (upsert_cleanup_action a)"
  unfolding upsert_cleanup_action_def
  by (rule keepsI_wp)
    (auto simp: wp_simps keeps_grace_def grace_ok_def cleanup_put_def cleanup_update_def table_simps)

lemma grace_db [grace]:
  "keeps (keeps_grace c) (add_event l m p v)" "keeps (keeps_grace c) (add_project_notification q l m v d)"
  "keeps (keeps_grace c) (delete_cleanup_action k)" "keeps (keeps_grace c) (delete_vm k)"
  "keeps (keeps_grace c) (expire_old_queue_entries j)" "keeps (keeps_grace c) (prune_project_call_log u)"
  "keeps (keeps_grace c) (get_cleanup_action k)" "keeps (keeps_grace c) (count_project_calls_since q u)"
  "keeps (keeps_grace c) (list_vms x)" "keeps (keeps_grace c) (update_vm_state k y)"
  "keeps (keeps_grace c) (update_vm_ip k z)"
  unfolding add_event_def add_project_notification_def delete_cleanup_action_def delete_vm_def
    expire_old_queue_entries_def prune_project_call_log_def get_cleanup_action_def
    count_project_calls_since_def list_vms_def update_vm_state_def update_vm_ip_def update_vm_def Let_def
  by (intro grf.frame_keeps grace grace_mod_db keeps_splits;
      auto simp: cleanup_delete_def vms_update_def vms_delete_def table_simps)+

lemma grace_dev [grace]:
  "keeps (keeps_grace c) (dev_get_state H v)" "keeps (keeps_grace c) (dev_stop H v g)"
  "keeps (keeps_grace c) (dev_undefine H v)" "keeps (keeps_grace c) (exec_ssh h x d ip cmd t k y z)"
  unfolding dev_get_state_def dev_stop_def dev_undefine_def exec_ssh_def ssh_guard_def Let_def
  by (intro grf.frame_keeps grace keeps_splits)+

lemma grace_cleanup [grace]:
  "keeps (keeps_grace (ho_cfg H)) (collect_process_snapshot H v t)"
  "keeps (keeps_grace (ho_cfg H)) (request_graceful_shutdown H v t n)"
  unfolding collect_process_snapshot_def request_graceful_shutdown_def Let_def
  by (intro grf.frame_keeps grace keeps_splits; simp)+

lemma grace_force [grace]: "keeps (keeps_grace (ho_cfg H)) (force_shutdown H v t n)"
  unfolding force_shutdown_def Let_def
  by (intro grf.frame_keeps grace keeps_splits; simp)

lemma grace_scan_vm [grace]: "keeps (keeps_grace (ho_cfg H)) (scan_vm H t v)"
  unfolding scan_vm_def Let_def cleanup_running_stale_vm_def auto_delete_def
  by (intro grf.frame_keeps grace keeps_splits keeps_cleanup_step)

lemma grace_scan: "keeps (keeps_grace (ho_cfg H)) (scan H)"
  unfolding scan_def by (intro grf.frame_keeps grace)

lemma ForceShutdown_iff:
  "cleanup_decision c t n action = ForceShutdown \<longleftrightarrow>
   n < cfg_inactive_call_threshold c \<and> (\<exists>a. action = Some a \<and> ca_force_after a \<le> t)"
  by (auto simp: cleanup_decision_def split: option.splits)



section \<open>Leased and running VMs; the notice of a forced stop\<close>

text \<open>The scan does nothing but ask for the state of a VM whose lease still runs: the world
  outside is the one the question leaves, so it is neither stopped nor undefined nor its disk
  removed.\<close>

theorem leased_vm_only_probed:
  assumes "t \<le> vm_lease_until v"
  shows "world (snd (scan_vm H t v s)) = world (snd (dev_get_state H v s))"
proof (cases "dev_get_state H v s")
  case (Pair r s1)
  with assms show ?thesis
    by (cases r) (simp_all add: scan_vm_def bindm_def Let_def whenm_def update_vm_state_def update_vm_def
        delete_cleanup_action_def clock_def gets_def mod_db_def modify_def ret_def)
qed

text \<open>A VM that is seen running, paused or stopping is never deleted by the scan, however long ago
  its lease ran out.\<close>

theorem running_vm_not_deleted:
  assumes "dev_get_state H v s = (Inr live, s1)" "live \<in> {''running'', ''paused'', ''stopping''}"
    "vms_find i (db s) \<noteq> None"
  shows "vms_find i (db (snd (scan_vm H t v s))) \<noteq> None"
proof -
  let ?rest = "bindm (whenm (live \<noteq> ''unknown'' \<and> live \<noteq> vm_state v) (update_vm_state (vm_id v) live)) (\<lambda>_.
     if \<not> vm_lease_until v < t then delete_cleanup_action (vm_id v)
     else bindm (add_event ''WARN'' (lease_warning v) (Some (vm_project_id v)) (Some (vm_id v))) (\<lambda>_.
       cleanup_running_stale_vm H v t (t - minutes (cfg_inactive_call_window_minutes (ho_cfg H)))))"
  have "live \<noteq> ''unknown''" using assms(2) by auto
  with assms(1,2) have run: "scan_vm H t v s = ?rest s1"
    by (simp add: scan_vm_def Let_def bindm_run)
  have "keeps (rows_kept (\<lambda>_. False)) (dev_get_state H v)" by (rule kept)
  from keepsD [OF this assms(1)] have "rows_kept (\<lambda>_. False) s s1" .
  moreover have "keeps (rows_kept (\<lambda>_. False)) ?rest"
    by (intro rkf.frame_keeps kept keeps_splits)
  then have "rows_kept (\<lambda>_. False) s1 (snd (?rest s1))" by (simp add: keeps_def)
  ultimately have "rows_kept (\<lambda>_. False) s (snd (scan_vm H t v s))"
    unfolding run by (rule rows_kept_trans)
  with assms(3) show ?thesis
    by (auto simp: rows_kept_def split: option.splits)
qed

text \<open>C10: When forcing a VM off comes to an end, either its cleanup action stays with a new deadline
  one force window ahead, or the action is gone and the VM's project has a pending notification
  about this VM.\<close>

theorem forced_stop_is_notified:
  assumes "force_shutdown H v t n s = (Inr (), s')"
  shows "(\<exists>a. cleanup_find (vm_id v) (db s') = Some a \<and> ca_project_id a = vm_project_id v \<and>
        ca_force_after a = t + minutes (cfg_stale_force_shutdown_after_minutes (ho_cfg H))) \<or>
     (cleanup_find (vm_id v) (db s') = None \<and>
      (\<exists>m \<in> set (t_notes (db s')). n_project_id m = vm_project_id v \<and> n_vm_id m = Some (vm_id v) \<and>
         n_status m = ''pending'' \<and> n_level m = ''WARN''))"
proof -
  let ?Q = "\<lambda>d. (\<exists>a. cleanup_find (vm_id v) d = Some a \<and> ca_project_id a = vm_project_id v \<and>
        ca_force_after a = t + minutes (cfg_stale_force_shutdown_after_minutes (ho_cfg H))) \<or>
     (cleanup_find (vm_id v) d = None \<and>
      (\<exists>m \<in> set (t_notes d). n_project_id m = vm_project_id v \<and> n_vm_id m = Some (vm_id v) \<and>
         n_status m = ''pending'' \<and> n_level m = ''WARN''))"
  have up: "wp (upsert_cleanup_action a) (\<lambda>_ u. cleanup_find (ca_vm_id a) (db u) = Some a) (\<lambda>_ _. True) u" for a and u :: "'a st"
    by (auto simp: upsert_cleanup_action_def wp_simps cleanup_find_def cleanup_update_def cleanup_put_def
        rows_find_append rows_find_update rows_find_single table_simps split: option.splits)
      (auto simp: rows_find_def rows_update_def find_Some_iff)
  have ev: "wp (add_event l m p w) (\<lambda>_ x. t_cleanup (db x) = t_cleanup (db u) \<and> t_notes (db x) = t_notes (db u)) (\<lambda>_ _. True) u"
    for l m p w and u :: "'a st"
    by (simp add: add_event_def wp_simps Let_def)
  have retry: "wp (bindm (upsert_cleanup_action a) (\<lambda>_. add_event l m p w)) (\<lambda>_ u. ?Q (db u)) (\<lambda>_ _. True) u"
    if "ca_vm_id a = vm_id v" "ca_project_id a = vm_project_id v"
      "ca_force_after a = t + minutes (cfg_stale_force_shutdown_after_minutes (ho_cfg H))"
    for a l m p w and u :: "'a st"
    unfolding wp_bindm
    by (rule wp_mono [OF up]; (rule wp_mono [OF ev])?) (use that in \<open>auto simp: cleanup_find_def\<close>)
  have gone: "wp (bindm (update_vm_state (vm_id v) x) (\<lambda>_. bindm (delete_cleanup_action (vm_id v)) (\<lambda>_.
      bindm (add_event l m p w) (\<lambda>_. bindm (add_project_notification (vm_project_id v) ''WARN'' m' (Some (vm_id v)) dt)
        (\<lambda>_. ret ()))))) (\<lambda>_ u. ?Q (db u)) (\<lambda>_ _. True) u"
    for x l m p w m' dt and u :: "'a st"
    by (auto simp: update_vm_state_def update_vm_def delete_cleanup_action_def add_event_def
        add_project_notification_def wp_simps Let_def cleanup_find_def cleanup_delete_def table_simps vms_update_def)
  have "wp (force_shutdown H v t n) (\<lambda>_ u. ?Q (db u)) (\<lambda>_ _. True) s"
    unfolding force_shutdown_def Let_def
    by (intro wp_after wp_ifI retry gone) simp_all
  from wp_run [OF this assms] show ?thesis by simp
qed

section \<open>Witnesses\<close>

text \<open>A day and a minute after the lease of \<open>demo_vm\<close> ran out.\<close>

definition demo_late :: "demo st" where
  "demo_late = demo_state (hours 25 + minutes 1) demo_tables"

lemma scan_keeps_leased_vms_witness:
  "case vms_find ''vm_1'' (db (snd (scan demo_host demo_late))) of
      Some row' \<Rightarrow> \<exists>row. vms_find ''vm_1'' (db demo_late) = Some row \<and> core row' = core row
    | None \<Rightarrow> vm_lease_until demo_vm < now demo_late - hours 24"
proof -
  have ok: "db_ok (db demo_late)" by (simp add: demo_late_def demo_state_def demo_tables_ok)
  have "vms_find ''vm_1'' (db demo_late) = Some demo_vm" "cfg_stale_delete_grace_hours (ho_cfg demo_host) = 24"
    by (simp_all add: demo_late_def demo_state_def demo_tables_def empty_tables_def vms_find_def rows_find_def
        demo_vm_def demo_host_def default_cfg_def)
  with scan_keeps_leased_vms [OF ok, of demo_host "''vm_1''"] show ?thesis
    by (simp split: option.splits)
qed

lemma active_repo_untouched_witness:
  "cleanup_running_stale_vm (demo_host\<lparr>ho_cfg := default_cfg\<lparr>cfg_inactive_call_threshold := 0\<rparr>\<rparr>) demo_vm 0 0 demo_late
     = (Inr (), demo_late)"
  by (rule active_repo_untouched) (simp add: calls_since_def)


lemma leased_vm_only_probed_witness:
  "world (snd (scan_vm demo_host (minutes 5) demo_vm demo_late)) = world (snd (dev_get_state demo_host demo_vm demo_late))"
  by (rule leased_vm_only_probed) (simp add: demo_vm_def)

lemma demo_probe: "dev_get_state demo_host demo_vm demo_late = (Inr ''running'', demo_late)"
  by (simp add: dev_get_state_def in_world_def vm_get_state_def demo_eval demo_late_def pm_defs catch_class_def
      state_name_def)

lemma running_vm_not_deleted_witness:
  "vms_find ''vm_1'' (db (snd (scan_vm demo_host (hours 25 + minutes 1) demo_vm demo_late))) \<noteq> None"
  by (rule running_vm_not_deleted [OF demo_probe])
    (simp_all add: demo_late_def demo_state_def demo_tables_def empty_tables_def vms_find_def rows_find_def demo_vm_def)

lemma forced_stop_is_notified_witness:
  "\<exists>s'. force_shutdown demo_host (demo_vm\<lparr>vm_kind := ''android''\<rparr>) 0 0 demo_late = (Inr (), s') \<and>
     (\<exists>m \<in> set (t_notes (db s')). n_vm_id m = Some ''vm_1'' \<and> n_status m = ''pending'')"
proof -
  let ?v = "demo_vm\<lparr>vm_kind := ''android''\<rparr>"
  have off: "dev_get_state demo_host v s = (Inr ''stopped'', s)" "dev_stop demo_host v False s = (Inr (), s)"
    if "dm_procs (world s) = []" "vm_kind v = ''android''" for s v
    using that
    by (simp_all add: dev_get_state_def dev_stop_def in_world_def emu_get_state_def emu_stop_def pids_for_avd_def proc_cmdlines_def map_filter_simps
        demo_host_def demo_os_def pm_defs)
  have "fst (force_shutdown demo_host ?v 0 0 demo_late) = Inr () \<and>
      cleanup_find ''vm_1'' (db (snd (force_shutdown demo_host ?v 0 0 demo_late))) = None"
    by (simp add: force_shutdown_def Let_def collect_process_snapshot_def bindm_def catch_def ret_def off
        update_vm_state_def update_vm_def clock_def gets_def mod_db_def modify_def delete_cleanup_action_def
        add_event_def uuid4_hex_def guardm_def add_project_notification_def demo_late_def demo_state_def
        demo_tables_def empty_tables_def demo_empty_def demo_vm_def vms_update_def cleanup_delete_def
        cleanup_find_def rows_find_def rows_delete_def)
  then obtain s' where run: "force_shutdown demo_host ?v 0 0 demo_late = (Inr (), s')"
    and none: "cleanup_find ''vm_1'' (db s') = None"
    by (cases "force_shutdown demo_host ?v 0 0 demo_late") auto
  have "vm_id ?v = ''vm_1''" by (simp add: demo_vm_def)
  with forced_stop_is_notified [OF run] run none show ?thesis by auto
qed

end
