(* ===== verification/Frames.thy ===== *)
theory Frames
  imports Server Leases
begin

text \<open>
  What handlers can do to the daemon's state, once and for all: a relation that the world, the random
  stream, the task list and the database helpers respect is respected by every handler. The handlers that only
  look around need less of it. Invariants and
  frame properties of the daemon are instances.
\<close>

section \<open>The contract\<close>

locale probe_frame = frame R for R :: "'w st \<Rightarrow> 'w st \<Rightarrow> bool" +
  assumes step_world: "R s (s\<lparr>world := w\<rparr>)"
    and step_rnd: "R s (s\<lparr>rnd_next := n\<rparr>)"
    and ip_keeps: "keeps R (update_vm_ip k x)"
    and touch_keeps: "keeps R (touch_vm k)"
    and call_keeps: "keeps R (record_project_call p meth u)"
    and marked_keeps: "keeps R (mark_project_notifications_delivered ids)"
begin

lemma in_world_keeps: "keeps R (in_world m)"
  by (simp add: keeps_def in_world_def step_world split: prod.split)

lemma uuid_keeps: "keeps R uuid4_hex"
  by (simp add: keeps_def uuid4_hex_def step_rnd)

lemma clock_keeps: "keeps R clock"
  by (simp add: clock_def gets_keeps)

lemma read_keeps:
  "keeps R (get_vm v)" "keeps R (list_vms p)" "keeps R (get_vm_by_libvirt_name n)"
  "keeps R count_installing_vms" "keeps R list_pending_queue"
  "keeps R (list_pending_project_notifications p j)" "keeps R (list_events since level i)"
  unfolding get_vm_def list_vms_def get_vm_by_libvirt_name_def count_installing_vms_def
    list_pending_queue_def list_pending_project_notifications_def list_events_def
  by (intro frame_keeps keeps_splits)+

lemma catch_class_keeps: "keeps R m \<Longrightarrow> (\<And>e. keeps R (h e)) \<Longrightarrow> keeps R (catch_class c m h)"
  unfolding catch_class_def by (intro frame_keeps keeps_splits) simp_all

lemmas probes = in_world_keeps uuid_keeps clock_keeps read_keeps touch_keeps ip_keeps call_keeps marked_keeps

lemma probe_state_keeps: "keeps R (dev_get_state H v)"
  unfolding dev_get_state_def by (intro frame_keeps probes)

lemma ssh_guard_keeps: "keeps R m \<Longrightarrow> keeps R (ssh_guard a b m)"
  unfolding ssh_guard_def by (intro frame_keeps catch_class_keeps keeps_splits; simp)

lemma guest_keeps:
  "keeps R (exec_ssh h g d ip c t k x y)" "keeps R (pull_path h g d ip p j t k b)"
  "keeps R (install_ssh_public_key h g d ip pk t)" "keeps R (push_one g n prefix t f)"
  unfolding exec_ssh_def pull_path_def install_ssh_public_key_def push_one_def Let_def
  by (intro frame_keeps probes ssh_guard_keeps catch_class_keeps keeps_splits)+

lemma push_files_keeps: "keeps R (push_files h g d ip fs t k b)"
  unfolding push_files_def Let_def
  by (intro frame_keeps probes guest_keeps ssh_guard_keeps keeps_splits)

lemma owned_keeps: "keeps R (owned_vm a m params)"
  unfolding owned_vm_def by (intro frame_keeps probes keeps_splits)

lemma target_keeps: "keeps R (guest_target D a params)"
  unfolding guest_target_def Let_def
  by (intro frame_keeps probes owned_keeps keeps_splits)

lemmas looks = probes probe_state_keeps guest_keeps push_files_keeps owned_keeps target_keeps

subsection \<open>Handlers that look around\<close>

lemma runner_keeps: "keeps R (guest_runner D ip key cmd t)"
  unfolding guest_runner_def by (rule guest_keeps)

lemma gu_keeps: "(\<And>c t. keeps R (run c t)) \<Longrightarrow> keeps R (gu_sysinfo j run)"
  "(\<And>c t. keeps R (run c t)) \<Longrightarrow> keeps R (gu_services j run)"
  "(\<And>c t. keeps R (run c t)) \<Longrightarrow> keeps R (gu_logs j run n)"
  "(\<And>c t. keeps R (run c t)) \<Longrightarrow> keeps R (gu_packages run a nm)"
  unfolding gu_sysinfo_def gu_services_def gu_logs_def gu_packages_def gu_run_def Let_def
  by (intro frame_keeps keeps_splits; simp)+

lemma guest_handlers_keep:
  "keeps R (h_guest_sysinfo D params)" "keeps R (h_guest_services D params)"
  "keeps R (h_guest_logs D params)" "keeps R (h_guest_packages D params)"
  unfolding h_guest_sysinfo_def h_guest_services_def h_guest_logs_def h_guest_packages_def h_guest_def
  by (intro frame_keeps looks gu_keeps runner_keeps keeps_splits)+

lemma list_keeps: "keeps R (h_vm_list D params)"
  unfolding h_vm_list_def list_entry_def Let_def by (intro frame_keeps looks keeps_splits)

lemma get_keeps: "keeps R (vm_get D params)"
  unfolding vm_get_def Let_def by (intro frame_keeps looks keeps_splits)

lemma status_keeps:
  "keeps R (h_vm_get D params)" "keeps R (h_lab_status D params)" "keeps R (h_profile_list D params)"
  "keeps R (h_lab_list D params)" "keeps R (h_resource_status D params)" "keeps R (h_queue_status D params)"
  "keeps R (h_cleanup_plan D params)" "keeps R (h_event_poll D params)" "keeps R (h_android_list_images D params)"
  unfolding h_vm_get_def h_lab_status_def h_profile_list_def h_lab_list_def h_resource_status_def h_queue_status_def
    h_cleanup_plan_def h_event_poll_def h_android_list_images_def Let_def
  by (intro frame_keeps looks get_keeps keeps_splits)+

lemma scan_report_keeps: "keeps R (h_vm_scan D params)" "keeps R (h_image_list D params)" "keeps R (h_vm_serial_log D params)"
  unfolding h_vm_scan_def build_reconcile_report_def h_image_list_def h_vm_serial_log_def Let_def
  by (intro frame_keeps looks catch_class_keeps keeps_splits)+

subsection \<open>The wrapper and the connection\<close>

lemma notices_keep: "keeps R (take_notices p)" "keeps R (notice_error p e)" "keeps R (notice_result p r)"
  unfolding take_notices_def notice_error_def notice_result_def
  by (intro frame_keeps probes keeps_splits)+

lemma activity_keeps: "keeps R (h params) \<Longrightarrow> keeps R (with_project_activity m h params)"
  unfolding with_project_activity_def Let_def
  by (intro frame_keeps probes notices_keep keeps_splits)

lemma answer_keeps:
  assumes "\<And>m h params. (m, h) \<in> set hs \<Longrightarrow> keeps R (h params)" "answer hs msg = Some act"
  shows "keeps R act"
proof -
  have h: "keeps R (call_handler h v)" if "map_of hs m = Some h" for m h v
    using assms(1) [OF map_of_SomeD [OF that]] by (cases v) (simp_all add: call_handler_def raise_keeps)
  obtain d where d: "msg = PDict d" using assms(2) by (cases msg) (simp_all add: answer_def)
  show ?thesis
  proof (cases "\<exists>m h. dget d ''method'' = PStr m \<and> map_of hs m = Some h")
    case True
    then obtain m h where m: "dget d ''method'' = PStr m" "map_of hs m = Some h" by blast
    with assms(2) d show ?thesis
      by (auto simp: answer_def Let_def intro!: catch_keeps bindm_keeps ret_keeps h [OF m(2)])
  next
    case False
    then obtain r where "act = ret r"
      using assms(2) d by (cases "dget d ''method''") (auto simp: answer_def Let_def split: option.splits)
    then show ?thesis by (simp add: ret_keeps)
  qed
qed

lemma serve_loop_keeps:
  assumes h: "\<And>m h params. (m, h) \<in> set hs \<Longrightarrow> keeps R (h params)"
  shows "keeps R (serve_loop hs msgs)"
proof (induction msgs)
  case (Cons x msgs)
  show ?case
  proof (cases x)
    case (Message m)
    show ?thesis
    proof (cases "answer hs m")
      case (Some act)
      have "keeps R act" by (rule answer_keeps [OF _ Some]) (rule h)
      with Message Some Cons show ?thesis by (simp add: bindm_keeps ret_keeps)
    qed (simp add: Message ret_keeps)
  qed (simp_all add: ret_keeps)
qed (simp add: ret_keeps)

end

locale row_frame = probe_frame R for R :: "'w st \<Rightarrow> 'w st \<Rightarrow> bool" +
  assumes step_tasks: "R s (s\<lparr>tasks := ts\<rparr>)"
    and state_keeps: "keeps R (update_vm_state k x)"
    and lease_keeps: "keeps R (update_vm_lease k t)"
    and install_keeps: "keeps R (update_vm_install_state k y)"
    and insert_keeps: "keeps R (insert_vm v tags)"
    and project_keeps: "keeps R (upsert_project p path)"
    and event_keeps: "keeps R (add_event level msg q i)"
    and enqueue_keeps: "keeps R (enqueue pv request reason)"
begin

lemma spawn_keeps: "keeps R (spawn t)"
  by (simp add: keeps_def spawn_def modify_def step_tasks)

lemmas prims = probes spawn_keeps state_keeps lease_keeps install_keeps insert_keeps project_keeps event_keeps enqueue_keeps

lemma dev_keeps:
  "keeps R (dev_stop H v g)" "keeps R (dev_start H v)" "keeps R (dev_undefine H v)"
  unfolding dev_stop_def dev_start_def dev_undefine_def
  by (intro frame_keeps prims)+

lemmas base_keeps = prims dev_keeps looks

lemma admission_keeps: "keeps R (check_admission c lv m p cpu ram disk)"
  unfolding check_admission_def by (intro frame_keeps prims keeps_splits)


section \<open>Handlers of existing machines\<close>

lemma address_keeps: "keeps R (address_after D v n w k)" "keeps R (poll_ip D v n)"
  unfolding address_after_def poll_ip_def by (intro frame_keeps prims keeps_splits)+

lemma after_start_keeps: "keeps R (after_start D params v w)"
  unfolding after_start_def by (intro frame_keeps prims address_keeps keeps_splits)

lemmas vm_keeps = base_keeps address_keeps after_start_keeps admission_keeps

lemma lifecycle_keeps:
  "keeps R (h_vm_start D params)" "keeps R (h_vm_stop D params)" "keeps R (h_vm_restart D params)"
  "keeps R (h_vm_extend_lease D params)" "keeps R (h_vm_snapshot D params)"
  unfolding h_vm_start_def h_vm_stop_def h_vm_restart_def h_vm_extend_lease_def h_vm_snapshot_def Let_def
  by (intro frame_keeps vm_keeps keeps_splits)+

lemma ssh_access_keeps: "keeps R (h_vm_ssh_access D params)"
  unfolding h_vm_ssh_access_def Let_def by (intro frame_keeps vm_keeps keeps_splits)

lemma exec_keeps:
  "keeps R (h_vm_exec D params)" "keeps R (h_vm_push_files D params)" "keeps R (h_vm_pull D params)"
  unfolding h_vm_exec_def h_vm_push_files_def h_vm_pull_def Let_def
  by (intro frame_keeps vm_keeps keeps_splits)+

lemma console_keeps:
  "keeps R (h_vm_screenshot D params)" "keeps R (h_vm_input D params)" "keeps R (h_vm_serial_log D params)"
  "keeps R (h_android_adb D params)"
  unfolding h_vm_screenshot_def h_vm_input_def h_vm_serial_log_def h_android_adb_def Let_def
  by (intro frame_keeps vm_keeps keeps_splits)+

lemma image_keeps:
  "keeps R (h_image_preflight D params)" "keeps R (h_image_list D params)" "keeps R (h_image_prewarm D params)"
  "keeps R (h_image_refresh D params)" "keeps R (h_image_prune D params)"
  unfolding h_image_preflight_def h_image_list_def h_image_prewarm_def h_image_refresh_def h_image_prune_def
    admin_only_def Let_def
  by (intro frame_keeps vm_keeps keeps_splits)+

lemma inventory_keeps:
  "keeps R (h_vm_scan D params)" "keeps R (h_vm_import D params)" "keeps R (h_vm_adopt D params)"
  unfolding h_vm_scan_def build_reconcile_report_def h_vm_import_def h_vm_adopt_def domain_xml_of_def domain_disk_gb_def
    make_vm_id_def Let_def
  by (intro frame_keeps vm_keeps catch_class_keeps keeps_splits)+

section \<open>Handlers that create machines\<close>

lemma make_id_keeps: "keeps R make_vm_id"
  unfolding make_vm_id_def by (intro frame_keeps prims)

lemma or_drop_keeps: "keeps R (or_drop_storage D p v m)"
  unfolding or_drop_storage_def by (intro frame_keeps prims)

lemma create_keeps: "keeps R (create_vm D r a b w)" "keeps R (create_installer_vm D r x)"
  unfolding create_vm_def create_installer_vm_def Let_def
  by (intro frame_keeps vm_keeps make_id_keeps or_drop_keeps keeps_splits)+

lemma queued_keeps: "keeps R (queued_reply D c q r n b e)"
  unfolding queued_reply_def enqueue_request_def by (intro frame_keeps vm_keeps keeps_splits)

lemma poll_keeps: "keeps R (poll_ssh_rounds D ip cmd t n)"
  by (induction n) (auto intro!: frame_keeps vm_keeps keeps_splits)

lemma wait_keeps: "keeps R (wait_for_conditions D v cs cmd t)"
  unfolding wait_for_conditions_def wait_condition_def poll_ssh_def
  by (intro frame_keeps vm_keeps poll_keeps keeps_splits)

lemma request_keeps: "keeps R (vm_request D params)"
  unfolding vm_request_def Let_def
  by (intro frame_keeps vm_keeps create_keeps queued_keeps wait_keeps keeps_splits)

lemma request_handlers_keep: "keeps R (h_vm_request D params)" "keeps R (h_lab_request D params)"
  unfolding h_vm_request_def h_lab_request_def by (intro frame_keeps request_keeps keeps_splits)+

lemma android_keeps: "keeps R (h_android_request D params)"
  unfolding h_android_request_def create_device_def android_reason_def Let_def
  by (intro frame_keeps vm_keeps make_id_keeps queued_keeps keeps_splits)

lemma source_keeps: "keeps R (local_source D params)" "keeps R (catalog_source D params)"
  "keeps R (installer_reason D p x)"
  unfolding local_source_def catalog_source_def installer_reason_def Let_def
  by (intro frame_keeps vm_keeps keeps_splits)+

text \<open>A handler that waits for an installation lets the other coroutines run.\<close>

lemma install_rounds_keeps: "keeps R (da_others D) \<Longrightarrow> keeps R (install_rounds D v n)"
  by (induction n) (auto intro!: frame_keeps prims keeps_splits)

lemma note_keeps: "(w > 0 \<Longrightarrow> keeps R (da_others D)) \<Longrightarrow> keeps R (install_note D b w v)"
  unfolding install_note_def wait_for_install_def Let_def
  by (intro frame_keeps prims install_rounds_keeps keeps_splits)

lemma installer_keeps: "keeps R (da_others D) \<Longrightarrow> keeps R (h_vm_request_installer D params)"
  unfolding h_vm_request_installer_def Let_def
  by (intro frame_keeps vm_keeps create_keeps queued_keeps source_keeps note_keeps keeps_splits)

lemma promotion_keeps:
  assumes "keeps R (da_others D)"
  shows "keeps R (create_vm_from_request D request)"
  unfolding create_vm_from_request_def Let_def
  by (intro frame_keeps installer_keeps android_keeps request_handlers_keep assms keeps_splits)

end

end
