(* ===== verification/System.thy ===== *)
theory System
  imports Frames
begin

text \<open>
  The daemon as a whole: its entry points (requests on the two sockets, the lease scan, the pass over the
  queue, the tasks that handlers leave behind) as a step relation on the daemon's state, and what holds in
  every state it reaches.
\<close>

section \<open>Handlers by name\<close>

context row_frame
begin

lemma service_keeps:
  "keeps R (da_others D) \<Longrightarrow> (m, h) \<in> set (service_handlers D) \<Longrightarrow> keeps R (h params)"
proof -
  assume "keeps R (da_others D)"
  then have "list_all (\<lambda>(m, h). keeps R (h params)) (service_handlers D)"
    by (simp add: service_handlers_def installer_keeps request_handlers_keep list_keeps status_keeps image_keeps
        android_keeps inventory_keeps)
  then show "(m, h) \<in> set (service_handlers D) \<Longrightarrow> keeps R (h params)" by (auto simp: list_all_iff)
qed

lemma vm_handlers_keep:
  "(m, h) \<in> set (vm_handlers D) \<Longrightarrow> m \<notin> {''vm.delete'', ''vm.purge_ghost''} \<Longrightarrow> keeps R (h params)"
proof -
  have "list_all (\<lambda>(m, h). m \<notin> {''vm.delete'', ''vm.purge_ghost''} \<longrightarrow> keeps R (h params)) (vm_handlers D)"
    by (simp add: vm_handlers_def lifecycle_keeps ssh_access_keeps exec_keeps console_keeps guest_handlers_keep)
  then show "(m, h) \<in> set (vm_handlers D) \<Longrightarrow> m \<notin> {''vm.delete'', ''vm.purge_ghost''} \<Longrightarrow> keeps R (h params)"
    by (auto simp: list_all_iff)
qed

text \<open>A promoted request does not wait for an installation.\<close>

lemma bindm_liftr_Inr: "bindm (liftr (Inr x)) f = f x"
  by (simp add: bindm_def liftr_def)

lemma promotion_keeps_nowait: "keeps R (create_vm_from_request D request)"
proof -
  have "keeps R (h_vm_request_installer D params)" if "int_or_param params ''wait_install_seconds'' 0 = Inr 0" for params
    unfolding h_vm_request_installer_def Let_def that bindm_liftr_Inr
    by (intro frame_keeps vm_keeps create_keeps queued_keeps source_keeps note_keeps keeps_splits) simp_all
  moreover have "int_or_param (AList.update ''wait_install_seconds'' (PInt 0) d) ''wait_install_seconds'' 0 = Inr 0" for d
    by (simp add: int_or_param_def dget_or_def update_conv' py_or_def)
  ultimately show ?thesis
    unfolding create_vm_from_request_def Let_def
    by (intro frame_keeps android_keeps request_handlers_keep keeps_splits) simp_all
qed

lemma watch_rounds_keeps: "keeps R (da_others D) \<Longrightarrow> keeps R (watch_rounds D name n)"
  by (induction n) (auto intro!: frame_keeps prims keeps_splits)

lemma keeps_task: "(\<And>v n. t = PollIp v n \<Longrightarrow> keeps R (f v n)) \<Longrightarrow> (\<And>v n. t = WatchInstall v n \<Longrightarrow> keeps R (g v n)) \<Longrightarrow>
    keeps R (case t of PollIp v n \<Rightarrow> f v n | WatchInstall v n \<Rightarrow> g v n)"
  by (cases t) simp_all

lemma task_keeps: "keeps R (da_others D) \<Longrightarrow> keeps R (run_task D t)"
  unfolding run_task_def watch_install_def finish_install_def
  by (intro frame_keeps vm_keeps watch_rounds_keeps keeps_task keeps_splits)

end

locale delete_frame = row_frame R for R :: "'w st \<Rightarrow> 'w st \<Rightarrow> bool" +
  assumes delete_keeps: "keeps R (delete_vm k)"
    and purge_keeps: "keeps R (purge_ghost_record k)"
begin

lemma deleting_handlers_keep: "keeps R (h_vm_delete D params)" "keeps R (h_vm_purge_ghost D params)"
  unfolding h_vm_delete_def h_vm_purge_ghost_def Let_def
  by (intro frame_keeps vm_keeps delete_keeps purge_keeps keeps_splits)+

lemma handler_keeps:
  "keeps R (da_others D) \<Longrightarrow> (m, h) \<in> set (service_handlers D @ vm_handlers D) \<Longrightarrow> keeps R (h params)"
proof -
  have "list_all (\<lambda>(m, h). keeps R (h params)) (vm_handlers D)"
    by (simp add: vm_handlers_def lifecycle_keeps ssh_access_keeps exec_keeps console_keeps guest_handlers_keep
        deleting_handlers_keep)
  then show "keeps R (da_others D) \<Longrightarrow> (m, h) \<in> set (service_handlers D @ vm_handlers D) \<Longrightarrow> keeps R (h params)"
    using service_keeps [of D m h params] by (auto simp: list_all_iff)
qed

lemma registered_keeps:
  assumes "keeps R (da_others D)" "(m, h) \<in> set (registered D)"
  shows "keeps R (h params)"
proof -
  from assms(2) obtain g where g: "(m, g) \<in> set (service_handlers D @ vm_handlers D)" "h = with_project_activity m g"
    by (auto simp: registered_def)
  show ?thesis unfolding g(2) by (rule activity_keeps) (rule handler_keeps [OF assms(1) g(1)])
qed

lemma connection_keeps: "keeps R (da_others D) \<Longrightarrow> keeps R (handle_connection D msgs)"
  unfolding handle_connection_def by (intro serve_loop_keeps registered_keeps) assumption+

lemma notify_keeps: "keeps R (handle_notify_connection D msgs)"
  unfolding handle_notify_connection_def
  by (intro serve_loop_keeps) (auto simp: notify_registered_def intro: status_keeps)

end

section \<open>The background work\<close>

text \<open>The scheduler's pass with the daemon's own admission and creation.\<close>

definition queue_pass :: "'w daemon \<Rightarrow> ('w st, unit) pm" where
  "queue_pass D = process_queue (check_admission (da_cfg D) (da_lv D) (ho_machine (da_host D))) (create_vm_from_request D)"

locale daemon_frame = delete_frame R for R :: "'w st \<Rightarrow> 'w st \<Rightarrow> bool" +
  assumes status_keeps': "keeps R (update_queue_status i x)"
    and expire_keeps: "keeps R (expire_old_queue_entries n)"
    and prune_keeps: "keeps R (prune_project_call_log t)"
    and note_keeps': "keeps R (add_project_notification p l msg v d)"
    and cleanup_put_keeps: "keeps R (upsert_cleanup_action a)"
    and cleanup_delete_keeps: "keeps R (delete_cleanup_action k)"
begin

lemma cleanup_reads: "keeps R (get_cleanup_action k)" "keeps R (count_project_calls_since q t)"
  unfolding get_cleanup_action_def count_project_calls_since_def by (intro frame_keeps)+

lemmas lease_keeps' = vm_keeps cleanup_reads expire_keeps prune_keeps note_keeps' cleanup_put_keeps cleanup_delete_keeps
  delete_keeps

lemma snapshot_keeps: "keeps R (collect_process_snapshot H v t)"
  unfolding collect_process_snapshot_def Let_def by (intro frame_keeps lease_keeps' keeps_splits)

lemma stops_keep: "keeps R (request_graceful_shutdown H v t u)" "keeps R (force_shutdown H v t u)"
  unfolding request_graceful_shutdown_def force_shutdown_def Let_def
  by (intro frame_keeps lease_keeps' snapshot_keeps keeps_splits)+

lemma scan_vm_keeps: "keeps R (scan_vm H t v)"
  unfolding scan_vm_def cleanup_running_stale_vm_def auto_delete_def Let_def
  by (intro frame_keeps lease_keeps' stops_keep keeps_cleanup_step keeps_splits)

lemma scan_keeps: "keeps R (scan H)"
  unfolding scan_def by (intro frame_keeps lease_keeps' scan_vm_keeps)

lemma queue_pass_keeps: "keeps R (queue_pass D)"
  unfolding queue_pass_def process_queue_def process_entry_def Let_def
  by (intro frame_keeps lease_keeps' promotion_keeps_nowait status_keeps' keeps_splits)

end

section \<open>The schema's constraints\<close>

interpretation okd: daemon_frame ok_step
  by unfold_locales (auto simp: ok_step_def intro: ok_keeps)

section \<open>Tables a step leaves alone\<close>

definition same_part :: "(tables \<Rightarrow> 'x) \<Rightarrow> 'w st \<Rightarrow> 'w st \<Rightarrow> bool" where
  "same_part f s t \<longleftrightarrow> f (db t) = f (db s)"

interpretation spf: frame "same_part f" for f
  by unfold_locales (simp_all add: same_part_def)

lemma part_mod_db: "(\<And>d. f (g d) = f d) \<Longrightarrow> keeps (same_part f) (mod_db g)"
  by (simp add: keeps_def same_part_def mod_db_def modify_def)

lemma part_clock: "keeps (same_part f) clock" "keeps (same_part f) uuid4_hex" "keeps (same_part f) (in_world m)"
  by (simp_all add: keeps_def same_part_def clock_def gets_def uuid4_hex_def in_world_def split: prod.split)

lemma vms_untouched:
  "keeps (same_part t_vms) (upsert_project p path)" "keeps (same_part t_vms) (add_event l m q i)"
  "keeps (same_part t_vms) (enqueue pv r reason)" "keeps (same_part t_vms) (record_project_call p me u)"
  "keeps (same_part t_vms) (mark_project_notifications_delivered ids)"
  unfolding upsert_project_def add_event_def enqueue_def record_project_call_def
    mark_project_notifications_delivered_def Let_def
  by (intro spf.frame_keeps part_clock part_mod_db keeps_splits; simp add: queue_put_def)+

lemma queue_untouched:
  "keeps (same_part t_queue) (update_vm k g)" "keeps (same_part t_queue) (insert_vm v tags)"
  "keeps (same_part t_queue) (upsert_project p path)" "keeps (same_part t_queue) (add_event l m q i)"
  "keeps (same_part t_queue) (record_project_call p me u)"
  "keeps (same_part t_queue) (mark_project_notifications_delivered ids)"
  unfolding update_vm_def insert_vm_def upsert_project_def add_event_def record_project_call_def
    mark_project_notifications_delivered_def Let_def
  by (intro spf.frame_keeps part_clock part_mod_db keeps_splits;
      simp add: vms_update_def vms_put_def insert_tag_def)+

lemma keeps_mono: "keeps R m \<Longrightarrow> (\<And>s t. R s t \<Longrightarrow> Q s t) \<Longrightarrow> keeps Q m"
  by (simp add: keeps_def)

section \<open>Rows that stay\<close>

text \<open>A row disappears only when its id satisfies \<open>P\<close>.\<close>

definition rows_stay :: "(string \<Rightarrow> bool) \<Rightarrow> 'w st \<Rightarrow> 'w st \<Rightarrow> bool" where
  "rows_stay P s t \<longleftrightarrow> (\<forall>i. \<not> P i \<longrightarrow> vms_find i (db s) \<noteq> None \<longrightarrow> vms_find i (db t) \<noteq> None)"

lemma rows_stay_same: "same_part t_vms s t \<Longrightarrow> rows_stay P s t"
  by (simp add: same_part_def rows_stay_def vms_find_def)

lemma stay_update: "(\<And>r. vm_id (f r) = vm_id r) \<Longrightarrow> keeps (rows_stay P) (update_vm k f)"
  by (rule keepsI_wp) (simp add: update_vm_def wp_simps rows_stay_def vmt.find_update)

interpretation rsb: frame "rows_stay P" for P
  by unfold_locales (auto simp: rows_stay_def)

lemma stay_insert: "keeps (rows_stay P) (insert_vm v tags)"
proof -
  have put: "keeps (rows_stay P) (mod_db (vms_put x))" for x
    by (simp add: keeps_def rows_stay_def mod_db_def modify_def vmt.find_put split: option.split)
  have tag: "keeps (rows_stay P) (mod_db (insert_tag i k x))" for i k x
    by (simp add: keeps_def rows_stay_def mod_db_def modify_def vms_find_def)
  show ?thesis
    unfolding insert_vm_def by (intro rsb.frame_keeps put tag keeps_splits)
qed

lemma stay_delete: "P k \<Longrightarrow> keeps (rows_stay P) (delete_vm k)" "P k \<Longrightarrow> keeps (rows_stay P) (purge_ghost_record k)"
  by (auto simp: keeps_def delete_vm_def purge_ghost_record_def mod_db_def modify_def rows_stay_def vmt.find_delete)

lemma stay_same_vms: "keeps (same_part t_vms) m \<Longrightarrow> keeps (rows_stay P) m"
  by (erule keeps_mono) (rule rows_stay_same)

lemmas stay_others = vms_untouched [THEN stay_same_vms]

lemmas update_ops = update_vm_state_def update_vm_ip_def update_vm_lease_def update_vm_install_state_def touch_vm_def

interpretation rsf: row_frame "rows_stay P" for P
  by unfold_locales (simp_all add: rows_stay_same same_part_def update_ops stay_update stay_insert stay_others)

section \<open>The queue only grows\<close>

lemma grows_same: "same_part t_queue s t \<Longrightarrow> queue_grows s t"
  by (simp add: same_part_def queue_grows_def)

lemma grows_enqueue: "keeps queue_grows (enqueue pv r reason)"
proof -
  have put: "keeps queue_grows (mod_db (queue_put q))" for q
    by (simp add: keeps_def queue_grows_def mod_db_def modify_def queue_put_def)
  have "keeps queue_grows clock" "keeps queue_grows uuid4_hex"
    by (rule keeps_mono [OF part_clock(1)] keeps_mono [OF part_clock(2)], erule grows_same)+
  then show ?thesis
    unfolding enqueue_def Let_def by (intro qgf.frame_keeps put keeps_splits)
qed

lemma grows_same_queue: "keeps (same_part t_queue) m \<Longrightarrow> keeps queue_grows m"
  by (erule keeps_mono) (rule grows_same)

lemmas grows_others = queue_untouched [THEN grows_same_queue]

interpretation qgd: row_frame queue_grows
  by unfold_locales (simp_all add: grows_same same_part_def update_ops grows_others grows_enqueue)

section \<open>The daemon's steps\<close>

text \<open>
  Between two steps the clock goes on and the world changes as it likes. A task runs when the event loop
  chooses it.
\<close>

inductive daemon_step :: "'w daemon \<Rightarrow> 'w st \<Rightarrow> 'w st \<Rightarrow> bool" for D where
  connection: "daemon_step D s (snd (handle_connection D msgs s))"
| notify: "daemon_step D s (snd (handle_notify_connection D msgs s))"
| lease_scan: "daemon_step D s (snd (scan (da_host D) s))"
| queue: "daemon_step D s (snd (queue_pass D s))"
| task: "t \<in> set (tasks s) \<Longrightarrow> daemon_step D s (snd (run_task D t (s\<lparr>tasks := remove1 t (tasks s)\<rparr>)))"
| tick: "now s \<le> u \<Longrightarrow> daemon_step D s (s\<lparr>now := u\<rparr>)"
| outside: "daemon_step D s (s\<lparr>world := w\<rparr>)"

inductive reachable :: "'w daemon \<Rightarrow> 'w st \<Rightarrow> 'w st \<Rightarrow> bool" for D where
  start: "reachable D s s"
| more: "reachable D s t \<Longrightarrow> daemon_step D t u \<Longrightarrow> reachable D s u"

inductive_cases daemon_stepE: "daemon_step D s t"

context daemon_frame
begin

lemma step_keeps:
  assumes "daemon_step D s t" "keeps R (da_others D)" "\<And>s u. R s (s\<lparr>now := u\<rparr>)"
  shows "R s t"
  using assms(1)
proof cases
  case (task x)
  have "keeps R (run_task D x)" by (rule task_keeps [OF assms(2)])
  then have "R (s\<lparr>tasks := remove1 x (tasks s)\<rparr>) t" by (simp add: task keeps_def)
  then show ?thesis by (rule frame_trans [OF step_tasks])
qed (use assms connection_keeps [OF assms(2)] notify_keeps scan_keeps queue_pass_keeps step_world in
    \<open>simp_all add: keeps_def\<close>)

lemma reachable_keeps:
  "reachable D s t \<Longrightarrow> keeps R (da_others D) \<Longrightarrow> (\<And>s u. R s (s\<lparr>now := u\<rparr>)) \<Longrightarrow> R s t"
proof (induction rule: reachable.induct)
  case (more s t u)
  from more(3) [OF more(4,5)] step_keeps [OF more(2,4,5)] show ?case by (rule frame_trans)
qed (rule frame_refl)

end

section \<open>Properties\<close>

text \<open>The database stays consistent: in every state the daemon reaches from a consistent one (requests of
  any content on both sockets, lease scans, queue passes, background tasks, in any order, whatever the
  libraries answer or raise), ids, libvirt names and project paths are unique and every VM, tag and
  cleanup action refers to a row that exists. What other coroutines do while a handler sleeps is assumed
  to keep the constraints as well; each of their steps does so by this theorem.\<close>

theorem constraints_always_hold:
  assumes "reachable D s0 s" "db_ok (db s0)" "keeps ok_step (da_others D)"
  shows "db_ok (db s)"
  using okd.reachable_keeps [OF assms(1,3)] assms(2) by (simp add: ok_step_def)

lemma pass_settles:
  assumes "settled i (db s)"
  shows "settled i (db (snd (queue_pass D s)))"
proof -
  let ?admit = "check_admission (da_cfg D) (da_lv D) (ho_machine (da_host D))"
  have found: "queue_find (q_id q) (db s) \<noteq> None" if "q \<in> set (pending_queue (db s))" for q
  proof -
    from that have "q_id q \<in> q_id ` set (t_queue (db s))" by (auto simp: set_pending_queue)
    then show ?thesis by (simp add: queue_find_def rows_find_None)
  qed
  have "wp (for_each (pending_queue (db s)) (process_entry ?admit (create_vm_from_request D)))
      (\<lambda>_ t. settled i (db t)) (\<lambda>_ t. settled i (db t)) s"
    by (rule process_entries_settle [OF same_db_check_admission qgd.promotion_keeps_nowait])
      (use found assms in auto)
  then show ?thesis
    by (simp add: queue_pass_def process_queue_def list_pending_queue_def wp_snd [symmetric] wp_bindm wp_gets
        flip: wp_snd [where P = "\<lambda>t. settled i (db t)"])
qed

text \<open>A pass over the queue leaves no request in limbo: an entry that was pending, done or expired is one of
  these afterwards, never stuck in processing, however promotions fail and whatever they append to the
  queue themselves.\<close>

theorem queue_pass_settles:
  assumes "settled i (db s)"
  shows "settled i (db (snd (queue_pass D s)))"
  using assms by (rule pass_settles)

section \<open>A daemon to run\<close>

definition demo_daemon :: "demo daemon" where
  "demo_daemon = \<lparr>da_host = demo_host, da_images = demo_images, da_android = [], da_agent = None,
     da_uri = ''qemu:///system'', da_yaml = py_str, da_json = py_str, da_fromiso = \<lambda>_. Inr 0, da_others = ret ()\<rparr>"

lemma constraints_always_hold_witness:
  "db_ok (db (snd (handle_connection demo_daemon
     [Message (PDict [(''id'', PInt 1), (''method'', PStr ''vm.delete''), (''params'', PDict [(''vm_id'', PStr ''vm_1'')])])]
     (demo_state 0 demo_tables))))"
  by (rule constraints_always_hold [OF reachable.more [OF reachable.start daemon_step.connection]])
    (simp_all add: demo_state_def demo_tables_ok demo_daemon_def okf.ret_keeps)

lemma queue_pass_settles_witness:
  "settled ''b'' (db (snd (queue_pass demo_daemon (demo_state 0 demo_queue))))"
  by (rule queue_pass_settles)
    (simp add: settled_def demo_state_def demo_queue_def queue_find_def rows_find_def demo_entry_def)

end
