(* ===== verification/Isolation.thy ===== *)
theory Isolation
  imports System
begin

text \<open>
  Who may touch what, over the whole table of methods: a caller who does not own the VM that a request
  names changes nothing, and rows of VMs disappear only for their owners. Then the wrapper around every
  handler: notices reach a project once.
\<close>

section \<open>Refusals\<close>

definition refuses :: "('s, 'a) pm \<Rightarrow> 's \<Rightarrow> bool" where
  "refuses m s \<longleftrightarrow> (\<exists>e. m s = (Inl e, s))"

lemma refuses_bind: "refuses m s \<Longrightarrow> refuses (bindm m f) s"
  by (auto simp: refuses_def bindm_def)

lemma refuses_liftr: "(\<And>x. r = Inr x \<Longrightarrow> refuses (f x) s) \<Longrightarrow> refuses (bindm (liftr r) f) s"
  by (cases r) (auto simp: refuses_def bindm_def liftr_def)

lemma refuses_guard: "(\<not> b \<Longrightarrow> refuses (f ()) s) \<Longrightarrow> refuses (bindm (guardm b e) f) s"
  by (auto simp: refuses_def bindm_def guardm_def raise_def ret_def)

lemma refuses_if: "(b \<Longrightarrow> refuses m s) \<Longrightarrow> (\<not> b \<Longrightarrow> refuses n s) \<Longrightarrow> refuses (if b then m else n) s"
  by simp

lemma refuses_prod: "(\<And>a b. p = (a, b) \<Longrightarrow> refuses (f a b) s) \<Longrightarrow> refuses (case p of (a, b) \<Rightarrow> f a b) s"
  by (cases p) simp

text \<open>The row a request names, and whether its caller may act on it.\<close>

definition named_row :: "pydict \<Rightarrow> tables \<Rightarrow> vm option" where
  "named_row params d = (case bind_text (dget params ''vm_id'') of
       Inr (Some i) \<Rightarrow> vms_find i d
     | _ \<Rightarrow> None)"

definition foreign_request :: "pydict \<Rightarrow> tables \<Rightarrow> bool" where
  "foreign_request params d \<longleftrightarrow>
     (case named_row params d of None \<Rightarrow> True | Some r \<Rightarrow> \<not> owns (caller_from_params params) r)"

lemma owns_from_row [simp]: "owns c (vm_from_row d r) = owns c r"
  by (simp add: owns_def)

lemma get_vm_run: "get_vm (dget params ''vm_id'') s = (Inr x, t) \<Longrightarrow>
    t = s \<and> x = map_option (vm_from_row (db s)) (named_row params (db s))"
  by (auto simp: get_vm_def named_row_def bindm_def liftr_def gets_def split: sum.splits option.splits)

lemma get_vm_same: "snd (get_vm v s) = s"
  by (auto simp: get_vm_def bindm_def liftr_def gets_def split: sum.splits)

lemma refuses_check:
  assumes "a \<in> set OWNERSHIP_REQUIRED_ACTIONS" "foreign_request params (db s)"
  shows "refuses (bindm (get_vm (dget params ''vm_id'')) (\<lambda>v.
     bindm (liftr (check_action a (caller_from_params params) v)) (f v))) s"
proof (cases "get_vm (dget params ''vm_id'') s")
  case (Pair r t)
  show ?thesis
  proof (cases r)
    case (Inl e)
    with Pair get_vm_same [of "dget params ''vm_id''" s] show ?thesis by (auto simp: refuses_def bindm_def)
  next
    case (Inr x)
    with Pair have "t = s" and x: "x = map_option (vm_from_row (db s)) (named_row params (db s))"
      using get_vm_run by blast+
    have "check_action a (caller_from_params params) x \<noteq> Inr u" for u
      using assms x by (auto simp: check_action_Inr foreign_request_def split: option.splits)
    then obtain e where "check_action a (caller_from_params params) x = Inl e"
      by (cases "check_action a (caller_from_params params) x") auto
    with Pair Inr \<open>t = s\<close> show ?thesis by (auto simp: refuses_def bindm_def liftr_def)
  qed
qed

lemma refuses_found_check:
  assumes "foreign_request params (db s)" "a \<in> set OWNERSHIP_REQUIRED_ACTIONS"
  shows "refuses (bindm (get_vm (dget params ''vm_id'')) (\<lambda>found. bindm (liftr (need_some e found)) (\<lambda>v.
     bindm (liftr (check_action a (caller_from_params params) (Some v))) (f v)))) s"
proof (cases "get_vm (dget params ''vm_id'') s")
  case (Pair r t)
  show ?thesis
  proof (cases r)
    case (Inl e)
    with Pair get_vm_same [of "dget params ''vm_id''" s] show ?thesis by (auto simp: refuses_def bindm_def)
  next
    case (Inr x)
    with Pair have t: "t = s" and x: "x = map_option (vm_from_row (db s)) (named_row params (db s))"
      using get_vm_run by blast+
    have "check_action a (caller_from_params params) (Some v) \<noteq> Inr u" if "x = Some v" for v u
      using assms x that by (auto simp: check_action_Inr foreign_request_def split: option.splits)
    then have "refuses (bindm (liftr (need_some e x)) (\<lambda>v.
        bindm (liftr (check_action a (caller_from_params params) (Some v))) (f v))) s"
      by (intro refuses_liftr) (auto simp: need_some_Inr)
    with Pair Inr t show ?thesis by (simp add: refuses_def bindm_def)
  qed
qed

lemma refuses_owned:
  "a \<in> set OWNERSHIP_REQUIRED_ACTIONS \<Longrightarrow> foreign_request params (db s) \<Longrightarrow> refuses (owned_vm a msg params) s"
  unfolding owned_vm_def by (intro refuses_guard refuses_check)

lemma refuses_target:
  "a \<in> set OWNERSHIP_REQUIRED_ACTIONS \<Longrightarrow> foreign_request params (db s) \<Longrightarrow> refuses (guest_target D a params) s"
  unfolding guest_target_def by (intro refuses_bind refuses_owned)

lemmas refusal = refuses_bind [OF refuses_owned] refuses_bind [OF refuses_target] refuses_liftr refuses_guard

lemma refuses_handlers:
  assumes "foreign_request params (db s)"
  shows "list_all (\<lambda>(m, h). refuses (h params) s) (vm_handlers D)"
proof -
  note o = assms
  have lc: "refuses (h_vm_start D params) s" "refuses (h_vm_stop D params) s" "refuses (h_vm_restart D params) s"
    "refuses (h_vm_ssh_access D params) s" "refuses (h_vm_delete D params) s" "refuses (h_vm_extend_lease D params) s"
    "refuses (h_vm_snapshot D params) s"
    unfolding h_vm_start_def h_vm_stop_def h_vm_restart_def h_vm_ssh_access_def h_vm_delete_def h_vm_extend_lease_def
      h_vm_snapshot_def Let_def
    by (intro refusal o; simp add: OWNERSHIP_REQUIRED_ACTIONS_def)+
  have ex: "refuses (h_vm_exec D params) s" "refuses (h_vm_push_files D params) s" "refuses (h_vm_pull D params) s"
    "refuses (h_vm_screenshot D params) s" "refuses (h_vm_input D params) s" "refuses (h_vm_serial_log D params) s"
    "refuses (h_android_adb D params) s"
    unfolding h_vm_exec_def h_vm_push_files_def h_vm_pull_def h_vm_screenshot_def h_vm_input_def h_vm_serial_log_def
      h_android_adb_def Let_def
    by (intro refusal o refuses_prod; simp add: OWNERSHIP_REQUIRED_ACTIONS_def)+
  have gs: "refuses (h_guest_sysinfo D params) s" "refuses (h_guest_services D params) s"
    "refuses (h_guest_logs D params) s" "refuses (h_guest_packages D params) s"
    unfolding h_guest_sysinfo_def h_guest_services_def h_guest_logs_def h_guest_packages_def h_guest_def
    by (intro refusal o; simp add: OWNERSHIP_REQUIRED_ACTIONS_def)+
  have pg: "refuses (h_vm_purge_ghost D params) s"
    unfolding h_vm_purge_ghost_def Let_def by (intro refuses_guard refuses_found_check o) (simp add: OWNERSHIP_REQUIRED_ACTIONS_def)
  show ?thesis by (simp add: vm_handlers_def lc ex gs pg)
qed

section \<open>The wrapper around a refusal\<close>

definition untouched :: "'w st \<Rightarrow> 'w st \<Rightarrow> bool" where
  "untouched s t \<longleftrightarrow> t_vms (db t) = t_vms (db s) \<and> t_vm_tags (db t) = t_vm_tags (db s) \<and>
     t_queue (db t) = t_queue (db s) \<and> world t = world s \<and> tasks t = tasks s"

interpretation utf: frame untouched
  by unfold_locales (simp_all add: untouched_def)

lemma untouched_mod_db:
  "(\<And>d. t_vms (f d) = t_vms d \<and> t_vm_tags (f d) = t_vm_tags d \<and> t_queue (f d) = t_queue d) \<Longrightarrow>
   keeps untouched (mod_db f)"
  by (simp add: keeps_def untouched_def mod_db_def modify_def)

lemma untouched_clock: "keeps untouched clock" "keeps untouched uuid4_hex"
  by (simp_all add: keeps_def untouched_def clock_def gets_def uuid4_hex_def)

lemma untouched_record: "keeps untouched (record_project_call p m u)"
  unfolding record_project_call_def Let_def
  by (intro utf.frame_keeps untouched_clock untouched_mod_db keeps_splits) simp

lemma untouched_notices: "keeps untouched (take_notices p)" "keeps untouched (notice_error p e)"
  unfolding take_notices_def notice_error_def list_pending_project_notifications_def mark_project_notifications_delivered_def
  by (intro utf.frame_keeps untouched_clock untouched_mod_db keeps_splits; simp)+

lemma notice_error_raises: "wp (notice_error p e) (\<lambda>_ _. False) (\<lambda>_ _. True) s"
  unfolding notice_error_def
  by (cases e) (auto simp: wp_simps intro: wp_mono [OF wp_True])

lemma foreign_untouched: "untouched s t \<Longrightarrow> foreign_request params (db t) = foreign_request params (db s)"
  by (simp add: foreign_request_def named_row_def untouched_def vms_find_def split: sum.split option.split)

lemma activity_refuses:
  assumes "\<And>t. foreign_request params (db t) \<Longrightarrow> refuses (h params) t" "foreign_request params (db s)"
  shows "wp (with_project_activity m h params) (\<lambda>_ _. False) (\<lambda>_. untouched s) s"
proof -
  have h: "wp (h params) (\<lambda>_ _. False) (\<lambda>_ u. u = t) t" if "foreign_request params (db t)" for t
    using assms(1) [OF that] by (auto simp: refuses_def wp_def)
  have ne: "wp (notice_error p e) (\<lambda>_ _. False) (\<lambda>_. untouched s) t" if "untouched s t" for p e t
    using keeps_wp [OF untouched_notices(2), of p e t] notice_error_raises [of p e t] utf.frame_trans [OF that]
    by (auto simp: wp_def split: prod.splits sum.splits)
  show ?thesis
  proof (cases "tracked_project (caller_from_params params)")
    case None
    with h [OF assms(2)] show ?thesis
      by (auto simp: with_project_activity_def intro: wp_mono [OF h [OF assms(2)]] utf.frame_refl)
  next
    case (Some p)
    have rest: "wp (bindm (catch (h params) (notice_error p)) (notice_result p)) (\<lambda>_ _. False) (\<lambda>_. untouched s) t"
      if "untouched s t" for t
      unfolding wp_bindm wp_catch
      by (rule wp_mono [OF h]) (use that assms(2) foreign_untouched in \<open>auto intro: wp_mono [OF ne]\<close>)
    show ?thesis
      unfolding with_project_activity_def Let_def Some option.case wp_bindm
      by (rule wp_mono [OF keeps_wp [OF untouched_record]]) (use rest in \<open>simp_all add: wp_bindm\<close>)
  qed
qed

text \<open>C1: Tenant isolation: whoever calls one of the methods that need ownership (start, stop, delete, exec, file
  transfer, console, guest and adb access, ...) with a VM that is not theirs, or that does not exist, gets
  an error and nothing else happens: no row, tag or queued request changes, no background task starts and
  the host is not touched. The method is the registered one, with its activity wrapper.\<close>

theorem tenant_isolation:
  assumes "(m, h) \<in> set (registered D)" "m \<in> set OWNERSHIP_REQUIRED_ACTIONS" "foreign_request params (db s)"
  shows "\<exists>e s'. h params s = (Inl e, s') \<and> untouched s s'"
proof -
  have "list_all (\<lambda>(m, h). m \<notin> set OWNERSHIP_REQUIRED_ACTIONS) (service_handlers D)"
    by (simp add: service_handlers_def OWNERSHIP_REQUIRED_ACTIONS_def)
  with assms(1,2) obtain g where g: "(m, g) \<in> set (vm_handlers D)" and h: "h = with_project_activity m g"
    by (auto simp: registered_def list_all_iff)
  have "refuses (g params) t" if "foreign_request params (db t)" for t
    using refuses_handlers [OF that, of D] g by (auto simp: list_all_iff)
  then have "wp (h params) (\<lambda>_ _. False) (\<lambda>_. untouched s) s"
    unfolding h by (rule activity_refuses [OF _ assms(3)])
  then show ?thesis by (auto simp: wp_def split: prod.splits sum.splits)
qed

lemma tenant_isolation_witness:
  "\<exists>e s'. with_project_activity ''vm.delete'' (h_vm_delete demo_daemon)
     [(''vm_id'', PStr ''vm_1''), (''caller_project_id'', PStr ''p_2''), (''caller_user'', PStr ''eve'')] (demo_state 0 demo_tables)
     = (Inl e, s') \<and> untouched (demo_state 0 demo_tables) s'"
proof (rule tenant_isolation)
  show "(''vm.delete'', with_project_activity ''vm.delete'' (h_vm_delete demo_daemon)) \<in> set (registered demo_daemon)"
    by (simp add: registered_def vm_handlers_def service_handlers_def)
  show "''vm.delete'' \<in> set OWNERSHIP_REQUIRED_ACTIONS" by (simp add: OWNERSHIP_REQUIRED_ACTIONS_def)
  show "foreign_request [(''vm_id'', PStr ''vm_1''), (''caller_project_id'', PStr ''p_2''), (''caller_user'', PStr ''eve'')]
      (db (demo_state 0 demo_tables))"
    by (simp add: foreign_request_def named_row_def dget_def demo_state_def demo_tables_def vms_find_def rows_find_def
        empty_tables_def demo_vm_def owns_def caller_from_params_def dget_or_def)
qed

section \<open>Rows disappear only for their owners\<close>

definition owned_id :: "pydict \<Rightarrow> tables \<Rightarrow> string \<Rightarrow> bool" where
  "owned_id params d i \<longleftrightarrow> (\<exists>r. named_row params d = Some r \<and> owns (caller_from_params params) r \<and> vm_id r = i)"

lemma check_owned:
  assumes "a \<in> set OWNERSHIP_REQUIRED_ACTIONS" "get_vm (dget params ''vm_id'') s = (Inr x, t)"
    "check_action a (caller_from_params params) x = Inr u" "x = Some v"
  shows "t = s \<and> owned_id params (db s) (vm_id v)"
proof -
  from get_vm_run [OF assms(2)] have t: "t = s" and x: "x = map_option (vm_from_row (db s)) (named_row params (db s))"
    by simp_all
  from x assms(4) obtain r where "named_row params (db s) = Some r" "v = vm_from_row (db s) r"
    by (cases "named_row params (db s)") auto
  moreover from assms(1,3,4) have "owns (caller_from_params params) v" by (simp add: check_action_Inr)
  ultimately show ?thesis using t by (auto simp: owned_id_def)
qed

lemma wp_owned_id:
  assumes "a \<in> set OWNERSHIP_REQUIRED_ACTIONS"
  shows "wp (owned_vm a msg params) (\<lambda>v t. t = s \<and> owned_id params (db s) (vm_id v)) (\<lambda>_ t. t = s) s"
proof (rule wp_runI)
  fix e t
  assume "owned_vm a msg params s = (Inl e, t)"
  then show "t = s"
    using get_vm_same [of "dget params ''vm_id''" s]
    by (auto simp: owned_vm_def bindm_def guardm_def raise_def ret_def liftr_def split: if_splits prod.splits sum.splits option.splits)
next
  fix v t
  assume "owned_vm a msg params s = (Inr v, t)"
  then obtain x u where "get_vm (dget params ''vm_id'') s = (Inr x, t)" "check_action a (caller_from_params params) x = Inr u"
    "x = Some v"
    by (auto simp: owned_vm_def bindm_def guardm_def raise_def ret_def liftr_def
        split: if_splits prod.splits sum.splits option.splits)
  from check_owned [OF assms this] show "t = s \<and> owned_id params (db s) (vm_id v)" by simp
qed

lemma rest_stays:
  "owned_id params (db s) (vm_id v) \<and> t = s \<Longrightarrow> keeps (rows_stay (owned_id params (db s))) m \<Longrightarrow>
   wp m (\<lambda>_. rows_stay (owned_id params (db s)) s) (\<lambda>_. rows_stay (owned_id params (db s)) s) t"
  by (simp add: keeps_wp)

lemma delete_stays: "wp (h_vm_delete D params) (\<lambda>_. rows_stay (owned_id params (db s)) s) (\<lambda>_. rows_stay (owned_id params (db s)) s) s"
proof -
  have k: "keeps (rows_stay P) (bindm (update_vm_state (vm_id v) x) (\<lambda>_. bindm (dev_undefine H v) (\<lambda>_.
      bindm (whenm a (in_world w)) (\<lambda>_. bindm (delete_vm (vm_id v)) (\<lambda>_. bindm (whenm b
        (bindm (in_world n) (\<lambda>active. whenm (\<not> active) (bindm (list_vms p) (\<lambda>vms_left. whenm (vms_left = []) (in_world u))))))
      (\<lambda>_. bindm (add_event l msg q i) (\<lambda>_. ret y)))))))" if "P (vm_id v)" for P v x H a b w n p u l msg q i y
    by (intro rsb.frame_keeps rsf.vm_keeps stay_delete that)
  show ?thesis
    unfolding h_vm_delete_def Let_def
    by (subst wp_bindm, rule wp_mono [OF wp_owned_id]) (auto simp: OWNERSHIP_REQUIRED_ACTIONS_def rsb.frame_refl intro: rest_stays k)
qed

lemma purge_stays: "wp (h_vm_purge_ghost D params) (\<lambda>_. rows_stay (owned_id params (db s)) s)
    (\<lambda>_. rows_stay (owned_id params (db s)) s) s"
proof -
  let ?P = "owned_id params (db s)"
  have k: "keeps (rows_stay P) (bindm (in_world n) (\<lambda>alive. bindm (guardm alive e) (\<lambda>_.
      bindm (purge_ghost_record (vm_id v)) (\<lambda>_. bindm (add_event l msg q i) (\<lambda>_. ret y)))))" if "P (vm_id v)"
    for P v n e l msg q i y
    by (intro rsb.frame_keeps rsf.vm_keeps stay_delete that)
  have checked: "wp (bindm (liftr (need_some e x)) (\<lambda>v. bindm (liftr (check_action ''vm.purge_ghost'' (caller_from_params params) (Some v))) (\<lambda>_. f v)))
      (\<lambda>_. rows_stay ?P s) (\<lambda>_. rows_stay ?P s) s"
    if "get_vm (dget params ''vm_id'') s = (Inr x, t)" "\<And>v. ?P (vm_id v) \<Longrightarrow> keeps (rows_stay ?P) (f v)" for x t e f
  proof -
    have "?P (vm_id v)" if "x = Some v" "check_action ''vm.purge_ghost'' (caller_from_params params) (Some v) = Inr u" for v u
      using check_owned [of "''vm.purge_ghost''" params s x t u v] that \<open>get_vm _ s = _\<close>
      by (simp add: OWNERSHIP_REQUIRED_ACTIONS_def)
    then show ?thesis by (auto simp: wp_simps need_some_Inr rsb.frame_refl intro!: rest_stays that(2))
  qed
  have g: "wp (bindm (get_vm (dget params ''vm_id'')) f) (\<lambda>_. rows_stay ?P s) (\<lambda>_. rows_stay ?P s) s"
    if "\<And>x t. get_vm (dget params ''vm_id'') s = (Inr x, t) \<Longrightarrow> wp (f x) (\<lambda>_. rows_stay ?P s) (\<lambda>_. rows_stay ?P s) s" for f
    unfolding wp_bindm
  proof (rule wp_runI)
    fix e t assume "get_vm (dget params ''vm_id'') s = (Inl e, t)"
    then show "rows_stay ?P s t" using get_vm_same [of "dget params ''vm_id''" s] by (simp add: rsb.frame_refl)
  next
    fix x t assume x: "get_vm (dget params ''vm_id'') s = (Inr x, t)"
    then have "t = s" by (rule get_vm_run [THEN conjunct1])
    with that [OF x] show "wp (f x) (\<lambda>_. rows_stay ?P s) (\<lambda>_. rows_stay ?P s) t" by simp
  qed
  show ?thesis
    unfolding h_vm_purge_ghost_def Let_def
    by (subst wp_bindm) (auto simp: wp_guardm rsb.frame_refl intro!: g checked k)
qed

lemma removing_methods:
  "(m, g) \<in> set (service_handlers D @ vm_handlers D) \<Longrightarrow> m \<in> {''vm.delete'', ''vm.purge_ghost''} \<Longrightarrow>
   g = h_vm_delete D \<or> g = h_vm_purge_ghost D"
proof -
  have "list_all (\<lambda>(m, g). m \<in> {''vm.delete'', ''vm.purge_ghost''} \<longrightarrow> g = h_vm_delete D \<or> g = h_vm_purge_ghost D)
      (service_handlers D @ vm_handlers D)"
    by (simp add: service_handlers_def vm_handlers_def)
  then have "\<forall>x\<in>set (service_handlers D @ vm_handlers D). case x of (m, g) \<Rightarrow>
      m \<in> {''vm.delete'', ''vm.purge_ghost''} \<longrightarrow> g = h_vm_delete D \<or> g = h_vm_purge_ghost D"
    by (simp only: list_all_iff)
  moreover assume "(m, g) \<in> set (service_handlers D @ vm_handlers D)"
  ultimately have "case (m, g) of (m, g) \<Rightarrow>
      m \<in> {''vm.delete'', ''vm.purge_ghost''} \<longrightarrow> g = h_vm_delete D \<or> g = h_vm_purge_ghost D"
    by (rule bspec)
  then show "m \<in> {''vm.delete'', ''vm.purge_ghost''} \<Longrightarrow> g = h_vm_delete D \<or> g = h_vm_purge_ghost D"
    by (simp only: prod.case simp_thms)
qed

lemma activity_stays:
  assumes g: "\<And>t. wp (g params) (\<lambda>_. rows_stay (owned_id params (db t)) t) (\<lambda>_. rows_stay (owned_id params (db t)) t) t"
  shows "rows_stay (owned_id params (db s)) s (snd (with_project_activity m g params s))"
proof (cases "tracked_project (caller_from_params params)")
  case None
  with g [of s] show ?thesis by (simp add: with_project_activity_def wp_snd)
next
  case (Some p)
  let ?P = "owned_id params (db s)"
  let ?st = "\<lambda>_. rows_stay ?P s"
  have n: "wp (notice_error p e) ?st ?st u" "wp (notice_result p x) ?st ?st u" if "rows_stay ?P s u" for u e x
    by (rule wp_mono [OF keeps_wp [OF rsf.notices_keep(2)]] wp_mono [OF keeps_wp [OF rsf.notices_keep(3)]];
        rule rsb.frame_trans [OF that]; assumption)+
  have r: "wp (bindm (catch (g params) (notice_error p)) (notice_result p)) ?st ?st u" if u: "untouched s u" for u
  proof -
    have eq: "owned_id params (db u) = ?P" and su: "rows_stay ?P s u"
      using u by (auto simp: untouched_def owned_id_def named_row_def vms_find_def rows_stay_def fun_eq_iff
          split: sum.split option.split)
    have res: "wp (notice_error p e) (\<lambda>x. wp (notice_result p x) ?st ?st) ?st t" if "rows_stay ?P s t" for e t
      by (rule wp_mono [OF n(1) [OF that]]) (simp_all add: n(2))
    show ?thesis
      unfolding wp_bindm wp_catch
      by (rule wp_mono [OF g [of u, unfolded eq]]; rule n(2) res; rule rsb.frame_trans [OF su]; assumption)
  qed
  have "wp (with_project_activity m g params) ?st ?st s"
    unfolding with_project_activity_def Let_def Some option.case
    by (subst wp_bindm, rule wp_mono [OF keeps_wp [OF untouched_record]])
      (rule r, assumption, simp add: untouched_def rows_stay_def vms_find_def)
  then show ?thesis by (simp add: wp_snd)
qed

lemma owned_row:
  assumes "owned_id params d i" "vms_find i d = Some r"
  shows "named_row params d = Some r \<and> owns (caller_from_params params) r"
proof -
  from assms(1) obtain r' where r': "named_row params d = Some r'" "owns (caller_from_params params) r'" "vm_id r' = i"
    by (auto simp: owned_id_def)
  from r'(1) obtain j where j: "vms_find j d = Some r'"
    by (auto simp: named_row_def split: sum.splits option.splits)
  have "vm_id r' = j" by (rule conjunct2 [OF rows_find_Some [OF j [unfolded vms_find_def]]])
  with r'(3) have "j = i" by simp
  with j r' assms(2) show ?thesis by simp
qed

text \<open>C4: Only an owner or an administrator removes a VM from the records by a request: when a row is gone after
  a method was called, the method was delete or purge of a ghost, the request named that row, and its
  caller owned it. Other coroutines that run while a handler sleeps are taken to remove nothing.\<close>

theorem only_owners_delete:
  assumes "(m, h) \<in> set (registered D)" "keeps (rows_stay (\<lambda>_. False)) (da_others D)"
    and "vms_find i (db s) = Some r" "vms_find i (db (snd (h params s))) = None"
  shows "m \<in> {''vm.delete'', ''vm.purge_ghost''} \<and> named_row params (db s) = Some r \<and> owns (caller_from_params params) r"
proof -
  obtain g where g: "(m, g) \<in> set (service_handlers D @ vm_handlers D)" and h: "h = with_project_activity m g"
    using assms(1) by (auto simp: registered_def)
  have gone: "\<not> rows_stay (\<lambda>_. False) s (snd (h params s))" using assms(3,4) by (auto simp: rows_stay_def)
  have m: "m \<in> {''vm.delete'', ''vm.purge_ghost''}"
  proof (rule ccontr)
    assume m: "m \<notin> {''vm.delete'', ''vm.purge_ghost''}"
    have "keeps (rows_stay (\<lambda>_. False)) (g params)" for params
      using g rsf.service_keeps [OF assms(2), of m g params] rsf.vm_handlers_keep [OF _ m, of g D] by auto
    then have "keeps (rows_stay (\<lambda>_. False)) (h params)" unfolding h by (rule rsf.activity_keeps)
    with gone show False by (simp add: keeps_def)
  qed
  have "g = h_vm_delete D \<or> g = h_vm_purge_ghost D"
    using removing_methods [OF g m] .
  then have "rows_stay (owned_id params (db s)) s (snd (h params s))"
    unfolding h by (intro activity_stays) (auto simp: delete_stays purge_stays)
  with assms(3,4) have "owned_id params (db s) i" by (auto simp: rows_stay_def)
  from owned_row [OF this assms(3)] m show ?thesis by simp
qed

lemma wp_of_run: "m s = (Inr x, t) \<Longrightarrow> wp m Q E s = Q x t"
  by (simp add: wp_def)

lemma demo_delete:
  "vms_find ''vm_1'' (db (snd (with_project_activity ''vm.delete'' (h_vm_delete demo_daemon)
     [(''vm_id'', PStr ''vm_1''), (''caller_is_admin'', PBool True)] (demo_state 0 demo_tables)))) = None"
proof -
  let ?params = "[(''vm_id'', PStr ''vm_1''), (''caller_is_admin'', PBool True)]"
  let ?s = "demo_state 0 demo_tables"
  have f: "vms_find ''vm_1'' (db ?s) = Some demo_vm"
    by (simp add: demo_state_def demo_tables_def vms_find_def rows_find_def demo_vm_def)
  have o: "owned_vm ''vm.delete'' m ?params ?s = (Inr (vm_from_row (db ?s) demo_vm), ?s)" for m
    by (simp add: owned_vm_def get_vm_def f pm_defs guardm_def dget_or_def dget_def caller_from_params_def check_action_def
        bindr_def guardr_def f)
  have r: "wp (h_vm_delete demo_daemon ?params) (\<lambda>_ t. vms_find ''vm_1'' (db t) = None)
      (\<lambda>_ t. vms_find ''vm_1'' (db t) = None) ?s"
    unfolding h_vm_delete_def Let_def
    by (subst wp_bindm, subst wp_of_run, rule o)
     (simp add: demo_daemon_def vm_from_row_def demo_eval
      update_vm_state_def update_vm_def dev_undefine_def vm_undefine_def delete_vm_storage_def delete_vm_def has_active_vms_def
      list_vms_def teardown_project_network_def add_event_def uuid4_hex_def clock_def mod_db_def in_world_def catch_class_def
      wp_def pm_defs guardm_def whenm_def Let_def vms_update_def vms_delete_def vms_of_def vms_find_def rows_find_def
      rows_update_def rows_delete_def)
  then show ?thesis
    by (simp add: with_project_activity_def tracked_project_def caller_from_params_def dget_or_def dget_def wp_snd)
qed

lemma only_owners_delete_witness:
  "named_row [(''vm_id'', PStr ''vm_1''), (''caller_is_admin'', PBool True)] (db (demo_state 0 demo_tables)) = Some demo_vm"
proof -
  have "vms_find ''vm_1'' (db (demo_state 0 demo_tables)) = Some demo_vm"
    by (simp add: demo_state_def demo_tables_def vms_find_def rows_find_def demo_vm_def)
  moreover have "(''vm.delete'', with_project_activity ''vm.delete'' (h_vm_delete demo_daemon)) \<in> set (registered demo_daemon)"
    by (simp add: registered_def vm_handlers_def)
  moreover have "keeps (rows_stay (\<lambda>_. False)) (da_others demo_daemon)"
    by (simp add: demo_daemon_def rsb.ret_keeps)
  ultimately show ?thesis
    using only_owners_delete demo_delete by blast
qed

end
