(* ===== verification/Delivery.thy ===== *)
theory Delivery
  imports Isolation
begin

text \<open>
  What reaches a client: a reply per request on a connection, and the project's pending notices, each
  once, with the next reply to that project.
\<close>

section \<open>Replies\<close>

text \<open>A request object whose method can be looked up, and the reply that answers it.\<close>

definition well_formed :: "pyval \<Rightarrow> bool" where
  "well_formed m = (case m of
       PDict d \<Rightarrow> (case dget d ''method'' of PList _ \<Rightarrow> False | PDict _ \<Rightarrow> False | _ \<Rightarrow> True)
     | _ \<Rightarrow> False)"

definition answers :: "pyval \<Rightarrow> pyval \<Rightarrow> bool" where
  "answers m r = (case (m, r) of
       (PDict d, PDict e) \<Rightarrow> dget e ''id'' = dget d ''id'' \<and>
         (''result'' \<in> fst ` set e) = (''error'' \<notin> fst ` set e)
     | _ \<Rightarrow> False)"

lemma answers_simps [simp]:
  "answers (PDict d) (make_response (dget d ''id'') x)"
  "answers (PDict d) (make_error_response (dget d ''id'') c t data)"
  "answers (PDict d) (error_reply (dget d ''id'') e)"
  by (auto simp: answers_def make_response_def make_error_response_def error_reply_def dget_def split: exn.split)

lemma answer_replies: "well_formed m \<Longrightarrow> \<exists>act. answer hs m = Some act \<and> wp act (\<lambda>r _. answers m r) (\<lambda>_ _. False) s"
proof -
  assume "well_formed m"
  then obtain d where m: "m = PDict d" and k: "\<And>l. dget d ''method'' \<noteq> PList l" "\<And>e. dget d ''method'' \<noteq> PDict e"
    by (cases m) (auto simp: well_formed_def split: pyval.splits)
  let ?unknown = "ret (make_error_response (dget d ''id'') ERR_METHOD_NOT_FOUND (''unknown method: '' @ py_str (dget d ''method'')) None)"
  have u: "wp ?unknown (\<lambda>r _. answers m r) (\<lambda>_ _. False) s"
    by (simp add: wp_simps m)
  show ?thesis
  proof (cases "\<exists>n h. dget d ''method'' = PStr n \<and> map_of hs n = Some h")
    case True
    then obtain n h where n: "dget d ''method'' = PStr n" "map_of hs n = Some h" by blast
    have "wp (catch (bindm (call_handler h p) (\<lambda>r. ret (make_response (dget d ''id'') r)))
        (\<lambda>e. ret (error_reply (dget d ''id'') e))) (\<lambda>r _. answers m r) (\<lambda>_ _. False) s" for p
      unfolding wp_catch wp_bindm by (rule wp_mono [OF wp_True]) (simp_all add: wp_ret m)
    with n show ?thesis by (simp add: m answer_def Let_def)
  next
    case False
    then have "answer hs m = Some ?unknown"
      using k by (cases "dget d ''method''") (auto simp: m answer_def Let_def split: option.split)
    with u show ?thesis by blast
  qed
qed

lemma serve_loop_replies:
  "list_all well_formed ms \<Longrightarrow> serve_loop hs rest = ret out \<Longrightarrow>
   wp (serve_loop hs (map Message ms @ rest)) (\<lambda>rs _. \<exists>qs. rs = qs @ out \<and> list_all2 answers ms qs) (\<lambda>_ _. False) s"
proof (induction ms arbitrary: s)
  case (Cons m ms s)
  then obtain act where act: "answer hs m = Some act" "wp act (\<lambda>r _. answers m r) (\<lambda>_ _. False) s"
    using answer_replies [of m hs s] by auto
  have "wp (bindm (serve_loop hs (map Message ms @ rest)) (\<lambda>rs. ret (r # rs)))
      (\<lambda>rs _. \<exists>qs. rs = qs @ out \<and> list_all2 answers (m # ms) qs) (\<lambda>_ _. False) t" if "answers m r" for r t
    unfolding wp_bindm wp_ret
    by (rule wp_mono [OF Cons.IH]) (use Cons.prems that in \<open>auto intro: exI [of _ "r # qs" for qs]\<close>)
  then show ?case
    unfolding list.map append.simps serve_loop.simps act(1) option.case
    by (subst wp_bindm [of act]) (rule wp_mono [OF act(2)]; simp)
qed (simp add: wp_simps)

text \<open>C30: The server answers: on a connection that sends any number of request objects and closes, the loop
  neither raises nor stops early; every request gets exactly one reply, in order, with the id of the request
  and either a result or an error. Whatever the handlers raise becomes the error of the reply.\<close>

theorem every_request_answered:
  assumes "list_all well_formed ms"
  shows "\<exists>rs t. handle_connection D (map Message ms @ [Disconnected]) s = (Inr rs, t) \<and> list_all2 answers ms rs"
proof -
  have "wp (handle_connection D (map Message ms @ [Disconnected])) (\<lambda>rs _. list_all2 answers ms rs) (\<lambda>_ _. False) s"
    unfolding handle_connection_def using serve_loop_replies [OF assms, of "registered D" "[Disconnected]" "[]" s] by simp
  then show ?thesis by (auto simp: wp_def split: prod.splits sum.splits)
qed

lemma every_request_answered_witness:
  "\<exists>rs t. handle_connection demo_daemon (map Message
      [PDict [(''id'', PInt 1), (''method'', PStr ''lab.list'')],
       PDict [(''id'', PInt 2), (''method'', PStr ''no.such'')],
       PDict [(''id'', PStr ''x''), (''method'', PStr ''vm.get''), (''params'', PInt 3)]] @ [Disconnected])
     (demo_state 0 demo_tables) = (Inr rs, t) \<and> list_all2 answers
      [PDict [(''id'', PInt 1), (''method'', PStr ''lab.list'')],
       PDict [(''id'', PInt 2), (''method'', PStr ''no.such'')],
       PDict [(''id'', PStr ''x''), (''method'', PStr ''vm.get''), (''params'', PInt 3)]] rs"
  by (rule every_request_answered) (simp add: well_formed_def dget_def)

section \<open>Notices\<close>

lemma filter_mark:
  "filter (\<lambda>n. n_project_id n = p \<and> n_status n = ''pending'')
     (map (\<lambda>n. if n_id n \<in> set ids then n\<lparr>n_status := ''delivered'', n_delivered_at := t\<rparr> else n) ns) =
   filter (\<lambda>n. n_id n \<notin> set ids) (filter (\<lambda>n. n_project_id n = p \<and> n_status n = ''pending'') ns)"
  by (induction ns) auto

lemma filter_drop: "distinct (map f xs) \<Longrightarrow> filter (\<lambda>x. f x \<notin> set (map f (take k xs))) xs = drop k xs"
proof -
  assume d: "distinct (map f xs)"
  have t: "filter (\<lambda>x. f x \<notin> set (map f (take k xs))) (take k xs) = []" by (simp add: filter_empty_conv)
  have "set (map f (take k xs)) \<inter> set (map f (drop k xs)) = {}"
    by (metis append_take_drop_id d distinct_append map_append)
  then have r: "filter (\<lambda>x. f x \<notin> set (map f (take k xs))) (drop k xs) = drop k xs"
    by (intro filter_True) auto
  have "filter (\<lambda>x. f x \<notin> set (map f (take k xs))) (take k xs @ drop k xs) = drop k xs"
    by (simp only: filter_append t r append_Nil)
  then show ?thesis by simp
qed

lemma pending_distinct: "distinct (map n_id (t_notes d)) \<Longrightarrow> distinct (map n_id (pending_notes p d))"
  by (simp add: pending_notes_def distinct_map distinct_filter inj_on_def)

lemma pending_mark:
  "pending_notes p (d\<lparr>t_notes := map (\<lambda>n. if n_id n \<in> set ids
      then n\<lparr>n_status := ''delivered'', n_delivered_at := t\<rparr> else n) (t_notes d)\<rparr>) =
   filter (\<lambda>n. n_id n \<notin> set ids) (pending_notes p d)"
proof -
  have "t_notes (d\<lparr>t_notes := ns\<rparr>) = ns" for ns by simp
  then show ?thesis unfolding pending_notes_def by (simp only: filter_mark filter_sort)
qed

lemma pending_after_mark:
  "distinct (map n_id (t_notes d)) \<Longrightarrow>
   pending_notes p (d\<lparr>t_notes := map (\<lambda>n. if n_id n \<in> set (map n_id (take k (pending_notes p d)))
      then n\<lparr>n_status := ''delivered'', n_delivered_at := t\<rparr> else n) (t_notes d)\<rparr>) = drop k (pending_notes p d)"
  unfolding pending_mark by (rule filter_drop) (rule pending_distinct)

text \<open>The ids of the stored notices stay distinct when some are marked.\<close>

definition note_ids :: "tables \<Rightarrow> string list" where
  "note_ids d = map n_id (t_notes d)"

lemma take_notices_run:
  "take_notices p s = (r, t) \<Longrightarrow> distinct (note_ids (db t)) \<Longrightarrow>
   r = Inr (map notification_payload (take 5 (pending_notes p (db s)))) \<and>
   pending_notes p (db t) = drop 5 (pending_notes p (db s))"
proof -
  assume run: "take_notices p s = (r, t)" and d: "distinct (note_ids (db t))"
  let ?mark = "\<lambda>d. d\<lparr>t_notes := map (\<lambda>n. if n_id n \<in> set (map n_id (take 5 (pending_notes p (db s))))
        then n\<lparr>n_status := ''delivered'', n_delivered_at := Some (now s)\<rparr> else n) (t_notes d)\<rparr>"
  have ids: "map n_id (t_notes (?mark x)) = map n_id (t_notes x)" for x by simp
  show ?thesis
  proof (cases "pending_notes p (db s) = []")
    case True
    with run show ?thesis
      by (auto simp: take_notices_def list_pending_project_notifications_def mark_project_notifications_delivered_def
          pm_defs sql_limit_def)
  next
    case False
    with run have "r = Inr (map notification_payload (take 5 (pending_notes p (db s))))" "db t = ?mark (db s)"
      by (auto simp: take_notices_def list_pending_project_notifications_def mark_project_notifications_delivered_def
          pm_defs sql_limit_def clock_def mod_db_def)
    moreover from this(2) d have "distinct (map n_id (t_notes (db s)))"
      unfolding note_ids_def by (simp only: ids)
    ultimately show ?thesis using pending_after_mark by simp
  qed
qed

text \<open>The notices that a reply or an error carries.\<close>

definition carried :: "pyval res \<Rightarrow> pyval list" where
  "carried r = (let field = (\<lambda>d. case dget d ''boxer_notices'' of PList xs \<Rightarrow> xs | _ \<Rightarrow> []) in
     case r of
       Inr (PDict d) \<Rightarrow> field d
     | Inl (IPCError c m (Some (PDict d))) \<Rightarrow> field d
     | _ \<Rightarrow> [])"

lemma dget_update [simp]: "dget (AList.update k v d) k = v"
  by (simp add: dget_def update_conv')

lemma store_text_error: "store_text k v = Inl e \<Longrightarrow> \<exists>c x. e = PyExn c x"
  by (cases v) (auto simp: store_text_def bindr_def type_error_def integrity_error_def split: if_splits)

lemma call_error: "record_project_call p m u s = (Inl e, t) \<Longrightarrow> \<exists>c x. e = PyExn c x"
proof -
  have "wp (record_project_call p m u) (\<lambda>_ _. True) (\<lambda>e _. \<exists>c x. e = PyExn c x) s"
    by (auto simp: record_project_call_def Let_def wp_simps integrity_error_def dest: store_text_error split: sum.split)
  then show "record_project_call p m u s = (Inl e, t) \<Longrightarrow> \<exists>c x. e = PyExn c x"
    by (simp add: wp_def)
qed

lemma notice_result_only: "notice_result p v u = (r, t) \<Longrightarrow> r \<noteq> Inl (IPCError c msg data)"
proof -
  have "wp (take_notices p) (\<lambda>_ _. True) (\<lambda>_ _. False) u"
    by (simp add: take_notices_def list_pending_project_notifications_def mark_project_notifications_delivered_def wp_simps)
  then have "wp (notice_result p v) (\<lambda>_ _. True) (\<lambda>_ _. False) u"
    by (cases v) (auto simp: notice_result_def wp_simps elim: wp_mono)
  then show "notice_result p v u = (r, t) \<Longrightarrow> r \<noteq> Inl (IPCError c msg data)"
    by (auto simp: wp_def)
qed

lemma notice_result_run:
  assumes "notice_result p x s = (r, t)" "r = Inr (PDict d)" "distinct (note_ids (db t))"
  shows "\<exists>xs. pending_notes p (db t) = drop 5 (pending_notes p (db s)) \<and>
     (pending_notes p (db s) = [] \<or> carried r = xs @ map notification_payload (take 5 (pending_notes p (db s))))"
proof -
  obtain d0 where x: "x = PDict d0"
    using assms(1,2) by (cases x) (auto simp: notice_result_def ret_def)
  obtain q u where q: "take_notices p s = (q, u)" by (cases "take_notices p s")
  with assms(1) have "t = u"
    by (auto simp: x notice_result_def bindm_def ret_def split: sum.splits)
  with take_notices_run [OF q] assms(3)
  have n: "q = Inr (map notification_payload (take 5 (pending_notes p (db s))))"
    "pending_notes p (db t) = drop 5 (pending_notes p (db s))" by simp_all
  show ?thesis
  proof (cases "pending_notes p (db s) = []")
    case False
    with q n(1) assms(1) have "r = Inr (PDict (add_notices d0 (map notification_payload (take 5 (pending_notes p (db s))))))"
      by (auto simp: x notice_result_def bindm_def ret_def)
    then have "\<exists>xs. carried r = xs @ map notification_payload (take 5 (pending_notes p (db s)))"
      by (simp add: carried_def add_notices_def)
    with n(2) show ?thesis by blast
  qed (use n(2) in simp)
qed

lemma notice_error_run:
  assumes "notice_error p (IPCError c m data) s = (r, t)" "distinct (note_ids (db t))"
  shows "pending_notes p (db t) = drop 5 (pending_notes p (db s)) \<and> (\<exists>e. r = Inl e) \<and>
     (pending_notes p (db s) = [] \<or> carried r = map notification_payload (take 5 (pending_notes p (db s))))"
proof -
  obtain q u where q: "take_notices p s = (q, u)" by (cases "take_notices p s")
  with assms(1) have "t = u"
    by (auto simp: notice_error_def bindm_def raise_def split: sum.splits if_splits)
  with take_notices_run [OF q] assms(2)
  have n: "q = Inr (map notification_payload (take 5 (pending_notes p (db s))))"
    "pending_notes p (db t) = drop 5 (pending_notes p (db s))" by simp_all
  with q assms(1) show ?thesis
    by (auto simp: notice_error_def bindm_def raise_def carried_def split: if_splits)
qed

text \<open>C32: A project learns of each notice once: when a tracked project's call returns an object or an error of the
  protocol, its oldest five notices (of those pending when the handler was through) end the
  list in the reply, and exactly these are pending no more. The next call continues with the sixth.\<close>

theorem notices_delivered_once:
  assumes "tracked_project (caller_from_params params) = Some p"
    and "with_project_activity m h params s = (r, t)" "distinct (note_ids (db t))"
    and "(\<exists>d. r = Inr (PDict d)) \<or> (\<exists>c msg data. r = Inl (IPCError c msg data))"
  shows "let u = snd (h params (snd (record_project_call p m (c_user (caller_from_params params)) s))) in
     pending_notes p (db t) = drop 5 (pending_notes p (db u)) \<and>
     (\<exists>xs. pending_notes p (db u) = [] \<or> carried r = xs @ map notification_payload (take 5 (pending_notes p (db u))))"
proof -
  let ?c = "caller_from_params params"
  let ?m = "bindm (catch (h params) (notice_error p)) (notice_result p)"
  obtain c s0 where c: "record_project_call p m (c_user ?c) s = (c, s0)" by (cases "record_project_call p m (c_user ?c) s")
  have "\<exists>i. c = Inr i"
  proof (rule ccontr)
    assume "\<not> (\<exists>i. c = Inr i)"
    then obtain e where "c = Inl e" by (cases c) auto
    moreover from this c call_error obtain k x where "e = PyExn k x" by blast
    ultimately show False
      using assms(1,2,4) c by (auto simp: with_project_activity_def bindm_def)
  qed
  with assms(1,2) c have run: "?m s0 = (r, t)"
    by (auto simp: with_project_activity_def bindm_def [of "record_project_call p m (c_user ?c)"])
  obtain x u where x: "h params s0 = (x, u)" by (cases "h params s0")
  show ?thesis
  proof (cases x)
    case (Inr v)
    with run x have v: "notice_result p v u = (r, t)" by (simp add: bindm_def catch_def)
    then obtain d where "r = Inr (PDict d)" using assms(4) notice_result_only by blast
    from notice_result_run [OF v this assms(3)] x c show ?thesis by (simp add: Let_def)
  next
    case (Inl e)
    obtain y w where y: "notice_error p e u = (y, w)" by (cases "notice_error p e u")
    with notice_error_raises [of p e u] obtain e' where "y = Inl e'" by (auto simp: wp_def split: sum.splits)
    with run x Inl y have r: "r = Inl e'" "t = w" by (simp_all add: bindm_def catch_def)
    with assms(4) y \<open>y = Inl e'\<close> obtain k msg data where e: "e = IPCError k msg data"
      by (cases e) (auto simp: notice_error_def raise_def)
    from y r \<open>y = Inl e'\<close> have "notice_error p (IPCError k msg data) u = (r, t)" by (simp add: e)
    from notice_error_run [OF this assms(3)] x c show ?thesis by (auto simp: Let_def)
  qed
qed

definition demo_notes :: tables where
  "demo_notes = demo_tables\<lparr>t_notes := map (\<lambda>k. \<lparr>n_id = replicate k CHR ''n'', n_project_id = ''p_1'', n_vm_id = None, n_level = ''INFO'',
     n_message = ''idle'', n_details = [], n_status = ''pending'', n_created_at = int k, n_delivered_at = None\<rparr>) [0..<6]\<rparr>"

definition demo_call :: pydict where
  "demo_call = [(''caller_project_id'', PStr ''p_1'')]"

lemma demo_caller: "tracked_project (caller_from_params demo_call) = Some ''p_1''"
    "c_user (caller_from_params demo_call) = PStr ''unknown''"
  by (simp_all add: demo_call_def tracked_project_def caller_from_params_def dget_or_def dget_def starts_with_def)

lemma demo_recorded: "wp (record_project_call ''p_1'' ''lab.list'' (PStr ''unknown'')) (\<lambda>_ t. t_notes (db t) = t_notes demo_notes)
    (\<lambda>_ _. False) (demo_state 0 demo_notes)"
  by (simp add: record_project_call_def Let_def wp_simps store_text_def bindr_def demo_state_def demo_notes_def
      demo_tables_def empty_tables_def py_or_def)

lemma demo_notes_left: "length (pending_notes ''p_1'' (db (snd (h_lab_list demo_daemon demo_call
    (snd (record_project_call ''p_1'' ''lab.list'' (PStr ''unknown'') (demo_state 0 demo_notes))))))) = 6"
proof -
  have "t_notes (db (snd (record_project_call ''p_1'' ''lab.list'' (PStr ''unknown'') (demo_state 0 demo_notes)))) = t_notes demo_notes"
    using demo_recorded by (auto simp: wp_def split: prod.splits sum.splits)
  then show ?thesis
    by (simp add: h_lab_list_def ret_def pending_notes_def demo_notes_def)
qed

lemma take_notices_wp: "distinct (note_ids (db s)) \<Longrightarrow> wp (take_notices p) (\<lambda>_ t. distinct (note_ids (db t))) (\<lambda>_ _. False) s"
  by (auto simp: take_notices_def list_pending_project_notifications_def mark_project_notifications_delivered_def wp_simps
      note_ids_def comp_def if_distrib [of n_id] cong: if_cong)

lemma demo_notes_call:
  "wp (with_project_activity ''lab.list'' (h_lab_list demo_daemon) demo_call)
     (\<lambda>r t. (\<exists>d. r = PDict d) \<and> distinct (note_ids (db t))) (\<lambda>_ _. False) (demo_state 0 demo_notes)"
proof -
  have "wp (notice_result p (PDict d)) (\<lambda>r t. (\<exists>d. r = PDict d) \<and> distinct (note_ids (db t))) (\<lambda>_ _. False) t"
    if "t_notes (db t) = t_notes demo_notes" for p d t
  proof -
    have "distinct (note_ids (db t))" by (simp add: note_ids_def that) (simp add: demo_notes_def upt_rec)
    from wp_mono [OF take_notices_wp [OF this]] show ?thesis
      by (simp add: notice_result_def wp_simps)
  qed
  then show ?thesis
    by (simp add: with_project_activity_def Let_def demo_caller h_lab_list_def)
      (subst wp_bindm, rule wp_mono [OF demo_recorded], simp_all add: wp_bindm wp_catch wp_ret)
qed

lemma notices_delivered_once_witness:
  "\<exists>r t. with_project_activity ''lab.list'' (h_lab_list demo_daemon) demo_call
       (demo_state 0 demo_notes) = (r, t) \<and> length (pending_notes ''p_1'' (db t)) = 1"
proof -
  obtain r t where run: "with_project_activity ''lab.list'' (h_lab_list demo_daemon) demo_call (demo_state 0 demo_notes) = (r, t)"
    by (cases "with_project_activity ''lab.list'' (h_lab_list demo_daemon) demo_call (demo_state 0 demo_notes)")
  with demo_notes_call obtain d where "r = Inr (PDict d)" "distinct (note_ids (db t))"
    by (auto simp: wp_def split: sum.splits)
  then have "length (pending_notes ''p_1'' (db t)) = 1"
    using notices_delivered_once [OF demo_caller(1) run] demo_notes_left by (simp add: Let_def demo_caller)
  with run show ?thesis by blast
qed

end
