(* ===== verification/Progress.thy ===== *)
theory Progress
  imports Delivery
begin

text \<open>
  That work gets done: which computations raise nothing, or only what a handler expects, and the pass over the
  queue as one that runs to its end.
\<close>

section \<open>A pass runs to its end\<close>

lemma no_raise_gets: "no_raise (gets f)"
  by (simp add: no_raise_def gets_def)

lemma no_raise_liftr: "(\<And>e. r \<noteq> Inl e) \<Longrightarrow> no_raise (liftr r)"
  by (cases r) (auto simp: no_raise_def liftr_def)

lemma no_raise_in_world: "no_raise m \<Longrightarrow> no_raise (in_world m)"
  by (simp add: no_raise_wp wp_in_world)

lemma no_raise_each: "(\<And>x. x \<in> set xs \<Longrightarrow> no_raise (f x)) \<Longrightarrow> no_raise (for_each xs f)"
  by (induction xs) (auto intro: no_raise_bindm)

lemmas no_raise_intros = no_raise_ret no_raise_gets no_raise_bindm raises_only_catch raises_only_bindm
  raises_only_ret no_raise_in_world

text \<open>What is asked of libvirt: its calls raise nothing but \<open>libvirtError\<close>, as its documentation says.\<close>

abbreviation libvirt_raises :: "('s, 'a) pm \<Rightarrow> bool" where
  "libvirt_raises \<equiv> raises_only ''libvirtError''"

lemma sum_info_total: "(\<And>d. libvirt_raises (lv_info lv d)) \<Longrightarrow> no_raise (sum_info lv f acc ds)"
  by (induction ds arbitrary: acc)
    (auto intro!: no_raise_intros split: option.split)

lemma get_status_total:
  assumes "libvirt_raises (lv_list_active lv)" "\<And>d. libvirt_raises (lv_info lv d)"
    "no_raise (mc_meminfo m)" "no_raise (mc_cpu_count m)"
  shows "no_raise (get_status c lv m)"
proof -
  have "no_raise (sum_active lv f)" for f
    unfolding sum_active_def
    by (intro no_raise_intros assms; auto intro!: no_raise_intros sum_info_total assms split: option.split)
  then show ?thesis
    unfolding get_status_def count_running_boxer_vms_def used_ram_gib_def used_vcpus_def Let_def
    by (intro no_raise_intros assms)
qed

definition is_number :: "pyval \<Rightarrow> bool" where
  "is_number v = (case num_of v of Inr _ \<Rightarrow> True | Inl _ \<Rightarrow> False)"

definition sized_by_numbers :: "pydict \<Rightarrow> bool" where
  "sized_by_numbers r = (is_number (dget_or r ''cpu'' (PInt 2)) \<and> is_number (dget_or r ''ram_mb'' (PInt 2048)) \<and>
     is_number (dget_or r ''disk_gb'' (PInt 20)))"

lemma is_numberE: "is_number v \<Longrightarrow> (\<And>q. num_of v = Inr q \<Longrightarrow> Q) \<Longrightarrow> Q"
  by (auto simp: is_number_def split: sum.splits)

lemma check_admission_total:
  assumes "no_raise (get_status c lv m)" "is_number cpu" "is_number ram" "is_number disk"
  shows "no_raise (check_admission c lv m (PStr p) cpu ram disk)"
proof -
  have "host_limits st cpu ram \<noteq> Inl e" "project_limits c vms disk \<noteq> Inl e" for st vms e
    using assms(2-4) by (auto simp: host_limits_def project_limits_def elim!: is_numberE split: if_splits)
  moreover have "no_raise (list_vms (PStr p))"
    by (auto simp: list_vms_def intro!: no_raise_intros no_raise_liftr)
  ultimately show ?thesis
    unfolding check_admission_def
    by (auto intro!: no_raise_intros no_raise_liftr assms(1) split: option.split)
qed

lemma update_queue_status_total: "no_raise (update_queue_status i x)"
  by (simp add: no_raise_wp update_queue_status_def wp_simps)

lemma process_queue_total:
  assumes "\<And>p cpu ram disk. is_number cpu \<Longrightarrow> is_number ram \<Longrightarrow> is_number disk \<Longrightarrow>
      no_raise (admit (PStr p) cpu ram disk)"
    "list_all (\<lambda>q. sized_by_numbers (q_request q)) (pending_queue (db s))"
  shows "fst (process_queue admit create s) = Inr ()"
proof -
  have "no_raise (process_entry admit create q)" if "q \<in> set (pending_queue (db s))" for q
    using that assms unfolding process_entry_def Let_def
    by (auto simp: list_all_iff sized_by_numbers_def intro!: no_raise_intros no_raise_catch
        update_queue_status_total split: option.split list.split)
  then have "no_raise (for_each (pending_queue (db s)) (process_entry admit create))"
    by (rule no_raise_each)
  then have "\<exists>u. fst (for_each (pending_queue (db s)) (process_entry admit create) s) = Inr u"
    by (simp add: no_raise_def)
  then show ?thesis
    by (simp add: process_queue_def list_pending_queue_def bindm_def gets_def)
qed

section \<open>The daemon's pass\<close>

text \<open>C22: A pass over the queue runs to its end: when the sizes in the waiting requests are numbers and libvirt raises
  nothing but its own error, the pass returns without an exception, having looked at every waiting entry, and
  each of them is pending, done or expired.\<close>

theorem queue_pass_completes:
  assumes "list_all (\<lambda>q. sized_by_numbers (q_request q)) (pending_queue (db s))"
    "libvirt_raises (lv_list_active (da_lv D))" "\<And>d. libvirt_raises (lv_info (da_lv D) d)"
    "no_raise (mc_meminfo (ho_machine (da_host D)))" "no_raise (mc_cpu_count (ho_machine (da_host D)))"
  shows "fst (queue_pass D s) = Inr () \<and>
    (\<forall>q. queue_find (q_id q) (db s) = Some q \<and> q_status q = ''pending'' \<longrightarrow>
      settled (q_id q) (db (snd (queue_pass D s))))"
proof (intro conjI allI impI)
  have "no_raise (check_admission c (da_lv D) (ho_machine (da_host D)) (PStr p) cpu ram disk)"
    if "is_number cpu" "is_number ram" "is_number disk" for c p cpu ram disk
    using that by (intro check_admission_total get_status_total assms)
  then show "fst (queue_pass D s) = Inr ()"
    unfolding queue_pass_def using assms(1) by (intro process_queue_total)
next
  fix q
  assume "queue_find (q_id q) (db s) = Some q \<and> q_status q = ''pending''"
  then have "settled (q_id q) (db s)" by (simp add: settled_def)
  then show "settled (q_id q) (db (snd (queue_pass D s)))" by (rule pass_settles)
qed

definition demo_sized :: tables where
  "demo_sized = empty_tables\<lparr>t_queue := [(demo_entry ''a'' 0 5)\<lparr>q_request := [(''ram_mb'', PInt 512)]\<rparr>]\<rparr>"

lemma queue_pass_completes_witness:
  "fst (queue_pass demo_daemon (demo_state 0 demo_sized)) = Inr () \<and>
   settled ''a'' (db (snd (queue_pass demo_daemon (demo_state 0 demo_sized))))"
proof -
  let ?s = "demo_state 0 demo_sized" and ?q = "hd (t_queue demo_sized)"
  have "list_all (\<lambda>q. sized_by_numbers (q_request q)) (pending_queue (db ?s))"
    by (simp add: demo_state_def demo_sized_def pending_queue_def demo_entry_def sized_by_numbers_def
        dget_or_def is_number_def)
  moreover have "libvirt_raises (lv_list_active (da_lv demo_daemon))" "libvirt_raises (lv_info (da_lv demo_daemon) d)"
    "no_raise (mc_meminfo (ho_machine (da_host demo_daemon)))"
    "no_raise (mc_cpu_count (ho_machine (da_host demo_daemon)))" for d
    by (simp_all add: demo_daemon_def demo_host_def demo_lv_def demo_machine_def raises_only_def wp_simps no_raise_wp)
  ultimately have "fst (queue_pass demo_daemon ?s) = Inr () \<and>
    (\<forall>q. queue_find (q_id q) (db ?s) = Some q \<and> q_status q = ''pending'' \<longrightarrow>
      settled (q_id q) (db (snd (queue_pass demo_daemon ?s))))"
    by (rule queue_pass_completes)
  moreover have "queue_find ''a'' (db ?s) = Some ?q" "q_status ?q = ''pending''" "q_id ?q = ''a''"
    by (simp_all add: demo_state_def demo_sized_def queue_find_def rows_find_def demo_entry_def)
  ultimately show ?thesis by metis
qed

end
