(* ===== verification/Client.thy ===== *)
theory Client
  imports FileTransfer Progress
begin

text \<open>
  The clients' side of the socket: \<open>boxer_mcp/ipc_client.py\<close>, the caller's identity of \<open>boxer_mcp/server.py\<close>
  and the administrator's of \<open>boxer_cli\<close>. A client of the daemon modelled here sends its requests over a
  connection of its own.
\<close>

section \<open>The IPC client\<close>

text \<open>\<open>"error" in msg\<close> and \<open>msg.get\<close> on a reply that is no object raise. What cannot be read
  (too long a line, bytes that are not UTF-8, no JSON) raises a \<open>ValueError\<close> or a subclass of it.\<close>

definition client_reply :: "received \<Rightarrow> pyval res" where
  "client_reply r = (case r of
       Disconnected \<Rightarrow> Inl (PyExn ''ConnectionResetError'' ''connection closed'')
     | Unreadable e \<Rightarrow> Inl (PyExn ''ValueError'' e)
     | Message (PDict d) \<Rightarrow>
         (case map_of d ''error'' of
            None \<Rightarrow> Inr (dget d ''result'')
          | Some err \<Rightarrow>
              bindr (need_dict type_error err) (\<lambda>e.
              bindr (bindr (need_key e ''code'') py_int) (\<lambda>c.
              bindr (bindr (need_key e ''message'') text_value) (\<lambda>m.
              Inl (IPCError c m (map_of e ''data''))))))
     | Message _ \<Rightarrow> Inl type_error)"

text \<open>
  \<open>cl_send\<close> opens a connection, writes one request and reads one message; \<open>cl_env\<close>, \<open>cl_cwd\<close>, \<open>cl_realpath\<close>,
  \<open>cl_sha256\<close> (the hexadecimal digest of a text) and \<open>cl_groups\<close> are the process's surroundings.
\<close>

record 's client =
  cl_send :: "pyval \<Rightarrow> ('s, received) pm"
  cl_req_id :: "('s, string) pm"
  cl_local :: "'s local_env"
  cl_env :: "string \<Rightarrow> string option"
  cl_cwd :: string
  cl_realpath :: "string \<Rightarrow> string"
  cl_sha256 :: "string \<Rightarrow> string"

definition make_call :: "'s client \<Rightarrow> string \<Rightarrow> pydict \<Rightarrow> ('s, pyval) pm" where
  "make_call C method params =
     bindm (cl_req_id C) (\<lambda>i.
     bindm (cl_send C (make_request method params i)) (\<lambda>r.
     liftr (client_reply r)))"

text \<open>\<open>result[k]\<close>\<close>

definition reply_at :: "string \<Rightarrow> pyval \<Rightarrow> pyval res" where
  "reply_at k r = bindr (need_dict type_error r) (\<lambda>d. need_key d k)"

text \<open>\<open>if v: params[k] = v\<close> for an optional argument.\<close>

definition nonempty :: "pydict \<Rightarrow> string \<Rightarrow> pydict" where
  "nonempty a k = (if truthy (dget a k) then [(k, dget a k)] else [])"

section \<open>The caller\<close>

definition derive_project_id :: "'s client \<Rightarrow> string \<Rightarrow> string" where
  "derive_project_id C project_dir = ''p_'' @ take 16 (cl_sha256 C (cl_realpath C project_dir))"

definition caller_project_dir :: "'s client \<Rightarrow> string" where
  "caller_project_dir C = (case cl_env C ''BOXER_PROJECT_DIR'' of
       Some (c # d) \<Rightarrow> c # d
     | _ \<Rightarrow> (case cl_env C ''CLAUDE_PROJECT_DIR'' of Some (c # d) \<Rightarrow> c # d | _ \<Rightarrow> cl_cwd C))"

definition get_caller_params :: "'s client \<Rightarrow> pydict" where
  "get_caller_params C =
     (let project_path = cl_realpath C (caller_project_dir C) in
      [(''caller_project_id'', PStr (derive_project_id C project_path)),
       (''caller_project_path'', PStr project_path),
       (''caller_user'', PStr (case cl_env C ''USER'' of None \<Rightarrow> ''unknown'' | Some u \<Rightarrow> u)),
       (''caller_is_admin'', PBool False)])"

definition mcp_ipc :: "'s client \<Rightarrow> string \<Rightarrow> pydict \<Rightarrow> ('s, pyval) pm" where
  "mcp_ipc C method params = make_call C method (dict_merge (get_caller_params C) params)"

section \<open>Over the wire\<close>

text \<open>
  The daemon at the other end of the connection, with whole messages between them; Wire puts the bytes in.
\<close>

definition send_to :: "(received list \<Rightarrow> ('w st, pyval list) pm) \<Rightarrow> pyval \<Rightarrow> ('w st, received) pm" where
  "send_to server msg = bindm (server [Message msg, Disconnected]) (\<lambda>rs.
     ret (case rs of r # _ \<Rightarrow> Message r | [] \<Rightarrow> Disconnected))"

definition daemon_send :: "'w daemon \<Rightarrow> pyval \<Rightarrow> ('w st, received) pm" where
  "daemon_send D = send_to (handle_connection D)"

definition notify_send :: "'w daemon \<Rightarrow> pyval \<Rightarrow> ('w st, received) pm" where
  "notify_send D = send_to (handle_notify_connection D)"

definition at_daemon :: "'w daemon \<Rightarrow> 'w st client \<Rightarrow> bool" where
  "at_daemon D C \<longleftrightarrow> cl_send C = daemon_send D"

text \<open>What a client sees of the outcome of a handler.\<close>

definition as_ipc_error :: "exn \<Rightarrow> exn" where
  "as_ipc_error e = (case e of
       IPCError c m data \<Rightarrow> IPCError c m (case data of Some PNone \<Rightarrow> None | d \<Rightarrow> d)
     | PyExn _ t \<Rightarrow> IPCError ERR_INTERNAL t None)"

lemma client_reply_response [simp]: "client_reply (Message (make_response i v)) = Inr v"
  by (simp add: client_reply_def make_response_def dget_def)

lemma need_key_Cons: "need_key ((k, v) # d) k' = (if k = k' then Inr v else need_key d k')"
  by (simp add: need_key_def need_some_def)

lemma client_reply_error [simp]:
  "client_reply (Message (make_error_response i c m data)) = Inl (IPCError c m data)"
  by (cases data) (simp_all add: client_reply_def make_error_response_def need_key_Cons text_value_def need_str_def need_dict_def)

lemma client_reply_error_reply [simp]: "client_reply (Message (error_reply i e)) = Inl (as_ipc_error e)"
  by (auto simp: error_reply_def as_ipc_error_def split: exn.split option.split pyval.split)

lemma answer_request: "map_of handlers method = Some h \<Longrightarrow> answer handlers (make_request method params i) =
    Some (catch (bindm (h params) (\<lambda>r. ret (make_response (PStr i) r))) (\<lambda>e. ret (error_reply (PStr i) e)))"
  by (cases "params = []")
    (simp_all add: answer_def make_request_def dget_def dget_or_def py_or_def call_handler_def Let_def)

text \<open>The message that answers a request, for an outcome of its handler.\<close>

definition reply_to :: "string \<Rightarrow> pyval res \<Rightarrow> pyval" where
  "reply_to i r = (case r of Inr v \<Rightarrow> make_response (PStr i) v | Inl e \<Rightarrow> error_reply (PStr i) e)"

lemma serve_request:
  "map_of handlers method = Some h \<Longrightarrow> h params s = (r, t) \<Longrightarrow>
   serve_loop handlers [Message (make_request method params i), Disconnected] s = (Inr [reply_to i r], t)"
  by (cases r) (simp_all add: answer_request reply_to_def bindm_def catch_def ret_def)

lemma client_reply_to [simp]: "client_reply (Message (reply_to i r)) = (case r of Inr v \<Rightarrow> Inr v | Inl e \<Rightarrow> Inl (as_ipc_error e))"
  by (cases r) (simp_all add: reply_to_def)

lemma send_request:
  assumes "map_of handlers method = Some h"
  shows "bindm (send_to (serve_loop handlers) (make_request method params i)) (\<lambda>r. liftr (client_reply r)) s =
    (case h params s of (Inr v, t) \<Rightarrow> (Inr v, t) | (Inl e, t) \<Rightarrow> (Inl (as_ipc_error e), t))"
proof (cases "h params s")
  case (Pair r t)
  then show ?thesis
    using serve_request [OF assms, of params s r t i]
    by (cases r) (simp_all add: send_to_def bindm_def ret_def liftr_def)
qed

lemma make_call_to:
  assumes "cl_send C = send_to (serve_loop handlers)" "cl_req_id C s = (Inr i, s0)" "map_of handlers method = Some h"
  shows "make_call C method params s =
    (case h params s0 of (Inr v, t) \<Rightarrow> (Inr v, t) | (Inl e, t) \<Rightarrow> (Inl (as_ipc_error e), t))"
  using send_request [OF assms(3), of params i s0] assms(1,2)
  by (simp add: make_call_def bindm_def [of "cl_req_id C"])

lemma call_arrives:
  assumes "at_daemon D C" "cl_req_id C s = (Inr i, s0)" "map_of (registered D) method = Some h"
  shows "make_call C method params s =
    (case h params s0 of (Inr v, t) \<Rightarrow> (Inr v, t) | (Inl e, t) \<Rightarrow> (Inl (as_ipc_error e), t))"
  by (rule make_call_to [OF _ assms(2,3)])
    (use assms(1) in \<open>simp add: at_daemon_def daemon_send_def handle_connection_def [abs_def]\<close>)

text \<open>Calls arrive: for a client whose connection leads to the daemon, a call of a registered method is the call of
  its handler with the same parameters. The client gets the handler's result, or an error of the protocol with
  the code, message and data that the handler raised; any other exception comes as an internal error with its text.\<close>

theorem call_is_handler:
  assumes "at_daemon D C" "cl_req_id C s = (Inr i, s0)" "map_of (registered D) method = Some h"
  shows "make_call C method params s =
    (case h params s0 of (Inr v, t) \<Rightarrow> (Inr v, t) | (Inl e, t) \<Rightarrow> (Inl (as_ipc_error e), t))"
  by (rule call_arrives [OF assms])

definition demo_local :: "'s local_env" where
  "demo_local = \<lparr>le_os = \<lparr>os_exists = \<lambda>_. ret False, os_is_file = \<lambda>_. ret False, os_is_dir = \<lambda>_. ret False,
     os_resolve = ret, os_expanduser = ret, os_mkdir = \<lambda>_. ret (), os_touch = \<lambda>_. ret (), os_chown = \<lambda>_ _. ret (),
     os_chmod = \<lambda>_ _. ret (), os_read_text = \<lambda>_. ret [], os_write_text = \<lambda>_ _. ret (), os_copy = \<lambda>_ _. ret (),
     os_rename = \<lambda>_ _. ret (), os_stat = \<lambda>_. ret (0, 0), os_rglob = \<lambda>_ _. ret [], os_mktemp = \<lambda>_ _. ret [],
     os_unlink = \<lambda>_. ret (), os_rmtree = \<lambda>_. ret (), os_listdir = \<lambda>_. ret [],
     os_run = \<lambda>_ _. ret \<lparr>pr_returncode = 0, pr_stdout = [], pr_stderr = []\<rparr>,
     os_kill = \<lambda>_ _. ret (), os_access = \<lambda>_. ret True, os_proc = ret [], os_json = \<lambda>_. Inr (PDict [])\<rparr>,
     le_read_bytes = \<lambda>_. ret [], le_write_bytes = \<lambda>_ _. ret (), le_mode = \<lambda>_. ret 420,
     le_tar_create = \<lambda>_ _. ret [], le_tar_extract = \<lambda>_ _. ret ()\<rparr>"

definition demo_client :: "'w daemon \<Rightarrow> 'w st client" where
  "demo_client D = \<lparr>cl_send = daemon_send D, cl_req_id = ret ''r1'', cl_local = demo_local, cl_env = \<lambda>_. None, cl_cwd = ''/src/web'',
     cl_realpath = id, cl_sha256 = id\<rparr>"

lemma call_is_handler_witness:
  "make_call (demo_client demo_daemon) ''resource.status'' [] (demo_state 0 demo_tables) =
    (case with_project_activity ''resource.status'' (h_resource_status demo_daemon) [] (demo_state 0 demo_tables) of
       (Inr v, t) \<Rightarrow> (Inr v, t) | (Inl e, t) \<Rightarrow> (Inl (as_ipc_error e), t))"
  by (rule call_is_handler [where D = demo_daemon and i = "''r1''"])
    (simp_all add: at_daemon_def demo_client_def ret_def registered_def service_handlers_def vm_handlers_def)

end
