(* ===== verification/McpTools.thy ===== *)
theory McpTools
  imports Client
begin

text \<open>
  The MCP server: the tools of \<open>boxer_mcp/tools.py\<close>, each as the call it makes from its validated keyword
  arguments, and the operating profiles of \<open>boxer_mcp/profiles.py\<close> that choose which tools a host sees.
\<close>

section \<open>Arguments\<close>

text \<open>
  FastMCP hands a tool the keyword arguments its schema allows; an argument that is not given has its default.
  \<open>given\<close> and \<open>nonempty\<close> are the two ways a tool passes an optional argument on.
\<close>

definition given :: "pydict \<Rightarrow> string \<Rightarrow> pydict" where
  "given a k = (if dget a k = PNone then [] else [(k, dget a k)])"

definition passed :: "pydict \<Rightarrow> string \<Rightarrow> pydict" where
  "passed a k = [(k, dget a k)]"

definition with_default :: "pydict \<Rightarrow> string \<Rightarrow> pyval \<Rightarrow> pydict" where
  "with_default a k d = [(k, dget_or a k d)]"

type_synonym 's tool = "'s client \<Rightarrow> pydict \<Rightarrow> ('s, pyval) pm"

section \<open>Tools\<close>

definition box_resource_status :: "'s tool" where
  "box_resource_status C a = mcp_ipc C ''resource.status'' []"

definition box_list_images :: "'s tool" where
  "box_list_images C a = bindm (mcp_ipc C ''image.list'' []) (\<lambda>r. liftr (reply_at ''images'' r))"

definition box_list_labs :: "'s tool" where
  "box_list_labs C a = mcp_ipc C ''lab.list'' []"

definition box_request_lab :: "'s tool" where
  "box_request_lab C a =
     mcp_ipc C ''lab.request'' (passed a ''lab'' @ with_default a ''size'' (PStr ''default'') @
       with_default a ''wait'' (PBool True) @ given a ''purpose'' @ given a ''template'' @
       given a ''ttl_minutes'' @ nonempty a ''tags'')"

definition box_lab_status :: "'s tool" where
  "box_lab_status C a = mcp_ipc C ''lab.status'' (passed a ''vm_id'')"

definition box_prewarm_image :: "'s tool" where
  "box_prewarm_image C a = mcp_ipc C ''image.prewarm'' (passed a ''template'')"

definition box_request_vm :: "'s tool" where
  "box_request_vm C a =
     mcp_ipc C ''vm.request'' (passed a ''template'' @ passed a ''purpose'' @
       with_default a ''headless'' (PBool True) @ with_default a ''ttl_minutes'' (PInt 60) @
       given a ''cpu'' @ given a ''ram_mb'' @ given a ''disk_gb'' @ nonempty a ''profiles'' @
       nonempty a ''bootstrap_packages'' @ nonempty a ''bootstrap_commands'' @ nonempty a ''write_files'' @
       nonempty a ''secret_files'' @ nonempty a ''ssh_public_keys'' @ nonempty a ''ssh_access'' @
       nonempty a ''return_ssh_private_key'' @ nonempty a ''wait_for_ip_seconds'' @
       nonempty a ''wait_for'' @ nonempty a ''wait_command'' @ nonempty a ''wait_timeout_seconds'' @
       nonempty a ''tags'')"

definition box_request_vm_compact :: "'s tool" where
  "box_request_vm_compact C a =
     mcp_ipc C ''vm.request'' (passed a ''template'' @ passed a ''purpose'' @
       with_default a ''headless'' (PBool True) @ with_default a ''ttl_minutes'' (PInt 60) @
       nonempty a ''profiles'' @ nonempty a ''wait_for'' @ nonempty a ''wait_timeout_seconds'')"

definition box_list_profiles :: "'s tool" where
  "box_list_profiles C a = bindm (mcp_ipc C ''profile.list'' []) (\<lambda>r. liftr (reply_at ''profiles'' r))"

definition box_request_installer :: "'s tool" where
  "box_request_installer C a =
     mcp_ipc C ''vm.request_installer'' (passed a ''purpose'' @
       with_default a ''ttl_minutes'' (PInt 180) @ given a ''template'' @ given a ''iso_path'' @
       given a ''install_method'' @ given a ''headless'' @ given a ''cpu'' @ given a ''ram_mb'' @
       given a ''disk_gb'' @ nonempty a ''bootstrap_packages'' @ nonempty a ''ssh_public_keys'' @
       nonempty a ''wait_install_seconds'' @ nonempty a ''tags'')"

definition box_list_vms :: "'s tool" where
  "box_list_vms C a = mcp_ipc C ''vm.list'' (with_default a ''include_stale'' (PBool False))"

definition box_get_vm :: "'s tool" where
  "box_get_vm C a = mcp_ipc C ''vm.get'' (passed a ''vm_id'')"

definition box_start_vm :: "'s tool" where
  "box_start_vm C a =
     mcp_ipc C ''vm.start'' (passed a ''vm_id'' @ with_default a ''wait_for_ip_seconds'' (PInt 0))"

definition box_stop_vm :: "'s tool" where
  "box_stop_vm C a = mcp_ipc C ''vm.stop'' (passed a ''vm_id'' @ with_default a ''graceful'' (PBool True))"

definition box_restart_vm :: "'s tool" where
  "box_restart_vm C a =
     mcp_ipc C ''vm.restart'' (passed a ''vm_id'' @ with_default a ''graceful'' (PBool True) @
       with_default a ''wait_for_ip_seconds'' (PInt 0))"

definition box_get_ssh_access :: "'s tool" where
  "box_get_ssh_access C a =
     mcp_ipc C ''vm.ssh_access'' (passed a ''vm_id'' @
       with_default a ''include_private_key'' (PBool False) @ with_default a ''create'' (PBool True) @
       with_default a ''timeout_seconds'' (PInt 30))"

definition box_delete_vm :: "'s tool" where
  "box_delete_vm C a = mcp_ipc C ''vm.delete'' (passed a ''vm_id'')"

definition box_extend_lease :: "'s tool" where
  "box_extend_lease C a =
     mcp_ipc C ''vm.extend_lease'' (passed a ''vm_id'' @ with_default a ''ttl_minutes'' (PInt 60))"

definition box_snapshot :: "'s tool" where
  "box_snapshot C a = mcp_ipc C ''vm.snapshot'' (passed a ''vm_id'' @ with_default a ''label'' (PStr ''snap''))"

definition box_exec :: "'s tool" where
  "box_exec C a =
     mcp_ipc C ''vm.exec'' (passed a ''vm_id'' @ passed a ''command'' @
       with_default a ''timeout_seconds'' (PInt 30) @ with_default a ''detach'' (PBool False) @
       with_default a ''wait_ssh_seconds'' (PInt 0))"

definition box_push :: "'s tool" where
  "box_push C a = bindm (pack_local (cl_local C) (dict_text a ''local_path'') (dget a ''remote_path'')) (\<lambda>item.
     mcp_ipc C ''vm.push_files'' (passed a ''vm_id'' @ [(''files'', PList [PDict item])] @ with_default a ''sudo'' (PBool False) @ with_default a ''timeout_seconds'' (PInt 120)))"

definition box_pull :: "'s tool" where
  "box_pull C a = bindm (mcp_ipc C ''vm.pull'' (passed a ''vm_id'' @ [(''path'', dget a ''remote_path'')] @ with_default a ''sudo'' (PBool False))) (\<lambda>r.
     bindm (liftr (need_dict type_error r)) (\<lambda>result.
     bindm (write_pull (cl_local C) result (dict_text a ''local_path'') (truthy (dget a ''overwrite''))) (\<lambda>out.
     ret (PDict (dict_merge (passed a ''vm_id'' @ passed a ''remote_path'') out)))))"

definition box_screenshot :: "'s tool" where
  "box_screenshot C a = bindm (mcp_ipc C ''vm.screenshot'' (passed a ''vm_id'')) (\<lambda>r.
     if truthy (dget a ''save_path'') then
       bindm (liftr (reply_at ''data'' r)) (\<lambda>data.
       bindm (save_png (cl_local C) data (dict_text a ''save_path'')) (\<lambda>out.
       ret (PDict (dict_merge (passed a ''vm_id'' @ [(''format'', PStr ''png'')]) out))))
     else ret r)"

definition box_input :: "'s tool" where
  "box_input C a = mcp_ipc C ''vm.input'' (passed a ''vm_id'' @ passed a ''actions'')"

definition box_get_serial_log :: "'s tool" where
  "box_get_serial_log C a =
     mcp_ipc C ''vm.serial_log'' (passed a ''vm_id'' @ with_default a ''tail_lines'' (PInt 200))"

definition box_queue_status :: "'s tool" where
  "box_queue_status C a = mcp_ipc C ''queue.status'' []"

definition box_cleanup_plan :: "'s tool" where
  "box_cleanup_plan C a = mcp_ipc C ''cleanup.plan'' []"

definition box_scan_unmanaged :: "'s tool" where
  "box_scan_unmanaged C a = mcp_ipc C ''vm.scan'' []"

definition box_import_vm :: "'s tool" where
  "box_import_vm C a =
     mcp_ipc C ''vm.import'' (passed a ''libvirt_name'' @ with_default a ''ttl_minutes'' (PInt 60) @
       nonempty a ''display_name'')"

definition box_adopt_vm :: "'s tool" where
  "box_adopt_vm C a = mcp_ipc C ''vm.adopt'' (passed a ''libvirt_name'')"

definition box_purge_ghost :: "'s tool" where
  "box_purge_ghost C a = mcp_ipc C ''vm.purge_ghost'' (passed a ''vm_id'')"

definition box_list_android_images :: "'s tool" where
  "box_list_android_images C a = mcp_ipc C ''android.list_images'' []"

definition box_request_android :: "'s tool" where
  "box_request_android C a =
     mcp_ipc C ''android.request'' (passed a ''template'' @ passed a ''purpose'' @
       with_default a ''ttl_minutes'' (PInt 90) @ given a ''cores'' @ given a ''ram_mb'' @
       given a ''data_gb'' @ nonempty a ''wait_boot_seconds'' @ nonempty a ''tags'')"

definition box_android_ui :: "'s tool" where
  "box_android_ui C a = (let action = dget a ''action'' in
     mcp_ipc C ''android.adb'' (passed a ''vm_id'' @
       [(''action'', if action = PStr ''dump'' then PStr ''ui_dump'' else action)] @
       (if action = PStr ''tap'' then passed a ''x'' @ passed a ''y''
        else if action = PStr ''swipe'' then [(''x1'', dget a ''x''), (''y1'', dget a ''y'')] @ passed a ''x2'' @ passed a ''y2''
        else if action = PStr ''text'' then [(''value'', py_or (dget a ''value'') (PStr []))]
        else if action = PStr ''key'' then passed a ''keycode''
        else [])))"

definition box_android_app :: "'s tool" where
  "box_android_app C a =
     mcp_ipc C ''android.adb'' (passed a ''vm_id'' @ passed a ''action'' @ given a ''package'' @
       given a ''activity'' @ given a ''apk_path'' @ given a ''remote'' @ given a ''local'')"

definition box_android_screenshot :: "'s tool" where
  "box_android_screenshot C a = mcp_ipc C ''android.adb'' (passed a ''vm_id'' @ [(''action'', PStr ''screenshot'')])"

definition box_android_logcat :: "'s tool" where
  "box_android_logcat C a =
     mcp_ipc C ''android.adb'' (passed a ''vm_id'' @ [(''action'', PStr ''logcat'')] @
       with_default a ''priority'' (PStr ''V'') @ with_default a ''limit'' (PInt 200) @
       nonempty a ''tag'' @ nonempty a ''package'')"

definition box_run_instrumentation :: "'s tool" where
  "box_run_instrumentation C a =
     mcp_ipc C ''android.adb'' (passed a ''vm_id'' @ [(''action'', PStr ''instrument'')] @
       passed a ''test_package'' @
       with_default a ''runner'' (PStr ''androidx.test.runner.AndroidJUnitRunner'') @
       (if truthy (dget a ''test_class'') then [(''class'', dget a ''test_class'')] else []))"

definition box_sysinfo :: "'s tool" where
  "box_sysinfo C a = mcp_ipc C ''guest.sysinfo'' (passed a ''vm_id'')"

definition box_services :: "'s tool" where
  "box_services C a = mcp_ipc C ''guest.services'' (passed a ''vm_id'')"

definition box_packages :: "'s tool" where
  "box_packages C a =
     mcp_ipc C ''guest.packages'' (passed a ''vm_id'' @ with_default a ''action'' (PStr ''query'') @
       nonempty a ''name'')"

definition box_logs :: "'s tool" where
  "box_logs C a = mcp_ipc C ''guest.logs'' (passed a ''vm_id'' @ with_default a ''lines'' (PInt 50))"

section \<open>The table of tools\<close>

definition TOOL_FUNCTIONS :: "(string \<times> 's tool) list" where
  "TOOL_FUNCTIONS =
    [(''box_resource_status'', box_resource_status), (''box_list_images'', box_list_images),
     (''box_list_labs'', box_list_labs), (''box_request_lab'', box_request_lab),
     (''box_lab_status'', box_lab_status), (''box_prewarm_image'', box_prewarm_image),
     (''box_request_vm'', box_request_vm), (''box_list_profiles'', box_list_profiles),
     (''box_request_installer'', box_request_installer), (''box_list_vms'', box_list_vms),
     (''box_get_vm'', box_get_vm), (''box_start_vm'', box_start_vm),
     (''box_stop_vm'', box_stop_vm), (''box_restart_vm'', box_restart_vm),
     (''box_get_ssh_access'', box_get_ssh_access), (''box_delete_vm'', box_delete_vm),
     (''box_extend_lease'', box_extend_lease), (''box_snapshot'', box_snapshot),
     (''box_exec'', box_exec), (''box_push'', box_push),
     (''box_pull'', box_pull), (''box_screenshot'', box_screenshot),
     (''box_input'', box_input), (''box_get_serial_log'', box_get_serial_log),
     (''box_queue_status'', box_queue_status), (''box_cleanup_plan'', box_cleanup_plan),
     (''box_scan_unmanaged'', box_scan_unmanaged), (''box_import_vm'', box_import_vm),
     (''box_adopt_vm'', box_adopt_vm), (''box_purge_ghost'', box_purge_ghost),
     (''box_list_android_images'', box_list_android_images), (''box_request_android'', box_request_android),
     (''box_android_ui'', box_android_ui), (''box_android_app'', box_android_app),
     (''box_android_screenshot'', box_android_screenshot), (''box_android_logcat'', box_android_logcat),
     (''box_run_instrumentation'', box_run_instrumentation), (''box_sysinfo'', box_sysinfo),
     (''box_services'', box_services), (''box_packages'', box_packages),
     (''box_logs'', box_logs)]"

definition COMPACT_TOOL_FUNCTIONS :: "(string \<times> 's tool) list" where
  "COMPACT_TOOL_FUNCTIONS = AList.update ''box_request_vm'' box_request_vm_compact TOOL_FUNCTIONS"

text \<open>The hints a host sees: read-only, destructive, idempotent, open world.\<close>

record tool_annotations =
  ta_read_only :: bool
  ta_destructive :: bool
  ta_idempotent :: bool
  ta_open_world :: bool

definition READONLY_TOOL :: tool_annotations where
  "READONLY_TOOL = \<lparr>ta_read_only = True, ta_destructive = False, ta_idempotent = True, ta_open_world = False\<rparr>"

definition MUTATING_TOOL :: tool_annotations where
  "MUTATING_TOOL = \<lparr>ta_read_only = False, ta_destructive = False, ta_idempotent = False, ta_open_world = True\<rparr>"

definition IDEMPOTENT_MUTATION :: tool_annotations where
  "IDEMPOTENT_MUTATION = \<lparr>ta_read_only = False, ta_destructive = False, ta_idempotent = True, ta_open_world = True\<rparr>"

definition DESTRUCTIVE_TOOL :: tool_annotations where
  "DESTRUCTIVE_TOOL = \<lparr>ta_read_only = False, ta_destructive = True, ta_idempotent = False, ta_open_world = True\<rparr>"

definition TOOL_ANNOTATIONS :: "(string \<times> tool_annotations) list" where
  "TOOL_ANNOTATIONS =
    [(''box_resource_status'', READONLY_TOOL), (''box_list_labs'', READONLY_TOOL),
     (''box_lab_status'', READONLY_TOOL), (''box_list_images'', READONLY_TOOL),
     (''box_list_profiles'', READONLY_TOOL), (''box_list_vms'', READONLY_TOOL),
     (''box_get_vm'', READONLY_TOOL), (''box_screenshot'', READONLY_TOOL),
     (''box_get_serial_log'', READONLY_TOOL), (''box_queue_status'', READONLY_TOOL),
     (''box_cleanup_plan'', READONLY_TOOL), (''box_scan_unmanaged'', READONLY_TOOL),
     (''box_list_android_images'', READONLY_TOOL), (''box_android_screenshot'', READONLY_TOOL),
     (''box_sysinfo'', READONLY_TOOL), (''box_services'', READONLY_TOOL),
     (''box_logs'', READONLY_TOOL), (''box_prewarm_image'', IDEMPOTENT_MUTATION),
     (''box_stop_vm'', IDEMPOTENT_MUTATION), (''box_get_ssh_access'', IDEMPOTENT_MUTATION),
     (''box_extend_lease'', IDEMPOTENT_MUTATION), (''box_purge_ghost'', DESTRUCTIVE_TOOL),
     (''box_delete_vm'', DESTRUCTIVE_TOOL), (''box_request_vm'', MUTATING_TOOL),
     (''box_request_lab'', MUTATING_TOOL), (''box_request_installer'', MUTATING_TOOL),
     (''box_start_vm'', MUTATING_TOOL), (''box_restart_vm'', MUTATING_TOOL),
     (''box_snapshot'', MUTATING_TOOL), (''box_exec'', MUTATING_TOOL),
     (''box_push'', MUTATING_TOOL), (''box_pull'', MUTATING_TOOL),
     (''box_input'', MUTATING_TOOL), (''box_import_vm'', MUTATING_TOOL),
     (''box_adopt_vm'', MUTATING_TOOL), (''box_request_android'', MUTATING_TOOL),
     (''box_android_ui'', MUTATING_TOOL), (''box_android_app'', MUTATING_TOOL),
     (''box_android_logcat'', READONLY_TOOL), (''box_run_instrumentation'', MUTATING_TOOL),
     (''box_packages'', MUTATING_TOOL)]"

section \<open>Profiles\<close>

definition FULL_TOOL_NAMES :: "string list" where
  "FULL_TOOL_NAMES =
    [''box_resource_status'', ''box_list_labs'', ''box_request_lab'', ''box_lab_status'',
     ''box_list_images'', ''box_prewarm_image'', ''box_request_vm'', ''box_list_profiles'',
     ''box_request_installer'', ''box_list_vms'', ''box_get_vm'', ''box_start_vm'', ''box_stop_vm'',
     ''box_restart_vm'', ''box_get_ssh_access'', ''box_delete_vm'', ''box_extend_lease'', ''box_snapshot'',
     ''box_exec'', ''box_push'', ''box_pull'', ''box_screenshot'', ''box_input'', ''box_get_serial_log'',
     ''box_queue_status'', ''box_cleanup_plan'', ''box_scan_unmanaged'', ''box_import_vm'',
     ''box_adopt_vm'', ''box_purge_ghost'', ''box_sysinfo'', ''box_services'', ''box_packages'',
     ''box_logs'']"

definition COMPACT_TOOL_NAMES :: "string list" where
  "COMPACT_TOOL_NAMES =
    [''box_resource_status'', ''box_list_labs'', ''box_request_lab'', ''box_lab_status'',
     ''box_list_images'', ''box_list_profiles'', ''box_request_vm'', ''box_list_vms'', ''box_get_vm'',
     ''box_exec'', ''box_push'', ''box_pull'', ''box_get_serial_log'', ''box_queue_status'',
     ''box_cleanup_plan'', ''box_stop_vm'', ''box_extend_lease'', ''box_delete_vm'', ''box_sysinfo'',
     ''box_services'']"

definition ANDROID_TOOL_NAMES :: "string list" where
  "ANDROID_TOOL_NAMES =
    [''box_resource_status'', ''box_list_android_images'', ''box_request_android'', ''box_list_vms'',
     ''box_get_vm'', ''box_start_vm'', ''box_stop_vm'', ''box_restart_vm'', ''box_delete_vm'',
     ''box_extend_lease'', ''box_queue_status'', ''box_android_ui'', ''box_android_app'',
     ''box_android_screenshot'', ''box_android_logcat'', ''box_run_instrumentation'']"

definition READONLY_TOOL_NAMES :: "string list" where
  "READONLY_TOOL_NAMES =
    [''box_resource_status'', ''box_list_labs'', ''box_lab_status'', ''box_list_images'',
     ''box_list_profiles'', ''box_list_vms'', ''box_get_vm'', ''box_get_serial_log'', ''box_queue_status'',
     ''box_cleanup_plan'', ''box_scan_unmanaged'', ''box_list_android_images'', ''box_sysinfo'',
     ''box_services'', ''box_logs'']"

definition RICH_INSTRUCTIONS :: string where
  "RICH_INSTRUCTIONS =
    ''Boxer provides isolated KVM labs for coding work that needs real Linux fidelity: clean bug '' @
    ''repros, distro smoke checks, Docker builds away from host Docker, browser tests, and headed '' @
    ''desktop inspection. Prefer box_list_labs then box_request_lab over raw VM requests. Use exact '' @
    ''vm_id values; box_delete_vm is permanent.\<newline>'' @
    ''\<newline>'' @
    ''Workflow: check box_resource_status, choose a lab recipe, request one lab per purpose, then use '' @
    ''box_lab_status and box_exec for bounded validation commands. Fall back to box_request_vm only '' @
    ''when no lab recipe fits. Use box_get_serial_log for boot or cloud-init failures. Use '' @
    ''box_request_installer only for ISO installer workflows. Avoid returning private SSH keys unless '' @
    ''direct SSH is explicitly required.''"

definition CODEX_INSTRUCTIONS :: string where
  "CODEX_INSTRUCTIONS =
    ''Boxer provides isolated KVM labs for coding work that needs real Linux fidelity: clean bug '' @
    ''repros, distro smoke checks, Docker builds away from host Docker, browser tests, and headed '' @
    ''desktop inspection. Prefer box_list_labs then box_request_lab over raw VM requests. Use exact '' @
    ''vm_id values; box_delete_vm is permanent.\<newline>'' @
    ''\<newline>'' @
    ''This full Codex profile still exposes VM lifecycle escape hatches, but the product shape is lab-'' @
    ''first rather than VM-ops-first. Keep calls scoped: IDs first, large blobs later, and small '' @
    ''serial-log tails or command outputs. Use BOXER_PROJECT_DIR when the client does not launch stdio'' @
    '' servers from the repository root.''"

definition LOW_CONTEXT_INSTRUCTIONS :: string where
  "LOW_CONTEXT_INSTRUCTIONS =
    ''Boxer provides compact KVM lab recipes for stricter coding tool callers such as Qwen, DeepSeek, '' @
    ''and Kimi. Use it for clean repro labs, distro smoke labs, isolated Docker builds, and browser-'' @
    ''test labs. Call box_resource_status, then box_list_labs, then box_request_lab. Use exact vm_id '' @
    ''values for box_lab_status, box_exec, and cleanup. Keep outputs small; box_delete_vm is '' @
    ''permanent.\<newline>'' @
    ''\<newline>'' @
    ''This profile keeps raw VM tools as fallback but intentionally hides installer, import/adopt, '' @
    ''direct SSH key, screenshot, input, snapshot, start, restart, and image-prewarm tools. Its '' @
    ''box_request_vm schema is reduced for agents that cannot use a lab recipe.''"

definition ANDROID_INSTRUCTIONS :: string where
  "ANDROID_INSTRUCTIONS =
    ''Boxer Android app-testing profile. Boot an emulator with box_request_android (see '' @
    ''box_list_android_images for versions/variants), then drive the app over ADB: box_android_ui to '' @
    ''dump the UI tree as JSON and tap/swipe/type by coordinate, box_android_app to '' @
    ''install/launch/stop apps, box_android_screenshot for visuals, box_android_logcat for structured '' @
    ''telemetry, and box_run_instrumentation for prepared test suites. Devices appear in box_list_vms '' @
    ''and are deleted with box_delete_vm (permanent). Keep outputs small; prefer UI dumps and filtered'' @
    '' logcat over raw screenshots when possible.''"

definition READONLY_INSTRUCTIONS :: string where
  "READONLY_INSTRUCTIONS =
    ''Boxer read-only profile. Use this profile to inspect KVM lab recipes, VM capacity, images, '' @
    ''bootstrap profiles, existing project VMs, serial logs, queues, cleanup plans, and unmanaged VM '' @
    ''state. It cannot create, execute inside, mutate, import, adopt, purge, or delete VMs.''"

record mcp_profile =
  mp_name :: string
  mp_description :: string
  mp_instructions :: string
  mp_tool_names :: "string list"
  mp_compact_request_vm :: bool

definition MCP_PROFILES :: "(string \<times> mcp_profile) list" where
  "MCP_PROFILES =
    [(''claude'', \<lparr>mp_name = ''claude'', mp_description = ''Full lab-first Boxer surface tuned for Claude Code tool search.'',
        mp_instructions = RICH_INSTRUCTIONS, mp_tool_names = FULL_TOOL_NAMES, mp_compact_request_vm = False\<rparr>),
     (''codex'', \<lparr>mp_name = ''codex'', mp_description = ''Full lab-first Boxer surface tuned for Codex server instructions.'',
        mp_instructions = CODEX_INSTRUCTIONS, mp_tool_names = FULL_TOOL_NAMES, mp_compact_request_vm = False\<rparr>),
     (''qwen'', \<lparr>mp_name = ''qwen'', mp_description = ''Compact lab-first Boxer surface for Qwen Code and Qwen-backed agents.'',
        mp_instructions = LOW_CONTEXT_INSTRUCTIONS, mp_tool_names = COMPACT_TOOL_NAMES, mp_compact_request_vm = True\<rparr>),
     (''deepseek'', \<lparr>mp_name = ''deepseek'', mp_description = ''Compact lab-first Boxer surface for DeepSeek-backed coding agents.'',
        mp_instructions = LOW_CONTEXT_INSTRUCTIONS, mp_tool_names = COMPACT_TOOL_NAMES, mp_compact_request_vm = True\<rparr>),
     (''kimi'', \<lparr>mp_name = ''kimi'', mp_description = ''Compact lab-first Boxer surface for Kimi/Moonshot-backed coding agents.'',
        mp_instructions = LOW_CONTEXT_INSTRUCTIONS, mp_tool_names = COMPACT_TOOL_NAMES, mp_compact_request_vm = True\<rparr>),
     (''oss'', \<lparr>mp_name = ''oss'', mp_description = ''Generic compact lab-first Boxer surface for local/open-weight agents.'',
        mp_instructions = LOW_CONTEXT_INSTRUCTIONS, mp_tool_names = COMPACT_TOOL_NAMES, mp_compact_request_vm = True\<rparr>),
     (''android'', \<lparr>mp_name = ''android'', mp_description = ''Opt-in Android emulator app-testing surface (emulator + ADB control).'',
        mp_instructions = ANDROID_INSTRUCTIONS, mp_tool_names = ANDROID_TOOL_NAMES, mp_compact_request_vm = False\<rparr>),
     (''readonly'', \<lparr>mp_name = ''readonly'', mp_description = ''Read-only Boxer inspection surface.'',
        mp_instructions = READONLY_INSTRUCTIONS, mp_tool_names = READONLY_TOOL_NAMES, mp_compact_request_vm = False\<rparr>)]"

definition MCP_PROFILE_ALIASES :: "(string \<times> string) list" where
  "MCP_PROFILE_ALIASES =
    [(''default'', ''codex''), (''full'', ''codex''), (''rich'', ''codex''), (''anthropic'', ''claude''),
     (''claude-code'', ''claude''), (''openai'', ''codex''), (''openai-codex'', ''codex''),
     (''low-context'', ''oss''), (''local'', ''oss''), (''open-weight'', ''oss''),
     (''moonshot'', ''kimi''), (''kimi-k2'', ''kimi''), (''read'', ''readonly''),
     (''read-only'', ''readonly'')]"

definition resolve_mcp_profile :: "string option \<Rightarrow> mcp_profile res" where
  "resolve_mcp_profile name =
     (let raw = lower (strip (case name of Some (c # s) \<Rightarrow> c # s | _ \<Rightarrow> ''codex''));
          canonical = (case map_of MCP_PROFILE_ALIASES raw of None \<Rightarrow> raw | Some p \<Rightarrow> p) in
      need_some (PyExn ''ValueError'' (''Unknown Boxer MCP profile '' @
          quoted (case name of None \<Rightarrow> ''None'' | Some s \<Rightarrow> s) @ ''. Known profiles: '' @
          repr_strs (sort (remdups (map fst MCP_PROFILES @ map fst MCP_PROFILE_ALIASES)))))
        (map_of MCP_PROFILES canonical))"

definition profile_summary :: "pyval list" where
  "profile_summary = map (\<lambda>(_, p). PDict [(''name'', PStr (mp_name p)), (''description'', PStr (mp_description p)),
     (''tools'', PInt (int (length (mp_tool_names p)))), (''compact_request_vm'', PBool (mp_compact_request_vm p))]) MCP_PROFILES"

text \<open>The server that is built for a profile: its instructions, and its tools with their hints.\<close>

definition build_mcp :: "string option \<Rightarrow> (string \<times> (string \<times> 's tool \<times> tool_annotations option) list) res" where
  "build_mcp profile_name =
     bindr (resolve_mcp_profile profile_name) (\<lambda>profile.
     let functions = (if mp_compact_request_vm profile then COMPACT_TOOL_FUNCTIONS else TOOL_FUNCTIONS) in
     bindr (mapr (\<lambda>n. bindr (need_some (key_error n) (map_of functions n)) (\<lambda>f. Inr (n, f, map_of TOOL_ANNOTATIONS n)))
       (mp_tool_names profile)) (\<lambda>tools.
     Inr (mp_instructions profile, tools)))"

section \<open>The entry point\<close>

definition default_profile_name :: "(string \<Rightarrow> string option) \<Rightarrow> string" where
  "default_profile_name env = (case env ''BOXER_MCP_PROFILE'' of None \<Rightarrow> ''codex'' | Some p \<Rightarrow> p)"

text \<open>
  \<open>main\<close> of \<open>boxer_mcp/__main__.py\<close> after argparse: the listing that is printed, or the server that is run. Importing
  \<open>boxer_mcp.tools\<close> builds the server of the environment's profile first.
\<close>

datatype 's mcp_action = PrintProfiles "pyval list" | RunServer string "(string \<times> 's tool \<times> tool_annotations option) list"

definition mcp_main :: "(string \<Rightarrow> string option) \<Rightarrow> string option \<Rightarrow> bool \<Rightarrow> 's mcp_action res" where
  "mcp_main env profile_arg list_profiles =
     (let profile = (case profile_arg of Some p \<Rightarrow> p | None \<Rightarrow> default_profile_name env) in
      if list_profiles then Inr (PrintProfiles profile_summary)
      else bindr (build_mcp (Some (default_profile_name env)) :: (string \<times> (string \<times> 's tool \<times> tool_annotations option) list) res) (\<lambda>_.
        bindr (build_mcp (Some profile)) (\<lambda>(instructions, tools). Inr (RunServer instructions tools))))"

text \<open>A wrong profile in the environment fails the start even when the command line names a good one.\<close>

lemma stale_profile_variable:
  "build_mcp (Some (default_profile_name env)) = (Inl e :: (string \<times> (string \<times> 's tool \<times> tool_annotations option) list) res) \<Longrightarrow>
   mcp_main env profile_arg False = (Inl e :: 's mcp_action res)"
  by (simp add: mcp_main_def)

end
