(* ===== verification/Readonly.thy ===== *)
theory Readonly
  imports McpTools
begin

text \<open>
  What the read-only profile of the MCP server can do to the daemon: its tools, called with any arguments through
  a client of the daemon, touch no VM.
\<close>

section \<open>What is spared\<close>

text \<open>Everything but the log of calls, the notices and, of a VM, its address and the time of the last touch.\<close>

definition settled_row :: "vm \<Rightarrow> vm" where
  "settled_row v = v\<lparr>vm_ip := None, vm_last_touched := 0\<rparr>"

definition spared :: "'w st \<Rightarrow> 'w st \<Rightarrow> bool" where
  "spared s t \<longleftrightarrow> map settled_row (t_vms (db t)) = map settled_row (t_vms (db s)) \<and>
     t_projects (db t) = t_projects (db s) \<and> t_vm_tags (db t) = t_vm_tags (db s) \<and>
     t_queue (db t) = t_queue (db s) \<and> t_cleanup (db t) = t_cleanup (db s) \<and>
     t_events (db t) = t_events (db s) \<and> tasks t = tasks s \<and> now t = now s"

lemma settled_update:
  "(\<And>r. settled_row (f r) = settled_row r) \<Longrightarrow> map settled_row (rows_update vm_id k f rs) = map settled_row rs"
  by (simp add: rows_update_def)

interpretation rdf: frame spared
  by unfold_locales (auto simp: spared_def)

lemma spared_mod_db:
  "(\<And>d. map settled_row (t_vms (f d)) = map settled_row (t_vms d) \<and> t_projects (f d) = t_projects d \<and>
      t_vm_tags (f d) = t_vm_tags d \<and> t_queue (f d) = t_queue d \<and> t_cleanup (f d) = t_cleanup d \<and>
      t_events (f d) = t_events d) \<Longrightarrow> keeps spared (mod_db f)"
  by (rule keepsI_wp) (simp add: spared_def wp_simps)

lemma spared_clock: "keeps spared clock"
  by (simp add: clock_def rdf.gets_keeps)

interpretation rdp: probe_frame spared
proof unfold_locales
  show "spared s (s\<lparr>world := w\<rparr>)" "spared s (s\<lparr>rnd_next := n\<rparr>)" for s :: "'a st" and w n
    by (simp_all add: spared_def)
  show "keeps spared (update_vm_ip k x)" "keeps spared (touch_vm k)" for k x
    unfolding update_vm_ip_def touch_vm_def update_vm_def
    by (intro rdf.bindm_keeps spared_clock spared_mod_db; simp add: vms_update_def settled_update settled_row_def)+
  show "keeps spared (record_project_call p meth u)" "keeps spared (mark_project_notifications_delivered ids)" for p meth u ids
    unfolding record_project_call_def mark_project_notifications_delivered_def uuid4_hex_def Let_def
    by (intro rdf.frame_keeps spared_clock spared_mod_db keeps_splits; simp add: keeps_def spared_def)+
qed

section \<open>Calls\<close>

text \<open>A call of a method leaves what its handler leaves.\<close>

lemma call_spares:
  assumes "at_daemon D C" "keeps spared (cl_req_id C)" "map_of (registered D) method = Some h"
    "\<And>ps. keeps spared (h ps)"
  shows "keeps spared (make_call C method ps)"
  unfolding keeps_def
proof
  fix s
  obtain r s0 where i: "cl_req_id C s = (r, s0)" by fastforce
  with assms(2) have s0: "spared s s0" by (rule keepsD)
  show "spared s (snd (make_call C method ps s))"
  proof (cases r)
    case (Inl e)
    with i s0 show ?thesis by (simp add: make_call_def bindm_def)
  next
    case (Inr x)
    obtain r' t where h: "h ps s0 = (r', t)" by fastforce
    with assms(4) have "spared s0 t" by (rule keepsD)
    moreover have "make_call C method ps s = (case h ps s0 of (Inr v, t) \<Rightarrow> (Inr v, t) | (Inl e, t) \<Rightarrow> (Inl (as_ipc_error e), t))"
      using assms(1) i Inr by (intro make_call_to [OF _ _ assms(3)])
        (simp_all add: at_daemon_def daemon_send_def handle_connection_def [abs_def])
    ultimately show ?thesis
      using s0 rdf.frame_trans by (auto simp: h split: sum.split)
  qed
qed

text \<open>The methods behind the tools.\<close>

definition INSPECTION_METHODS :: "string list" where
  "INSPECTION_METHODS = [''resource.status'', ''lab.list'', ''lab.status'', ''image.list'', ''profile.list'', ''vm.list'',
     ''vm.get'', ''vm.serial_log'', ''queue.status'', ''cleanup.plan'', ''vm.scan'', ''android.list_images'',
     ''guest.sysinfo'', ''guest.services'', ''guest.logs'']"

lemmas inspecting = rdp.guest_handlers_keep rdp.list_keeps rdp.status_keeps rdp.scan_report_keeps

lemma inspection_spares:
  assumes "m \<in> set INSPECTION_METHODS"
  shows "\<exists>h. map_of (registered D) m = Some h \<and> (\<forall>ps. keeps spared (h ps))"
proof -
  have "list_all (\<lambda>m. \<exists>h. map_of (registered D) m = Some h \<and> (\<forall>ps. keeps spared (h ps))) INSPECTION_METHODS"
    by (simp add: INSPECTION_METHODS_def registered_def service_handlers_def vm_handlers_def
        rdp.activity_keeps inspecting)
  with assms show ?thesis by (simp add: list_all_iff)
qed

lemma ipc_spares:
  assumes "at_daemon D C" "keeps spared (cl_req_id C)" "m \<in> set INSPECTION_METHODS"
  shows "keeps spared (mcp_ipc C m ps)"
proof -
  obtain h where h: "map_of (registered D) m = Some h" "\<And>ps. keeps spared (h ps)"
    using inspection_spares [OF assms(3)] by blast
  show ?thesis
    unfolding mcp_ipc_def by (rule call_spares [OF assms(1,2) h])
qed

section \<open>The profile\<close>

lemma readonly_resolves: "resolve_mcp_profile (Some ''readonly'') =
    Inr \<lparr>mp_name = ''readonly'', mp_description = ''Read-only Boxer inspection surface.'',
        mp_instructions = READONLY_INSTRUCTIONS, mp_tool_names = READONLY_TOOL_NAMES, mp_compact_request_vm = False\<rparr>"
proof -
  have "lower (strip ''readonly'') = ''readonly''" by code_simp
  then show ?thesis
    by (simp add: resolve_mcp_profile_def MCP_PROFILE_ALIASES_def MCP_PROFILES_def need_some_def)
qed

lemma readonly_tools:
  assumes "build_mcp (Some ''readonly'') = Inr (text, tools)" "(n, f, ann) \<in> set tools"
  shows "n \<in> set READONLY_TOOL_NAMES \<and> map_of TOOL_FUNCTIONS n = Some f"
proof -
  have "mapr (\<lambda>n. bindr (need_some (key_error n) (map_of TOOL_FUNCTIONS n)) (\<lambda>f. Inr (n, f, map_of TOOL_ANNOTATIONS n)))
      READONLY_TOOL_NAMES = Inr tools"
    using assms(1) by (auto simp: build_mcp_def readonly_resolves bindr_eq_Inr)
  from mapr_Inr_all [OF this] assms(2) show ?thesis
    by (fastforce simp: bindr_eq_Inr need_some_Inr)
qed

lemma readonly_tools_spare:
  assumes "at_daemon D C" "keeps spared (cl_req_id C)" "n \<in> set READONLY_TOOL_NAMES" "map_of TOOL_FUNCTIONS n = Some f"
  shows "keeps spared (f C a)"
proof -
  note spares = ipc_spares [OF assms(1,2)]
  have "list_all (\<lambda>n. \<forall>f. map_of TOOL_FUNCTIONS n = Some f \<longrightarrow> keeps spared (f C a)) READONLY_TOOL_NAMES"
    by (simp add: READONLY_TOOL_NAMES_def TOOL_FUNCTIONS_def box_resource_status_def box_list_labs_def box_lab_status_def
        box_list_images_def box_list_profiles_def box_list_vms_def box_get_vm_def box_get_serial_log_def
        box_queue_status_def box_cleanup_plan_def box_scan_unmanaged_def box_list_android_images_def box_sysinfo_def
        box_services_def box_logs_def spares INSPECTION_METHODS_def rdf.bindm_keeps rdf.liftr_keeps)
  with assms(3,4) show ?thesis by (simp add: list_all_iff)
qed



end
