(* ===== verification/Notifier.thy ===== *)
theory Notifier
  imports Client
begin

text \<open>
  \<open>boxer_notifier/__main__.py\<close>: the desktop service that polls the daemon's events on the notification socket and
  shows the urgent ones. Its loop never ends; \<open>poll_rounds\<close> runs the rounds before it is stopped.
\<close>

text \<open>\<open>subprocess.run\<close> of notify-send; a missing program is logged.\<close>

definition desktop_notify :: "'s client \<Rightarrow> pyval \<Rightarrow> ('s, unit) pm" where
  "desktop_notify C message =
     catch_class ''FileNotFoundError''
       (bindm (liftr (text_value message)) (\<lambda>m.
        bindm (os_run (le_os (cl_local C))
          [''notify-send'', ''--app-name=Boxer'', ''--urgency=normal'', ''Boxer'', m] []) (\<lambda>_. ret ())))
       (\<lambda>_. ret ())"

definition URGENT_LEVELS :: "pyval list" where
  "URGENT_LEVELS = [PStr ''WARN'', PStr ''ERROR'']"

text \<open>One event: shown when it is urgent; its time is the new \<open>since\<close>.\<close>

definition show_event :: "'s client \<Rightarrow> pyval \<Rightarrow> ('s, pyval) pm" where
  "show_event C evt =
     bindm (liftr (reply_at ''level'' evt)) (\<lambda>level.
     bindm (if level \<in> set URGENT_LEVELS
       then bindm (liftr (reply_at ''message'' evt)) (desktop_notify C) else ret ()) (\<lambda>_.
     liftr (reply_at ''created_at'' evt)))"

text \<open>The inner loop, with \<open>since\<close> as far as it came: an exception ends the round, not the service.\<close>

fun show_events :: "'s client \<Rightarrow> pyval \<Rightarrow> pyval list \<Rightarrow> ('s, pyval) pm" where
  "show_events C since [] = ret since"
| "show_events C since (e # es) =
     bindm (catch (bindm (show_event C e) (\<lambda>t. ret (Some t))) (\<lambda>_. ret None)) (\<lambda>r.
     case r of None \<Rightarrow> ret since | Some t \<Rightarrow> show_events C t es)"

definition poll_round :: "'s client \<Rightarrow> pyval \<Rightarrow> ('s, pyval) pm" where
  "poll_round C since =
     bindm (catch (bindm (make_call C ''event.poll'' [(''since'', since), (''limit'', PInt 50)]) (\<lambda>events.
         bindm (liftr (py_iter events)) (\<lambda>items. ret (rev items))))
       (\<lambda>_. ret [])) (show_events C since)"

fun poll_rounds :: "nat \<Rightarrow> 's client \<Rightarrow> pyval \<Rightarrow> ('s, pyval) pm" where
  "poll_rounds 0 C since = ret since"
| "poll_rounds (Suc n) C since = bindm (poll_round C since) (poll_rounds n C)"

definition notifier_run :: "nat \<Rightarrow> ('s, instant) pm \<Rightarrow> 's client \<Rightarrow> ('s, pyval) pm" where
  "notifier_run n clk C = bindm clk (\<lambda>t. poll_rounds n C (PStr (iso t)))"

section \<open>What is shown\<close>

definition urgent :: "event \<Rightarrow> bool" where
  "urgent e \<longleftrightarrow> ev_level e = ''WARN'' \<or> ev_level e = ''ERROR''"

text \<open>The events after an instant, in the order of time.\<close>

definition events_after :: "instant \<Rightarrow> tables \<Rightarrow> event list" where
  "events_after t d = sort_key ev_created_at (filter (\<lambda>e. ev_created_at e > t) (t_events d))"

definition last_seen :: "string \<Rightarrow> event list \<Rightarrow> string" where
  "last_seen since es = (if es = [] then since else iso (ev_created_at (last es)))"

lemma select_events_after: "rev (select_events (Some t) None 50 d) =
    drop (length (events_after t d) - 50) (events_after t d)"
  by (simp add: select_events_def sql_limit_def events_after_def rev_take)

lemma event_row_fields [simp]:
  "reply_at ''level'' (event_row e) = Inr (PStr (ev_level e))"
  "reply_at ''message'' (event_row e) = Inr (PStr (ev_message e))"
  "reply_at ''created_at'' (event_row e) = Inr (PStr (iso (ev_created_at e)))"
  by (simp_all add: reply_at_def event_row_def need_dict_def need_key_def need_some_def)

lemma show_event_row: "show_event C (event_row e) =
    (if urgent e then bindm (desktop_notify C (PStr (ev_message e))) (\<lambda>_. ret (PStr (iso (ev_created_at e))))
     else ret (PStr (iso (ev_created_at e))))"
  by (auto simp: show_event_def urgent_def URGENT_LEVELS_def fun_eq_iff pm_defs)

lemma show_events_rows:
  assumes "\<And>m. no_raise (desktop_notify C (PStr m))"
  shows "show_events C (PStr since) (map event_row es) s =
    bindm (for_each (map (PStr \<circ> ev_message) (filter urgent es)) (desktop_notify C))
      (\<lambda>_. ret (PStr (last_seen since es))) s"
proof (induction es arbitrary: s since)
  case (Cons e es)
  obtain s' where "desktop_notify C (PStr (ev_message e)) s = (Inr (), s')"
    using assms [unfolded no_raise_def] by (metis (full_types) old.unit.exhaust prod.collapse)
  then show ?case
    by (simp add: show_event_row Cons.IH last_seen_def pm_defs split: prod.splits)
qed (simp add: last_seen_def pm_defs)

lemma event_poll_run:
  assumes "da_fromiso D since = Inr t" "since \<noteq> []"
  shows "h_event_poll D [(''since'', PStr since), (''limit'', PInt 50)] s =
    (Inr (PList (map event_row (select_events (Some t) None 50 (db s)))), s)"
  using assms
  by (simp add: h_event_poll_def dget_def int_param_def dget_or_def text_value_def need_str_def list_events_def pm_defs)

lemma nothing_after_last:
  assumes "es = drop n (events_after t d)" "es \<noteq> []"
  shows "events_after (ev_created_at (last es)) d = []"
proof -
  let ?new = "events_after t d"
  have new: "?new \<noteq> []" "last es = last ?new" using assms by (auto simp: last_drop)
  have "sorted (map ev_created_at ?new)" by (simp add: events_after_def)
  with new(1) have "\<forall>e \<in> set ?new. ev_created_at e \<le> ev_created_at (last ?new)"
    by (cases ?new rule: rev_cases) (auto simp: sorted_append)
  moreover have "ev_created_at (last ?new) > t"
    using last_in_set [OF new(1)] by (simp add: events_after_def)
  ultimately have "\<not> ev_created_at e > ev_created_at (last ?new)" if "e \<in> set (t_events d)" for e
    using that by (force simp: events_after_def)
  then show ?thesis by (auto simp: events_after_def new(2) filter_empty_conv not_less)
qed

text \<open>C28: What the desktop sees of the daemon's events: one round of the notifier shows, in the order of time, exactly
  the warnings and errors among the fifty newest events after its mark, and moves the mark to the newest of them. None
  of the events recorded so far lies behind the new mark, so nothing is shown twice; events older than the fifty
  newest are never shown.\<close>

theorem notifier_shows_newest:
  assumes "cl_send C = notify_send D" "cl_req_id C s = (Inr i, s0)"
    "da_fromiso D since = Inr t" "since \<noteq> []" "\<And>m. no_raise (desktop_notify C (PStr m))"
    "es = drop (length (events_after t (db s0)) - 50) (events_after t (db s0))"
  shows "poll_round C (PStr since) s =
      bindm (for_each (map (PStr \<circ> ev_message) (filter urgent es)) (desktop_notify C))
        (\<lambda>_. ret (PStr (last_seen since es))) s0 \<and>
    (es = [] \<or> events_after (ev_created_at (last es)) (db s0) = [])"
proof
  let ?sel = "select_events (Some t) None 50 (db s0)"
  have "make_call C ''event.poll'' [(''since'', PStr since), (''limit'', PInt 50)] s =
      (Inr (PList (map event_row ?sel)), s0)"
    using make_call_to [of C "notify_registered D", OF _ assms(2)] assms(1) event_poll_run [OF assms(3,4), of s0]
    by (simp add: notify_send_def handle_notify_connection_def [abs_def] notify_registered_def)
  then have "poll_round C (PStr since) s = show_events C (PStr since) (rev (map event_row ?sel)) s0"
    by (simp add: poll_round_def pm_defs)
  also have "rev (map event_row ?sel) = map event_row es"
    by (simp only: rev_map select_events_after assms(6))
  finally show "poll_round C (PStr since) s =
      bindm (for_each (map (PStr \<circ> ev_message) (filter urgent es)) (desktop_notify C))
        (\<lambda>_. ret (PStr (last_seen since es))) s0"
    by (simp only: show_events_rows [OF assms(5)])
qed (use nothing_after_last [OF assms(6)] in blast)

definition demo_note_event :: "string \<Rightarrow> string \<Rightarrow> instant \<Rightarrow> event" where
  "demo_note_event i level t = \<lparr>ev_id = i, ev_project_id = None, ev_vm_id = None, ev_level = level,
     ev_message = i, ev_created_at = t\<rparr>"

definition demo_events :: tables where
  "demo_events = empty_tables\<lparr>t_events := [demo_note_event ''a'' ''WARN'' 3, demo_note_event ''b'' ''INFO'' 5,
     demo_note_event ''c'' ''ERROR'' 4]\<rparr>"

text \<open>A desktop that accepts every notification, and a daemon that reads the mark as instant zero.\<close>

lemma notifier_shows_newest_witness:
  "poll_round ((demo_client demo_daemon)\<lparr>cl_send := notify_send demo_daemon\<rparr>) (PStr ''0'') (demo_state 9 demo_events) =
    (Inr (PStr (iso 5)), demo_state 9 demo_events)"
proof -
  let ?C = "(demo_client demo_daemon)\<lparr>cl_send := notify_send demo_daemon\<rparr>" and ?s = "demo_state 9 demo_events"
  let ?es = "[demo_note_event ''a'' ''WARN'' 3, demo_note_event ''c'' ''ERROR'' 4, demo_note_event ''b'' ''INFO'' 5]"
  have shown: "desktop_notify ?C m t = (Inr (), t)" if "m = PStr x" for m x and t :: "demo st"
    using that by (simp add: desktop_notify_def demo_client_def demo_local_def text_value_def need_str_def
        catch_class_def pm_defs)
  have "no_raise (desktop_notify ?C (PStr m))" for m
    by (simp add: no_raise_def shown)
  moreover have "?es = drop (length (events_after 0 (db ?s)) - 50) (events_after 0 (db ?s))"
    by (simp add: events_after_def demo_state_def demo_events_def empty_tables_def demo_note_event_def)
  ultimately have "poll_round ?C (PStr ''0'') ?s =
      bindm (for_each (map (PStr \<circ> ev_message) (filter urgent ?es)) (desktop_notify ?C))
        (\<lambda>_. ret (PStr (last_seen ''0'' ?es))) ?s"
    using notifier_shows_newest [of ?C demo_daemon ?s "''r1''" ?s "''0''" 0 ?es]
    by (simp add: demo_client_def demo_daemon_def ret_def)
  then show ?thesis
    by (simp add: urgent_def demo_note_event_def last_seen_def shown pm_defs)
qed

end
