(* ===== verification/Cli.thy ===== *)
theory Cli
  imports Client
begin

text \<open>
  \<open>boxer_cli/__main__.py\<close>: the command line. A command is its function after click has parsed the options: it sends
  requests with the administrator's identity and writes lines to the terminal. The command line's options are
  arguments of the definitions. Marks and arrows beyond Latin-1 in the output are written in ASCII.
\<close>

section \<open>The terminal and the process\<close>

text \<open>
  \<open>tt_echo\<close> and \<open>tt_err\<close> are \<open>click.echo\<close> to the two streams, \<open>tt_out\<close> and \<open>tt_errout\<close> write without a line
  end, \<open>tt_confirm\<close> asks; \<open>tt_json\<close> is \<open>json.dumps(..., indent=2)\<close>, \<open>tt_strftime\<close> reads an ISO time and
  prints it to the minute, \<open>tt_fromiso\<close> reads it. \<open>tt_group\<close> looks a group up by name.
\<close>

record 's terminal =
  tt_client :: "'s client"
  tt_echo :: "string \<Rightarrow> ('s, unit) pm"
  tt_err :: "string \<Rightarrow> ('s, unit) pm"
  tt_out :: "string \<Rightarrow> ('s, unit) pm"
  tt_errout :: "string \<Rightarrow> ('s, unit) pm"
  tt_confirm :: "string \<Rightarrow> ('s, bool) pm"
  tt_json :: "pyval \<Rightarrow> string"
  tt_strftime :: "string \<Rightarrow> string res"
  tt_fromiso :: "string \<Rightarrow> instant res"
  tt_now :: "('s, instant) pm"
  tt_admin_group :: string
  tt_group :: "string \<Rightarrow> int option"
  tt_groups :: "int list"
  tt_euid :: int

type_synonym 's command = "'s terminal \<Rightarrow> ('s, unit) pm"

definition is_admin_user :: "'s terminal \<Rightarrow> bool" where
  "is_admin_user T = (case tt_group T (tt_admin_group T) of
       Some gid \<Rightarrow> gid \<in> set (tt_groups T)
     | None \<Rightarrow> tt_euid T = 0)"

definition admin_params :: "'s terminal \<Rightarrow> pydict" where
  "admin_params T =
     [(''caller_project_id'', PStr ''admin''),
      (''caller_user'', PStr (case cl_env (tt_client T) ''USER'' of None \<Rightarrow> ''root'' | Some u \<Rightarrow> u)),
      (''caller_is_admin'', PBool (is_admin_user T))]"

definition cli_call :: "'s terminal \<Rightarrow> string \<Rightarrow> pydict \<Rightarrow> ('s, pyval) pm" where
  "cli_call T method params = make_call (tt_client T) method (dict_merge (admin_params T) params)"

section \<open>Reading a reply, writing a line\<close>

text \<open>\<open>v.get(k)\<close>, \<open>v.get(k, d)\<close>, \<open>v.get(k) or d\<close>, \<open>len(v)\<close>.\<close>

definition reply_get :: "string \<Rightarrow> pyval \<Rightarrow> pyval res" where
  "reply_get k v = bindr (need_dict attr_error v) (\<lambda>d. Inr (dget d k))"

definition reply_get_or :: "string \<Rightarrow> pyval \<Rightarrow> pyval \<Rightarrow> pyval res" where
  "reply_get_or k dflt v = bindr (need_dict attr_error v) (\<lambda>d. Inr (dget_or d k dflt))"

definition or_else :: "pyval \<Rightarrow> pyval res \<Rightarrow> pyval res" where
  "or_else dflt r = bindr r (\<lambda>v. Inr (py_or v dflt))"

fun py_len :: "pyval \<Rightarrow> int res" where
  "py_len (PList xs) = Inr (int (length xs))"
| "py_len (PStr s) = Inr (int (length s))"
| "py_len (PDict d) = Inr (int (length d))"
| "py_len _ = Inl (PyExn ''TypeError'' ''object has no len()'')"

text \<open>The parts of an f-string, from left to right: text, \<open>{v}\<close>, \<open>{v:<w}\<close> and \<open>{v:.1f}\<close>.\<close>

definition lit :: "string \<Rightarrow> string res" where "lit s = Inr s"

definition shown :: "pyval res \<Rightarrow> string res" where
  "shown r = bindr r (\<lambda>v. Inr (py_str v))"

definition ljust :: "nat \<Rightarrow> string \<Rightarrow> string" where
  "ljust w s = s @ replicate (w - length s) CHR '' ''"

fun format_left :: "nat \<Rightarrow> pyval \<Rightarrow> string res" where
  "format_left w (PStr s) = Inr (ljust w s)"
| "format_left w (PInt i) = Inr (ljust w (show_int i))"
| "format_left w (PFloat q r) = Inr (ljust w r)"
| "format_left w (PBool b) = Inr (ljust w (if b then ''1'' else ''0''))"
| "format_left w _ = Inl (PyExn ''TypeError'' ''unsupported format string passed to __format__'')"

definition left :: "nat \<Rightarrow> pyval res \<Rightarrow> string res" where
  "left w r = bindr r (format_left w)"

definition fixed1 :: "pyval res \<Rightarrow> string res" where
  "fixed1 r = bindr r (\<lambda>v. bindr (num_of v) (\<lambda>q. Inr (fmt1 q)))"

definition line :: "string res list \<Rightarrow> string res" where
  "line parts = bindr (mapr id parts) (\<lambda>ss. Inr (concat ss))"

definition echo_line :: "'s terminal \<Rightarrow> string res list \<Rightarrow> ('s, unit) pm" where
  "echo_line T parts = bindm (liftr (line parts)) (tt_echo T)"

definition echo_rows :: "'s terminal \<Rightarrow> pyval \<Rightarrow> (pyval \<Rightarrow> string res list) \<Rightarrow> ('s, unit) pm" where
  "echo_rows T rows parts = bindm (liftr (py_iter rows)) (\<lambda>rs. for_each rs (\<lambda>r. echo_line T (parts r)))"

definition echo_json :: "'s terminal \<Rightarrow> pyval \<Rightarrow> ('s, unit) pm" where
  "echo_json T v = tt_echo T (tt_json T v)"

text \<open>\<open>sep.join(v)\<close>\<close>

definition joined :: "string \<Rightarrow> pyval res \<Rightarrow> string res" where
  "joined sep r = bindr r (\<lambda>v. bindr (py_iter v) (\<lambda>xs. bindr (mapr text_value xs) (\<lambda>ss. Inr (join sep ss))))"

definition click_error :: "string \<Rightarrow> exn" where
  "click_error m = PyExn ''ClickException'' m"

definition confirm_or_abort :: "'s terminal \<Rightarrow> string \<Rightarrow> ('s, unit) pm" where
  "confirm_or_abort T question = bindm (tt_confirm T question) (\<lambda>yes. guardm (\<not> yes) (PyExn ''Abort'' []))"

text \<open>\<open>str\<close> of an exception, and the clauses \<open>except IPCError\<close>.\<close>

definition exn_str :: "exn \<Rightarrow> string" where
  "exn_str e = (case e of IPCError c m _ \<Rightarrow> ''['' @ show_int c @ ''] '' @ m | PyExn _ t \<Rightarrow> t)"

definition catch_ipc :: "('s, 'a) pm \<Rightarrow> (exn \<Rightarrow> ('s, 'a) pm) \<Rightarrow> ('s, 'a) pm" where
  "catch_ipc m h = catch m (\<lambda>e. if is_ipc_error e then h e else raise e)"

definition guest_call :: "'s terminal \<Rightarrow> string \<Rightarrow> pydict \<Rightarrow> ('s, pyval) pm" where
  "guest_call T method params = catch_ipc (cli_call T method params) (\<lambda>e. raise (click_error (exn_text e)))"

text \<open>\<open>_fmt_dt\<close> gives back what it cannot read; \<open>_stale_flag\<close> then shows nothing.\<close>

definition fmt_dt :: "'s terminal \<Rightarrow> pyval \<Rightarrow> pyval" where
  "fmt_dt T v = (case bindr (text_value v) (tt_strftime T) of Inr s \<Rightarrow> PStr s | Inl _ \<Rightarrow> v)"

definition stale_flag :: "'s terminal \<Rightarrow> instant \<Rightarrow> pyval \<Rightarrow> string" where
  "stale_flag T t v = (case bindr (reply_at ''lease_until'' v) (\<lambda>l. bindr (text_value l) (tt_fromiso T)) of
       Inr lease \<Rightarrow> if lease < t then '' [STALE]'' else []
     | Inl _ \<Rightarrow> [])"

section \<open>Machines\<close>

definition install_flag :: "pyval \<Rightarrow> string res" where
  "install_flag v = bindr (reply_get ''install_state'' v) (\<lambda>i. Inr (if i = PStr ''installing'' \<or> i = PStr ''failed''
     then '' [install:'' @ py_str i @ '']'' else []))"

definition ls_row :: "'s terminal \<Rightarrow> instant \<Rightarrow> pyval \<Rightarrow> string res" where
  "ls_row T t v = bindr (install_flag v) (\<lambda>install.
     line [left 14 (reply_at ''vm_id'' v), lit '' '', left 25 (reply_at ''display_name'' v), lit '' '',
      left 10 (bindr (reply_at ''state'' v) (\<lambda>s. reply_get_or ''live_state'' s v)), lit '' '',
      left 16 (or_else (PStr ''-'') (reply_get ''ip_address'' v)), lit '' '',
      shown (bindr (reply_at ''lease_until'' v) (\<lambda>l. Inr (fmt_dt T l))), lit (stale_flag T t v), lit install])"

definition cli_ls :: "bool \<Rightarrow> bool \<Rightarrow> bool \<Rightarrow> 's command" where
  "cli_ls stale show_all as_json T =
     bindm (cli_call T ''vm.list''
       ([(''include_stale'', PBool stale)] @ (if show_all then [(''caller_is_admin'', PBool True)] else []))) (\<lambda>vms.
     if as_json then echo_json T vms
     else if \<not> truthy vms then tt_echo T ''No VMs found.''
     else
       bindm (tt_echo T (ljust 14 ''VM ID'' @ '' '' @ ljust 25 ''NAME'' @ '' '' @ ljust 10 ''STATE'' @ '' '' @ ljust 16 ''IP'' @
         '' '' @ ljust 20 ''LEASE UNTIL'')) (\<lambda>_.
       bindm (tt_echo T (replicate 87 CHR ''-'')) (\<lambda>_.
       bindm (liftr (py_iter vms)) (\<lambda>vs. for_each vs (\<lambda>v. bindm (tt_now T) (\<lambda>t. bindm (liftr (ls_row T t v)) (tt_echo T)))))))"

definition cli_stop :: "string \<Rightarrow> bool \<Rightarrow> 's command" where
  "cli_stop vid force T =
     bindm (cli_call T ''vm.stop'' [(''vm_id'', PStr vid), (''graceful'', PBool (\<not> force))]) (\<lambda>r.
     echo_line T [lit ''VM '', shown (reply_at ''vm_id'' r), lit '': '', shown (reply_at ''state'' r)])"

definition started_line :: "pyval \<Rightarrow> string res list" where
  "started_line r =
     [lit ''VM '', shown (reply_at ''vm_id'' r), lit '': '', shown (reply_at ''state'' r), lit ''  ip='',
      shown (or_else (PStr ''-'') (reply_get ''ip_address'' r))]"

definition cli_start :: "string \<Rightarrow> int \<Rightarrow> 's command" where
  "cli_start vid wait T =
     bindm (cli_call T ''vm.start'' [(''vm_id'', PStr vid), (''wait_for_ip_seconds'', PInt wait)]) (\<lambda>r.
     echo_line T (started_line r))"

definition cli_restart :: "string \<Rightarrow> bool \<Rightarrow> int \<Rightarrow> 's command" where
  "cli_restart vid force wait T =
     bindm (cli_call T ''vm.restart''
       [(''vm_id'', PStr vid), (''graceful'', PBool (\<not> force)), (''wait_for_ip_seconds'', PInt wait)]) (\<lambda>r.
     echo_line T (started_line r))"

definition cli_ssh_access :: "string \<Rightarrow> bool \<Rightarrow> bool \<Rightarrow> int \<Rightarrow> 's command" where
  "cli_ssh_access vid show_private_key no_create timeout T =
     bindm (cli_call T ''vm.ssh_access''
       [(''vm_id'', PStr vid), (''include_private_key'', PBool show_private_key), (''create'', PBool (\<not> no_create)),
        (''timeout_seconds'', PInt timeout)]) (\<lambda>r.
     bindm (echo_line T [lit ''user: '', shown (reply_at ''username'' r)]) (\<lambda>_.
     bindm (echo_line T [lit ''host: '', shown (or_else (PStr ''-'') (reply_get ''host'' r))]) (\<lambda>_.
     bindm (echo_line T [lit ''key:  '', shown (reply_at ''private_key_path'' r)]) (\<lambda>_.
     bindm (echo_line T [lit ''cmd:  '', shown (reply_at ''ssh_command'' r)]) (\<lambda>_.
     whenm show_private_key
       (bindm (tt_echo T ''\<newline>private_key:'') (\<lambda>_. echo_line T [shown (reply_at ''private_key'' r)])))))))"

text \<open>\<open>sys.exit(n)\<close> is the exception \<open>SystemExit\<close>.\<close>

definition cli_exec :: "string \<Rightarrow> string list \<Rightarrow> int \<Rightarrow> bool \<Rightarrow> int \<Rightarrow> 's command" where
  "cli_exec vid command timeout detach wait_ssh T =
     bindm (guest_call T ''vm.exec''
       [(''vm_id'', PStr vid), (''command'', PStr (join '' '' command)), (''timeout_seconds'', PInt timeout),
        (''detach'', PBool detach), (''wait_ssh_seconds'', PInt wait_ssh)]) (\<lambda>r.
     if detach then
       echo_line T [lit ''pid: '', shown (reply_get ''pid'' r), lit ''  log: '', shown (reply_get ''log_path'' r)]
     else
       bindm (liftr (bindr (reply_get_or ''stdout'' (PStr []) r) text_value)) (\<lambda>out.
       bindm (tt_out T out) (\<lambda>_.
       bindm (liftr (bindr (reply_get_or ''stderr'' (PStr []) r) text_value)) (\<lambda>err.
       bindm (tt_errout T err) (\<lambda>_.
       bindm (liftr (bindr (reply_get_or ''exit_code'' (PInt 0) r) py_int)) (\<lambda>n.
       raise (PyExn ''SystemExit'' (show_int n))))))))"

definition cli_push :: "string \<Rightarrow> string \<Rightarrow> string \<Rightarrow> bool \<Rightarrow> int \<Rightarrow> 's command" where
  "cli_push vid local_path remote_path sudo timeout T =
     bindm (pack_local (cl_local (tt_client T)) local_path (PStr remote_path)) (\<lambda>item.
     bindm (guest_call T ''vm.push_files''
       [(''vm_id'', PStr vid), (''files'', PList [PDict item]), (''sudo'', PBool sudo),
        (''timeout_seconds'', PInt timeout)]) (\<lambda>r.
     bindm (liftr (reply_at ''files'' r)) (\<lambda>files.
     echo_rows T files (\<lambda>f.
       [shown (reply_at ''path'' f), lit '': '', shown (reply_at ''bytes'' f), lit '' bytes'',
        bindr (reply_get ''extracted'' f) (\<lambda>x. Inr (if truthy x then '' (unpacked)'' else []))]))))"

definition cli_pull :: "string \<Rightarrow> string \<Rightarrow> string \<Rightarrow> bool \<Rightarrow> bool \<Rightarrow> 's command" where
  "cli_pull vid remote_path local_path sudo overwrite T =
     bindm (guest_call T ''vm.pull'' [(''vm_id'', PStr vid), (''path'', PStr remote_path), (''sudo'', PBool sudo)]) (\<lambda>r.
     bindm (liftr (need_dict type_error r)) (\<lambda>result.
     bindm (catch_class ''FileExistsError'' (write_pull (cl_local (tt_client T)) result local_path overwrite)
       (\<lambda>e. raise (click_error (exn_text e)))) (\<lambda>out.
     echo_line T [shown (need_key out ''local_path''), lit '': '', shown (need_key out ''bytes''), lit '' bytes'',
       bindr (need_key out ''is_archive'') (\<lambda>x. Inr (if truthy x then '' (archive unpacked)'' else []))])))"

definition cli_screenshot :: "string \<Rightarrow> string \<Rightarrow> 's command" where
  "cli_screenshot vid local_path T =
     bindm (guest_call T ''vm.screenshot'' [(''vm_id'', PStr vid)]) (\<lambda>r.
     bindm (liftr (reply_at ''data'' r)) (\<lambda>data.
     bindm (save_png (cl_local (tt_client T)) data local_path) (\<lambda>out.
     echo_line T [shown (need_key out ''local_path''), lit '': '', shown (need_key out ''width''), lit ''x'',
       shown (need_key out ''height'')])))"

definition cli_delete :: "string \<Rightarrow> bool \<Rightarrow> 's command" where
  "cli_delete vid yes T =
     bindm (whenm (\<not> yes) (confirm_or_abort T (''Delete VM '' @ vid @ '' and all its storage?''))) (\<lambda>_.
     bindm (cli_call T ''vm.delete'' [(''vm_id'', PStr vid)]) (\<lambda>r.
     echo_line T [lit (''VM '' @ vid @ '' deleted: ''), shown (reply_at ''deleted'' r)]))"

section \<open>Cleaning up\<close>

text \<open>One machine of the plan: asked about when \<open>interactive\<close>, deleted, a daemon's error reported.\<close>

definition cleanup_one :: "'s terminal \<Rightarrow> bool \<Rightarrow> pyval \<Rightarrow> ('s, unit) pm" where
  "cleanup_one T interactive v =
     bindm (if interactive then
         bindm (liftr (line [lit ''  Delete '', shown (reply_at ''vm_id'' v), lit '' ('', shown (reply_at ''display_name'' v),
           lit '')?''])) (tt_confirm T)
       else ret True) (\<lambda>go.
     whenm go
       (catch_ipc
         (bindm (liftr (reply_at ''vm_id'' v)) (\<lambda>i.
          bindm (cli_call T ''vm.delete'' [(''vm_id'', i)]) (\<lambda>_.
          echo_line T [lit ''  Deleted '', shown (Inr i)])))
         (\<lambda>e. bindm (liftr (line [lit ''  Failed to delete '', shown (reply_at ''vm_id'' v), lit ('': '' @ exn_str e)]))
           (tt_err T))))"

definition cli_cleanup :: "bool \<Rightarrow> bool \<Rightarrow> 's command" where
  "cli_cleanup dry_run interactive T =
     bindm (cli_call T ''cleanup.plan'' []) (\<lambda>plan.
     bindm (liftr (reply_get_or ''stale_vms'' (PList []) plan)) (\<lambda>stale.
     if \<not> truthy stale then tt_echo T ''No stale VMs to clean up.''
     else
       bindm (liftr (py_len stale)) (\<lambda>n.
       bindm (tt_echo T (''Found '' @ show_int n @ '' stale VM(s):'')) (\<lambda>_.
       bindm (echo_rows T stale (\<lambda>v.
         [lit ''  '', shown (reply_at ''vm_id'' v), lit '' ('', shown (reply_at ''display_name'' v), lit '') -- state='',
          shown (reply_at ''state'' v), lit '', expired='',
          shown (bindr (reply_at ''lease_expired'' v) (\<lambda>l. Inr (fmt_dt T l)))])) (\<lambda>_.
       if dry_run then tt_echo T ''[dry-run] No changes made.''
       else bindm (liftr (py_iter stale)) (\<lambda>vs. for_each vs (cleanup_one T interactive)))))))"

text \<open>
  \<open>float(s)\<close> of a text: a decimal with an optional exponent, or the words for infinity and not-a-number. The value
  of a decimal is kept exact.
\<close>

datatype float_text = Finite rat | Infinite | NotANumber

definition decimal_of :: "string \<Rightarrow> rat option" where
  "decimal_of s =
     (let (mant, e, ex) = partition_at ''e'' s; (whole, dot, frac) = partition_at ''.'' mant in
      if whole = [] \<and> frac = [] then None
      else (case (if whole = [] then Some [] else int_digits False whole, if frac = [] then Some [] else int_digits False frac,
                  if e = [] then Some 0 else if strip ex \<noteq> ex then None else parse_int ex) of
          (Some w, Some f, Some k) \<Rightarrow>
            (let m = of_nat (digits_value (w @ f)) / 10 ^ length f
             in Some (if 0 \<le> k then m * 10 ^ nat k else m / 10 ^ nat (- k)))
        | _ \<Rightarrow> None))"

definition parse_float :: "string \<Rightarrow> float_text option" where
  "parse_float s =
     (let t = lower (strip s); (neg, u) = (case t of c # r \<Rightarrow> if c = CHR ''-'' then (True, r)
            else if c = CHR ''+'' then (False, r) else (False, t) | [] \<Rightarrow> (False, t))
      in if u = ''inf'' \<or> u = ''infinity'' then Some Infinite
         else if u = ''nan'' then Some NotANumber
         else map_option (\<lambda>q. Finite (if neg then - q else q)) (decimal_of u))"

definition age_unit :: "char \<Rightarrow> int option" where
  "age_unit c = map_of [(CHR ''s'', 1), (CHR ''m'', 60), (CHR ''h'', 3600), (CHR ''d'', 86400)] c"

text \<open>
  A number with a unit, or a bare number of seconds. \<open>int\<close> of an infinite float raises an error of its own, of
  not-a-number the \<open>ValueError\<close> that is passed over.
\<close>

definition parse_age :: "string \<Rightarrow> int res" where
  "parse_age spec =
     (let s = lower (strip spec);
          bare = (case parse_int s of Some i \<Rightarrow> Inr i
            | None \<Rightarrow> Inl (PyExn ''BadParameter'' (''Invalid age '' @ quoted s @ ''. Use e.g. 7d, 24h, 30m, 90s.'')))
      in if s = [] then bare
         else (case age_unit (last s) of
             None \<Rightarrow> bare
           | Some u \<Rightarrow> (case parse_float (butlast s) of
               Some (Finite q) \<Rightarrow> Inr (rat_trunc (q * of_int u))
             | Some Infinite \<Rightarrow> Inl (PyExn ''OverflowError'' ''cannot convert float infinity to integer'')
             | _ \<Rightarrow> bare)))"

fun size_text :: "string list \<Rightarrow> rat \<Rightarrow> string" where
  "size_text [] q = []"
| "size_text [u] q = fmt1 q @ u"
| "size_text (u # us) q = (if q < 1024 then fmt1 q @ u else size_text us (q / 1024))"

definition fmt_bytes :: "pyval res \<Rightarrow> string res" where
  "fmt_bytes r = bindr r (\<lambda>v. bindr (num_of v) (\<lambda>q. Inr (size_text [''B'', ''KiB'', ''MiB'', ''GiB'', ''TiB''] q)))"

section \<open>Images and profiles\<close>

definition image_row :: "pyval \<Rightarrow> string res" where
  "image_row r =
     bindr (reply_get ''cached'' r) (\<lambda>cached.
     bindr (or_else (PStr []) (reply_get ''current_digest'' r)) (\<lambda>d.
     bindr (case d of PStr s \<Rightarrow> Inr (PStr (take 23 s)) | PList xs \<Rightarrow> Inr (PList (take 23 xs)) | _ \<Rightarrow> Inl type_error) (\<lambda>digest.
     bindr (reply_get ''signature_verified'' r) (\<lambda>sig.
     line [left 22 (reply_at ''template'' r), lit '' '', left 10 (or_else (PStr ''-'') (reply_get ''family'' r)), lit '' '',
       left 12 (reply_get_or ''artifact_type'' (PStr ''-'') r), lit '' '',
       left 8 (reply_get_or ''refresh_policy'' (PStr ''-'') r), lit '' '',
       lit (ljust 7 (if truthy cached then ''yes'' else ''-'')), lit '' '', shown (Inr digest),
       lit (if truthy sig then '' +sig'' else [])]))))"

definition cli_images :: "bool \<Rightarrow> 's command" where
  "cli_images as_json T =
     bindm (cli_call T ''image.list'' []) (\<lambda>result.
     bindm (liftr (reply_get_or ''images'' (PList []) result)) (\<lambda>rows.
     if as_json then echo_json T rows
     else if \<not> truthy rows then tt_echo T ''No catalog templates configured.''
     else
       bindm (tt_echo T (ljust 22 ''TEMPLATE'' @ '' '' @ ljust 10 ''FAMILY'' @ '' '' @ ljust 12 ''TYPE'' @ '' '' @
         ljust 8 ''POLICY'' @ '' '' @ ljust 7 ''CACHED'' @ '' DIGEST'')) (\<lambda>_.
       bindm (tt_echo T (replicate 90 CHR ''-'')) (\<lambda>_.
       bindm (liftr (py_iter rows)) (\<lambda>rs. for_each rs (\<lambda>r. bindm (liftr (image_row r)) (tt_echo T)))))))"

definition cli_profiles :: "bool \<Rightarrow> 's command" where
  "cli_profiles as_json T =
     bindm (cli_call T ''profile.list'' []) (\<lambda>result.
     bindm (liftr (reply_get_or ''profiles'' (PList []) result)) (\<lambda>rows.
     if as_json then echo_json T rows
     else if \<not> truthy rows then tt_echo T ''No profiles configured.''
     else bindm (liftr (py_iter rows)) (\<lambda>ps. for_each ps (\<lambda>p.
       bindm (echo_line T [left 10 (reply_at ''name'' p), lit '' '', shown (reply_at ''description'' p)]) (\<lambda>_.
       echo_line T [lit ''           packages: '', joined '', '' (reply_at ''packages'' p)])))))"

section \<open>Labs\<close>

definition print_labs :: "'s terminal \<Rightarrow> pyval \<Rightarrow> ('s, unit) pm" where
  "print_labs T rows =
     (if \<not> truthy rows then tt_echo T ''No lab recipes configured.''
      else
        bindm (tt_echo T (ljust 16 ''LAB'' @ '' '' @ ljust 16 ''TEMPLATE'' @ '' '' @ ljust 6 ''TTL'' @ '' NICHE'')) (\<lambda>_.
        bindm (tt_echo T (replicate 90 CHR ''-'')) (\<lambda>_.
        bindm (liftr (py_iter rows)) (\<lambda>ls. for_each ls (\<lambda>l.
          bindm (echo_line T [left 16 (reply_at ''name'' l), lit '' '', left 16 (reply_at ''default_template'' l), lit '' '',
            left 6 (reply_at ''ttl_minutes'' l), lit '' '', shown (reply_at ''niche'' l)]) (\<lambda>_.
          bindm (echo_line T [lit ''  profiles: '',
            joined '', '' (or_else (PList [PStr ''-'']) (reply_get ''profiles'' l))]) (\<lambda>_.
          echo_line T [lit ''  templates: '',
            joined '', '' (bindr (reply_get ''recommended_templates'' l) (\<lambda>ts.
              if truthy ts then Inr ts else bindr (reply_at ''default_template'' l) (\<lambda>d. Inr (PList [d]))))])))))))"

text \<open>\<open>boxer labs\<close> and \<open>boxer lab list\<close>.\<close>

definition cli_labs :: "bool \<Rightarrow> 's command" where
  "cli_labs as_json T =
     bindm (cli_call T ''lab.list'' []) (\<lambda>result.
     bindm (liftr (reply_get_or ''labs'' (PList []) result)) (\<lambda>rows.
     if as_json then echo_json T result else print_labs T rows))"

definition cli_lab_list :: "bool \<Rightarrow> 's command" where
  "cli_lab_list as_json T =
     bindm (cli_call T ''lab.list'' []) (\<lambda>result.
     bindm (liftr (reply_get_or ''labs'' (PList []) result)) (\<lambda>rows.
     if as_json then echo_json T result else print_labs T rows))"

text \<open>The tags of \<open>--tag key=value\<close>: a repeated key keeps its last value.\<close>

fun parse_tags :: "pydict \<Rightarrow> string list \<Rightarrow> pydict res" where
  "parse_tags acc [] = Inr acc"
| "parse_tags acc (tag # tags) =
     (case split_max 1 ''='' tag of
        [k, v] \<Rightarrow> parse_tags (AList.update k (PStr v) acc) tags
      | _ \<Rightarrow> Inl (PyExn ''BadParameter'' (''Invalid tag '' @ quoted tag @ ''. Use key=value.'')))"

definition lab_request_params :: "string \<Rightarrow> string option \<Rightarrow> string option \<Rightarrow> string \<Rightarrow> int option \<Rightarrow> bool \<Rightarrow> pydict \<Rightarrow> pydict"
where
  "lab_request_params recipe purpose template sz ttl no_wait tags =
     [(''lab'', PStr recipe), (''size'', PStr sz), (''wait'', PBool (\<not> no_wait))] @
     nonempty [(''purpose'', opt_str purpose)] ''purpose'' @ nonempty [(''template'', opt_str template)] ''template'' @
     (case ttl of None \<Rightarrow> [] | Some n \<Rightarrow> [(''ttl_minutes'', PInt n)]) @
     (if tags = [] then [] else [(''tags'', PDict tags)])"

definition lab_summary :: "'s terminal \<Rightarrow> string \<Rightarrow> pyval \<Rightarrow> ('s, unit) pm" where
  "lab_summary T recipe result =
     bindm (liftr (reply_get_or ''lab'' (PDict []) result)) (\<lambda>lab_info.
     bindm (liftr (bindr (reply_get ''status'' result) (\<lambda>a. bindr (reply_get ''state'' result) (\<lambda>b.
       Inr (py_or (py_or a b) (PStr ''-'')))))) (\<lambda>status.
     bindm (liftr (bindr (reply_get ''vm_id'' result) (\<lambda>a. if truthy a then Inr a else
       bindr (reply_get ''vm_id'' lab_info) (\<lambda>b. Inr (py_or b (PStr ''-'')))))) (\<lambda>vid.
     bindm (echo_line T [shown (reply_get_or ''title'' (PStr recipe) lab_info), lit '': '', shown (Inr status),
       lit ''  vm_id='', shown (Inr vid)]) (\<lambda>_.
     bindm (liftr (reply_get ''ip_address'' result)) (\<lambda>ip.
     bindm (whenm (truthy ip) (echo_line T [lit ''ip: '', shown (Inr ip)])) (\<lambda>_.
     bindm (liftr (reply_get ''wait_results'' result)) (\<lambda>waits.
     bindm (whenm (truthy waits)
       (bindm (tt_echo T ''wait:'') (\<lambda>_.
        bindm (liftr (need_dict attr_error waits)) (\<lambda>ws.
        for_each ws (\<lambda>(k, v). echo_line T [lit (''  '' @ k @ '': ''), shown (Inr v)]))))) (\<lambda>_.
     bindm (liftr (reply_get ''next_steps'' lab_info)) (\<lambda>steps.
     whenm (truthy steps)
       (bindm (tt_echo T ''next:'') (\<lambda>_. echo_rows T steps (\<lambda>x. [lit ''  - '', shown (Inr x)]))))))))))))"

definition cli_lab_request :: "string \<Rightarrow> string option \<Rightarrow> string option \<Rightarrow> string \<Rightarrow> int option \<Rightarrow> bool \<Rightarrow> string list \<Rightarrow>
    bool \<Rightarrow> 's command" where
  "cli_lab_request recipe purpose template sz ttl no_wait tags as_json T =
     bindm (liftr (parse_tags [] tags)) (\<lambda>parsed.
     bindm (cli_call T ''lab.request'' (lab_request_params recipe purpose template sz ttl no_wait parsed)) (\<lambda>result.
     if as_json then echo_json T result else lab_summary T recipe result))"

definition cli_lab_status :: "string \<Rightarrow> bool \<Rightarrow> 's command" where
  "cli_lab_status vid as_json T =
     bindm (cli_call T ''lab.status'' [(''vm_id'', PStr vid)]) (\<lambda>result.
     if as_json then echo_json T result
     else
       bindm (liftr (reply_get_or ''vm'' (PDict []) result)) (\<lambda>m.
       bindm (liftr (reply_get_or ''lab'' (PDict []) result)) (\<lambda>lab_info.
       bindm (echo_line T [shown (reply_get_or ''vm_id'' (PStr vid) m), lit ''  lab='',
         shown (or_else (PStr ''-'') (reply_get ''name'' lab_info)), lit ''  ready='', shown (reply_get ''ready'' lab_info)]) (\<lambda>_.
       bindm (echo_line T [lit ''state='',
         shown (bindr (reply_get_or ''state'' (PStr ''-'') m) (\<lambda>s. reply_get_or ''live_state'' s m)), lit ''  ip='',
         shown (or_else (PStr ''-'') (reply_get ''ip_address'' m))]) (\<lambda>_.
       bindm (liftr (or_else (PList []) (reply_get ''next_steps'' lab_info))) (\<lambda>steps.
       echo_rows T steps (\<lambda>x. [lit ''  - '', shown (Inr x)])))))))"

section \<open>Refreshing and pruning images\<close>

definition cli_image_refresh :: "string \<Rightarrow> 's command" where
  "cli_image_refresh template T =
     bindm (cli_call T ''image.refresh'' [(''template'', PStr template)]) (\<lambda>r.
     echo_line T [shown (reply_at ''template'' r), lit '': '', shown (reply_get ''current_digest'' r), lit '' (policy='',
       shown (reply_get ''refresh_policy'' r), lit '', signature='',
       bindr (reply_get ''signature_verified'' r) (\<lambda>v. Inr (if truthy v then ''verified'' else ''unverified'')), lit '')''])"

definition cli_prune :: "string \<Rightarrow> bool \<Rightarrow> 's command" where
  "cli_prune older_than dry_run T =
     bindm (liftr (parse_age older_than)) (\<lambda>age.
     bindm (cli_call T ''image.prune'' [(''older_than_seconds'', PInt age), (''dry_run'', PBool dry_run)]) (\<lambda>result.
     bindm (liftr (reply_get_or ''removed'' (PList []) result)) (\<lambda>removed.
     if \<not> truthy removed then
       bindm (tt_echo T ''No prunable cached artifacts found.'') (\<lambda>_.
       bindm (liftr (reply_get_or ''backing_chain_known'' (PBool True) result)) (\<lambda>known.
       whenm (\<not> truthy known)
         (tt_echo T ''(qemu-img backing-chain info unavailable -- digest blobs were protected.)'')))
     else
       bindm (echo_rows T removed (\<lambda>i. [lit (''  '' @ (if dry_run then ''[dry-run] would remove'' else ''Removed'') @ '': ''),
         shown (reply_at ''path'' i), lit '' ('', fmt_bytes (reply_at ''bytes'' i), lit '')''])) (\<lambda>_.
       echo_line T [lit ((if dry_run then ''[dry-run]'' else ''Removed'') @ '' ''), shown (reply_at ''removed_count'' result),
         lit '' artifact(s), '', fmt_bytes (reply_at ''freed_bytes'' result), lit ''.'']))))"

definition trust_row :: "pyval \<Rightarrow> string res" where
  "trust_row r =
     bindr (reply_get_or ''status'' (PStr []) r) (\<lambda>key.
     bindr (case key of PList _ \<Rightarrow> Inl (PyExn ''TypeError'' ''unhashable type'')
         | PDict _ \<Rightarrow> Inl (PyExn ''TypeError'' ''unhashable type'')
         | PStr s \<Rightarrow> (case map_of [(''signed'', ''+ signed''), (''checksum-only'', ''~ checksum''),
               (''unverified'', ''! unverified''), (''error'', ''x error'')] s of
             Some t \<Rightarrow> Inr (PStr t) | None \<Rightarrow> reply_get_or ''status'' (PStr ''?'') r)
         | _ \<Rightarrow> reply_get_or ''status'' (PStr ''?'') r) (\<lambda>status.
     bindr (reply_get ''signature_required'' r) (\<lambda>required.
     line [left 16 (reply_at ''template'' r), lit '' '', left 14 (Inr status), lit '' '',
       lit (ljust 4 (if truthy required then ''yes'' else ''-'')), lit '' '', shown (reply_get_or ''detail'' (PStr []) r)])))"

definition cli_image_trust :: "string list \<Rightarrow> bool \<Rightarrow> 's command" where
  "cli_image_trust templates as_json T =
     bindm (cli_call T ''image.preflight''
       (if templates = [] then [] else [(''templates'', str_list templates)])) (\<lambda>result.
     bindm (liftr (reply_get_or ''reports'' (PList []) result)) (\<lambda>reports.
     if as_json then echo_json T reports
     else if \<not> truthy reports then tt_echo T ''No catalog entries to check.''
     else
       bindm (tt_echo T (ljust 16 ''TEMPLATE'' @ '' '' @ ljust 14 ''STATUS'' @ '' '' @ ljust 4 ''REQ'' @ '' DETAIL'')) (\<lambda>_.
       bindm (tt_echo T (replicate 80 CHR ''-'')) (\<lambda>_.
       bindm (liftr (py_iter reports)) (\<lambda>rs. for_each rs (\<lambda>r. bindm (liftr (trust_row r)) (tt_echo T)))))))"

section \<open>Events and status\<close>

text \<open>One poll: the events oldest first, and the time of the last as the new mark.\<close>

fun print_events :: "'s terminal \<Rightarrow> pyval \<Rightarrow> pyval list \<Rightarrow> ('s, pyval) pm" where
  "print_events T since [] = ret since"
| "print_events T since (e # es) =
     bindm (liftr (reply_at ''created_at'' e)) (\<lambda>t.
     bindm (echo_line T [shown (Inr (fmt_dt T t)), lit '' ['', shown (reply_at ''level'' e), lit ''] '',
       shown (reply_at ''message'' e)]) (\<lambda>_.
     print_events T t es))"

definition poll_events :: "'s terminal \<Rightarrow> pydict \<Rightarrow> pyval \<Rightarrow> ('s, pyval) pm" where
  "poll_events T params since =
     bindm (cli_call T ''event.poll'' (params @ (if truthy since then [(''since'', since)] else []))) (\<lambda>evts.
     bindm (liftr (py_iter evts)) (\<lambda>es. print_events T since (rev es)))"

text \<open>\<open>--tail\<close> polls until it is interrupted: \<open>rounds\<close> is how often it does.\<close>

fun tail_events :: "nat \<Rightarrow> 's terminal \<Rightarrow> pydict \<Rightarrow> pyval \<Rightarrow> ('s, unit) pm" where
  "tail_events 0 T params since = ret ()"
| "tail_events (Suc n) T params since = bindm (poll_events T params since) (tail_events n T params)"

definition cli_events :: "nat \<Rightarrow> bool \<Rightarrow> string option \<Rightarrow> int \<Rightarrow> 's command" where
  "cli_events rounds tail level limit T =
     tail_events (if tail then rounds else 1) T
       ([(''limit'', PInt limit)] @ nonempty [(''level'', opt_str level)] ''level'') PNone"

definition cli_status :: "'s command" where
  "cli_status T =
     bindm (cli_call T ''resource.status'' []) (\<lambda>s.
     bindm (echo_line T [lit ''RAM: '', fixed1 (reply_at ''free_ram_gib'' s), lit ''G free / '',
       fixed1 (reply_at ''usable_ram_gib'' s), lit ''G usable / '', fixed1 (reply_at ''total_ram_gib'' s), lit ''G total'']) (\<lambda>_.
     bindm (echo_line T [lit ''vCPU: '', shown (reply_at ''free_vcpus'' s), lit '' free / '', shown (reply_at ''max_vcpus'' s),
       lit '' max ('', shown (reply_at ''host_threads'' s), lit '' host threads)'']) (\<lambda>_.
     echo_line T [lit ''Running Boxer VMs: '', shown (reply_at ''running_vms'' s)])))"

section \<open>Reconciliation\<close>

definition report_parts :: "pyval \<Rightarrow> (pyval \<times> pyval \<times> pyval) res" where
  "report_parts report =
     bindr (reply_get_or ''orphaned_boxer'' (PList []) report) (\<lambda>orphaned.
     bindr (reply_get_or ''foreign_vms'' (PList []) report) (\<lambda>foreign.
     bindr (reply_get_or ''ghost_records'' (PList []) report) (\<lambda>ghosts.
     Inr (orphaned, foreign, ghosts))))"

definition active_text :: "pyval \<Rightarrow> string res" where
  "active_text v = bindr (reply_get ''is_active'' v) (\<lambda>a. Inr (if truthy a then ''running'' else ''stopped''))"

definition cli_scan :: "bool \<Rightarrow> 's command" where
  "cli_scan as_json T =
     bindm (cli_call T ''vm.scan'' []) (\<lambda>report.
     if as_json then echo_json T report
     else
       bindm (liftr (report_parts report)) (\<lambda>(orphaned, foreign, ghosts).
       if \<not> truthy orphaned \<and> \<not> truthy foreign \<and> \<not> truthy ghosts then
         tt_echo T ''All domains are accounted for -- nothing to reconcile.''
       else
         bindm (whenm (truthy orphaned)
           (bindm (liftr (py_len orphaned)) (\<lambda>n.
            bindm (tt_echo T (''\<newline>Orphaned Boxer domains ('' @ show_int n @
              '') -- run '' @ quoted ''boxer adopt <name>'' @ '' to recover:'')) (\<lambda>_.
            bindm (liftr (py_iter orphaned)) (\<lambda>os. for_each os (\<lambda>x. bindm (liftr (active_text x)) (\<lambda>a.
              echo_line T [lit ''  '', shown (reply_at ''libvirt_name'' x), lit ''  project='',
                shown (reply_at ''parsed_project_id'' x), lit (''  '' @ a @ ''  disk=''), shown (reply_at ''disk_gb'' x),
                lit ''G''])))))))  (\<lambda>_.
         bindm (whenm (truthy foreign)
           (bindm (liftr (py_len foreign)) (\<lambda>n.
            bindm (tt_echo T (''\<newline>Foreign (unmanaged) domains ('' @ show_int n @
              '') -- run '' @ quoted ''boxer import <name>'' @ '' to manage:'')) (\<lambda>_.
            bindm (liftr (py_iter foreign)) (\<lambda>fs. for_each fs (\<lambda>x. bindm (liftr (active_text x)) (\<lambda>a.
              echo_line T [lit ''  '', shown (reply_at ''libvirt_name'' x), lit (''  '' @ a @ ''  disk=''),
                shown (reply_at ''disk_gb'' x), lit ''G''])))))))  (\<lambda>_.
         whenm (truthy ghosts)
           (bindm (liftr (py_len ghosts)) (\<lambda>n.
            bindm (tt_echo T (''\<newline>Ghost DB records ('' @ show_int n @
              '') -- run '' @ quoted ''boxer reconcile --fix'' @ '' to purge:'')) (\<lambda>_.
            echo_rows T ghosts (\<lambda>x. [lit ''  '', shown (reply_at ''vm_id'' x), lit ''  libvirt_name='',
              shown (reply_at ''libvirt_name'' x), lit ''  project='', shown (reply_at ''project_id'' x)]))))))))"

text \<open>What \<open>--fix\<close> does with an orphan and with a ghost: a failure is reported and the next one follows.\<close>

definition fix_orphan :: "'s terminal \<Rightarrow> pyval \<Rightarrow> ('s, unit) pm" where
  "fix_orphan T x =
     catch
       (bindm (liftr (reply_at ''libvirt_name'' x)) (\<lambda>n.
        bindm (cli_call T ''vm.adopt'' [(''libvirt_name'', n)]) (\<lambda>r.
        echo_line T [lit ''Adopted  '', shown (Inr n), lit '' -> vm_id='', shown (reply_at ''vm_id'' r)])))
       (\<lambda>e. bindm (liftr (line [lit ''Failed to adopt '', shown (reply_at ''libvirt_name'' x), lit ('': '' @ exn_str e)]))
         (tt_err T))"

definition fix_ghost :: "'s terminal \<Rightarrow> pyval \<Rightarrow> ('s, unit) pm" where
  "fix_ghost T x =
     catch
       (bindm (liftr (reply_at ''vm_id'' x)) (\<lambda>i.
        bindm (cli_call T ''vm.purge_ghost'' [(''vm_id'', i)]) (\<lambda>_.
        echo_line T [lit ''Purged   '', shown (Inr i), lit ''  ('', shown (reply_at ''libvirt_name'' x), lit '')''])))
       (\<lambda>e. bindm (liftr (line [lit ''Failed to purge '', shown (reply_at ''vm_id'' x), lit ('': '' @ exn_str e)]))
         (tt_err T))"

definition reconcile_preview :: "'s terminal \<Rightarrow> pyval \<Rightarrow> pyval \<Rightarrow> pyval \<Rightarrow> ('s, unit) pm" where
  "reconcile_preview T orphaned foreign ghosts =
     bindm (whenm (truthy orphaned)
       (bindm (tt_echo T ''\<newline>[DRY RUN] Would auto-adopt:'') (\<lambda>_.
        echo_rows T orphaned (\<lambda>x. [lit ''  boxer adopt '', shown (reply_at ''libvirt_name'' x)])))) (\<lambda>_.
     bindm (whenm (truthy ghosts)
       (bindm (tt_echo T ''\<newline>[DRY RUN] Would purge ghost records:'') (\<lambda>_.
        echo_rows T ghosts (\<lambda>x. [lit ''  boxer purge-ghost '', shown (reply_at ''vm_id'' x), lit ''  ('',
          shown (reply_at ''libvirt_name'' x), lit '')''])))) (\<lambda>_.
     bindm (whenm (truthy foreign)
       (bindm (tt_echo T ''\<newline>[INFO] Foreign domains require manual import:'') (\<lambda>_.
        echo_rows T foreign (\<lambda>x. [lit ''  boxer import '', shown (reply_at ''libvirt_name'' x)])))) (\<lambda>_.
     whenm (\<not> truthy orphaned \<and> \<not> truthy ghosts \<and> \<not> truthy foreign)
       (tt_echo T ''\<newline>Nothing to reconcile.''))))"

definition reconcile_fix :: "'s terminal \<Rightarrow> pyval \<Rightarrow> pyval \<Rightarrow> pyval \<Rightarrow> ('s, unit) pm" where
  "reconcile_fix T orphaned foreign ghosts =
     bindm (liftr (py_iter orphaned)) (\<lambda>os.
     bindm (for_each os (fix_orphan T)) (\<lambda>_.
     bindm (liftr (py_iter ghosts)) (\<lambda>gs.
     bindm (for_each gs (fix_ghost T)) (\<lambda>_.
     whenm (truthy foreign)
       (bindm (liftr (py_len foreign)) (\<lambda>n.
        tt_echo T (''\<newline>'' @ show_int n @ '' foreign domain(s) still require manual '' @
          quoted ''boxer import <name>'' @ ''.'')))))))"

definition cli_reconcile :: "bool \<Rightarrow> bool \<Rightarrow> 's command" where
  "cli_reconcile fix_it as_json T =
     bindm (cli_call T ''vm.scan'' []) (\<lambda>report.
     if as_json then echo_json T report
     else
       bindm (liftr (report_parts report)) (\<lambda>(orphaned, foreign, ghosts).
       bindm (liftr (py_len orphaned)) (\<lambda>no.
       bindm (tt_echo T (''Orphaned Boxer domains : '' @ show_int no)) (\<lambda>_.
       bindm (liftr (py_len foreign)) (\<lambda>nf.
       bindm (tt_echo T (''Foreign domains        : '' @ show_int nf)) (\<lambda>_.
       bindm (liftr (py_len ghosts)) (\<lambda>ng.
       bindm (tt_echo T (''Ghost DB records       : '' @ show_int ng)) (\<lambda>_.
       if fix_it then reconcile_fix T orphaned foreign ghosts
       else reconcile_preview T orphaned foreign ghosts))))))))"

definition cli_import :: "string \<Rightarrow> string \<Rightarrow> string option \<Rightarrow> int option \<Rightarrow> bool \<Rightarrow> 's command" where
  "cli_import domain project_id display_name ttl yes T =
     bindm (whenm (\<not> yes) (confirm_or_abort T (''Import '' @ quoted domain @ '' into project '' @ quoted project_id @
       ''?\<newline>  Storage will NOT be moved or deleted by Boxer.''))) (\<lambda>_.
     bindm (cli_call T ''vm.import''
       ([(''libvirt_name'', PStr domain), (''project_id'', PStr project_id)] @
        nonempty [(''display_name'', opt_str display_name)] ''display_name'' @
        (case ttl of None \<Rightarrow> [] | Some n \<Rightarrow> [(''ttl_minutes'', PInt n)]))) (\<lambda>r.
     echo_line T [lit (''Imported '' @ quoted domain @ '' as vm_id=''), shown (reply_at ''vm_id'' r),
       lit (''  display='' @ [squote]), shown (reply_at ''display_name'' r), lit ([squote] @ ''  project=''),
       shown (reply_at ''project_id'' r)]))"

definition cli_adopt :: "string \<Rightarrow> bool \<Rightarrow> 's command" where
  "cli_adopt domain yes T =
     bindm (whenm (\<not> yes) (confirm_or_abort T (''Re-adopt orphaned domain '' @ quoted domain @ ''?''))) (\<lambda>_.
     bindm (cli_call T ''vm.adopt'' [(''libvirt_name'', PStr domain)]) (\<lambda>r.
     echo_line T [lit (''Adopted '' @ quoted domain @ '' -> vm_id=''), shown (reply_at ''vm_id'' r)]))"

definition cli_purge_ghost :: "string \<Rightarrow> bool \<Rightarrow> 's command" where
  "cli_purge_ghost vid yes T =
     bindm (whenm (\<not> yes) (confirm_or_abort T (''Purge ghost record '' @ vid @ '' from the database?''))) (\<lambda>_.
     bindm (cli_call T ''vm.purge_ghost'' [(''vm_id'', PStr vid)]) (\<lambda>r.
     echo_line T [lit ''Purged ghost record '', shown (reply_at ''vm_id'' r)]))"

section \<open>Port forwarding\<close>

text \<open>The first VM whose id or display name is the one given.\<close>

fun find_named :: "string \<Rightarrow> pyval list \<Rightarrow> pyval option res" where
  "find_named n [] = Inr None"
| "find_named n (v # vs) =
     bindr (reply_at ''vm_id'' v) (\<lambda>i.
     if i = PStr n then Inr (Some v)
     else bindr (reply_at ''display_name'' v) (\<lambda>d. if d = PStr n then Inr (Some v) else find_named n vs))"

definition split_ports :: "string \<Rightarrow> string \<times> string" where
  "split_ports spec = (case split_max 1 '':'' spec of [l, r] \<Rightarrow> (l, r) | _ \<Rightarrow> (spec, spec))"

definition forward_command :: "string \<Rightarrow> string \<Rightarrow> string \<Rightarrow> string \<Rightarrow> string \<Rightarrow> string list" where
  "forward_command key bind local_port ip remote_port =
     [''ssh'', ''-i'', key, ''-o'', ''IdentitiesOnly=yes'', ''-o'', ''StrictHostKeyChecking=accept-new'',
      ''-o'', ''ExitOnForwardFailure=yes'', ''-N'', ''-L'',
      bind @ '':'' @ local_port @ '':'' @ ip @ '':'' @ remote_port, ''boxer@'' @ ip]"

text \<open>\<open>subprocess.run(cmd, check=True)\<close>; Ctrl-C raises \<open>KeyboardInterrupt\<close> and ends it quietly.\<close>

definition run_forward :: "'s terminal \<Rightarrow> string list \<Rightarrow> ('s, unit) pm" where
  "run_forward T cmd =
     catch_class ''KeyboardInterrupt''
       (bindm (os_run (le_os (cl_local (tt_client T))) cmd []) (\<lambda>r.
        guardm (pr_returncode r \<noteq> 0) (click_error (''SSH exited with code '' @ show_int (pr_returncode r)))))
       (\<lambda>_. ret ())"

definition cli_forward :: "string \<Rightarrow> string \<Rightarrow> string \<Rightarrow> 's command" where
  "cli_forward vm_name port_spec bind T =
     bindm (cli_call T ''vm.list'' [(''include_stale'', PBool False)]) (\<lambda>vms.
     bindm (liftr (bindr (py_iter vms) (find_named vm_name))) (\<lambda>found.
     case found of
       None \<Rightarrow> raise (click_error (''No active VM found with id or display name '' @ quoted vm_name))
     | Some v \<Rightarrow>
         bindm (liftr (reply_get ''ip_address'' v)) (\<lambda>ip.
         if \<not> truthy ip then
           bindm (liftr (line [lit ''VM '', shown (reply_at ''vm_id'' v), lit '' ('', shown (reply_at ''display_name'' v),
             lit '') has no IP address yet; wait for boot to complete (boxer start --wait-ip VM_ID).''])) (\<lambda>m.
           raise (click_error m))
         else
           bindm (catch_ipc
             (bindm (liftr (reply_at ''vm_id'' v)) (\<lambda>i.
              cli_call T ''vm.ssh_access'' [(''vm_id'', i), (''create'', PBool True)]))
             (\<lambda>e. raise (click_error (''SSH access setup failed: '' @ exn_str e)))) (\<lambda>info.
           bindm (liftr (reply_at ''private_key_path'' info)) (\<lambda>key.
           let (local_port, remote_port) = split_ports port_spec in
           bindm (echo_line T [lit (''Forwarding '' @ bind @ '':'' @ local_port @ '' -> ''), shown (reply_at ''display_name'' v),
             lit ('' ('' @ py_str ip @ ''):'' @ remote_port)]) (\<lambda>_.
           bindm (tt_echo T ''Press Ctrl-C to stop.'') (\<lambda>_.
           bindm (liftr (text_value key)) (\<lambda>k.
           run_forward T (forward_command k bind local_port (py_str ip) remote_port)))))))))"

section \<open>Android\<close>

definition cli_android_images :: "bool \<Rightarrow> 's command" where
  "cli_android_images as_json T =
     bindm (cli_call T ''android.list_images'' []) (\<lambda>result.
     if as_json then echo_json T result
     else
       bindm (liftr (reply_get_or ''availability'' (PDict []) result)) (\<lambda>avail.
       bindm (echo_line T [lit ''sdk: enabled='', shown (reply_get ''enabled'' avail), lit '' kvm='', shown (reply_get ''kvm'' avail),
         lit '' root='', shown (or_else (PStr ''-'') (reply_get ''sdk_root'' avail))]) (\<lambda>_.
       bindm (tt_echo T (ljust 34 ''NAME'' @ '' '' @ ljust 5 ''API'' @ '' '' @ ljust 14 ''VARIANT'' @ '' ABI'')) (\<lambda>_.
       bindm (tt_echo T (replicate 70 CHR ''-'')) (\<lambda>_.
       bindm (liftr (reply_get_or ''images'' (PList []) result)) (\<lambda>rows.
       echo_rows T rows (\<lambda>r.
         [left 34 (reply_at ''name'' r), lit '' '',
          bindr (reply_get_or ''api'' (PStr []) r) (\<lambda>v. Inr (ljust 5 (py_str v))), lit '' '',
          bindr (reply_get_or ''variant'' (PStr []) r) (\<lambda>v. Inr (ljust 14 (py_str v))), lit '' '',
          shown (reply_get_or ''abi'' (PStr []) r)])))))))"

definition int_option :: "string \<Rightarrow> int option \<Rightarrow> pydict" where
  "int_option k n = (case n of None \<Rightarrow> [] | Some i \<Rightarrow> [(k, PInt i)])"

definition opt_int :: "int option \<Rightarrow> pyval" where
  "opt_int n = (case n of None \<Rightarrow> PNone | Some i \<Rightarrow> PInt i)"

definition cli_android_request :: "string \<Rightarrow> string \<Rightarrow> int option \<Rightarrow> int option \<Rightarrow> int option \<Rightarrow> int \<Rightarrow> int \<Rightarrow> bool \<Rightarrow>
    's command" where
  "cli_android_request template purpose cores ram_mb data_gb ttl wait_s as_json T =
     bindm (cli_call T ''android.request''
       ([(''template'', PStr template), (''purpose'', PStr purpose), (''ttl_minutes'', PInt ttl)] @
        int_option ''cores'' cores @ int_option ''ram_mb'' ram_mb @ int_option ''data_gb'' data_gb @
        (if wait_s \<noteq> 0 then [(''wait_boot_seconds'', PInt wait_s)] else []))) (\<lambda>r.
     if as_json then echo_json T r
     else
       bindm (liftr (reply_get ''status'' r)) (\<lambda>status.
       if status = PStr ''queued'' then
         echo_line T [lit ''queued: '', shown (reply_get ''reason'' r), lit '' (queue_id='', shown (reply_get ''queue_id'' r),
           lit '')'']
       else
         bindm (echo_line T [lit (purpose @ '': ''), shown (reply_get ''state'' r), lit ''  vm_id='', shown (reply_get ''vm_id'' r),
           lit ''  adb='', shown (reply_get ''adb_serial'' r)]) (\<lambda>_.
         bindm (liftr (need_dict attr_error r)) (\<lambda>d.
         case map_of d ''boot_completed'' of None \<Rightarrow> ret ()
         | Some b \<Rightarrow> echo_line T [lit ''boot_completed: '', shown (Inr b)]))))"

definition cli_android_ui :: "string \<Rightarrow> string \<Rightarrow> int option \<Rightarrow> int option \<Rightarrow> int option \<Rightarrow> int option \<Rightarrow> string option \<Rightarrow>
    string option \<Rightarrow> 's command" where
  "cli_android_ui vid action x y x2 y2 value keycode T =
     bindm (cli_call T ''android.adb''
       ([(''vm_id'', PStr vid), (''action'', PStr (if action = ''dump'' then ''ui_dump'' else action))] @
        (if action = ''tap'' then [(''x'', opt_int x), (''y'', opt_int y)]
         else if action = ''swipe'' then
           [(''x1'', opt_int x), (''y1'', opt_int y), (''x2'', opt_int x2), (''y2'', opt_int y2)]
         else if action = ''text'' then [(''value'', PStr (case value of None \<Rightarrow> [] | Some v \<Rightarrow> v))]
         else if action = ''key'' then [(''keycode'', opt_str keycode)]
         else []))) (echo_json T)"

definition text_option :: "string \<Rightarrow> string option \<Rightarrow> pydict" where
  "text_option k v = (case v of None \<Rightarrow> [] | Some s \<Rightarrow> [(k, PStr s)])"

definition cli_android_app :: "string \<Rightarrow> string \<Rightarrow> string option \<Rightarrow> string option \<Rightarrow> string option \<Rightarrow> string option \<Rightarrow>
    string option \<Rightarrow> 's command" where
  "cli_android_app vid action package activity apk remote local T =
     bindm (cli_call T ''android.adb''
       ([(''vm_id'', PStr vid), (''action'', PStr action)] @ text_option ''package'' package @
        text_option ''activity'' activity @ text_option ''apk_path'' apk @ text_option ''remote'' remote @
        text_option ''local'' local)) (echo_json T)"

definition cli_android_logcat :: "string \<Rightarrow> string option \<Rightarrow> string \<Rightarrow> string option \<Rightarrow> int \<Rightarrow> 's command" where
  "cli_android_logcat vid tag priority package limit T =
     bindm (cli_call T ''android.adb''
       ([(''vm_id'', PStr vid), (''action'', PStr ''logcat''), (''priority'', PStr priority), (''limit'', PInt limit)] @
        nonempty [(''tag'', opt_str tag)] ''tag'' @ nonempty [(''package'', opt_str package)] ''package''))
       (echo_json T)"

section \<open>Guests\<close>

definition cli_guest_info :: "string \<Rightarrow> 's command" where
  "cli_guest_info vid T = bindm (cli_call T ''guest.sysinfo'' [(''vm_id'', PStr vid)]) (echo_json T)"

definition cli_guest_services :: "string \<Rightarrow> 's command" where
  "cli_guest_services vid T = bindm (cli_call T ''guest.services'' [(''vm_id'', PStr vid)]) (echo_json T)"

definition cli_guest_packages :: "string \<Rightarrow> string \<Rightarrow> string option \<Rightarrow> 's command" where
  "cli_guest_packages vid action name T =
     bindm (cli_call T ''guest.packages''
       ([(''vm_id'', PStr vid), (''action'', PStr action)] @ nonempty [(''name'', opt_str name)] ''name'')) (echo_json T)"

definition cli_guest_logs :: "string \<Rightarrow> int \<Rightarrow> 's command" where
  "cli_guest_logs vid lines T =
     bindm (cli_call T ''guest.logs'' [(''vm_id'', PStr vid), (''lines'', PInt lines)]) (echo_json T)"

section \<open>Who sees what\<close>

lemma cli_call_at_daemon:
  assumes "at_daemon D (tt_client T)" "cl_req_id (tt_client T) s = (Inr i, s0)" "map_of (registered D) method = Some h"
  shows "cli_call T method params s = (case h (dict_merge (admin_params T) params) s0 of
    (Inr v, t) \<Rightarrow> (Inr v, t) | (Inl e, t) \<Rightarrow> (Inl (as_ipc_error e), t))"
  unfolding cli_call_def by (rule call_arrives [OF assms])

text \<open>C29: \<open>boxer ls --all\<close> shows every project's machines to whoever runs it: the request claims an administrator
  whatever groups the user is in, and the daemon, which takes the claim from the request, answers with the entries of
  all rows of the database. The option's help text reserves it to administrators.\<close>

theorem ls_all_shows_every_project:
  assumes "at_daemon D (tt_client T)" "cl_req_id (tt_client T) s = (Inr i, s0)"
  shows "cli_ls stale True True T s =
    (case mapm (list_entry D stale) (vms_of None (db s0)) s0 of
       (Inr rows, t) \<Rightarrow> echo_json T (PList (concat rows)) t
     | (Inl e, t) \<Rightarrow> (Inl (as_ipc_error e), t))"
proof -
  let ?ps = "dict_merge (admin_params T) [(''include_stale'', PBool stale), (''caller_is_admin'', PBool True)]"
  have ps: "caller_from_params ?ps = \<lparr>c_project_id = PStr ''admin'',
      c_user = PStr (case cl_env (tt_client T) ''USER'' of None \<Rightarrow> ''root'' | Some u \<Rightarrow> u), c_is_admin = PBool True\<rparr>"
    "bool_param ?ps ''include_stale'' False = stale"
    by (simp_all add: caller_from_params_def dict_merge_def admin_params_def dget_or_def bool_param_def)
  have "map_of (registered D) ''vm.list'' = Some (with_project_activity ''vm.list'' (h_vm_list D))"
    by (simp add: registered_def service_handlers_def vm_handlers_def)
  moreover have "with_project_activity ''vm.list'' (h_vm_list D) ?ps s0 =
      bindm (mapm (list_entry D stale) (vms_of None (db s0))) (\<lambda>rows. ret (PList (concat rows))) s0"
    by (simp add: with_project_activity_def tracked_project_def ps h_vm_list_def list_vms_def check_vm_list_visibility_def
        pm_defs)
  ultimately have "cli_call T ''vm.list'' [(''include_stale'', PBool stale), (''caller_is_admin'', PBool True)] s =
      (case mapm (list_entry D stale) (vms_of None (db s0)) s0 of
         (Inr rows, t) \<Rightarrow> (Inr (PList (concat rows)), t) | (Inl e, t) \<Rightarrow> (Inl (as_ipc_error e), t))"
    using cli_call_at_daemon [OF assms] by (auto simp: bindm_def ret_def split: prod.split sum.split)
  then show ?thesis
    by (auto simp: cli_ls_def bindm_def split: prod.split sum.split)
qed

text \<open>A user outside the group \<open>boxer-admin\<close>.\<close>

definition demo_terminal :: "'w daemon \<Rightarrow> 'w st terminal" where
  "demo_terminal D = \<lparr>tt_client = demo_client D, tt_echo = \<lambda>_. ret (), tt_err = \<lambda>_. ret (), tt_out = \<lambda>_. ret (),
     tt_errout = \<lambda>_. ret (), tt_confirm = \<lambda>_. ret True, tt_json = py_str, tt_strftime = Inr, tt_fromiso = \<lambda>_. Inr 0,
     tt_now = clock, tt_admin_group = ''boxer-admin'', tt_group = \<lambda>_. Some 7, tt_groups = [100], tt_euid = 1000\<rparr>"

lemma ls_all_shows_every_project_witness:
  "\<not> is_admin_user (demo_terminal demo_daemon) \<and>
   cli_ls True True True (demo_terminal demo_daemon) (demo_state 0 demo_tables) =
     (case mapm (list_entry demo_daemon True) (vms_of None demo_tables) (demo_state 0 demo_tables) of
        (Inr rows, t) \<Rightarrow> echo_json (demo_terminal demo_daemon) (PList (concat rows)) t
      | (Inl e, t) \<Rightarrow> (Inl (as_ipc_error e), t))"
  using ls_all_shows_every_project [of demo_daemon "demo_terminal demo_daemon" "demo_state 0 demo_tables" "''r1''"
      "demo_state 0 demo_tables" True]
  by (simp add: is_admin_user_def demo_terminal_def demo_client_def at_daemon_def ret_def demo_state_def)

section \<open>Files there and back\<close>


definition demo_files :: "unit local_env" where
  "demo_files = demo_local\<lparr>le_os := (le_os demo_local)\<lparr>os_exists := \<lambda>_. ret True\<rparr>, le_read_bytes := \<lambda>_. ret ''hi''\<rparr>"


end
