(* ===== verification/Store.thy ===== *)
theory Store
  imports Demo
begin

text \<open>
  What the helpers of \<open>boxerd/db.py\<close> promise their callers: the tables \<open>vms\<close> and \<open>vm_tags\<close> together are a
  partial map from ids to VMs. Each statement on the tables refines one update of that map.
\<close>

section \<open>The abstract store\<close>

definition vm_map :: "tables \<Rightarrow> string \<Rightarrow> vm option" where
  "vm_map d = (\<lambda>i. map_option (vm_from_row d) (vms_find i d))"

text \<open>The changes a caller can ask for, with the tags a new VM comes with.\<close>

datatype store_op =
    InsertVm vm "(string \<times> string) list"
  | SetState string string
  | SetIp string string
  | SetLease string instant
  | SetInstall string "string option"
  | Touch string
  | DeleteVm string
  | PurgeGhost string

fun store_run :: "store_op \<Rightarrow> ('w st, unit) pm" where
  "store_run (InsertVm v ts) = insert_vm v (PDict (map (\<lambda>(k, x). (k, PStr x)) ts))"
| "store_run (SetState i x) = update_vm_state i x"
| "store_run (SetIp i ip) = update_vm_ip i ip"
| "store_run (SetLease i t) = update_vm_lease i t"
| "store_run (SetInstall i x) = update_vm_install_state i x"
| "store_run (Touch i) = touch_vm i"
| "store_run (DeleteVm i) = delete_vm i"
| "store_run (PurgeGhost i) = purge_ghost_record i"

definition changed :: "instant \<Rightarrow> string \<Rightarrow> (vm \<Rightarrow> vm) \<Rightarrow> (string \<Rightarrow> vm option) \<Rightarrow> string \<Rightarrow> vm option" where
  "changed t i f m = m(i := map_option (\<lambda>v. (f v)\<lparr>vm_last_touched := t\<rparr>) (m i))"

text \<open>A VM is read back with its tags in the order of their keys.\<close>

fun store_spec :: "instant \<Rightarrow> store_op \<Rightarrow> (string \<Rightarrow> vm option) \<Rightarrow> string \<Rightarrow> vm option" where
  "store_spec t (InsertVm v ts) m = m(vm_id v \<mapsto> v\<lparr>vm_tags := sort_key fst ts\<rparr>)"
| "store_spec t (SetState i x) m = changed t i (\<lambda>v. v\<lparr>vm_state := x\<rparr>) m"
| "store_spec t (SetIp i ip) m = changed t i (\<lambda>v. v\<lparr>vm_ip := Some ip\<rparr>) m"
| "store_spec t (SetLease i u) m = changed t i (\<lambda>v. v\<lparr>vm_lease_until := u\<rparr>) m"
| "store_spec t (SetInstall i x) m = changed t i (\<lambda>v. v\<lparr>vm_install_state := x\<rparr>) m"
| "store_spec t (Touch i) m = changed t i id m"
| "store_spec t (DeleteVm i) m = m(i := None)"
| "store_spec t (PurgeGhost i) m = m(i := None)"

fun store_ok :: "store_op \<Rightarrow> bool" where
  "store_ok (InsertVm v ts) = distinct (map fst ts)"
| "store_ok _ = True"

section \<open>Refinement\<close>

lemma vm_map_update:
  assumes "\<And>r. vm_id (f r) = vm_id r" "\<And>r. vm_tags (f r) = vm_tags r"
    "\<And>r x. (f r)\<lparr>vm_tags := x\<rparr> = f (r\<lparr>vm_tags := x\<rparr>)"
  shows "vm_map (vms_update i (\<lambda>r. (f r)\<lparr>vm_last_touched := t\<rparr>) d) = changed t i f (vm_map d)"
proof
  fix j
  let ?g = "\<lambda>r. (f r)\<lparr>vm_last_touched := t\<rparr>"
  have "vms_find j (vms_update i ?g d) = map_option (\<lambda>r. if j = i then ?g r else r) (vms_find j d)"
    using assms(1) by (intro vmt.find_update) simp
  moreover have "vm_from_row (vms_update i ?g d) r = vm_from_row d r" for r
    by (simp add: vm_from_row_def get_tags_def vms_update_def)
  moreover have "vm_from_row d (?g r) = (f (vm_from_row d r))\<lparr>vm_last_touched := t\<rparr>" for r
    using assms(1) by (simp add: vm_from_row_def assms(3) [symmetric])
  ultimately show "vm_map (vms_update i ?g d) j = changed t i f (vm_map d) j"
    by (cases "vms_find j d") (auto simp: vm_map_def changed_def)
qed

lemma vm_map_delete: "vm_map (vms_delete i d) = (vm_map d)(i := None)"
proof
  fix j
  have "get_tags (vms_delete i d) j = get_tags d j" if "j \<noteq> i"
    using that by (simp add: get_tags_def vms_delete_def rows_delete_def)
      (metis (mono_tags, lifting) filter_cong)
  then show "vm_map (vms_delete i d) j = ((vm_map d)(i := None)) j"
    by (cases "vms_find j d")
      (auto simp: vm_map_def vmt.find_delete vm_from_row_def dest!: vmt.find_key)
qed

text \<open>The tags of a new VM, written one by one.\<close>

lemma insert_tags_run:
  assumes "distinct (map fst ts)" "\<And>k x. (vid, k, x) \<in> set (t_vm_tags (db s)) \<Longrightarrow> k \<notin> fst ` set ts"
  shows "for_each (map (\<lambda>(k, x). (k, PStr x)) ts) (\<lambda>(k, x).
      bindm (liftr (store_text c x)) (\<lambda>t. mod_db (insert_tag vid k t))) s =
    (Inr (), s\<lparr>db := (db s)\<lparr>t_vm_tags := t_vm_tags (db s) @ map (\<lambda>(k, x). (vid, k, x)) ts\<rparr>\<rparr>)"
  using assms
proof (induction ts arbitrary: s)
  case Nil
  then show ?case by (simp add: ret_def)
next
  case (Cons p ts)
  obtain k x where p: "p = (k, x)" by (cases p)
  have "filter (\<lambda>(i, j, _). (i, j) \<noteq> (vid, k)) (t_vm_tags (db s)) = t_vm_tags (db s)"
    using Cons.prems(2) by (fastforce simp: p filter_id_conv)
  then have ins: "insert_tag vid k x (db s) = (db s)\<lparr>t_vm_tags := t_vm_tags (db s) @ [(vid, k, x)]\<rparr>"
    by (simp only: insert_tag_def)
  let ?s = "s\<lparr>db := insert_tag vid k x (db s)\<rparr>"
  have "for_each (map (\<lambda>(k, x). (k, PStr x)) ts) (\<lambda>(k, x).
      bindm (liftr (store_text c x)) (\<lambda>t. mod_db (insert_tag vid k t))) ?s =
    (Inr (), ?s\<lparr>db := (db ?s)\<lparr>t_vm_tags := t_vm_tags (db ?s) @ map (\<lambda>(k, x). (vid, k, x)) ts\<rparr>\<rparr>)"
    using Cons.prems by (intro Cons.IH) (auto simp: p ins)
  moreover have "bindm (liftr (store_text c (PStr x))) (\<lambda>t. mod_db (insert_tag vid k t)) s = (Inr (), ?s)"
    by (simp add: pm_defs mod_db_def store_text_def)
  ultimately show ?case
    by (simp add: p bindm_run ins)
qed

lemma insert_vm_run:
  assumes "insert_vm v (PDict kvs) s = (Inr (), s')"
  shows "vms_find (vm_id v) (db s) = None"
    "for_each kvs (\<lambda>(k, x). bindm (liftr (store_text ''vm_tags.value'' x)) (\<lambda>t. mod_db (insert_tag (vm_id v) k t)))
      (s\<lparr>db := vms_put (v\<lparr>vm_tags := []\<rparr>) (db s)\<rparr>) = (Inr (), s')"
proof -
  have g: "guardm b e u = (Inr (), u') \<longleftrightarrow> \<not> b \<and> u' = u" for b e and u u' :: "'a st"
    by (auto simp: guardm_def ret_def raise_def)
  have m: "mod_db f u = (Inr (), u') \<longleftrightarrow> u' = u\<lparr>db := f (db u)\<rparr>" for f and u u' :: "'a st"
    by (auto simp: mod_db_def modify_def)
  have d: "gets db u = (Inr x, u') \<longleftrightarrow> x = db u \<and> u' = u" for x and u u' :: "'a st"
    by (auto simp: gets_def)
  show "vms_find (vm_id v) (db s) = None"
    "for_each kvs (\<lambda>(k, x). bindm (liftr (store_text ''vm_tags.value'' x)) (\<lambda>t. mod_db (insert_tag (vm_id v) k t)))
      (s\<lparr>db := vms_put (v\<lparr>vm_tags := []\<rparr>) (db s)\<rparr>) = (Inr (), s')"
    using assms by (simp_all add: insert_vm_def bindm_eq_Inr g m d)
qed

lemma vm_map_insert:
  assumes "db_ok (db s)" "distinct (map fst ts)" "store_run (InsertVm v ts) s = (Inr (), s')"
  shows "vm_map (db s') = (vm_map (db s))(vm_id v \<mapsto> v\<lparr>vm_tags := sort_key fst ts\<rparr>) \<and> now s' = now s"
proof -
  let ?d = "db s" and ?r = "v\<lparr>vm_tags := []\<rparr>"
  have "insert_vm v (PDict (map (\<lambda>(k, x). (k, PStr x)) ts)) s = (Inr (), s')"
    using assms(3) by simp
  note new = insert_vm_run(1) [OF this] and run = insert_vm_run(2) [OF this]
  have "vm_id v \<notin> vm_id ` set (t_vms ?d)" "fst ` set (t_vm_tags ?d) \<subseteq> vm_id ` set (t_vms ?d)"
    using new assms(1) by (simp_all add: vms_find_def rows_find_None db_ok_def)
  then have fresh: "vm_id v \<notin> fst ` set (t_vm_tags ?d)" by blast
  then have old: "(vm_id v, k, x) \<notin> set (t_vm_tags ?d)" for k x
    by (metis fst_conv image_eqI)
  have s': "s' = s\<lparr>db := (vms_put ?r ?d)\<lparr>t_vm_tags := t_vm_tags ?d @ map (\<lambda>(k, x). (vm_id v, k, x)) ts\<rparr>\<rparr>"
    using insert_tags_run [OF assms(2), of "vm_id v" "s\<lparr>db := vms_put ?r ?d\<rparr>" "''vm_tags.value''"] old run
    by (simp add: vms_put_def)
  have none: "filter (\<lambda>r. fst r = vm_id v) (t_vm_tags ?d) = []"
    using fresh by (metis (mono_tags) filter_False image_eqI)
  have tags: "get_tags (db s') j = (if j = vm_id v then sort_key fst ts else get_tags ?d j)" for j
    by (auto simp: s' get_tags_def vms_put_def filter_map o_def case_prod_unfold none)
  show ?thesis
  proof (intro conjI ext)
    fix j
    have "vms_find j (db s') = (if j = vm_id v then Some ?r else vms_find j ?d)"
      using vmt.find_put [of j ?r ?d] new by (simp add: s' vms_find_def split: option.splits)
    then show "vm_map (db s') j = ((vm_map ?d)(vm_id v \<mapsto> v\<lparr>vm_tags := sort_key fst ts\<rparr>)) j"
      by (cases "vms_find j ?d") (auto simp: vm_map_def vm_from_row_def tags dest!: vmt.find_key)
  qed (simp add: s')
qed

lemma store_step:
  assumes "db_ok (db s)" "store_ok op" "store_run op s = (Inr (), s')"
  shows "db_ok (db s') \<and> now s' = now s \<and> vm_map (db s') = store_spec (now s) op (vm_map (db s))"
proof -
  have "keeps ok_step (store_run op :: ('a st, unit) pm)"
    by (cases op) (simp_all add: ok_keeps)
  with assms(1,3) have "db_ok (db s')"
    using keepsD [of ok_step "store_run op" s] by (auto simp: ok_step_def)
  moreover have "now s' = now s \<and> vm_map (db s') = store_spec (now s) op (vm_map (db s))"
  proof (cases op)
    case (InsertVm v ts)
    then show ?thesis using assms vm_map_insert [of s ts v s'] by simp
  qed (use assms(3) in \<open>auto simp: update_vm_state_def update_vm_ip_def update_vm_lease_def
      update_vm_install_state_def touch_vm_def update_vm_def delete_vm_def purge_ghost_record_def
      pm_defs mod_db_def clock_def vm_map_delete vm_map_update vm_map_update [of id, simplified] id_def\<close>)
  ultimately show ?thesis by blast
qed

lemma get_vm_map: "get_vm (PStr i) s = (Inr (vm_map (db s) i), s)"
  by (simp add: get_vm_def vm_map_def pm_defs)

text \<open>C21: The database is a map from ids to VMs: after any sequence of insertions, updates and deletions that went
  through, \<open>get_vm\<close> reads for every id what the same updates of an abstract partial map give, with the
  time of the change in the VMs that were updated and a new VM's tags in the order of their keys.\<close>

theorem vm_store_refinement:
  assumes "db_ok (db s)" "list_all store_ok ops" "for_each ops store_run s = (Inr (), t)"
  shows "vm_map (db t) = fold (store_spec (now s)) ops (vm_map (db s)) \<and>
    get_vm (PStr i) t = (Inr (fold (store_spec (now s)) ops (vm_map (db s)) i), t)"
proof -
  have "vm_map (db t) = fold (store_spec (now s)) ops (vm_map (db s))"
    using assms
  proof (induction ops arbitrary: s)
    case (Cons op ops)
    from Cons.prems(3) obtain s' where "store_run op s = (Inr (), s')" "for_each ops store_run s' = (Inr (), t)"
      by (auto simp: bindm_eq_Inr)
    moreover from this Cons.prems have "db_ok (db s')" "now s' = now s"
      "vm_map (db s') = store_spec (now s) op (vm_map (db s))"
      using store_step [of s op s'] by auto
    ultimately show ?case using Cons.IH [of s'] Cons.prems by simp
  qed (simp add: ret_def)
  then show ?thesis by (simp add: get_vm_map)
qed

definition demo_ops :: "store_op list" where
  "demo_ops = [InsertVm (demo_vm\<lparr>vm_id := ''vm_2'', vm_libvirt_name := ''Boxer--p_1--db--vm_2''\<rparr>)
       [(''b'', ''2''), (''a'', ''1'')], SetState ''vm_2'' ''stopped'', DeleteVm ''vm_1'']"

lemma vm_store_refinement_witness:
  "fst (for_each demo_ops store_run (demo_state 5 demo_tables)) = Inr () \<and>
   vm_map (db (snd (for_each demo_ops store_run (demo_state 5 demo_tables)))) =
     fold (store_spec 5) demo_ops (vm_map demo_tables)"
proof -
  let ?s = "demo_state 5 demo_tables"
  have run: "fst (for_each demo_ops store_run ?s) = Inr ()"
    by (simp add: demo_ops_def demo_state_def demo_tables_def demo_vm_def empty_tables_def insert_vm_def
        update_vm_state_def update_vm_def delete_vm_def pm_defs mod_db_def clock_def vms_find_def rows_find_def
        vms_put_def store_text_def)
  then have "for_each demo_ops store_run ?s = (Inr (), snd (for_each demo_ops store_run ?s))"
    by (metis prod.collapse)
  moreover have "db_ok (db ?s)" "list_all store_ok demo_ops"
    by (simp_all add: demo_state_def demo_tables_def demo_vm_def empty_tables_def db_ok_def demo_ops_def)
  ultimately have "vm_map (db (snd (for_each demo_ops store_run ?s))) =
      fold (store_spec (now ?s)) demo_ops (vm_map (db ?s))"
    using vm_store_refinement [of ?s demo_ops] by blast
  with run show ?thesis by (simp add: demo_state_def)
qed

end
