(* ===== verification/Packages.thy ===== *)
theory Packages
  imports Requests
begin

text \<open>
  Which packages a guest installs. Profiles, the request validator and the cloud-init builder each drop repeated
  names from what they add; together they compute the list of first occurrences in one pass.
\<close>

text \<open>The first occurrence of every element, as the library's \<open>remdups\<close> from the other end gives it.\<close>

definition first_seen :: "'a list \<Rightarrow> 'a list" where
  "first_seen xs = rev (remdups (rev xs))"

lemma remdups_snoc: "remdups (ys @ [x]) = filter (\<lambda>y. y \<noteq> x) (remdups ys) @ [x]"
  by (induction ys) auto

lemma first_seen_simps [simp]:
  "first_seen [] = []" "first_seen (x # xs) = x # filter (\<lambda>y. y \<noteq> x) (first_seen xs)"
  by (simp_all add: first_seen_def remdups_snoc rev_filter)

lemma first_seen_filter: "first_seen (filter P xs) = filter P (first_seen xs)"
  by (induction xs) (auto intro: filter_cong)

lemma first_seen_append: "first_seen (xs @ ys) = first_seen xs @ filter (\<lambda>y. y \<notin> set xs) (first_seen ys)"
  by (induction xs) (auto intro: filter_cong)

lemma set_first_seen [simp]: "set (first_seen xs) = set xs"
  by (simp add: first_seen_def)

lemma first_seen_idem [simp]: "first_seen (first_seen xs) = first_seen xs"
  by (simp add: first_seen_def distinct_remdups_id)

text \<open>Deduplicating parts first makes no difference.\<close>

lemma first_seen_nested: "first_seen (xs @ first_seen ys) = first_seen (xs @ ys)"
  "first_seen (first_seen xs @ ys) = first_seen (xs @ ys)"
  by (simp_all add: first_seen_append)

lemma dedupe_loop_first_seen:
  "dedupe_loop (\<lambda>_. True) out xs = out @ filter (\<lambda>y. y \<notin> set out) (first_seen xs)"
proof (induction xs arbitrary: out)
  case (Cons x xs)
  show ?case
    by (simp add: Cons.IH) (intro impI conjI filter_cong refl; auto)
qed simp

lemmas dedupe_first_seen = dedupe_loop_first_seen [of "[]", simplified]

definition named_packages :: "string list \<Rightarrow> string list" where
  "named_packages names = concat (map (\<lambda>n. case profile_named n of None \<Rightarrow> [] | Some p \<Rightarrow> pr_packages p) names)"

lemma resolved_packages: "resolve_profiles names = Inr (ps, cs) \<Longrightarrow> ps = first_seen (named_packages names)"
  by (auto simp: resolve_profiles_def profile_packages_def dedupe_first_seen named_packages_def Let_def
      split: if_splits)


text \<open>The profiles \<open>node\<close> and \<open>python\<close> and three names of the request, two of them already there.\<close>

definition demo_packages :: pydict where
  "demo_packages = [(''profiles'', PList [PStr ''node'', PStr ''python'']),
     (''bootstrap_packages'', PList [PStr ''git'', PStr ''htop'', PStr ''htop''])]"


end
