(* ===== verification/Loops.thy ===== *)
theory Loops
  imports Progress
begin

text \<open>
  The two background tasks of the daemon: \<open>Scheduler._queue_loop\<close> and \<open>LeaseManager._scan_loop\<close>, which run a pass or a
  scan, note its failure and sleep, for ever, and \<open>stop\<close>, which cancels a task and waits for it. A loop is modelled
  for any number of rounds. \<open>sleep d\<close> is what the rest of the process and the world do while the task sleeps
  \<open>d\<close> seconds; a cancelled sleep raises \<open>CancelledError\<close>.
\<close>

section \<open>The loops\<close>

text \<open>\<open>except Exception\<close>: \<open>CancelledError\<close> is a \<open>BaseException\<close> and passes.\<close>

definition catch_exception :: "('s, 'a) pm \<Rightarrow> (exn \<Rightarrow> ('s, 'a) pm) \<Rightarrow> ('s, 'a) pm" where
  "catch_exception m h = catch m (\<lambda>e. if in_class ''CancelledError'' e then raise e else h e)"

primrec task_rounds :: "('s, unit) pm \<Rightarrow> ('s, unit) pm \<Rightarrow> nat \<Rightarrow> ('s, unit) pm" where
  "task_rounds work pause 0 = ret ()"
| "task_rounds work pause (Suc n) =
     bindm (catch_exception work (\<lambda>_. ret ())) (\<lambda>_. bindm pause (\<lambda>_. task_rounds work pause n))"

definition queue_loop :: "'w daemon \<Rightarrow> (int \<Rightarrow> ('w st, unit) pm) \<Rightarrow> nat \<Rightarrow> ('w st, unit) pm" where
  "queue_loop D sleep n = task_rounds (queue_pass D) (sleep 30) n"

definition scan_loop :: "'w host \<Rightarrow> (int \<Rightarrow> ('w st, unit) pm) \<Rightarrow> nat \<Rightarrow> ('w st, unit) pm" where
  "scan_loop H sleep n = task_rounds (scan H) (sleep (max 1 (cfg_stale_cleanup_interval_minutes (ho_cfg H) * 60))) n"

text \<open>\<open>stop\<close> of both managers: \<open>rest\<close> is what the cancelled task still does until it ends.\<close>

definition stop_task :: "bool \<Rightarrow> ('s, unit) pm \<Rightarrow> ('s, unit) pm" where
  "stop_task started rest = whenm started (catch_class ''CancelledError'' rest (\<lambda>_. ret ()))"

section \<open>Only a cancellation ends a loop\<close>

abbreviation cancellable :: "('s, 'a) pm \<Rightarrow> bool" where
  "cancellable \<equiv> raises_only ''CancelledError''"

lemma cancellable_catch: "(\<And>e. cancellable (h e)) \<Longrightarrow> cancellable (catch_exception m h)"
  unfolding raises_only_def catch_exception_def wp_catch
  by (intro allI, rule wp_mono [OF wp_True]) (simp_all add: wp_raise)

lemma cancellable_rounds: "cancellable pause \<Longrightarrow> cancellable (task_rounds work pause n)"
  by (induction n) (simp_all add: raises_only_bindm cancellable_catch)

lemma stop_task_returns: "cancellable rest \<Longrightarrow> no_raise (stop_task started rest)"
  unfolding stop_task_def by (intro no_raise_whenm raises_only_catch no_raise_ret)

context frame
begin

lemma rounds_keep: "keeps R work \<Longrightarrow> keeps R pause \<Longrightarrow> keeps R (task_rounds work pause n)"
  by (induction n) (auto simp: catch_exception_def intro!: frame_keeps)

end

text \<open>Reachability is a frame: what is reached from a reached state is reached.\<close>

lemma reachable_trans: "reachable D t u \<Longrightarrow> reachable D s t \<Longrightarrow> reachable D s u"
  by (induction rule: reachable.induct) (auto intro: reachable.more)

interpretation rcf: frame "reachable D" for D
  by unfold_locales (auto intro: reachable.start reachable_trans)

lemma reachable_step: "daemon_step D s t \<Longrightarrow> reachable D s t"
  by (rule reachable.more [OF reachable.start])

lemma passes_reach: "keeps (reachable D) (queue_pass D)" "keeps (reachable D) (scan (da_host D))"
  by (auto simp: keeps_def intro: reachable_step daemon_step.intros)

section \<open>Time does not pass within a scan\<close>

definition same_now :: "'w st \<Rightarrow> 'w st \<Rightarrow> bool" where
  "same_now s t \<longleftrightarrow> now t = now s"

interpretation snf: frame same_now
  by unfold_locales (simp_all add: same_now_def)

lemma now_prims: "keeps same_now (mod_db f)" "keeps same_now clock" "keeps same_now uuid4_hex"
  by (simp_all add: keeps_def same_now_def mod_db_def modify_def clock_def gets_def uuid4_hex_def)

lemma now_ops:
  "keeps same_now (update_vm k g)" "keeps same_now (insert_vm v tags)" "keeps same_now (upsert_project p path)"
  "keeps same_now (add_event l m q i)" "keeps same_now (enqueue pv r reason)" "keeps same_now (record_project_call p me u)"
  "keeps same_now (mark_project_notifications_delivered ids)" "keeps same_now (delete_vm k)"
  "keeps same_now (purge_ghost_record k)" "keeps same_now (update_queue_status j x)"
  "keeps same_now (expire_old_queue_entries n)" "keeps same_now (prune_project_call_log t)"
  "keeps same_now (add_project_notification p l m vv d)" "keeps same_now (upsert_cleanup_action a)"
  "keeps same_now (delete_cleanup_action k)"
  unfolding update_vm_def insert_vm_def upsert_project_def add_event_def enqueue_def record_project_call_def
    mark_project_notifications_delivered_def delete_vm_def purge_ghost_record_def update_queue_status_def
    expire_old_queue_entries_def prune_project_call_log_def add_project_notification_def upsert_cleanup_action_def
    delete_cleanup_action_def Let_def
  by (intro snf.frame_keeps now_prims keeps_splits)+

interpretation nwd: daemon_frame same_now
  by unfold_locales (simp_all add: same_now_def update_ops now_ops)

section \<open>A scan cleans the queue\<close>

lemma wp_no_raise: "no_raise m \<Longrightarrow> keeps R m \<Longrightarrow> wp m (\<lambda>_. R s) (\<lambda>_ _. False) s"
proof -
  assume "no_raise m" "keeps R m"
  then have "\<exists>x. fst (m s) = Inr x" "R s (snd (m s))" by (simp_all add: no_raise_def keeps_def)
  then show ?thesis by (cases "m s") (auto simp: wp_def)
qed

lemma scan_expires:
  assumes "\<And>v. v \<in> set (vms_of None (db s)) \<Longrightarrow> no_raise (scan_vm H (now s) v)"
  shows "wp (scan H) (\<lambda>_ t. \<forall>q \<in> set (t_queue (db t)). \<not> queue_expired (now s) 2 q) (\<lambda>_ _. False) s"
proof -
  have vms: "wp (for_each (vms_of None (db s)) (scan_vm H (now s))) (\<lambda>_. same_now s) (\<lambda>_ _. False) s"
    by (intro wp_no_raise no_raise_each assms snf.for_each_keeps nwd.scan_vm_keeps)
  show ?thesis
    unfolding scan_def expire_old_queue_entries_def prune_project_call_log_def list_vms_def
    by (simp add: wp_simps, rule wp_mono [OF vms])
      (auto simp: same_now_def queue_expired_def wp_simps)
qed

text \<open>A VM whose lease runs is scanned without an exception when the libraries raise only their own errors.\<close>

lemma dev_get_state_total: "host_quiet H \<Longrightarrow> no_raise (dev_get_state H v)"
  unfolding no_raise_wp by (intro allI, rule wp_mono [OF wp_dev_get_state]) simp_all

lemma leased_scan_total:
  assumes "host_quiet H" "\<not> vm_lease_until v < t"
  shows "no_raise (scan_vm H t v)"
proof -
  have "no_raise (update_vm_state k x)" "no_raise (delete_cleanup_action k)" for k x
    by (simp_all add: no_raise_wp update_vm_state_def update_vm_def delete_cleanup_action_def wp_simps)
  then show ?thesis
    unfolding scan_vm_def Let_def using assms
    by (auto intro!: no_raise_bindm no_raise_whenm dev_get_state_total)
qed

section \<open>A request that blocks the queue\<close>

lemma null_memory_pass:
  assumes "pending_queue (db s) = q # qs" "dget_or (q_request q) ''ram_mb'' (PInt 2048) = PNone"
    "no_raise (get_status (da_cfg D) (da_lv D) (ho_machine (da_host D)))"
  shows "wp (catch_exception (queue_pass D) (\<lambda>_. ret ())) (\<lambda>_. same_db s) (\<lambda>_ _. False) s"
proof -
  obtain st w where st: "get_status (da_cfg D) (da_lv D) (ho_machine (da_host D)) (world s) = (Inr st, w)"
    using assms(3) unfolding no_raise_def by (metis prod.collapse)
  show ?thesis
    using null_memory_raises [OF assms(1,2) st]
    by (simp add: wp_def catch_exception_def catch_def queue_pass_def in_class_def ret_def same_db_def)
qed

section \<open>Properties\<close>


text \<open>C18: A request whose memory is null blocks the queue: in every round of the queue loop, however many, the pass meets
  it first and fails, the loop goes on, and no table changes, so no later request is promoted.\<close>

theorem null_memory_blocks_queue:
  assumes "pending_queue (db s) = q # qs" "dget_or (q_request q) ''ram_mb'' (PInt 2048) = PNone"
    "no_raise (get_status (da_cfg D) (da_lv D) (ho_machine (da_host D)))"
    "no_raise (sleep 30)" "keeps same_db (sleep 30)"
  shows "fst (queue_loop D sleep n s) = Inr () \<and> db (snd (queue_loop D sleep n s)) = db s"
  using assms(1)
proof (induction n arbitrary: s)
  case 0
  then show ?case by (simp add: queue_loop_def ret_def)
next
  case (Suc n)
  have pause: "wp (sleep 30) (\<lambda>_. same_db t) (\<lambda>_ _. False) t" for t
    by (rule wp_no_raise [OF assms(4,5)])
  have "wp (queue_loop D sleep (Suc n)) (\<lambda>_ u. db u = db s) (\<lambda>_ _. False) s"
    unfolding queue_loop_def task_rounds.simps wp_bindm
  proof (rule wp_mono [OF null_memory_pass [OF Suc.prems assms(2,3)]], rule wp_mono [OF pause])
    fix t u
    assume "same_db s t" "same_db t u"
    then have "db u = db s" by (simp add: same_db_def)
    with Suc.IH [of u] Suc.prems
    show "wp (task_rounds (queue_pass D) (sleep 30) n) (\<lambda>_ v. db v = db s) (\<lambda>_ _. False) u"
      by (cases "queue_loop D sleep n u") (auto simp: wp_def queue_loop_def)
  qed simp_all
  then show ?case by (cases "queue_loop D sleep (Suc n) s") (auto simp: wp_def split: sum.splits)
qed

text \<open>C19: No request waits for ever: a lease scan that no VM's handling interrupts runs to its end and leaves no pending
  request that is older than two hours, among them one that blocks the queue. (A VM whose lease still runs
  never interrupts it: \<open>leased_scan_total\<close>.)\<close>

theorem stale_requests_expire:
  assumes "\<And>v. v \<in> set (vms_of None (db s)) \<Longrightarrow> no_raise (scan_vm H (now s) v)"
  shows "fst (scan H s) = Inr () \<and>
    (\<forall>q \<in> set (pending_queue (db (snd (scan H s)))). \<not> q_created_at q div seconds 1 < now s div seconds 1 - 2 * 3600)"
proof -
  obtain r t where rt: "scan H s = (r, t)" by (cases "scan H s")
  from scan_expires [OF assms] rt show ?thesis
    by (auto simp: wp_def queue_expired_def set_pending_queue split: sum.splits)
qed

section \<open>At concrete values\<close>

definition demo_sleep :: "int \<Rightarrow> ('w st, unit) pm" where
  "demo_sleep d = modify (\<lambda>s. s\<lparr>now := now s + seconds (max 0 d)\<rparr>)"

lemma demo_sleep_ok: "no_raise (demo_sleep d)" "cancellable (demo_sleep d)" "keeps same_db (demo_sleep d)"
    "keeps (reachable D) (demo_sleep d)"
  by (auto simp: demo_sleep_def no_raise_wp raises_only_def wp_def keeps_def modify_def same_db_def
      intro!: reachable_step daemon_step.tick)


lemma demo_status_total: "no_raise (get_status (da_cfg demo_daemon) (da_lv demo_daemon) (ho_machine (da_host demo_daemon)))"
  by (rule get_status_total)
    (simp_all add: demo_daemon_def demo_host_def demo_lv_def demo_machine_def raises_only_def wp_simps no_raise_wp)

lemma null_memory_blocks_queue_witness:
  "db (snd (queue_loop demo_daemon demo_sleep 100 (demo_state 0 demo_queue))) = demo_queue"
  using null_memory_blocks_queue [where D = demo_daemon and sleep = demo_sleep and n = 100 and s = "demo_state 0 demo_queue"
      and q = "demo_entry ''b'' 1 7" and qs = "[demo_entry ''c'' 0 3, demo_entry ''a'' 0 5]",
      OF _ _ demo_status_total demo_sleep_ok(1,3)]
  by (simp add: demo_state_def demo_pending) (simp add: demo_entry_def dget_or_def)

lemma demo_quiet: "host_quiet demo_host"
  by (simp add: host_quiet_def libvirt_quiet_def emulator_quiet_def demo_host_def demo_lv_def demo_os_def demo_sdk_def
      demo_on_def demo_off_def raises_only_def no_raise_wp wp_simps)

definition demo_leased :: tables where
  "demo_leased = demo_queue\<lparr>t_vms := [demo_vm\<lparr>vm_lease_until := hours 9\<rparr>]\<rparr>"

lemma stale_requests_expire_witness:
  "fst (scan demo_host (demo_state (hours 3) demo_leased)) = Inr () \<and>
   demo_entry ''b'' 1 7 \<notin> set (pending_queue (db (snd (scan demo_host (demo_state (hours 3) demo_leased)))))"
proof -
  have "no_raise (scan_vm demo_host (now (demo_state (hours 3) demo_leased)) v)"
    if "v \<in> set (vms_of None (db (demo_state (hours 3) demo_leased)))" for v
    using that by (intro leased_scan_total demo_quiet) (auto simp: demo_state_def demo_leased_def vms_of_def vm_from_row_def)
  from stale_requests_expire [OF this] show ?thesis
    by (force simp: demo_state_def demo_entry_def)
qed

end
