(* ===== verification/Migration.thy ===== *)
theory Migration
  imports Storage
begin

text \<open>
  \<open>Database.open\<close>, \<open>Database.close\<close> and the readers of rows in \<open>boxerd/db.py\<close>. Db works on typed tables; this theory is
  about the file below them, whose tables have the columns of the version that made them. A row is the list of its columns
  with their values. \<open>connect\<close> opens the file, \<open>fromiso\<close> is \<open>datetime.fromisoformat\<close>, \<open>loads\<close> is \<open>json.loads\<close>.
\<close>

section \<open>The file\<close>

record relation =
  rel_columns :: "string list"
  rel_rows :: "pydict list"

record 'w dbfile =
  df_tables :: "(string \<times> relation) list"
  df_indexes :: "string list"
  df_connected :: bool
  df_world :: 'w

definition SCHEMA_TABLES :: "(string \<times> string list) list" where
  "SCHEMA_TABLES = [
     (''projects'', [''id'', ''path'', ''first_seen'', ''last_seen'']),
     (''vms'', [''id'', ''libvirt_name'', ''project_id'', ''display_name'', ''state'', ''owner_user'', ''template'', ''cpu'',
        ''ram_mb'', ''disk_gb'', ''headless'', ''ip_address'', ''created_at'', ''last_touched'', ''lease_until'',
        ''artifact_type'', ''install_state'', ''kind'']),
     (''vm_tags'', [''vm_id'', ''key'', ''value'']),
     (''queue'', [''id'', ''project_id'', ''request_json'', ''priority'', ''status'', ''reason'', ''created_at'']),
     (''events'', [''id'', ''project_id'', ''vm_id'', ''level'', ''message'', ''created_at'']),
     (''project_call_log'', [''id'', ''project_id'', ''method'', ''caller_user'', ''called_at'']),
     (''vm_cleanup_actions'', [''vm_id'', ''project_id'', ''stage'', ''graceful_requested_at'', ''force_after'', ''last_error'']),
     (''project_notifications'', [''id'', ''project_id'', ''vm_id'', ''level'', ''message'', ''details_json'', ''status'',
        ''created_at'', ''delivered_at''])]"

definition SCHEMA_INDEXES :: "(string \<times> string \<times> string list) list" where
  "SCHEMA_INDEXES = [
     (''idx_vms_project'', ''vms'', [''project_id'']),
     (''idx_events_created'', ''events'', [''created_at'']),
     (''idx_queue_status'', ''queue'', [''status'', ''priority'']),
     (''idx_project_call_log_project_time'', ''project_call_log'', [''project_id'', ''called_at'']),
     (''idx_project_notifications_pending'', ''project_notifications'', [''project_id'', ''status'', ''created_at''])]"

text \<open>\<open>CREATE TABLE IF NOT EXISTS\<close>, \<open>CREATE INDEX IF NOT EXISTS\<close> and \<open>ALTER TABLE ... ADD COLUMN ... DEFAULT\<close>.\<close>

definition create_table :: "string \<times> string list \<Rightarrow> (string \<times> relation) list \<Rightarrow> (string \<times> relation) list" where
  "create_table x ts = (case x of (n, cols) \<Rightarrow>
     if map_of ts n = None then ts @ [(n, \<lparr>rel_columns = cols, rel_rows = []\<rparr>)] else ts)"

definition indexable :: "string list \<Rightarrow> relation option \<Rightarrow> bool" where
  "indexable cols r = (case r of None \<Rightarrow> False | Some r \<Rightarrow> list_all (\<lambda>c. c \<in> set (rel_columns r)) cols)"

definition create_index :: "string \<times> string \<times> string list \<Rightarrow> ('w dbfile, unit) pm" where
  "create_index x = (case x of (i, t, cols) \<Rightarrow>
     bindm (gets (\<lambda>s. i \<in> set (df_indexes s))) (\<lambda>known. whenm (\<not> known)
       (bindm (gets (\<lambda>s. indexable cols (map_of (df_tables s) t))) (\<lambda>ok.
        bindm (guardm (\<not> ok) (PyExn ''OperationalError'' ''no such column'')) (\<lambda>_.
        modify (\<lambda>s. s\<lparr>df_indexes := df_indexes s @ [i]\<rparr>))))))"

definition with_column :: "string \<Rightarrow> pyval \<Rightarrow> relation \<Rightarrow> relation" where
  "with_column c v r = \<lparr>rel_columns = rel_columns r @ [c], rel_rows = map (\<lambda>d. d @ [(c, v)]) (rel_rows r)\<rparr>"

definition add_column :: "string \<Rightarrow> string \<times> pyval \<Rightarrow> ('w dbfile, unit) pm" where
  "add_column t x = (case x of (c, v) \<Rightarrow>
     bindm (gets (\<lambda>s. map_of (df_tables s) t)) (\<lambda>r.
     case r of None \<Rightarrow> raise (PyExn ''OperationalError'' (''no such table: '' @ t))
     | Some r \<Rightarrow>
         if c \<in> set (rel_columns r) then raise (PyExn ''OperationalError'' (''duplicate column name: '' @ c))
         else modify (\<lambda>s. s\<lparr>df_tables := AList.update t (with_column c v r) (df_tables s)\<rparr>)))"

section \<open>Opening and closing\<close>

definition MIGRATIONS :: "(string \<times> pyval) list" where
  "MIGRATIONS = [(''origin'', PStr ''boxer''), (''artifact_type'', PStr ''cloud-image''), (''install_state'', PNone),
     (''kind'', PStr ''vm'')]"

definition in_files :: "('w, 'a) pm \<Rightarrow> ('w dbfile, 'a) pm" where
  "in_files m = (\<lambda>s. case m (df_world s) of (r, w) \<Rightarrow> (r, s\<lparr>df_world := w\<rparr>))"

definition run_schema :: "('w dbfile, unit) pm" where
  "run_schema = bindm (for_each SCHEMA_TABLES (\<lambda>x. modify (\<lambda>s. s\<lparr>df_tables := create_table x (df_tables s)\<rparr>)))
     (\<lambda>_. for_each SCHEMA_INDEXES create_index)"

definition run_migrations :: "('w dbfile, unit) pm" where
  "run_migrations = for_each MIGRATIONS (\<lambda>x. catch (add_column ''vms'' x) (\<lambda>_. ret ()))"

definition db_open :: "'w os \<Rightarrow> (string \<Rightarrow> ('w, unit) pm) \<Rightarrow> string \<Rightarrow> ('w dbfile, unit) pm" where
  "db_open h connect path =
     bindm (in_files (os_mkdir h (parent_dir path))) (\<lambda>_.
     bindm (in_files (connect path)) (\<lambda>_.
     bindm (modify (\<lambda>s. s\<lparr>df_connected := True\<rparr>)) (\<lambda>_.
     bindm run_schema (\<lambda>_. run_migrations))))"

definition db_close :: "('w, unit) pm \<Rightarrow> ('w dbfile, unit) pm" where
  "db_close disconnect = bindm (gets df_connected) (\<lambda>c. whenm c (in_files disconnect))"

section \<open>Rows\<close>

text \<open>\<open>row["k"]\<close>; a row exists for values of the column's type.\<close>

definition row_value :: "pydict \<Rightarrow> string \<Rightarrow> pyval res" where
  "row_value d k = need_some (PyExn ''IndexError'' ''No item with that key'') (map_of d k)"

definition row_text :: "pydict \<Rightarrow> string \<Rightarrow> string res" where
  "row_text d k = bindr (row_value d k) (need_str (PyExn ''TypeError'' k) (\<lambda>_. True))"

definition row_int :: "pydict \<Rightarrow> string \<Rightarrow> int res" where
  "row_int d k = bindr (row_value d k) (\<lambda>v. case v of PInt i \<Rightarrow> Inr i | _ \<Rightarrow> Inl (PyExn ''TypeError'' k))"

definition opt_text :: "pyval \<Rightarrow> string option res" where
  "opt_text v = (case v of PNone \<Rightarrow> Inr None | PStr s \<Rightarrow> Inr (Some s) | _ \<Rightarrow> Inl (PyExn ''TypeError'' []))"

definition row_opt :: "pydict \<Rightarrow> string \<Rightarrow> string option res" where
  "row_opt d k = bindr (row_value d k) opt_text"

definition row_time :: "(string \<Rightarrow> instant res) \<Rightarrow> pydict \<Rightarrow> string \<Rightarrow> instant res" where
  "row_time fromiso d k = bindr (row_text d k) fromiso"

text \<open>\<open>row[k] if k in row.keys() else dflt\<close>.\<close>

definition text_or :: "pydict \<Rightarrow> string \<Rightarrow> string \<Rightarrow> string res" where
  "text_or d k dflt = (if k \<in> fst ` set d then row_text d k else Inr dflt)"

definition opt_or :: "pydict \<Rightarrow> string \<Rightarrow> string option res" where
  "opt_or d k = (if k \<in> fst ` set d then row_opt d k else Inr None)"

definition read_vm :: "(string \<Rightarrow> instant res) \<Rightarrow> (string \<times> string) list \<Rightarrow> pydict \<Rightarrow> vm res" where
  "read_vm fromiso tags d =
     bindr (row_text d ''id'') (\<lambda>i. bindr (row_text d ''libvirt_name'') (\<lambda>n.
     bindr (row_text d ''project_id'') (\<lambda>p. bindr (row_text d ''display_name'') (\<lambda>dn.
     bindr (row_text d ''state'') (\<lambda>st. bindr (row_text d ''owner_user'') (\<lambda>ow.
     bindr (row_text d ''template'') (\<lambda>tm. bindr (row_int d ''cpu'') (\<lambda>cpu.
     bindr (row_int d ''ram_mb'') (\<lambda>ram. bindr (row_int d ''disk_gb'') (\<lambda>disk.
     bindr (row_value d ''headless'') (\<lambda>hl. bindr (row_opt d ''ip_address'') (\<lambda>ip.
     bindr (row_time fromiso d ''created_at'') (\<lambda>cr. bindr (row_time fromiso d ''last_touched'') (\<lambda>lt.
     bindr (row_time fromiso d ''lease_until'') (\<lambda>lu. bindr (text_or d ''origin'' ''boxer'') (\<lambda>og.
     bindr (text_or d ''artifact_type'' ''cloud-image'') (\<lambda>art.
     bindr (opt_or d ''install_state'') (\<lambda>ins.
     bindr (text_or d ''kind'' ''vm'') (\<lambda>kd.
     Inr \<lparr>vm_id = i, vm_libvirt_name = n, vm_project_id = p, vm_display_name = dn, vm_state = st, vm_owner_user = ow,
       vm_template = tm, vm_cpu = cpu, vm_ram_mb = ram, vm_disk_gb = disk, vm_headless = truthy hl, vm_created_at = cr,
       vm_last_touched = lt, vm_lease_until = lu, vm_ip = ip, vm_tags = tags, vm_origin = og, vm_artifact_type = art,
       vm_install_state = ins, vm_kind = kd\<rparr>)))))))))))))))))))"

definition read_cleanup_action :: "(string \<Rightarrow> instant res) \<Rightarrow> pydict \<Rightarrow> cleanup_action res" where
  "read_cleanup_action fromiso d =
     bindr (row_text d ''vm_id'') (\<lambda>v. bindr (row_text d ''project_id'') (\<lambda>p. bindr (row_text d ''stage'') (\<lambda>st.
     bindr (row_time fromiso d ''graceful_requested_at'') (\<lambda>g. bindr (row_time fromiso d ''force_after'') (\<lambda>f.
     bindr (row_opt d ''last_error'') (\<lambda>e.
     Inr \<lparr>ca_vm_id = v, ca_project_id = p, ca_stage = st, ca_graceful_requested_at = g, ca_force_after = f,
       ca_last_error = (case e of None \<Rightarrow> [] | Some x \<Rightarrow> x)\<rparr>))))))"

text \<open>The details of a notification are a dict, whatever text the column holds.\<close>

definition read_details :: "(string \<Rightarrow> pyval res) \<Rightarrow> string option \<Rightarrow> pydict" where
  "read_details loads raw =
     (let text = (case raw of Some (c # t) \<Rightarrow> c # t | _ \<Rightarrow> ''{}'');
          details = (case loads text of Inr v \<Rightarrow> v | Inl _ \<Rightarrow> PDict [(''raw'', PStr text)])
      in case details of PDict d \<Rightarrow> d | v \<Rightarrow> [(''value'', v)])"

definition read_notification :: "(string \<Rightarrow> instant res) \<Rightarrow> (string \<Rightarrow> pyval res) \<Rightarrow> pydict \<Rightarrow> notification res" where
  "read_notification fromiso loads d =
     bindr (row_opt d ''details_json'') (\<lambda>raw. bindr (row_opt d ''delivered_at'') (\<lambda>dl.
     bindr (row_text d ''id'') (\<lambda>i. bindr (row_text d ''project_id'') (\<lambda>p. bindr (row_opt d ''vm_id'') (\<lambda>v.
     bindr (row_text d ''level'') (\<lambda>l. bindr (row_text d ''message'') (\<lambda>m. bindr (row_text d ''status'') (\<lambda>st.
     bindr (row_time fromiso d ''created_at'') (\<lambda>cr.
     bindr (case dl of Some (c # t) \<Rightarrow> bindr (fromiso (c # t)) (\<lambda>x. Inr (Some x)) | _ \<Rightarrow> Inr None) (\<lambda>da.
     Inr \<lparr>n_id = i, n_project_id = p, n_vm_id = v, n_level = l, n_message = m, n_details = read_details loads raw,
       n_status = st, n_created_at = cr, n_delivered_at = da\<rparr>))))))))))"

section \<open>What opening does to the file\<close>

definition table_of :: "string \<Rightarrow> 'w dbfile \<Rightarrow> relation option" where
  "table_of n s = map_of (df_tables s) n"

definition upgrade :: "string \<times> pyval \<Rightarrow> relation \<Rightarrow> relation" where
  "upgrade x r = (if fst x \<in> set (rel_columns r) then r else with_column (fst x) (snd x) r)"

text \<open>A table that is there stays as it is; one that is not gets the schema's columns.\<close>

lemma for_each_modify: "for_each xs (\<lambda>x. modify (f x)) s = (Inr (), fold f xs s)"
  by (induction xs arbitrary: s) (simp_all add: ret_def bindm_def modify_def)

lemma map_of_create: "map_of (fold create_table xs ts) n = (case map_of ts n of Some r \<Rightarrow> Some r
    | None \<Rightarrow> map_option (\<lambda>cols. \<lparr>rel_columns = cols, rel_rows = []\<rparr>) (map_of xs n))"
  by (induction xs arbitrary: ts) (auto simp: create_table_def map_add_def split: option.split prod.split)

lemma fold_tables: "fold (\<lambda>x s. s\<lparr>df_tables := create_table x (df_tables s)\<rparr>) xs s =
    s\<lparr>df_tables := fold create_table xs (df_tables s)\<rparr>"
  by (induction xs arbitrary: s) simp_all

lemma create_known: "list_all (\<lambda>(n, _). map_of ts n \<noteq> None) xs \<Longrightarrow> fold create_table xs ts = ts"
  by (induction xs) (auto simp: create_table_def)

lemma create_indexes:
  assumes "list_all (\<lambda>(i, t, cols). indexable cols (table_of t s)) xs"
  shows "\<exists>ks. for_each xs create_index s = (Inr (), s\<lparr>df_indexes := df_indexes s @ ks\<rparr>) \<and>
    fst ` set xs \<subseteq> set (df_indexes s @ ks) \<and> (fst ` set xs \<subseteq> set (df_indexes s) \<longrightarrow> ks = [])"
  using assms
proof (induction xs arbitrary: s)
  case Nil
  have "s\<lparr>df_indexes := df_indexes s\<rparr> = s" by simp
  then show ?case by (auto simp: ret_def)
next
  case (Cons x xs)
  obtain i t cols where x: "x = (i, t, cols)" by (cases x)
  show ?case
  proof (cases "i \<in> set (df_indexes s)")
    case True
    then have "create_index x s = (Inr (), s)"
      by (simp add: x create_index_def bindm_def gets_def whenm_def ret_def)
    moreover from Cons.prems have "list_all (\<lambda>(i, t, cols). indexable cols (table_of t s)) xs" by simp
    ultimately show ?thesis using Cons.IH [of s] True by (auto simp: x bindm_def)
  next
    case False
    let ?u = "s\<lparr>df_indexes := df_indexes s @ [i]\<rparr>"
    from Cons.prems have "indexable cols (map_of (df_tables s) t)" by (simp add: x table_of_def)
    with False have "create_index x s = (Inr (), ?u)"
      by (simp add: x create_index_def bindm_def gets_def whenm_def guardm_def ret_def modify_def)
    moreover obtain js where "for_each xs create_index ?u = (Inr (), ?u\<lparr>df_indexes := df_indexes ?u @ js\<rparr>)"
      "fst ` set xs \<subseteq> set (df_indexes ?u @ js)"
      using Cons.IH [of ?u] Cons.prems by (auto simp: table_of_def)
    ultimately show ?thesis using False by (intro exI [of _ "i # js"]) (auto simp: x bindm_def)
  qed
qed

text \<open>One migration: the table is upgraded, and left alone when it has the column.\<close>

lemma migrate_one:
  assumes "table_of ''vms'' s = Some r"
  shows "\<exists>t. catch (add_column ''vms'' x) (\<lambda>_. ret ()) s = (Inr (), t) \<and> table_of ''vms'' t = Some (upgrade x r) \<and>
    (\<forall>n. n \<noteq> ''vms'' \<longrightarrow> table_of n t = table_of n s) \<and> df_indexes t = df_indexes s \<and>
    (fst x \<in> set (rel_columns r) \<longrightarrow> t = s)"
  using assms
  by (cases x) (auto simp: add_column_def upgrade_def table_of_def catch_def bindm_def gets_def raise_def ret_def
      modify_def update_conv')

lemma migrate_all:
  assumes "table_of ''vms'' s = Some r"
  shows "\<exists>t. for_each xs (\<lambda>x. catch (add_column ''vms'' x) (\<lambda>_. ret ())) s = (Inr (), t) \<and>
    table_of ''vms'' t = Some (fold upgrade xs r) \<and> (\<forall>n. n \<noteq> ''vms'' \<longrightarrow> table_of n t = table_of n s) \<and>
    df_indexes t = df_indexes s \<and> (fst ` set xs \<subseteq> set (rel_columns r) \<longrightarrow> t = s)"
  using assms
proof (induction xs arbitrary: s r)
  case Nil
  then show ?case by (simp add: ret_def)
next
  case (Cons x xs)
  from migrate_one [OF Cons.prems, of x] obtain u where u:
    "catch (add_column ''vms'' x) (\<lambda>_. ret ()) s = (Inr (), u)" "table_of ''vms'' u = Some (upgrade x r)"
    "\<forall>n. n \<noteq> ''vms'' \<longrightarrow> table_of n u = table_of n s" "df_indexes u = df_indexes s"
    "fst x \<in> set (rel_columns r) \<longrightarrow> u = s" by blast
  from Cons.IH [OF u(2)] obtain t where t:
    "for_each xs (\<lambda>x. catch (add_column ''vms'' x) (\<lambda>_. ret ())) u = (Inr (), t)"
    "table_of ''vms'' t = Some (fold upgrade xs (upgrade x r))" "\<forall>n. n \<noteq> ''vms'' \<longrightarrow> table_of n t = table_of n u"
    "df_indexes t = df_indexes u" "fst ` set xs \<subseteq> set (rel_columns (upgrade x r)) \<longrightarrow> t = u" by blast
  have "t = s" if "fst ` set (x # xs) \<subseteq> set (rel_columns r)"
    using that t(5) u(5) by (simp add: upgrade_def)
  with t u show ?case by (simp add: bindm_def)
qed

section \<open>Readers see no difference\<close>

definition well_shaped :: "relation \<Rightarrow> bool" where
  "well_shaped r \<longleftrightarrow> (\<forall>d \<in> set (rel_rows r). map fst d = rel_columns r)"

lemma well_shaped_upgrade: "well_shaped r \<Longrightarrow> well_shaped (fold upgrade xs r)"
  by (induction xs arbitrary: r) (auto simp: well_shaped_def upgrade_def with_column_def)

lemma columns_upgrade: "set (rel_columns (fold upgrade xs r)) = set (rel_columns r) \<union> fst ` set xs"
  by (induction xs arbitrary: r) (auto simp: upgrade_def with_column_def)

lemma distinct_upgrade: "distinct (rel_columns r) \<Longrightarrow> distinct (rel_columns (fold upgrade xs r))"
  by (induction xs arbitrary: r) (auto simp: upgrade_def with_column_def)

lemma added_other: "c \<noteq> k \<Longrightarrow> row_value (d @ [(c, v)]) k = row_value d k"
  by (simp add: row_value_def map_add_def split: option.split)

lemma added_absent: "c \<notin> fst ` set d \<Longrightarrow> row_value (d @ [(c, v)]) c = Inr v"
  by (simp add: row_value_def need_some_def map_add_def flip: map_of_eq_None_iff)

lemma text_or_added: "c \<notin> fst ` set d \<Longrightarrow> (c = k \<Longrightarrow> v = PStr dflt) \<Longrightarrow> text_or (d @ [(c, v)]) k dflt = text_or d k dflt"
  by (cases "c = k") (auto simp: text_or_def row_text_def added_other added_absent need_str_def)

lemma opt_or_added: "c \<notin> fst ` set d \<Longrightarrow> (c = k \<Longrightarrow> v = PNone) \<Longrightarrow> opt_or (d @ [(c, v)]) k = opt_or d k"
  by (cases "c = k") (auto simp: opt_or_def row_opt_def added_other added_absent opt_text_def)

lemma read_vm_append:
  assumes "c \<notin> fst ` set d" "(c, v) \<in> set MIGRATIONS"
  shows "read_vm fromiso tags (d @ [(c, v)]) = read_vm fromiso tags d"
proof -
  have base: "row_value (d @ [(c, v)]) k = row_value d k" if "k \<notin> fst ` set MIGRATIONS" for k
    using assms(2) that by (intro added_other) force
  have t: "text_or (d @ [(c, v)]) k dflt = text_or d k dflt" if "(k, PStr dflt) \<in> set MIGRATIONS" for k dflt
    using assms that by (intro text_or_added) (auto simp: MIGRATIONS_def)
  have i: "opt_or (d @ [(c, v)]) ''install_state'' = opt_or d ''install_state''"
    using assms by (intro opt_or_added) (auto simp: MIGRATIONS_def)
  show ?thesis
    unfolding read_vm_def row_text_def row_int_def row_opt_def row_time_def
    by (simp only: i, subst (1 2 3) t; simp add: MIGRATIONS_def base)
qed

lemma read_vm_upgrade:
  "well_shaped r \<Longrightarrow> x \<in> set MIGRATIONS \<Longrightarrow>
   map (read_vm fromiso tags) (rel_rows (upgrade x r)) = map (read_vm fromiso tags) (rel_rows r)"
  using read_vm_append [of "fst x" _ "snd x"]
  by (auto simp: upgrade_def with_column_def well_shaped_def) (metis list.set_map prod.collapse)

lemma read_vms_upgrade:
  "well_shaped r \<Longrightarrow> set xs \<subseteq> set MIGRATIONS \<Longrightarrow>
   map (read_vm fromiso tags) (rel_rows (fold upgrade xs r)) = map (read_vm fromiso tags) (rel_rows r)"
proof (induction xs arbitrary: r)
  case (Cons x xs)
  with read_vm_upgrade [of r x] well_shaped_upgrade [of r "[x]"] show ?case by simp
qed simp

section \<open>Opening runs to its end\<close>

text \<open>Every version of the program that made a table gave it the columns its indexes need.\<close>

definition indexes_fit :: "'w dbfile \<Rightarrow> bool" where
  "indexes_fit s \<longleftrightarrow> list_all (\<lambda>(i, t, cols). table_of t s = None \<or> indexable cols (table_of t s)) SCHEMA_INDEXES"

definition opened :: "'w dbfile \<Rightarrow> bool" where
  "opened s \<longleftrightarrow> indexes_fit s \<and> fst ` set SCHEMA_INDEXES \<subseteq> set (df_indexes s) \<and>
     list_all (\<lambda>(n, _). table_of n s \<noteq> None) SCHEMA_TABLES \<and>
     (\<exists>r. table_of ''vms'' s = Some r \<and> fst ` set MIGRATIONS \<subseteq> set (rel_columns r))"

lemma schema_indexes: "(i, t, cols) \<in> set SCHEMA_INDEXES \<Longrightarrow> \<exists>cs. map_of SCHEMA_TABLES t = Some cs \<and> set cols \<subseteq> set cs"
  by (simp add: SCHEMA_INDEXES_def) (elim disjE; simp add: SCHEMA_TABLES_def)

lemma indexable_created:
  assumes "indexes_fit s" "(i, t, cols) \<in> set SCHEMA_INDEXES"
  shows "indexable cols (map_of (fold create_table SCHEMA_TABLES (df_tables s)) t)"
  using assms schema_indexes [OF assms(2)]
  by (auto simp: indexes_fit_def list_all_iff table_of_def map_of_create indexable_def split: option.splits)

lemma run_schema_run:
  assumes "indexes_fit s"
  shows "\<exists>ks. run_schema s = (Inr (), s\<lparr>df_tables := fold create_table SCHEMA_TABLES (df_tables s), df_indexes := df_indexes s @ ks\<rparr>) \<and>
    fst ` set SCHEMA_INDEXES \<subseteq> set (df_indexes s @ ks) \<and> (fst ` set SCHEMA_INDEXES \<subseteq> set (df_indexes s) \<longrightarrow> ks = [])"
proof -
  let ?u = "s\<lparr>df_tables := fold create_table SCHEMA_TABLES (df_tables s)\<rparr>"
  have "list_all (\<lambda>(i, t, cols). indexable cols (table_of t ?u)) SCHEMA_INDEXES"
    using indexable_created [OF assms] by (auto simp: list_all_iff table_of_def)
  then obtain ks where "for_each SCHEMA_INDEXES create_index ?u = (Inr (), ?u\<lparr>df_indexes := df_indexes ?u @ ks\<rparr>)"
    "fst ` set SCHEMA_INDEXES \<subseteq> set (df_indexes ?u @ ks)" "fst ` set SCHEMA_INDEXES \<subseteq> set (df_indexes ?u) \<longrightarrow> ks = []"
    using create_indexes by blast
  then show ?thesis by (auto simp: run_schema_def bindm_def for_each_modify fold_tables)
qed

lemma schema_run:
  assumes "indexes_fit s"
  shows "\<exists>t. bindm run_schema (\<lambda>_. run_migrations) s = (Inr (), t) \<and>
    table_of ''vms'' t = Some (fold upgrade MIGRATIONS (case table_of ''vms'' s of Some r \<Rightarrow> r
      | None \<Rightarrow> \<lparr>rel_columns = the (map_of SCHEMA_TABLES ''vms''), rel_rows = []\<rparr>)) \<and>
    (\<forall>n r. n \<noteq> ''vms'' \<and> table_of n s = Some r \<longrightarrow> table_of n t = Some r) \<and>
    opened t \<and> (opened s \<longrightarrow> t = s)"
proof -
  let ?r = "case table_of ''vms'' s of Some r \<Rightarrow> r | None \<Rightarrow> \<lparr>rel_columns = the (map_of SCHEMA_TABLES ''vms''), rel_rows = []\<rparr>"
  obtain ks where k: "run_schema s = (Inr (), s\<lparr>df_tables := fold create_table SCHEMA_TABLES (df_tables s), df_indexes := df_indexes s @ ks\<rparr>)"
    "fst ` set SCHEMA_INDEXES \<subseteq> set (df_indexes s @ ks)" "fst ` set SCHEMA_INDEXES \<subseteq> set (df_indexes s) \<longrightarrow> ks = []"
    using run_schema_run [OF assms] by blast
  define u where "u = s\<lparr>df_tables := fold create_table SCHEMA_TABLES (df_tables s), df_indexes := df_indexes s @ ks\<rparr>"
  have u: "table_of n u = (case table_of n s of Some r \<Rightarrow> Some r
      | None \<Rightarrow> map_option (\<lambda>cols. \<lparr>rel_columns = cols, rel_rows = []\<rparr>) (map_of SCHEMA_TABLES n))" for n
    by (simp add: u_def table_of_def map_of_create)
  then have vms: "table_of ''vms'' u = Some ?r" by (simp add: SCHEMA_TABLES_def split: option.split)
  obtain t where t: "run_migrations u = (Inr (), t)" "table_of ''vms'' t = Some (fold upgrade MIGRATIONS ?r)"
    "\<forall>n. n \<noteq> ''vms'' \<longrightarrow> table_of n t = table_of n u" "df_indexes t = df_indexes u"
    "fst ` set MIGRATIONS \<subseteq> set (rel_columns ?r) \<longrightarrow> t = u"
    using migrate_all [OF vms, of MIGRATIONS] unfolding run_migrations_def by blast
  have keep: "table_of n t \<noteq> None" if "map_of SCHEMA_TABLES n \<noteq> None" for n
    using that t(2,3) u [of n] by (cases "n = ''vms''") (auto split: option.splits)
  have "indexable cols (table_of n t)" if x: "(i, n, cols) \<in> set SCHEMA_INDEXES" for i n cols
  proof -
    have "indexable cols (table_of n u)"
      using indexable_created [OF assms x] by (simp add: u_def table_of_def)
    with t(2,3) vms show ?thesis
      by (cases "n = ''vms''") (auto simp: indexable_def columns_upgrade list_all_iff split: option.splits)
  qed
  then have "indexes_fit t" by (auto simp: indexes_fit_def list_all_iff)
  moreover have "list_all (\<lambda>(n, _). table_of n t \<noteq> None) SCHEMA_TABLES"
    using keep by (simp add: SCHEMA_TABLES_def)
  ultimately have "opened t"
    using k(2) t(2,4) by (auto simp: opened_def columns_upgrade u_def)
  moreover have "t = s" if "opened s"
  proof -
    from that have "list_all (\<lambda>(n, _). map_of (df_tables s) n \<noteq> None) SCHEMA_TABLES" "ks = []"
      using k(3) by (simp_all add: opened_def table_of_def)
    then have "u = s" by (simp add: u_def create_known)
    with that t(5) show ?thesis by (auto simp: opened_def)
  qed
  moreover have "bindm run_schema (\<lambda>_. run_migrations) s = (Inr (), t)"
    using k(1) t(1) by (simp add: bindm_def u_def)
  ultimately show ?thesis using t(2,3) u by auto
qed

lemma db_open_run:
  assumes "no_raise (os_mkdir h (parent_dir path))" "no_raise (connect path)"
  shows "\<exists>w. db_open h connect path s = bindm run_schema (\<lambda>_. run_migrations) (s\<lparr>df_world := w, df_connected := True\<rparr>)"
proof -
  obtain v where v: "os_mkdir h (parent_dir path) (df_world s) = (Inr (), v)"
    using assms(1) unfolding no_raise_def by (metis prod.collapse unit.exhaust)
  obtain w where "connect path v = (Inr (), w)"
    using assms(2) unfolding no_raise_def by (metis prod.collapse unit.exhaust)
  with v have "db_open h connect path s = bindm run_schema (\<lambda>_. run_migrations) (s\<lparr>df_world := w, df_connected := True\<rparr>)"
    by (simp add: db_open_def in_files_def bindm_def modify_def)
  then show ?thesis ..
qed

section \<open>Properties\<close>

text \<open>C24: Opening a database of an earlier version changes nothing that is read: it succeeds on every file whose tables have
  the columns their indexes need, every row of \<open>vms\<close> reads as the same VM before and after the columns were
  added (the defaults of the migrations are those of the reader), all other tables stay as they are, the
  columns of the current version are there, each once, and opening again changes no table.\<close>

theorem open_migrates:
  assumes "no_raise (os_mkdir h (parent_dir path))" "no_raise (connect path)" "indexes_fit s"
    "table_of ''vms'' s = Some r" "well_shaped r" "distinct (rel_columns r)"
  shows "\<exists>t r' u. db_open h connect path s = (Inr (), t) \<and> table_of ''vms'' t = Some r' \<and>
    map (read_vm fromiso tags) (rel_rows r') = map (read_vm fromiso tags) (rel_rows r) \<and>
    well_shaped r' \<and> distinct (rel_columns r') \<and> set (rel_columns r') = set (rel_columns r) \<union> fst ` set MIGRATIONS \<and>
    (\<forall>n x. n \<noteq> ''vms'' \<and> table_of n s = Some x \<longrightarrow> table_of n t = Some x) \<and>
    db_open h connect path t = (Inr (), u) \<and> df_tables u = df_tables t"
proof -
  obtain w where w: "db_open h connect path s = bindm run_schema (\<lambda>_. run_migrations) (s\<lparr>df_world := w, df_connected := True\<rparr>)"
    using db_open_run [where h = h and connect = connect and path = path and s = s, OF assms(1,2)] by blast
  let ?s = "s\<lparr>df_world := w, df_connected := True\<rparr>"
  have eq: "table_of n ?s = table_of n s" "indexes_fit ?s = indexes_fit s" for n
    by (simp_all add: table_of_def indexes_fit_def)
  obtain t where t: "bindm run_schema (\<lambda>_. run_migrations) ?s = (Inr (), t)"
    "table_of ''vms'' t = Some (fold upgrade MIGRATIONS r)"
    "\<forall>n x. n \<noteq> ''vms'' \<and> table_of n ?s = Some x \<longrightarrow> table_of n t = Some x" "opened t"
    using schema_run [of ?s] assms(3,4) unfolding eq by auto
  obtain v where v: "db_open h connect path t = bindm run_schema (\<lambda>_. run_migrations) (t\<lparr>df_world := v, df_connected := True\<rparr>)"
    using db_open_run [where h = h and connect = connect and path = path and s = t, OF assms(1,2)] by blast
  let ?t = "t\<lparr>df_world := v, df_connected := True\<rparr>"
  have "opened ?t" "indexes_fit ?t" using t(4) by (simp_all add: opened_def indexes_fit_def table_of_def)
  then have "bindm run_schema (\<lambda>_. run_migrations) ?t = (Inr (), ?t)" using schema_run [of ?t] by auto
  then show ?thesis
    using t w v assms(5,6) eq
    by (intro exI [of _ t] exI [of _ "fold upgrade MIGRATIONS r"] exI [of _ ?t])
      (simp add: read_vms_upgrade well_shaped_upgrade distinct_upgrade columns_upgrade)
qed

section \<open>At concrete values\<close>

text \<open>A file of the first version, whose \<open>vms\<close> had none of the later columns.\<close>

definition demo_row :: pydict where
  "demo_row = [(''id'', PStr ''vm_1''), (''libvirt_name'', PStr ''Boxer--p_1--web--vm_1''), (''project_id'', PStr ''p_1''),
     (''display_name'', PStr ''web''), (''state'', PStr ''running''), (''owner_user'', PStr ''ann''), (''template'', PStr ''ubuntu''),
     (''cpu'', PInt 2), (''ram_mb'', PInt 2048), (''disk_gb'', PInt 20), (''headless'', PInt 1), (''ip_address'', PNone),
     (''created_at'', PStr ''a''), (''last_touched'', PStr ''b''), (''lease_until'', PStr ''c'')]"

definition demo_file :: "unit dbfile" where
  "demo_file = \<lparr>df_tables = [(''vms'', \<lparr>rel_columns = map fst demo_row, rel_rows = [demo_row]\<rparr>)], df_indexes = [],
     df_connected = False, df_world = ()\<rparr>"

lemma demo_row_reads: "map_sum id vm_kind (read_vm (\<lambda>_. Inr 0) [] demo_row) = Inr ''vm''"
  by (simp add: read_vm_def row_text_def row_value_def need_some_def need_str_def row_int_def row_opt_def row_time_def
      opt_text_def text_or_def opt_or_def demo_row_def)

lemma open_migrates_witness:
  "\<exists>t r'. db_open (undefined\<lparr>os_mkdir := \<lambda>_. ret ()\<rparr>) (\<lambda>_. ret ()) ''/var/lib/boxer/boxer.db'' demo_file = (Inr (), t) \<and>
     table_of ''vms'' t = Some r' \<and> map (read_vm (\<lambda>_. Inr 0) []) (rel_rows r') = [read_vm (\<lambda>_. Inr 0) [] demo_row] \<and>
     ''origin'' \<in> set (rel_columns r')"
  using open_migrates [where h = "undefined\<lparr>os_mkdir := \<lambda>_. ret ()\<rparr>" and connect = "\<lambda>_. ret ()" and path = "''/var/lib/boxer/boxer.db''"
      and s = demo_file and r = "\<lparr>rel_columns = map fst demo_row, rel_rows = [demo_row]\<rparr>" and fromiso = "\<lambda>_. Inr 0" and tags = "[]"]
  by (fastforce simp: demo_file_def table_of_def indexes_fit_def SCHEMA_INDEXES_def indexable_def well_shaped_def demo_row_def MIGRATIONS_def)

end
