(* ===== verification/Lifecycle.thy ===== *)
theory Lifecycle
  imports Loops Migration
begin

text \<open>
  The life of a process: the configuration it reads once (the getters of \<open>boxer/config.py\<close>), the sockets of
  \<open>boxerd/ipc_server.py\<close>, \<open>BoxerDaemon.start\<close> and \<open>stop\<close>, and the entry points of \<open>boxerd\<close> and \<open>boxer_mcp\<close>.
\<close>

section \<open>Configuration, read once\<close>

text \<open>The module's three globals and the world in which the files are.\<close>

record 'w conf =
  cn_config :: "pyval option"
  cn_catalog :: "pyval option"
  cn_android :: "pyval option"
  cn_world :: 'w

definition in_conf :: "('w, 'a) pm \<Rightarrow> ('w conf, 'a) pm" where
  "in_conf m = (\<lambda>s. case m (cn_world s) of (r, w) \<Rightarrow> (r, s\<lparr>cn_world := w\<rparr>))"

definition configured_path :: "'w os \<Rightarrow> (string \<Rightarrow> string option) \<Rightarrow> string \<Rightarrow> ('w, string option) pm" where
  "configured_path h env env_var = (case env env_var of
       Some (c # p) \<Rightarrow> bindm (os_expanduser h (c # p)) (\<lambda>q. ret (Some q))
     | _ \<Rightarrow> ret None)"

definition load_document :: "'w os \<Rightarrow> (string \<Rightarrow> string option) \<Rightarrow> (string \<Rightarrow> ('w, pyval) pm) \<Rightarrow> string \<Rightarrow> string \<Rightarrow> string \<Rightarrow>
    string \<Rightarrow> ('w, pyval) pm" where
  "load_document h env load primary fallback env_var label =
     bindm (configured_path h env env_var) (\<lambda>override. load_yaml h load override primary fallback env_var label)"

text \<open>\<open>if X is None: X = produce()\<close>, and \<open>return X\<close>.\<close>

definition cached :: "('s \<Rightarrow> pyval option) \<Rightarrow> (pyval option \<Rightarrow> 's \<Rightarrow> 's) \<Rightarrow> ('s, pyval) pm \<Rightarrow> ('s, pyval) pm" where
  "cached get put produce = bindm (gets get) (\<lambda>c. case c of
       Some v \<Rightarrow> ret v
     | None \<Rightarrow> bindm produce (\<lambda>v. bindm (modify (put (Some v))) (\<lambda>_. ret v)))"

text \<open>What a catalog keeps of its document.\<close>

definition images_of :: "pyval \<Rightarrow> pyval res" where
  "images_of data = (case data of PDict d \<Rightarrow> Inr (dget_or d ''images'' (PDict [])) | _ \<Rightarrow> Inl attr_error)"

text \<open>\<open>repo\<close> is the directory of the repository, where the fallback files are.\<close>

definition get_config :: "'w os \<Rightarrow> (string \<Rightarrow> string option) \<Rightarrow> (string \<Rightarrow> ('w, pyval) pm) \<Rightarrow> string \<Rightarrow> ('w conf, pyval) pm" where
  "get_config h env load repo = cached cn_config (\<lambda>v s. s\<lparr>cn_config := v\<rparr>)
     (in_conf (load_document h env load ''/etc/boxer/boxer.yaml'' (path_join repo ''config/boxer.yaml'')
        ''BOXER_CONFIG_PATH'' ''config''))"

definition get_catalog :: "'w os \<Rightarrow> (string \<Rightarrow> string option) \<Rightarrow> (string \<Rightarrow> ('w, pyval) pm) \<Rightarrow> string \<Rightarrow> ('w conf, pyval) pm" where
  "get_catalog h env load repo = cached cn_catalog (\<lambda>v s. s\<lparr>cn_catalog := v\<rparr>)
     (bindm (in_conf (load_document h env load ''/etc/boxer/images.yaml'' (path_join repo ''config/images.yaml'')
        ''BOXER_IMAGES_PATH'' ''image catalog'')) (\<lambda>d. liftr (images_of d)))"

definition get_android_catalog :: "'w os \<Rightarrow> (string \<Rightarrow> string option) \<Rightarrow> (string \<Rightarrow> ('w, pyval) pm) \<Rightarrow> string \<Rightarrow>
    ('w conf, pyval) pm" where
  "get_android_catalog h env load repo = cached cn_android (\<lambda>v s. s\<lparr>cn_android := v\<rparr>)
     (bindm (in_conf (load_document h env load ''/etc/boxer/android.yaml'' (path_join repo ''config/android.yaml'')
        ''BOXER_ANDROID_PATH'' ''android catalog'')) (\<lambda>d. liftr (images_of (py_or d (PDict [])))))"

definition reload :: "('w conf, unit) pm" where
  "reload = modify (\<lambda>s. s\<lparr>cn_config := None, cn_catalog := None, cn_android := None\<rparr>)"

text \<open>Once read, a document is not read again until \<open>reload\<close>; a failed read leaves nothing behind.\<close>

lemma cached_again:
  "(\<And>v s. get (put v s) = v) \<Longrightarrow> cached get put produce s = (Inr v, t) \<Longrightarrow> cached get put produce t = (Inr v, t)"
  by (auto simp: cached_def bindm_def gets_def ret_def modify_def split: option.splits prod.splits sum.splits)

lemma config_read_once: "get_config h env load repo s = (Inr v, t) \<Longrightarrow> get_config h env load repo t = (Inr v, t)"
  unfolding get_config_def by (rule cached_again) simp_all

lemma catalogs_read_once:
  "get_catalog h env load repo s = (Inr v, t) \<Longrightarrow> get_catalog h env load repo t = (Inr v, t)"
  "get_android_catalog h env load repo s = (Inr v, t) \<Longrightarrow> get_android_catalog h env load repo t = (Inr v, t)"
  unfolding get_catalog_def get_android_catalog_def by (rule cached_again; simp)+

lemma config_failure: "get_config h env load repo s = (Inl e, t) \<Longrightarrow> cn_config t = None"
  by (auto simp: get_config_def cached_def bindm_def gets_def ret_def modify_def in_conf_def
      split: option.splits prod.splits sum.splits)

section \<open>The daemon process\<close>

text \<open>
  The attributes of \<open>BoxerDaemon\<close> and of the objects it holds that start and stop set and read. The file of the database
  holds the world.
\<close>

record 'w life =
  lf_conn :: bool
  lf_built :: bool
  lf_server :: bool
  lf_notify :: bool
  lf_queue_task :: bool
  lf_scan_task :: bool
  lf_file :: "'w dbfile"

text \<open>
  What start and stop call: \<open>libvirt.open\<close> (False is None), the database's connection, asyncio's Unix servers (with a limit
  of bytes per line), and the rest of the two tasks after they are cancelled.
\<close>

record 'w life_env =
  le_host :: "'w host"
  le_pools :: "'w pools"
  le_getgrnam :: "string \<Rightarrow> int option"
  le_libvirt_open :: "pyval \<Rightarrow> ('w, bool) pm"
  le_libvirt_close :: "('w, unit) pm"
  le_connect :: "string \<Rightarrow> ('w, unit) pm"
  le_disconnect :: "('w, unit) pm"
  le_listen :: "string \<Rightarrow> int option \<Rightarrow> ('w, unit) pm"
  le_close_server :: "string \<Rightarrow> ('w, unit) pm"
  le_queue_rest :: "('w, unit) pm"
  le_scan_rest :: "('w, unit) pm"

definition on_file :: "('w dbfile, 'a) pm \<Rightarrow> ('w life, 'a) pm" where
  "on_file m = (\<lambda>s. case m (lf_file s) of (r, f) \<Rightarrow> (r, s\<lparr>lf_file := f\<rparr>))"

abbreviation in_life :: "('w, 'a) pm \<Rightarrow> ('w life, 'a) pm" where
  "in_life m \<equiv> on_file (in_files m)"

definition socket_path :: "pydict \<Rightarrow> string res" where
  "socket_path d = cfg_path ''socket_path'' ''/run/boxer/boxer.sock'' d"

definition notify_socket_path :: "pydict \<Rightarrow> string res" where
  "notify_socket_path d = cfg_path ''notify_socket_path'' ''/run/boxer/boxer-notify.sock'' d"

text \<open>An old socket is removed, the new one opened and given its mode: group for requests, everyone for events.\<close>

definition open_socket :: "'w life_env \<Rightarrow> string \<Rightarrow> int option \<Rightarrow> ('w life \<Rightarrow> 'w life) \<Rightarrow> int \<Rightarrow> ('w life, unit) pm" where
  "open_socket E path limit note mode =
     (let h = ho_os (le_host E) in
     bindm (in_life (os_exists h path)) (\<lambda>e.
     bindm (whenm e (in_life (os_unlink h path))) (\<lambda>_.
     bindm (bindm (in_life (le_listen E path limit)) (\<lambda>_. modify note)) (\<lambda>_.
     in_life (os_chmod h path mode)))))"

definition server_start :: "'w life_env \<Rightarrow> string \<Rightarrow> string \<Rightarrow> ('w life, unit) pm" where
  "server_start E sock notify =
     bindm (in_life (os_mkdir (ho_os (le_host E)) (parent_dir sock))) (\<lambda>_.
     bindm (open_socket E sock (Some MAX_MESSAGE_BYTES) (\<lambda>s. s\<lparr>lf_server := True\<rparr>) 432) (\<lambda>_.
     open_socket E notify None (\<lambda>s. s\<lparr>lf_notify := True\<rparr>) 438))"

definition server_stop :: "'w life_env \<Rightarrow> string \<Rightarrow> string \<Rightarrow> ('w life, unit) pm" where
  "server_stop E sock notify =
     bindm (gets lf_server) (\<lambda>a. bindm (whenm a (in_life (le_close_server E sock))) (\<lambda>_.
     bindm (gets lf_notify) (\<lambda>b. whenm b (in_life (le_close_server E notify)))))"

text \<open>The paths that the constructor of the daemon reads: database, socket and notification socket.\<close>

definition daemon_paths :: "pydict \<Rightarrow> (string \<times> string \<times> string) res" where
  "daemon_paths d =
     bindr (cfg_path ''state_dir'' ''/var/lib/boxer'' d) (\<lambda>state_dir. bindr (socket_path d) (\<lambda>sock.
     bindr (notify_socket_path d) (\<lambda>notify. Inr (path_join state_dir ''boxer.db'', sock, notify))))"

definition daemon_start :: "'w life_env \<Rightarrow> string \<Rightarrow> string \<Rightarrow> string \<Rightarrow> ('w life, unit) pm" where
  "daemon_start E db_path sock notify =
     (let H = le_host E; d = ho_doc H; h = ho_os H in
     bindm (bindm (in_life (le_libvirt_open E (libvirt_uri d))) (\<lambda>ok.
       bindm (guardm (\<not> ok) (PyExn ''RuntimeError'' (''Failed to connect to libvirt at '' @ py_str (libvirt_uri d)))) (\<lambda>_.
       modify (\<lambda>s. s\<lparr>lf_conn := True\<rparr>)))) (\<lambda>_.
     bindm (on_file (db_open h (le_connect E) db_path)) (\<lambda>_.
     bindm (liftr (lookup_qemu_gid (le_getgrnam E) d)) (\<lambda>gid.
     bindm (modify (\<lambda>s. s\<lparr>lf_built := True\<rparr>)) (\<lambda>_.
     bindm (in_life (ensure_pool (ho_cfg H) h (le_pools E) gid)) (\<lambda>_.
     bindm (server_start E sock notify) (\<lambda>_.
     modify (\<lambda>s. s\<lparr>lf_queue_task := True, lf_scan_task := True\<rparr>))))))))"

definition daemon_stop :: "'w life_env \<Rightarrow> string \<Rightarrow> string \<Rightarrow> ('w life, unit) pm" where
  "daemon_stop E sock notify =
     bindm (gets (\<lambda>s. lf_built s \<and> lf_scan_task s)) (\<lambda>b. bindm (stop_task b (in_life (le_scan_rest E))) (\<lambda>_.
     bindm (gets (\<lambda>s. lf_built s \<and> lf_queue_task s)) (\<lambda>b. bindm (stop_task b (in_life (le_queue_rest E))) (\<lambda>_.
     bindm (server_stop E sock notify) (\<lambda>_.
     bindm (on_file (db_close (le_disconnect E))) (\<lambda>_.
     bindm (gets lf_conn) (\<lambda>c. whenm c (in_life (le_libvirt_close E)))))))))"

text \<open>
  \<open>boxerd\<close>'s main, without its logging: \<open>signal n\<close> is \<open>loop.add_signal_handler\<close> for the signal \<open>n\<close> (\<open>SIGTERM\<close> is 15, \<open>SIGINT\<close> is 2)
  with the handler that sets the event, and \<open>wait\<close> ends when the event is set.
\<close>

definition daemon_main :: "'w life_env \<Rightarrow> (int \<Rightarrow> ('w life, unit) pm) \<Rightarrow> ('w life, unit) pm \<Rightarrow> ('w life, unit) pm" where
  "daemon_main E signal wait =
     bindm (liftr (daemon_paths (ho_doc (le_host E)))) (\<lambda>(db_path, sock, notify).
     bindm (daemon_start E db_path sock notify) (\<lambda>_.
     bindm (signal 15) (\<lambda>_. bindm (signal 2) (\<lambda>_. bindm wait (\<lambda>_. daemon_stop E sock notify)))))"

section \<open>What is held open\<close>

text \<open>
  \<open>held w\<close> are the connections and sockets that are open. \<open>holds held E\<close> states that only the opening calls add to them,
  each its own and only when it succeeds, that the closing calls do not fail and remove theirs, and that a cancelled
  task ends.
\<close>

datatype handle = LibvirtConn | DbFile | Socket string

definition adds :: "('w \<Rightarrow> handle set) \<Rightarrow> handle set \<Rightarrow> ('w, 'a) pm \<Rightarrow> bool" where
  "adds held X m \<longleftrightarrow> (\<forall>w. wp m (\<lambda>_ v. held v \<subseteq> held w \<union> X) (\<lambda>_ v. held v \<subseteq> held w) w)"

definition drops :: "('w \<Rightarrow> handle set) \<Rightarrow> handle set \<Rightarrow> ('w, 'a) pm \<Rightarrow> bool" where
  "drops held X m \<longleftrightarrow> (\<forall>w. wp m (\<lambda>_ v. held v \<subseteq> held w - X) (\<lambda>_ _. False) w)"

abbreviation neutral :: "('w \<Rightarrow> handle set) \<Rightarrow> ('w, 'a) pm \<Rightarrow> bool" where
  "neutral held \<equiv> adds held {}"

definition host_neutral :: "('w \<Rightarrow> handle set) \<Rightarrow> 'w life_env \<Rightarrow> bool" where
  "host_neutral held E \<longleftrightarrow> (let h = ho_os (le_host E); po = le_pools E in
     (\<forall>p. neutral held (os_mkdir h p)) \<and> (\<forall>p. neutral held (os_exists h p)) \<and> (\<forall>p. neutral held (os_unlink h p)) \<and>
     (\<forall>p m. neutral held (os_chmod h p m)) \<and> (\<forall>p g. neutral held (os_chown h p g)) \<and>
     (\<forall>p. neutral held (po_lookup po p)) \<and> (\<forall>p. neutral held (po_is_active po p)) \<and> (\<forall>p. neutral held (po_create po p)) \<and>
     (\<forall>p. neutral held (po_define_xml po p)) \<and> (\<forall>p n. neutral held (po_set_autostart po p n)))"

definition holds :: "('w \<Rightarrow> handle set) \<Rightarrow> 'w life_env \<Rightarrow> bool" where
  "holds held E \<longleftrightarrow> host_neutral held E \<and>
     (\<forall>u w. wp (le_libvirt_open E u) (\<lambda>ok v. held v \<subseteq> held w \<union> (if ok then {LibvirtConn} else {})) (\<lambda>_ v. held v \<subseteq> held w) w) \<and>
     (\<forall>p. adds held {DbFile} (le_connect E p)) \<and> (\<forall>p l. adds held {Socket p} (le_listen E p l)) \<and>
     drops held {LibvirtConn} (le_libvirt_close E) \<and> drops held {DbFile} (le_disconnect E) \<and>
     (\<forall>p. drops held {Socket p} (le_close_server E p)) \<and>
     neutral held (le_queue_rest E) \<and> neutral held (le_scan_rest E) \<and>
     cancellable (le_queue_rest E) \<and> cancellable (le_scan_rest E)"

text \<open>What the attributes say is open.\<close>

definition noted :: "string \<Rightarrow> string \<Rightarrow> 'w life \<Rightarrow> handle set" where
  "noted sock notify s = (if lf_conn s then {LibvirtConn} else {}) \<union> (if df_connected (lf_file s) then {DbFile} else {}) \<union>
     (if lf_server s then {Socket sock} else {}) \<union> (if lf_notify s then {Socket notify} else {})"

definition accounted :: "('w \<Rightarrow> handle set) \<Rightarrow> string \<Rightarrow> string \<Rightarrow> 'w life \<Rightarrow> bool" where
  "accounted held sock notify s \<longleftrightarrow> held (df_world (lf_file s)) \<subseteq> noted sock notify s"

lemma wp_on_file [wp_simps]: "wp (on_file m) Q E s =
    wp m (\<lambda>x f. Q x (s\<lparr>lf_file := f\<rparr>)) (\<lambda>e f. E e (s\<lparr>lf_file := f\<rparr>)) (lf_file s)"
  by (auto simp: wp_def on_file_def split: prod.splits sum.splits)

lemma wp_in_files [wp_simps]: "wp (in_files m) Q E s =
    wp m (\<lambda>x w. Q x (s\<lparr>df_world := w\<rparr>)) (\<lambda>e w. E e (s\<lparr>df_world := w\<rparr>)) (df_world s)"
  by (auto simp: wp_def in_files_def split: prod.splits sum.splits)

section \<open>Every step keeps the account\<close>

definition acc :: "('w \<Rightarrow> handle set) \<Rightarrow> string \<Rightarrow> string \<Rightarrow> 'w life \<Rightarrow> 'w life \<Rightarrow> bool" where
  "acc held sock notify s t \<longleftrightarrow> (accounted held sock notify s \<longrightarrow> accounted held sock notify t)"

interpretation acf: frame "acc held sock notify" for held sock notify
  by unfold_locales (auto simp: acc_def)

text \<open>A relation on the world that neutral operations keep.\<close>

definition no_more :: "('w \<Rightarrow> handle set) \<Rightarrow> 'w \<Rightarrow> 'w \<Rightarrow> bool" where
  "no_more held v w \<longleftrightarrow> held w \<subseteq> held v"

interpretation nmf: frame "no_more held" for held
  by unfold_locales (auto simp: no_more_def)

lemma neutral_keeps: "neutral held m \<longleftrightarrow> keeps (no_more held) m"
  by (simp add: adds_def keeps_def no_more_def wp_snd)

lemma in_life_keeps: "neutral held m \<Longrightarrow> keeps (acc held sock notify) (in_life m)"
  unfolding adds_def
  by (rule keepsI_wp, simp add: wp_simps, rule wp_mono, erule spec) (auto simp: acc_def accounted_def noted_def)

lemma opens_keep:
  "adds held {DbFile} m \<Longrightarrow> keeps (acc held sock notify) (on_file (bindm (in_files m) (\<lambda>_. modify (\<lambda>s. s\<lparr>df_connected := True\<rparr>))))"
  "adds held {Socket sock} m \<Longrightarrow> keeps (acc held sock notify) (bindm (in_life m) (\<lambda>_. modify (\<lambda>s. s\<lparr>lf_server := True\<rparr>)))"
  "adds held {Socket notify} m \<Longrightarrow> keeps (acc held sock notify) (bindm (in_life m) (\<lambda>_. modify (\<lambda>s. s\<lparr>lf_notify := True\<rparr>)))"
  unfolding adds_def
  by (rule keepsI_wp, simp add: wp_simps, rule wp_mono, erule spec, auto simp: acc_def accounted_def noted_def)+


text \<open>The schema and the migrations change tables only.\<close>

definition same_link :: "'w dbfile \<Rightarrow> 'w dbfile \<Rightarrow> bool" where
  "same_link s t \<longleftrightarrow> df_world t = df_world s \<and> df_connected t = df_connected s"

interpretation slf: frame same_link
  by unfold_locales (simp_all add: same_link_def)

lemma modify_link: "(\<And>s. same_link s (f s)) \<Longrightarrow> keeps same_link (modify f)"
  by (simp add: keeps_def modify_def)

lemma schema_link: "keeps same_link run_schema" "keeps same_link run_migrations"
  unfolding run_schema_def run_migrations_def create_index_def add_column_def
  by (intro slf.frame_keeps modify_link keeps_splits; simp add: same_link_def)+

lemma on_file_link: "keeps same_link m \<Longrightarrow> keeps (acc held sock notify) (on_file m)"
  by (rule keepsI_wp, unfold wp_on_file, rule wp_mono, erule keeps_wp)
    (simp_all add: acc_def accounted_def noted_def same_link_def)

lemma on_file_bind: "on_file (bindm m f) = bindm (on_file m) (\<lambda>x. on_file (f x))"
  by (rule ext) (auto simp: on_file_def bindm_def split: prod.splits sum.splits)

lemma attributes_keep:
  "keeps (acc held sock notify) (modify (\<lambda>s. s\<lparr>lf_built := True\<rparr>))"
  "keeps (acc held sock notify) (modify (\<lambda>s. s\<lparr>lf_queue_task := True, lf_scan_task := True\<rparr>))"
  by (simp_all add: keeps_def modify_def acc_def accounted_def noted_def)

lemma libvirt_keeps:
  assumes "\<And>w. wp m (\<lambda>ok v. held v \<subseteq> held w \<union> (if ok then {LibvirtConn} else {})) (\<lambda>_ v. held v \<subseteq> held w) w"
  shows "keeps (acc held sock notify) (bindm (in_life m) (\<lambda>ok. bindm (guardm (\<not> ok) e) (\<lambda>_. modify (\<lambda>s. s\<lparr>lf_conn := True\<rparr>))))"
  by (rule keepsI_wp, simp add: wp_simps, rule wp_mono [OF assms])
    (auto simp: acc_def accounted_def noted_def split: if_splits)

lemma pool_neutral: "host_neutral held E \<Longrightarrow> neutral held (ensure_pool c (ho_os (le_host E)) (le_pools E) gid)"
  unfolding host_neutral_def neutral_keeps ensure_pool_def set_access_def catch_class_def Let_def
  by (intro nmf.frame_keeps keeps_splits) simp_all

lemma open_socket_keeps:
  assumes "host_neutral held E" "keeps (acc held sock notify) (bindm (in_life (le_listen E p l)) (\<lambda>_. modify f))"
  shows "keeps (acc held sock notify) (open_socket E p l f m)"
  unfolding open_socket_def Let_def
  by (intro acf.frame_keeps assms(2) in_life_keeps) (use assms(1) in \<open>simp_all add: host_neutral_def Let_def\<close>)

lemma db_open_eq: "db_open h connect path = bindm (in_files (os_mkdir h (parent_dir path)))
    (\<lambda>_. bindm (bindm (in_files (connect path)) (\<lambda>_. modify (\<lambda>s. s\<lparr>df_connected := True\<rparr>))) (\<lambda>_. bindm run_schema (\<lambda>_. run_migrations)))"
  by (rule ext) (auto simp: db_open_def bindm_def split: prod.splits sum.splits)

lemma start_keeps:
  assumes "holds held E"
  shows "keeps (acc held sock notify) (daemon_start E path sock notify)"
proof -
  have h: "host_neutral held E" using assms by (simp add: holds_def)
  then have mk: "neutral held (os_mkdir (ho_os (le_host E)) p)" for p by (simp add: host_neutral_def Let_def)
  have dbf: "keeps (acc held sock notify) (on_file (db_open (ho_os (le_host E)) (le_connect E) path))"
    unfolding db_open_eq
    by (subst on_file_bind, rule acf.bindm_keeps, rule in_life_keeps, rule mk, subst on_file_bind, rule acf.bindm_keeps,
        rule opens_keep, use assms in \<open>simp add: holds_def\<close>, intro on_file_link slf.bindm_keeps schema_link)
  have server: "keeps (acc held sock notify) (server_start E sock notify)"
    unfolding server_start_def
    by (intro acf.bindm_keeps in_life_keeps mk open_socket_keeps h opens_keep)
      (use assms in \<open>simp_all add: holds_def\<close>)
  show ?thesis
    unfolding daemon_start_def Let_def
    by (intro acf.bindm_keeps acf.liftr_keeps libvirt_keeps dbf server in_life_keeps pool_neutral h attributes_keep)
      (use assms in \<open>simp add: holds_def\<close>)
qed

section \<open>Stopping lets go of everything\<close>

definition same_notes :: "'w life \<Rightarrow> 'w life \<Rightarrow> bool" where
  "same_notes s t \<longleftrightarrow> lf_conn t = lf_conn s \<and> lf_server t = lf_server s \<and> lf_notify t = lf_notify s \<and>
     df_connected (lf_file t) = df_connected (lf_file s) \<and> lf_built t = lf_built s \<and>
     lf_scan_task t = lf_scan_task s \<and> lf_queue_task t = lf_queue_task s"

abbreviation held_in :: "('w \<Rightarrow> handle set) \<Rightarrow> 'w life \<Rightarrow> handle set" where
  "held_in held s \<equiv> held (df_world (lf_file s))"

definition lets_go :: "('w \<Rightarrow> handle set) \<Rightarrow> handle set \<Rightarrow> 'w life \<Rightarrow> 'w life \<Rightarrow> bool" where
  "lets_go held X s t \<longleftrightarrow> same_notes s t \<and> held_in held t \<subseteq> held_in held s - X"

lemma lets_go_trans: "lets_go held X s t \<Longrightarrow> lets_go held Y t u \<Longrightarrow> lets_go held (X \<union> Y) s u"
  by (auto simp: lets_go_def same_notes_def)

lemma closes:
  assumes "drops held X m"
  shows "wp (whenm b (in_life m)) (\<lambda>_. lets_go held (if b then X else {}) s) (\<lambda>_ _. False) s"
proof (cases b)
  case True
  then show ?thesis using assms unfolding drops_def
    by (simp add: wp_simps) (rule wp_mono, erule spec, auto simp: lets_go_def same_notes_def)
qed (simp add: wp_simps lets_go_def same_notes_def)

lemma wp_both: "wp m P E s \<Longrightarrow> wp m Q F s \<Longrightarrow> wp m (\<lambda>x t. P x t \<and> Q x t) (\<lambda>e t. E e t \<and> F e t) s"
  by (auto simp: wp_def split: prod.splits sum.splits)

lemma ends:
  assumes "neutral held m" "cancellable m"
  shows "wp (stop_task b (in_life m)) (\<lambda>_. lets_go held {} s) (\<lambda>_ _. False) s"
proof -
  have "wp m (\<lambda>_ v. held v \<subseteq> held w \<and> True) (\<lambda>e v. held v \<subseteq> held w \<and> in_class ''CancelledError'' e) w" for w
    using assms unfolding adds_def raises_only_def by (intro wp_both) simp_all
  then show ?thesis
    by (simp add: stop_task_def wp_simps lets_go_def same_notes_def) (rule impI, rule wp_mono, assumption, auto)
qed

lemma disconnects:
  assumes "drops held {DbFile} m"
  shows "wp (on_file (db_close m)) (\<lambda>_. lets_go held (if df_connected (lf_file s) then {DbFile} else {}) s) (\<lambda>_ _. False) s"
proof -
  have "on_file (db_close m) s = whenm (df_connected (lf_file s)) (in_life m) s"
    by (simp add: db_close_def on_file_def bindm_def gets_def whenm_def ret_def)
  with closes [OF assms, of "df_connected (lf_file s)" s] show ?thesis by (simp add: wp_def)
qed

text \<open>Two steps one after the other; the attributes are those of \<open>s\<close> throughout.\<close>

lemma in_turn:
  assumes "same_notes s t" "wp m (\<lambda>_. lets_go held X t) (\<lambda>_ _. False) t"
    "\<And>x u. same_notes s u \<Longrightarrow> wp (f x) (\<lambda>_. lets_go held Y u) (\<lambda>_ _. False) u"
  shows "wp (bindm m f) (\<lambda>_. lets_go held (X \<union> Y) t) (\<lambda>_ _. False) t"
  unfolding wp_bindm
proof (rule wp_mono [OF assms(2)])
  fix x u
  assume u: "lets_go held X t u"
  with assms(1) have "same_notes s u" by (simp add: lets_go_def same_notes_def)
  from assms(3) [OF this] show "wp (f x) (\<lambda>_. lets_go held (X \<union> Y) t) (\<lambda>_ _. False) u"
    by (rule wp_mono) (simp_all add: lets_go_trans [OF u])
qed

lemma closes_if:
  assumes "drops held X m" "same_notes s t" "g t = g s"
  shows "wp (bindm (gets g) (\<lambda>b. whenm b (in_life m))) (\<lambda>_. lets_go held (if g s then X else {}) t) (\<lambda>_ _. False) t"
  using closes [OF assms(1), of "g s" t] by (simp add: wp_bindm wp_gets assms(3))

lemma stop_lets_go:
  assumes "holds held E"
  shows "wp (daemon_stop E sock notify) (\<lambda>_. lets_go held (noted sock notify s) s) (\<lambda>_ _. False) s"
proof -
  have rest: "neutral held (le_queue_rest E)" "neutral held (le_scan_rest E)" "cancellable (le_queue_rest E)"
      "cancellable (le_scan_rest E)" and
    dr: "drops held {LibvirtConn} (le_libvirt_close E)" "drops held {DbFile} (le_disconnect E)"
      "drops held {Socket p} (le_close_server E p)" for p
    using assms by (simp_all add: holds_def)
  let ?L = "if lf_conn s then {LibvirtConn} else {}" and ?D = "if df_connected (lf_file s) then {DbFile} else {}"
  let ?S = "if lf_server s then {Socket sock} else {}" and ?N = "if lf_notify s then {Socket notify} else {}"
  have conn: "wp (bindm (gets lf_conn) (\<lambda>c. whenm c (in_life (le_libvirt_close E)))) (\<lambda>_. lets_go held ?L t) (\<lambda>_ _. False) t"
    if "same_notes s t" for t
    using that by (intro closes_if [OF dr(1)]) (simp_all add: same_notes_def)
  have dbf: "wp (bindm (on_file (db_close (le_disconnect E))) (\<lambda>_. bindm (gets lf_conn) (\<lambda>c. whenm c (in_life (le_libvirt_close E)))))
      (\<lambda>_. lets_go held (?D \<union> ?L) t) (\<lambda>_ _. False) t" if "same_notes s t" for t
    using disconnects [OF dr(2), of t] that
    by (intro in_turn [OF that] conn) (simp_all add: same_notes_def)
  have srv: "wp (server_stop E sock notify) (\<lambda>_. lets_go held (?S \<union> ?N) t) (\<lambda>_ _. False) t" if "same_notes s t" for t
  proof -
    have "wp (bindm (whenm (lf_server s) (in_life (le_close_server E sock))) (\<lambda>_. bindm (gets lf_notify) (\<lambda>b. whenm b (in_life (le_close_server E notify)))))
        (\<lambda>_. lets_go held (?S \<union> ?N) t) (\<lambda>_ _. False) t"
      by (intro in_turn [OF that] closes closes_if [OF dr(3)] dr(3)) (simp_all add: same_notes_def)
    with that show ?thesis by (simp add: server_stop_def wp_bindm wp_gets same_notes_def)
  qed
  have tail: "wp (bindm (server_stop E sock notify) (\<lambda>_. bindm (on_file (db_close (le_disconnect E)))
      (\<lambda>_. bindm (gets lf_conn) (\<lambda>c. whenm c (in_life (le_libvirt_close E)))))) (\<lambda>_. lets_go held ((?S \<union> ?N) \<union> (?D \<union> ?L)) t) (\<lambda>_ _. False) t"
    if "same_notes s t" for t
    by (rule in_turn [OF that srv [OF that] dbf])
  have queue: "wp (bindm (gets f) (\<lambda>b. bindm (stop_task b (in_life (le_queue_rest E))) (\<lambda>_. bindm (server_stop E sock notify)
      (\<lambda>_. bindm (on_file (db_close (le_disconnect E))) (\<lambda>_. bindm (gets lf_conn) (\<lambda>c. whenm c (in_life (le_libvirt_close E))))))))
      (\<lambda>_. lets_go held ({} \<union> ((?S \<union> ?N) \<union> (?D \<union> ?L))) t) (\<lambda>_ _. False) t" if "same_notes s t" for t f
    unfolding wp_bindm [of "gets _"] wp_gets by (rule in_turn [OF that ends [OF rest(1,3)] tail])
  have "same_notes s s" by (simp add: same_notes_def)
  then have "wp (daemon_stop E sock notify) (\<lambda>_. lets_go held ({} \<union> ({} \<union> ((?S \<union> ?N) \<union> (?D \<union> ?L)))) s) (\<lambda>_ _. False) s"
    unfolding daemon_stop_def wp_bindm [of "gets (\<lambda>s. lf_built s \<and> lf_scan_task s)"] wp_gets
    by (rule in_turn) (rule ends [OF rest(2,4)], rule queue)
  then show ?thesis by (rule wp_mono) (auto simp: lets_go_def noted_def)
qed

section \<open>Properties\<close>

text \<open>C31: Stopping lets go of everything that starting took: after a start from a process that holds nothing, whether it succeeded
  or failed at any of its calls, stop runs to its end and leaves no connection to libvirt, no database file and
  no socket open. The entry point calls it only after a start that succeeded: a failed one ends the
  process with what was opened still open.\<close>

theorem stop_releases_all:
  assumes "holds held E" "held_in held s = {}" "daemon_paths (ho_doc (le_host E)) = Inr (path, sock, notify)"
    "daemon_start E path sock notify s = (r, t)"
  shows "(\<exists>u. daemon_stop E sock notify t = (Inr (), u) \<and> held_in held u = {}) \<and>
    (\<forall>e. r = Inl e \<longrightarrow> daemon_main E signal wait s = (Inl e, t))"
proof (intro conjI allI impI)
  have "acc held sock notify s t" by (rule keepsD [OF start_keeps [OF assms(1)] assms(4)])
  then have t: "held_in held t \<subseteq> noted sock notify t" using assms(2) by (simp add: acc_def accounted_def)
  obtain q u where u: "daemon_stop E sock notify t = (q, u)" by (cases "daemon_stop E sock notify t")
  have "q = Inr () \<and> lets_go held (noted sock notify t) t u"
    using stop_lets_go [OF assms(1), of sock notify t] u by (auto simp: wp_def split: sum.splits)
  with t u show "\<exists>u. daemon_stop E sock notify t = (Inr (), u) \<and> held_in held u = {}"
    by (auto simp: lets_go_def)
next
  fix e
  assume "r = Inl e"
  with assms(3,4) show "daemon_main E signal wait s = (Inl e, t)"
    by (simp add: daemon_main_def bindm_def liftr_def)
qed

section \<open>At concrete values\<close>

text \<open>A process whose world is the set of its open handles, and in which the second socket cannot be opened.\<close>

definition demo_life_os :: "'w os" where
  "demo_life_os = undefined\<lparr>os_mkdir := \<lambda>_. ret (), os_exists := \<lambda>_. ret False, os_unlink := \<lambda>_. ret (),
     os_chmod := \<lambda>_ _. ret (), os_chown := \<lambda>_ _. ret ()\<rparr>"

definition demo_life_env :: "handle set life_env" where
  "demo_life_env = \<lparr>le_host = undefined\<lparr>ho_doc := [], ho_cfg := default_cfg, ho_os := demo_life_os\<rparr>,
     le_pools = \<lparr>po_lookup = \<lambda>_. ret (), po_is_active = \<lambda>_. ret True, po_create = \<lambda>_. ret (), po_define_xml = ret,
       po_set_autostart = \<lambda>_ _. ret ()\<rparr>,
     le_getgrnam = \<lambda>_. None,
     le_libvirt_open = \<lambda>_. bindm (modify (insert LibvirtConn)) (\<lambda>_. ret True),
     le_libvirt_close = modify (\<lambda>w. w - {LibvirtConn}),
     le_connect = \<lambda>_. modify (insert DbFile), le_disconnect = modify (\<lambda>w. w - {DbFile}),
     le_listen = \<lambda>p l. if l = None then raise (PyExn ''OSError'' ''address in use'') else modify (insert (Socket p)),
     le_close_server = \<lambda>p. modify (\<lambda>w. w - {Socket p}), le_queue_rest = ret (), le_scan_rest = ret ()\<rparr>"

definition demo_life :: "handle set life" where
  "demo_life = \<lparr>lf_conn = False, lf_built = False, lf_server = False, lf_notify = False, lf_queue_task = False,
     lf_scan_task = False, lf_file = \<lparr>df_tables = [], df_indexes = [], df_connected = False, df_world = {}\<rparr>\<rparr>"

lemma demo_holds: "holds id demo_life_env"
  by (auto simp: holds_def host_neutral_def demo_life_env_def demo_life_os_def adds_def drops_def raises_only_def wp_simps)

lemma demo_paths: "daemon_paths [] = Inr (''/var/lib/boxer/boxer.db'', ''/run/boxer/boxer.sock'', ''/run/boxer/boxer-notify.sock'')"
  by (simp add: daemon_paths_def socket_path_def notify_socket_path_def cfg_path_def dget_or_def need_str_def
      path_join_def starts_with_def ends_with_def)

lemma stop_releases_all_witness:
  "\<exists>t u. daemon_start demo_life_env ''/var/lib/boxer/boxer.db'' ''/run/boxer/boxer.sock'' ''/run/boxer/boxer-notify.sock'' demo_life = t \<and>
     daemon_stop demo_life_env ''/run/boxer/boxer.sock'' ''/run/boxer/boxer-notify.sock'' (snd t) = (Inr (), u) \<and>
     df_world (lf_file u) = {}"
proof -
  have d: "daemon_paths (ho_doc (le_host demo_life_env)) =
      Inr (''/var/lib/boxer/boxer.db'', ''/run/boxer/boxer.sock'', ''/run/boxer/boxer-notify.sock'')"
    by (simp add: demo_life_env_def demo_paths)
  show ?thesis
    using stop_releases_all [OF demo_holds _ d, of demo_life] by (auto simp: demo_life_def) (metis prod.collapse)
qed

end
