(* ===== verification/Connection.thy ===== *)
theory Connection
  imports Client
begin

text \<open>
  The connection below a call: \<open>IPCClient\<close> and \<open>make_call\<close> of \<open>boxer_mcp/ipc_client.py\<close>. Client abstracts a fresh connection
  into one operation \<open>cl_send\<close>; here the stream is opened, written, read and closed step by step, and shown not to leak.
\<close>

section \<open>The streams\<close>

text \<open>\<open>asyncio.open_unix_connection\<close>, \<open>write\<close> with \<open>drain\<close>, \<open>read_message\<close>, \<open>close\<close> and \<open>wait_closed\<close>.\<close>

record 's streams =
  sm_open :: "string \<Rightarrow> ('s, unit) pm"
  sm_write :: "pyval \<Rightarrow> ('s, unit) pm"
  sm_read :: "('s, received) pm"
  sm_close :: "('s, unit) pm"
  sm_wait_closed :: "('s, unit) pm"

text \<open>A client and its surroundings: whether \<open>_reader\<close> and \<open>_writer\<close> are set.\<close>

record 's ipc =
  ic_connected :: bool
  ic_world :: 's

definition in_ipc :: "('s, 'a) pm \<Rightarrow> ('s ipc, 'a) pm" where
  "in_ipc m = (\<lambda>s. case m (ic_world s) of (r, w) \<Rightarrow> (r, s\<lparr>ic_world := w\<rparr>))"

definition ipc_connect :: "'s streams \<Rightarrow> string \<Rightarrow> ('s ipc, unit) pm" where
  "ipc_connect W path = bindm (in_ipc (sm_open W path)) (\<lambda>_. modify (\<lambda>s. s\<lparr>ic_connected := True\<rparr>))"

definition ipc_close :: "'s streams \<Rightarrow> ('s ipc, unit) pm" where
  "ipc_close W = bindm (gets ic_connected) (\<lambda>c. whenm c
     (bindm (in_ipc (sm_close W)) (\<lambda>_. catch (in_ipc (sm_wait_closed W)) (\<lambda>_. ret ()))))"

definition ipc_call :: "'s streams \<Rightarrow> ('s, string) pm \<Rightarrow> string \<Rightarrow> pydict \<Rightarrow> ('s ipc, pyval) pm" where
  "ipc_call W uuid4 method params =
     bindm (in_ipc uuid4) (\<lambda>i.
     bindm (gets ic_connected) (\<lambda>c.
     bindm (guardm (\<not> c) (PyExn ''AssertionError'' ''Not connected'')) (\<lambda>_.
     bindm (in_ipc (sm_write W (make_request method params i))) (\<lambda>_.
     bindm (in_ipc (sm_read W)) (\<lambda>r. liftr (client_reply r))))))"

text \<open>\<open>async with\<close>: the exit runs however the body ends, and its own exception wins.\<close>

definition finally_do :: "('s, 'a) pm \<Rightarrow> ('s, unit) pm \<Rightarrow> ('s, 'a) pm" where
  "finally_do m f = bindm (catch (bindm m (\<lambda>x. ret (Inr x))) (\<lambda>e. ret (Inl e))) (\<lambda>r. bindm f (\<lambda>_. liftr r))"

definition fresh_call :: "'s streams \<Rightarrow> ('s, string) pm \<Rightarrow> string \<Rightarrow> string \<Rightarrow> pydict \<Rightarrow> ('s, pyval) pm" where
  "fresh_call W uuid4 path method params = (\<lambda>w.
     case bindm (ipc_connect W path) (\<lambda>_. finally_do (ipc_call W uuid4 method params) (ipc_close W))
       \<lparr>ic_connected = False, ic_world = w\<rparr> of (r, s) \<Rightarrow> (r, ic_world s))"

section \<open>No connection is leaked\<close>

lemma wp_in_ipc [wp_simps]: "wp (in_ipc m) Q E s =
    wp m (\<lambda>x w. Q x (s\<lparr>ic_world := w\<rparr>)) (\<lambda>e w. E e (s\<lparr>ic_world := w\<rparr>)) (ic_world s)"
  by (auto simp: wp_def in_ipc_def split: prod.splits sum.splits)

lemma wp_finally [wp_simps]: "wp (finally_do m f) Q E s =
    wp m (\<lambda>x. wp f (\<lambda>_. Q x) E) (\<lambda>e. wp f (\<lambda>_. E e) E) s"
  by (auto simp: wp_def finally_do_def pm_defs split: prod.splits sum.splits)

text \<open>\<open>conns w\<close> is the number of open connections: one more after an opening that succeeds, one less after a close.\<close>

definition counts :: "('s \<Rightarrow> int) \<Rightarrow> int \<Rightarrow> ('s, 'a) pm \<Rightarrow> bool" where
  "counts conns d m \<longleftrightarrow> (\<forall>w. wp m (\<lambda>_ v. conns v = conns w + d) (\<lambda>_ v. conns v = conns w) w)"

definition stream_laws :: "('s \<Rightarrow> int) \<Rightarrow> 's streams \<Rightarrow> bool" where
  "stream_laws conns W \<longleftrightarrow> (\<forall>p. counts conns 1 (sm_open W p)) \<and> (\<forall>m. counts conns 0 (sm_write W m)) \<and>
     counts conns 0 (sm_read W) \<and> counts conns 0 (sm_wait_closed W) \<and>
     (\<forall>w. wp (sm_close W) (\<lambda>_ v. conns v = conns w - 1) (\<lambda>_ _. False) w)"

lemma countsD: "counts conns d m \<Longrightarrow> wp m (\<lambda>_ v. conns v = conns w + d) (\<lambda>_ v. conns v = conns w) w"
  by (simp add: counts_def)

lemma call_counts:
  assumes "stream_laws conns W" "counts conns 0 uuid4" "ic_connected s"
  shows "wp (ipc_call W uuid4 method params) (\<lambda>_ t. ic_connected t \<and> conns (ic_world t) = conns (ic_world s))
    (\<lambda>_ t. ic_connected t \<and> conns (ic_world t) = conns (ic_world s)) s"
proof -
  have w: "counts conns 0 (sm_write W m)" "counts conns 0 (sm_read W)" for m
    using assms(1) by (simp_all add: stream_laws_def)
  show ?thesis
    unfolding ipc_call_def using assms(3)
    by (simp add: wp_simps)
      (rule wp_mono [OF countsD [OF assms(2)]], rule wp_mono [OF countsD [OF w(1)]], rule wp_mono [OF countsD [OF w(2)]], simp_all)
qed

lemma close_counts:
  assumes "stream_laws conns W" "ic_connected s"
  shows "wp (ipc_close W) (\<lambda>_ t. conns (ic_world t) = conns (ic_world s) - 1) (\<lambda>_ _. False) s"
proof -
  have w: "wp (sm_close W) (\<lambda>_ v. conns v = conns x - 1) (\<lambda>_ _. False) x" "counts conns 0 (sm_wait_closed W)" for x
    using assms(1) by (simp_all add: stream_laws_def)
  show ?thesis
    unfolding ipc_close_def using assms(2)
    by (simp add: wp_simps) (rule wp_mono [OF w(1)], rule wp_mono [OF countsD [OF w(2)]], simp_all)
qed

text \<open>A call leaves as many connections open as it found, whether it returns a result, an error of the daemon, or fails while
  opening, writing or reading.\<close>

lemma fresh_call_counts:
  fixes conns :: "'s \<Rightarrow> int"
  assumes "stream_laws conns W" "counts conns 0 uuid4"
  shows "counts conns 0 (fresh_call W uuid4 path method params)"
  unfolding counts_def
proof
  fix w :: 's
  let ?s = "\<lparr>ic_connected = False, ic_world = w\<rparr>"
  have closed: "wp (ipc_close W) (\<lambda>_ t. conns (ic_world t) = conns w) (\<lambda>_ t. conns (ic_world t) = conns w) u"
    if "ic_connected u \<and> conns (ic_world u) = conns w + 1" for u
    using that by (intro wp_mono [OF close_counts [OF assms(1)]]) auto
  have "wp (bindm (ipc_connect W path) (\<lambda>_. finally_do (ipc_call W uuid4 method params) (ipc_close W)))
      (\<lambda>_ t. conns (ic_world t) = conns w) (\<lambda>_ t. conns (ic_world t) = conns w) ?s"
    unfolding wp_bindm ipc_connect_def wp_finally wp_in_ipc
  proof (rule wp_mono, rule countsD [where d = 1 and conns = conns])
    show "counts conns 1 (sm_open W path)" using assms(1) by (simp add: stream_laws_def)
  next
    fix x v
    assume "conns v = conns (ic_world ?s) + 1"
    then show "wp (modify (\<lambda>s. s\<lparr>ic_connected := True\<rparr>)) (\<lambda>_. wp (ipc_call W uuid4 method params)
        (\<lambda>x. wp (ipc_close W) (\<lambda>_ t. conns (ic_world t) = conns w) (\<lambda>_ t. conns (ic_world t) = conns w))
        (\<lambda>e. wp (ipc_close W) (\<lambda>_ t. conns (ic_world t) = conns w) (\<lambda>_ t. conns (ic_world t) = conns w)))
        (\<lambda>_ t. conns (ic_world t) = conns w) (?s\<lparr>ic_world := v\<rparr>)"
      unfolding wp_modify
      by (intro wp_mono [OF call_counts [OF assms]] closed) simp_all
  qed simp
  then show "wp (fresh_call W uuid4 path method params) (\<lambda>_ v. conns v = conns w + 0) (\<lambda>_ v. conns v = conns w) w"
    by (auto simp: fresh_call_def wp_def split: prod.splits sum.splits)
qed

end
