(* ===== verification/Wire.thy ===== *)
theory Wire
  imports Client Json
begin

text \<open>
  The bytes on the socket: UTF-8, one JSON message per line, as \<open>boxer/ipc.py\<close> writes and reads them and as
  \<open>boxerd/ipc_server.py\<close> serves them. Server and Client describe the two ends over whole messages; here it is shown
  that a call over the bytes is the same call.
\<close>

section \<open>Bytes\<close>

text \<open>\<open>bytes.decode()\<close>: \<open>None\<close> is \<open>UnicodeDecodeError\<close>, or a character beyond Latin-1.\<close>

fun utf8_decode :: "string \<Rightarrow> string option" where
  "utf8_decode [] = Some []"
| "utf8_decode (a # s) =
     (if code a < 128 then map_option (Cons a) (utf8_decode s)
      else if code a = 194 \<or> code a = 195 then
        (case s of
           [] \<Rightarrow> None
         | b # t \<Rightarrow> if 128 \<le> code b \<and> code b < 192
             then map_option (Cons (char_of ((code a - 192) * 64 + (code b - 128)))) (utf8_decode t) else None)
      else None)"

definition message_bytes :: "pyval \<Rightarrow> string" where
  "message_bytes v = utf8_encode (json_dumps v @ nl)"

text \<open>
  The reader's surroundings: \<open>wr_float\<close> is \<open>float\<close> with \<open>repr\<close>, \<open>wr_text\<close> the text of the exception that decoding or
  parsing a line raises, \<open>wr_overrun\<close> the text for a line beyond the limit.
\<close>

record wire =
  wr_float :: "string \<Rightarrow> rat \<times> string"
  wr_text :: "string \<Rightarrow> string"
  wr_overrun :: string

text \<open>
  \<open>readline\<close> gives the bytes through the next newline, what is left at the end of the stream, or raises when there are more than
  the limit before the newline. The second component is the unread rest.
\<close>

definition read_message :: "wire \<Rightarrow> int \<Rightarrow> string \<Rightarrow> received \<times> string" where
  "read_message W limit bytes =
     (let line = takeWhile (\<lambda>c. code c \<noteq> 10) bytes; rest = dropWhile (\<lambda>c. code c \<noteq> 10) bytes;
          text = line @ take 1 rest; left = drop 1 rest in
      if int (length line) > limit then (Unreadable (wr_overrun W), left)
      else if text = [] then (Disconnected, left)
      else case Option.bind (utf8_decode text) (json_loads (wr_float W)) of
        None \<Rightarrow> (Unreadable (wr_text W text), left)
      | Some v \<Rightarrow> (Message v, left))"

lemma read_message_left: "read_message W limit bytes = (r, rest) \<Longrightarrow> bytes \<noteq> [] \<Longrightarrow> length rest < length bytes"
proof -
  assume r: "read_message W limit bytes = (r, rest)" and b: "bytes \<noteq> []"
  have "snd (read_message W limit bytes) = drop 1 (dropWhile (\<lambda>c. code c \<noteq> 10) bytes)"
    by (auto simp: read_message_def Let_def split: option.splits)
  then show ?thesis
    using r b length_dropWhile_le [of "\<lambda>c. code c \<noteq> 10" bytes] by (cases "dropWhile (\<lambda>c. code c \<noteq> 10) bytes") auto
qed

text \<open>What reading over and over gives, until the connection is found closed.\<close>

function read_frames :: "wire \<Rightarrow> int \<Rightarrow> string \<Rightarrow> received list" where
  "read_frames W limit bytes = (case read_message W limit bytes of (r, rest) \<Rightarrow>
     if bytes = [] then [r] else r # read_frames W limit rest)"
  by auto

termination by (relation "measure (\<lambda>(W, limit, bytes). length bytes)") (simp_all, metis read_message_left)

declare read_frames.simps [simp del]

text \<open>The server's connection, and what a client's call exchanges with it. \<open>STREAM_LIMIT\<close> is asyncio's default.\<close>

definition STREAM_LIMIT :: int where
  "STREAM_LIMIT = 65536"

definition serve_bytes :: "wire \<Rightarrow> int \<Rightarrow> (string \<times> (pydict \<Rightarrow> ('w st, pyval) pm)) list \<Rightarrow> string \<Rightarrow> ('w st, string) pm" where
  "serve_bytes W limit handlers bytes =
     bindm (serve_loop handlers (read_frames W limit bytes)) (\<lambda>rs. ret (concat (map message_bytes rs)))"

definition main_socket :: "wire \<Rightarrow> 'w daemon \<Rightarrow> string \<Rightarrow> ('w st, string) pm" where
  "main_socket W D = serve_bytes W MAX_MESSAGE_BYTES (registered D)"

definition notify_socket :: "wire \<Rightarrow> 'w daemon \<Rightarrow> string \<Rightarrow> ('w st, string) pm" where
  "notify_socket W D = serve_bytes W STREAM_LIMIT (notify_registered D)"

definition exchange :: "wire \<Rightarrow> (string \<Rightarrow> ('s, string) pm) \<Rightarrow> pyval \<Rightarrow> ('s, received) pm" where
  "exchange W socket msg = bindm (socket (message_bytes msg)) (\<lambda>out. ret (fst (read_message W MAX_MESSAGE_BYTES out)))"

section \<open>Messages arrive as they were sent\<close>

definition fits :: "wire \<Rightarrow> int \<Rightarrow> pyval \<Rightarrow> bool" where
  "fits W limit v \<longleftrightarrow> json_ok (wr_float W) v \<and> int (length (json_dumps v)) \<le> limit"

lemma utf8_ascii: "list_all (\<lambda>c. code c < 128) s \<Longrightarrow> utf8_encode s = s \<and> utf8_decode s = Some s"
  by (induction s) (auto simp: utf8_encode_def)

lemma utf8_char: "utf8_decode (utf8_encode [c] @ s) = map_option (Cons c) (utf8_decode s)"
proof (cases "code c < 128")
  case False
  with code_bound [of c] have q: "code c div 64 = 2 \<or> code c div 64 = 3" and n: "192 + code c div 64 < 256" "128 + code c mod 64 < 256"
    by linarith+
  have "code c div 64 * 64 + code c mod 64 = code c" by simp
  then have "char_of (code c div 64 * 64 + code c mod 64) = c" by simp
  moreover have "code (char_of (192 + code c div 64) :: char) = 192 + code c div 64"
    "code (char_of (128 + code c mod 64) :: char) = 128 + code c mod 64"
    using n by (simp_all only: of_char_of mod_less)
  ultimately show ?thesis using False q by (auto simp: utf8_encode_def)
qed (simp add: utf8_encode_def)

lemma utf8_round_trip: "utf8_decode (utf8_encode s) = Some s"
proof (induction s)
  case (Cons c s)
  have "utf8_encode (c # s) = utf8_encode [c] @ utf8_encode s" by (simp add: utf8_encode_def)
  with Cons utf8_char [of c] show ?case by simp
qed (simp add: utf8_encode_def)

lemma printable_ascii: "list_all printable s \<Longrightarrow> list_all (\<lambda>c. code c < 128) s \<and> list_all (\<lambda>c. code c \<noteq> 10) s"
  by (auto simp: list_all_iff printable_def)

lemma dumps_line: "json_ok flt v \<Longrightarrow> message_bytes v = json_dumps v @ nl"
  using printable_ascii [OF dumps_printable [of flt v]] by (simp add: message_bytes_def utf8_ascii)

lemma message_line:
  assumes "json_ok flt v"
  shows "takeWhile (\<lambda>c. code c \<noteq> 10) (message_bytes v @ after) = json_dumps v"
    "dropWhile (\<lambda>c. code c \<noteq> 10) (message_bytes v @ after) = nl @ after"
  using printable_ascii [OF dumps_printable [OF assms]]
  by (simp_all add: dumps_line [OF assms] list_all_iff takeWhile_append dropWhile_append)

lemma read_sent: "fits W limit v \<Longrightarrow> read_message W limit (message_bytes v @ after) = (Message v, after)"
proof -
  assume "fits W limit v"
  then have ok: "json_ok (wr_float W) v" and l: "int (length (json_dumps v)) \<le> limit" by (simp_all add: fits_def)
  have "utf8_decode (json_dumps v @ nl) = Some (json_dumps v @ nl)"
    using utf8_ascii [of "json_dumps v @ nl"] printable_ascii [OF dumps_printable [OF ok]] by simp
  then show ?thesis
    using l skip_trailing [OF ok, of nl] by (simp add: read_message_def message_line [OF ok] json_space_def)
qed

lemma read_too_long: "json_ok flt v \<Longrightarrow> limit < int (length (json_dumps v)) \<Longrightarrow>
    read_message W limit (message_bytes v @ after) = (Unreadable (wr_overrun W), after)"
  by (simp add: read_message_def message_line)

lemma read_frames_sent: "fits W limit v \<Longrightarrow> read_frames W limit (message_bytes v @ after) = Message v # read_frames W limit after"
proof -
  assume f: "fits W limit v"
  have "message_bytes v \<noteq> []" by (simp add: message_bytes_def utf8_encode_def)
  then show ?thesis by (subst read_frames.simps) (simp add: read_sent [OF f])
qed

lemma read_frames_sents: "list_all (fits W limit) vs \<Longrightarrow>
    read_frames W limit (concat (map message_bytes vs) @ after) = map Message vs @ read_frames W limit after"
  by (induction vs) (simp_all add: read_frames_sent)

lemma read_frames_Nil: "0 \<le> limit \<Longrightarrow> read_frames W limit [] = [Disconnected]"
  by (subst read_frames.simps) (simp add: read_message_def)

text \<open>C11: Framing: any sequence of messages, written one after the other to a connection that then closes, is read as
  the same messages in the same order and then the end. Each need only be a value of JSON
  (the keys of an object differ, a float is written as its \<open>repr\<close>) whose text is within the reader's limit.\<close>

theorem frames_round_trip:
  assumes "0 \<le> limit" "list_all (fits W limit) vs"
  shows "read_frames W limit (concat (map message_bytes vs)) = map Message vs @ [Disconnected]"
  using read_frames_sents [OF assms(2), of "[]"] assms(1) by (simp add: read_frames_Nil)

definition demo_wire :: wire where
  "demo_wire = \<lparr>wr_float = \<lambda>s. (3/2, s), wr_text = \<lambda>_. ''Expecting value: line 1 column 1 (char 0)'',
     wr_overrun = ''Separator is found, but chunk is longer than limit''\<rparr>"

definition demo_messages :: "pyval list" where
  "demo_messages =
     [PDict [(''id'', PInt (- 7)), (''ok'', PList [PBool True, PNone, PFloat (3/2) ''1.5'']), (''a{'', PDict [])],
      PStr [dquote, CHR 0x5C, CHR 0xE9, CHR 0x0A]]"

lemma demo_fits: "list_all (fits demo_wire STREAM_LIMIT) demo_messages"
  by code_simp

lemma frames_round_trip_witness:
  "read_frames demo_wire STREAM_LIMIT (concat (map message_bytes demo_messages)) = map Message demo_messages @ [Disconnected]"
  by (rule frames_round_trip [OF _ demo_fits]) (simp add: STREAM_LIMIT_def)

section \<open>A call over the bytes\<close>

lemma exchange_sent:
  assumes "fits W MAX_MESSAGE_BYTES msg" "handle_connection D [Message msg, Disconnected] s = (Inr rs, t)"
    "list_all (fits W MAX_MESSAGE_BYTES) rs"
  shows "exchange W (main_socket W D) msg s = daemon_send D msg s"
proof -
  have f: "read_frames W MAX_MESSAGE_BYTES (message_bytes msg) = [Message msg, Disconnected]"
    using read_frames_sent [OF assms(1), of "[]"] by (simp add: read_frames_Nil MAX_MESSAGE_BYTES_def)
  have "fst (read_message W MAX_MESSAGE_BYTES (concat (map message_bytes rs))) = (case rs of r # _ \<Rightarrow> Message r | [] \<Rightarrow> Disconnected)"
    using assms(3) by (cases rs) (simp_all add: read_sent, simp add: read_message_def MAX_MESSAGE_BYTES_def)
  with assms(2) show ?thesis
    by (simp add: exchange_def main_socket_def serve_bytes_def daemon_send_def send_to_def handle_connection_def f bindm_def ret_def)
qed

text \<open>C7: A call over the bytes is the call of the handler: the request is printed, framed and encoded, read and parsed by the
  server, its method's handler run, and the reply comes back the same way. When both texts are within the limit of the
  socket, the client gets the handler's result, or its error with the same code, message and data.\<close>

theorem wire_call_is_handler:
  assumes "cl_send C = exchange W (main_socket W D)" "cl_req_id C s = (Inr i, s0)" "map_of (registered D) method = Some h"
    and "h params s0 = (r, t)"
    and "fits W MAX_MESSAGE_BYTES (make_request method params i)" "fits W MAX_MESSAGE_BYTES (reply_to i r)"
  shows "make_call C method params s = (case r of Inr v \<Rightarrow> Inr v | Inl e \<Rightarrow> Inl (as_ipc_error e), t)"
proof -
  have run: "handle_connection D [Message (make_request method params i), Disconnected] s0 = (Inr [reply_to i r], t)"
    unfolding handle_connection_def by (rule serve_request [OF assms(3,4)])
  then have "exchange W (main_socket W D) (make_request method params i) s0 = (Inr (Message (reply_to i r)), t)"
    using exchange_sent [OF assms(5) run] assms(6) by (simp add: daemon_send_def send_to_def bindm_def ret_def)
  with assms(1,2) show ?thesis by (cases r) (simp_all add: make_call_def bindm_def liftr_def)
qed

lemma demo_refused: "with_project_activity ''vm.pull'' (h_vm_pull demo_daemon) [] (demo_state 0 demo_tables) =
    (Inl (IPCError ERR_INVALID_PARAMS ''vm_id required'' None), demo_state 0 demo_tables)"
  by (simp add: with_project_activity_def tracked_project_def caller_from_params_def h_vm_pull_def pm_defs ipc_error_def
      dget_or_def dget_def starts_with_def Let_def)

lemma wire_call_is_handler_witness:
  "make_call (demo_client demo_daemon\<lparr>cl_send := exchange demo_wire (main_socket demo_wire demo_daemon)\<rparr>) ''vm.pull'' []
     (demo_state 0 demo_tables) =
   (Inl (IPCError ERR_INVALID_PARAMS ''vm_id required'' None), demo_state 0 demo_tables)"
proof -
  let ?r = "Inl (IPCError ERR_INVALID_PARAMS ''vm_id required'' None)"
  have "show_int (- 32602) = ''-32602''" by (simp add: show_int_def show_nat.simps digit_char_def char_eqI)
  then have "fits demo_wire MAX_MESSAGE_BYTES (reply_to ''r1'' ?r)"
    by (simp add: fits_def reply_to_def error_reply_def make_error_response_def ERR_INVALID_PARAMS_def MAX_MESSAGE_BYTES_def
        json_text_def json_char_def dquote_def)
  moreover have "fits demo_wire MAX_MESSAGE_BYTES (make_request ''vm.pull'' [] ''r1'')" by code_simp
  ultimately show ?thesis using wire_call_is_handler [of "demo_client demo_daemon\<lparr>cl_send := exchange demo_wire (main_socket demo_wire demo_daemon)\<rparr>" demo_wire
      demo_daemon "demo_state 0 demo_tables" "''r1''" "demo_state 0 demo_tables" "''vm.pull''"
      "with_project_activity ''vm.pull'' (h_vm_pull demo_daemon)" "[]", OF _ _ _ demo_refused]
    by (simp add: demo_client_def ret_def registered_def service_handlers_def vm_handlers_def as_ipc_error_def)
qed

text \<open>When the reply is too long for the client, the handler has run all the same.\<close>

lemma long_reply_raises:
  assumes "cl_send C = exchange W (main_socket W D)" "cl_req_id C s = (Inr i, s0)" "map_of (registered D) method = Some h"
    and "h params s0 = (r, t)" "fits W MAX_MESSAGE_BYTES (make_request method params i)"
    and "json_ok (wr_float W) (reply_to i r)" "int (length (json_dumps (reply_to i r))) > MAX_MESSAGE_BYTES"
  shows "make_call C method params s = (Inl (PyExn ''ValueError'' (wr_overrun W)), t)"
proof -
  have run: "serve_loop (registered D) [Message (make_request method params i), Disconnected] s0 = (Inr [reply_to i r], t)"
    by (rule serve_request [OF assms(3,4)])
  have "read_frames W MAX_MESSAGE_BYTES (message_bytes (make_request method params i)) = [Message (make_request method params i), Disconnected]"
    using read_frames_sent [OF assms(5), of "[]"] by (simp add: read_frames_Nil MAX_MESSAGE_BYTES_def)
  with run have "exchange W (main_socket W D) (make_request method params i) s0 = (Inr (Unreadable (wr_overrun W)), t)"
    using read_too_long [OF assms(6,7), of W "[]"] by (simp add: exchange_def main_socket_def serve_bytes_def bindm_def ret_def)
  with assms(1,2) show ?thesis by (simp add: make_call_def bindm_def client_reply_def liftr_def)
qed

section \<open>What cannot be read\<close>

lemma read_bad:
  assumes "list_all (\<lambda>c. code c \<noteq> 10) bad" "read_message W limit (bad @ nl) = (Unreadable e, [])"
  shows "read_frames W limit (bad @ nl @ after) = Unreadable e # read_frames W limit after"
proof -
  have "takeWhile (\<lambda>c. code c \<noteq> 10) (bad @ nl @ x) = bad" "dropWhile (\<lambda>c. code c \<noteq> 10) (bad @ nl @ x) = nl @ x" for x
    using assms(1) by (simp_all add: list_all_iff takeWhile_append dropWhile_append)
  from this [of "[]"] this [of after] assms(2) have "read_message W limit (bad @ nl @ after) = (Unreadable e, after)"
    by (auto simp: read_message_def Let_def split: if_splits option.splits)
  then show ?thesis by (subst read_frames.simps) simp
qed



section \<open>A pulled file fits in a message\<close>

text \<open>A text of the base64 alphabet is printed as it is; any other character takes at most six.\<close>

lemma json_char_length: "length (json_char c) \<le> 6"
  by (simp add: json_char_def u_escape_def)

lemma json_text_length: "length (json_text s) \<le> 6 * length s + 2"
proof (induction s)
  case (Cons c s)
  then show ?case using json_char_length [of c] by (simp add: json_text_def)
qed (simp add: json_text_def)

lemma plain_char: "printable c \<Longrightarrow> c \<noteq> dquote \<Longrightarrow> c \<noteq> CHR 0x5C \<Longrightarrow> json_char c = [c]"
  by (auto simp: json_char_def printable_def)

lemma plain_b64: "n < 64 \<Longrightarrow> json_char (b64_char n) = [b64_char n]"
  by (intro plain_char) (auto simp: b64_char_def printable_def dquote_def of_char_of dest: arg_cong [of _ _ code] split: if_splits)

lemma plain_pad: "json_char (CHR ''='') = ''=''"
  by (intro plain_char) (auto simp: printable_def dquote_def)

lemma b64_text_length: "length (json_text (b64encode s)) = length (b64encode s) + 2"
proof -
  have "concat (map json_char (b64encode s)) = b64encode s"
  proof (induction s rule: b64encode.induct)
    case (2 a)
    show ?case by (simp add: b64_bounds [THEN plain_b64] plain_pad)
  next
    case (3 a b)
    show ?case by (simp add: b64_bounds [THEN plain_b64] plain_pad)
  next
    case (4 a b c s)
    then show ?case by (simp add: b64_bounds [THEN plain_b64])
  qed simp
  then show ?thesis by (simp add: json_text_def)
qed

lemma show_nat_length: "n < 10 ^ k \<Longrightarrow> 0 < k \<Longrightarrow> length (show_nat n) \<le> k"
proof (induction n arbitrary: k rule: show_nat.induct)
  case (1 n)
  show ?case
  proof (cases "n < 10")
    case False
    then obtain j where k: "k = Suc j" "0 < j" using 1(2,3) by (cases k; cases "k - 1") auto
    with 1(2) have "n div 10 < 10 ^ j" by simp
    with 1(1) False k show ?thesis by (subst show_nat.simps) simp
  qed (use 1(3) in \<open>simp add: show_nat.simps [of n]\<close>)
qed

definition pulled :: "int \<Rightarrow> pydict \<Rightarrow> bool" where
  "pulled m d \<longleftrightarrow> (\<exists>b. dget d ''is_archive'' = PBool b) \<and> int (length (dict_text d ''data'')) \<le> m"

lemma pull_path_limit: "wp (pull_path h g e ip path m timeout fallback sudo) (\<lambda>d _. pulled m d) (\<lambda>_ _. True) s"
proof -
  have r: "pull_reply path m x = Inr d \<Longrightarrow> pulled m d" for x d
    by (auto simp: pull_reply_def pulled_def Let_def bindr_eq_Inr guardr_def dget_def dict_text_def split: if_splits prod.splits)
  have w: "wp (bindm n (\<lambda>x. liftr (pull_reply path m x))) (\<lambda>d _. pulled m d) (\<lambda>_ _. True) t" for n t
    unfolding wp_bindm by (rule wp_mono [OF wp_True]) (auto simp: wp_liftr r)
  show ?thesis
    unfolding pull_path_def by (subst wp_bindm, rule wp_mono [OF wp_True], rule w, simp)
qed

lemma pull_limits:
  "wp (h_vm_pull D params) (\<lambda>v _. \<exists>path r. v = PDict (pull_payload (dget params ''vm_id'') path r) \<and> length path \<le> 4096 \<and>
     pulled MAX_PULL_BYTES r) (\<lambda>_ _. True) s"
proof -
  have b: "bounded_int x f MAX_PULL_BYTES 1 MAX_PULL_BYTES = Inr n \<Longrightarrow> n \<le> MAX_PULL_BYTES" for x f n
    by (auto simp: bounded_int_def split: sum.splits if_splits)
  have p: "guest_abs_path x f = Inr q \<Longrightarrow> length q \<le> 4096" for x f q
    by (auto simp: guest_abs_path_def need_str_def split: pyval.splits if_splits)
  have r: "pulled m d \<Longrightarrow> m \<le> n \<Longrightarrow> pulled n d" for m n d by (auto simp: pulled_def)
  have rest: "wp (bindm (pull_path h g e ip path m timeout fallback sudo) (\<lambda>r. bindm touch (\<lambda>_.
      ret (PDict (pull_payload vid path r)))))
      (\<lambda>v _. \<exists>path r. v = PDict (pull_payload vid path r) \<and> length path \<le> 4096 \<and> pulled MAX_PULL_BYTES r) (\<lambda>_ _. True) t"
    if "length path \<le> 4096" "m \<le> MAX_PULL_BYTES" for h g e ip path m timeout fallback sudo touch vid t
    unfolding wp_bindm wp_ret
    by (rule wp_mono [OF pull_path_limit]) (rule wp_mono [OF wp_True], use that r in blast, simp_all)
  show ?thesis
    unfolding h_vm_pull_def wp_bindm [of "guardm _ _"] wp_bindm [of "liftr _"] wp_bindm [of "guest_target _ _ _"] wp_guardm wp_liftr
    by (auto intro!: wp_mono [OF wp_True] rest dest: p b split: prod.split)
qed


definition demo_pull :: pydict where
  "demo_pull = [(''vm_id'', PStr ''vm_1''), (''path'', PStr ''/b''), (''caller_project_id'', PStr ''p_1''), (''caller_user'', PStr ''ann'')]"

definition pull_key :: string where
  "pull_key = key_path (vm_dir default_cfg ''p_1'' ''vm_1'')"

definition demo_keyed :: "demo st" where
  "demo_keyed = (demo_state 0 (demo_tables\<lparr>t_vms := [demo_vm\<lparr>vm_ip := Some ''10.0.0.2''\<rparr>]\<rparr>))\<lparr>
     world := demo_empty\<lparr>dm_files := [DEFAULT_SSH_KEY_PATH, pull_key, pull_key @ ''.pub'']\<rparr>\<rparr>"

lemma demo_pull_params:
  "truthy (dget demo_pull ''vm_id'')" "guest_abs_path (dget demo_pull ''path'') ''path'' = Inr ''/b''"
  "bounded_int (dget demo_pull ''max_bytes'') ''max_bytes'' MAX_PULL_BYTES 1 MAX_PULL_BYTES = Inr MAX_PULL_BYTES"
  "bounded_int (dget demo_pull ''timeout_seconds'') ''timeout_seconds'' 120 1 MAX_EXEC_TIMEOUT = Inr 120"
  "bool_param demo_pull ''sudo'' False = False"
  by (simp_all add: demo_pull_def dget_def guest_abs_path_def need_str_def starts_with_def bounded_int_def MAX_PULL_BYTES_def
      MAX_EXEC_TIMEOUT_def bool_param_def dget_or_def char_of_eq_iff)

lemma demo_parts:
  "os_exists demo_os p = gets (\<lambda>w. p \<in> set (dm_files w))" "ge_connect demo_guest = (\<lambda>_ _ _. ret 0)"
  "ge_run demo_guest = (\<lambda>_ _ _ _. ret \<lparr>sr_exit_status = Some 0, sr_stdout = [], sr_stderr = []\<rparr>)"
  "ge_retries demo_guest = (\<lambda>_. ret 0)" "da_os demo_daemon = demo_os" "da_guest demo_daemon = demo_guest" "da_doc demo_daemon = []"
  "da_cfg demo_daemon = default_cfg"
  by (simp_all add: demo_os_def demo_guest_def demo_daemon_def demo_host_def)

lemma demo_keyed_parts: "dm_files (world demo_keyed) = [DEFAULT_SSH_KEY_PATH, pull_key, pull_key @ ''.pub'']"
  "vms_find ''vm_1'' (db demo_keyed) = Some (demo_vm\<lparr>vm_ip := Some ''10.0.0.2''\<rparr>)" "vm_from_row (db demo_keyed) v = v\<lparr>vm_tags := []\<rparr>"
  by (simp_all add: demo_keyed_def demo_state_def demo_tables_def demo_empty_def empty_tables_def vms_find_def rows_find_def
      vm_from_row_def get_tags_def demo_vm_def)

lemma demo_connects: "ssh_connect demo_os demo_guest [] ip 120 (Some pull_key) 0 (world demo_keyed) = (Inr 0, world demo_keyed)"
  by (simp add: ssh_connect_def resolve_privkey_def exists_opt_def demo_parts demo_keyed_parts pm_defs
     boxer_ssh_privkey_path_def cfg_opt_path_def dget_def)

lemma demo_target: "wp (guest_target demo_daemon ''vm.pull'' demo_pull)
    (\<lambda>x t. x = (demo_vm\<lparr>vm_ip := Some ''10.0.0.2''\<rparr>, ''10.0.0.2'', Some pull_key) \<and> t = demo_keyed) (\<lambda>_ _. False) demo_keyed"
proof -
  have c: "check_action ''vm.pull'' (caller_from_params demo_pull) (Some (demo_vm\<lparr>vm_ip := Some ''10.0.0.2''\<rparr>)) = Inr ()"
    by (simp add: check_action_def guardr_def ADMIN_ONLY_ACTIONS_def caller_from_params_def demo_pull_def dget_or_def demo_vm_def)
  have b: "bind_text (dget demo_pull ''vm_id'') = Inr (Some ''vm_1'')"
    by (simp add: demo_pull_def dget_def)
  have v: "demo_vm\<lparr>vm_ip := x, vm_tags := []\<rparr> = demo_vm\<lparr>vm_ip := x\<rparr>" "vm_kind demo_vm = ''vm''" "vm_project_id demo_vm = ''p_1''"
    "vm_id demo_vm = ''vm_1''" for x
    by (simp_all add: demo_vm_def)
  have k: "has_key demo_os (vm_dir default_cfg ''p_1'' ''vm_1'') (world demo_keyed) = (Inr True, world demo_keyed)"
    by (simp add: has_key_def demo_parts bindm_def gets_def demo_keyed_parts pull_key_def [symmetric])
  have w: "wp (in_world (has_key demo_os (vm_dir default_cfg ''p_1'' ''vm_1''))) (\<lambda>x t. x \<and> t = demo_keyed) (\<lambda>_ _. False) demo_keyed"
    by (simp add: wp_def in_world_def k)
  show ?thesis
    by (simp add: guest_target_def owned_vm_def wp_simps demo_pull_params get_vm_def b c demo_keyed_parts v Let_def demo_parts
        pull_key_def del: wp_in_world) (rule wp_mono [OF w]; simp add: wp_ret)
qed

lemma demo_pull_runs: "\<exists>v t. h_vm_pull demo_daemon demo_pull demo_keyed = (Inr v, t)"
proof -
  have "pull_reply ''/b'' MAX_PULL_BYTES \<lparr>sr_exit_status = Some 0, sr_stdout = [], sr_stderr = []\<rparr> =
      Inr [(''path'', PStr ''/b''), (''is_archive'', PBool False), (''data'', PStr [])]"
    by (simp add: pull_reply_def guardr_def MAX_PULL_BYTES_def partition_at_def)
  moreover have "guest_target demo_daemon ''vm.pull'' demo_pull demo_keyed =
      (Inr (demo_vm\<lparr>vm_ip := Some ''10.0.0.2''\<rparr>, ''10.0.0.2'', Some pull_key), demo_keyed)"
    using demo_target by (auto simp: wp_def split: prod.splits sum.splits)
  ultimately show ?thesis
    by (simp add: h_vm_pull_def bindm_def demo_pull_params liftr_def guardm_def ret_def pull_path_def demo_connects demo_parts
        in_world_def ssh_guard_def catch_def touch_vm_def update_vm_def clock_def mod_db_def gets_def modify_def)
qed


end
