(* ===== verification/Spec2Isabelle.thy ===== *)
theory Spec2Isabelle
  imports Readonly Notifier Cli Store Packages Lifecycle Connection Wire Interleave
begin

text \<open>
  Boxer is a daemon that gives software projects short-lived virtual machines and Android
  emulators on one host. Its clients (an MCP server for coding agents, a command line, a desktop
  notifier) send JSON-RPC requests over a Unix socket; the daemon keeps VMs, tags, a queue, leases,
  notices and events in SQLite and drives libvirt, the Android SDK, SSH and a cache of verified
  images. This development models the Python code under src/boxer, src/boxerd, src/boxer_mcp, src/boxer_cli and src/boxer_notifier.

  The model. The daemon is one state (\<open>'w st\<close> of Db): a record of the database's tables, the clock,
  the stream of random numbers, the asyncio tasks that handlers left behind, and the world \<open>'w\<close>, which stands for
  everything outside. A handler is a computation \<open>('w st, 'a) pm\<close> of Prelude: it reads and changes
  the state and returns a value or raises a Python exception (\<open>exn\<close>), and what it changed before it
  raised stays changed, as in the code, which has no transactions. Computations without state are
  \<open>exn + 'a\<close>. Requests and replies are \<open>pyval\<close>s (None, bool, int, text, list, dict); a dict is an
  association list in insertion order, and its JSON text is printed and read by Json. Integers are Python's, unbounded; floats are exact
  rationals; strings are lists of characters of Latin-1.

  What is not under src/boxer* is a parameter. Libraries are records of operations on the world
  \<open>'w\<close>: libvirt and the file system with its subprocesses (\<open>'w libvirt\<close>, \<open>'w os\<close> of Host), SSH
  sessions (\<open>'w guest_env\<close>), gpgv (\<open>'w gpg\<close>), the HTTP client and the resolver (\<open>'w net\<close>), hashes and the
  decoders (\<open>'w images\<close>), the SDK's file tree (\<open>'w sdk_env\<close>), the client's process (\<open>local_env\<close>). Printing and parsing of
  XML and YAML, the JSON of files and of other programs, \<open>uuid5\<close>, \<open>urljoin\<close> and tarfile are functions in these records. All of them are
  collected in \<open>'w daemon\<close> (Handlers), the argument \<open>D\<close> of every handler. A theorem that needs a
  documented law of one of them has it as a hypothesis and a witness on \<open>Demo\<close>'s small host.

  Loops. Loops over data are structural recursion or have a \<open>termination\<close> proof (\<open>alloc_port\<close>,
  \<open>split_ws\<close>). Loops that wait (for an address, a booted emulator, a finished install, a
  stopped domain) run for the number of rounds their timeout allows or, where wall-clock time decides, for a number of
  rounds that the environment chooses (\<open>lv_rounds\<close>), so that theorems hold for every number. Between
  two looks the install watcher sleeps; what other coroutines do meanwhile is \<open>da_others D\<close>, of
  which theorems assume that it keeps the property in question. Every other handler runs as one step in System.
  The code's handlers await between their database operations, so other coroutines run in between: Interleave shows what is kept
  at that grain (every sequence of operations keeps the constraints) and what is lost (admission).
\<close>

section \<open>The theories\<close>

text \<open>
  Foundations.
  Prelude: \<open>pyval\<close>, \<open>exn\<close>, the monad \<open>pm\<close> with its weakest precondition \<open>wp\<close> and the locale \<open>frame\<close>: a reflexive
  and transitive relation on states is kept by bind, conditionals, loops and handlers when it is kept by their parts.
  PyStr: the methods of \<open>str\<close>, \<open>repr\<close>, \<open>int()\<close>. Base64 and Scan: the base64 alphabet and matching of regular expressions.
  Types: boxer/types.py and boxer/ipc.py (\<open>vm\<close>, \<open>event\<close>, \<open>queue_entry\<close>, error codes, \<open>make_request\<close>, \<open>make_response\<close>).
  Json: \<open>json.dumps\<close> and \<open>json.loads\<close> on \<open>pyval\<close>s; reading back has fuel for twice the length of the text, which is enough for
  whatever was printed (\<open>value_reads_back\<close>).
  Config: boxer/config.py (\<open>load_yaml\<close>, one function per property, the key pair and catalogues; the getters are in Lifecycle).

  State. Db: boxerd/db.py, one function per helper (\<open>insert_vm\<close>, \<open>update_vm\<close>, \<open>delete_vm\<close>, ...), the schema's
  constraints as \<open>db_ok\<close>. The locale \<open>keyed_table\<close> states what the helpers promise of a table with a primary key and is
  interpreted on the tables of VMs, cleanup actions and queue entries. Store: the operations on VMs as updates of a partial
  map from ids to VMs, and the refinement. Migration: the file below the tables, \<open>Database.open\<close> with its migrations, and
  the readers of rows.

  Decisions. Policy: boxerd/policy.py. Profiles, Labs: boxerd/profiles.py and labs.py. Requests: the validators at
  the head of boxerd/daemon.py. Packages: the package list from profile to cloud-init document against a one-pass reference. Scheduler: boxerd/scheduler.py (\<open>get_status\<close>, \<open>check_admission\<close>, \<open>process_queue\<close>).

  Documents. CloudInit: cloud_init.py, agent_inject.py. Seed: installer_seed.py. VmOps: the domain XML of vm_ops.py,
  with an \<open>xml\<close> datatype, and the operations on domains.

  Host. Host: the library records. Storage: storage_ops.py, network_ops.py, ssh_keys.py. Emulator: android_sdk.py,
  emulator_ops.py. Guest, GuestUtils: guest_agent.py, guest_utils.py. Adb: adb_ops.py. Backend: the contract
  \<open>device_backend\<close> of \<open>_ops_for\<close>, which the libvirt backend and the emulator backend both discharge.
  Urls, Images, Cache: image_catalog.py (what may be fetched, how a digest is resolved, the cache on disk).
  Signature: signature.py. Reconcile: reconcile.py.

  Daemon. Leases: lease_manager.py, the whole scan. Handlers, Services, Inventory, Provision, Install: the
  methods of boxerd/daemon.py, by what they do. Server: the wrapper \<open>_with_project_activity\<close>, the table of methods
  \<open>registered\<close> and the loop over a connection of ipc_server.py.

  Whole system. Frames: the locales \<open>probe_frame\<close> and \<open>row_frame\<close>: a relation kept by the database helpers and by steps of the
  world is kept by every handler. System extends them to deletion and to the daemon's entry points, with the
  inductive \<open>daemon_step\<close> and \<open>reachable\<close>. Isolation and Delivery: properties over the whole table of methods. Progress:
  computations that raise nothing, and the queue pass as one of them. Loops: the two background tasks around the pass and
  the scan, for any number of rounds, and their cancellation. Lifecycle: the process from start to stop (boxerd/__main__.py,
  \<open>BoxerDaemon.start\<close> and \<open>stop\<close>, the sockets of ipc_server.py) and the cached getters of boxer/config.py.
  Interleave: the database operations as the inductive \<open>operation\<close>, every handler as a sequence of them, and requests that overlap.

  Clients. FileTransfer: boxer/transfer.py. Client: the socket client, the caller's identity, and the daemon
  at the other end of a connection. Connection: \<open>IPCClient\<close> step by step, which leaks no connection.
  Wire: the bytes between client and server (UTF-8, a JSON message per line, the reader's limit) with \<open>main_socket\<close> and \<open>exchange\<close>. McpTools: the tools and profiles of boxer_mcp; Readonly: what the read-only profile
  leaves alone. Notifier: boxer_notifier, one round of polling at a time. Cli: the commands of boxer_cli, as functions of
  their options over a record of the terminal (\<open>'s terminal\<close>: output, confirmation, groups, clock).

  Demo: a concrete host, on which the witnesses run.
\<close>

section \<open>What is shown\<close>

text \<open>
  Ownership: the policy's decision is exact (Policy); a method that needs ownership changes no VM, tag, queue entry,
  task or the host for a stranger, and a row disappears only for its owner or an administrator (Isolation); what other coroutines do after
  the check does not change whose machine it is (Interleave).
  State: the schema's constraints hold in every state the daemon reaches, over all handlers, scans, passes and
  tasks (System), and after any interleaving of their operations (Interleave). The tables refine a partial map from ids to VMs (Store). A file of an earlier version is opened without a
  visible change (Migration).
  Scheduling: admission respects the host and the project, the pass visits the queue in order and leaves no entry in
  processing (Scheduler, System); with numeric sizes it runs to its end (Progress). Requests that overlap
  are all admitted (Interleave). A request whose memory is null blocks
  the queue in every round, until a scan expires it after two hours (Loops).
  Process: the background tasks end only by cancellation (Loops), and stopping releases what starting took (Lifecycle).
  Leases: which VMs a scan may stop, force off and delete, and when (Leases).
  Connections: every request gets one reply with its id, a call through client and server is the handler's call, also
  over the bytes (Client, Wire); messages are read as they were written, a line that cannot be read ends the connection after one
  error, and a pulled file fits in a message (Wire);
  notices are handed out once (Delivery). Files arrive with their bytes (Cli), events reach the desktop in
  order (Notifier), the read-only profile changes no machine (Readonly), and \<open>boxer ls --all\<close> shows all projects to
  anyone (Cli).
  Documents and names: packages (Packages), labs, seeds, boot order, subnets, domain names (Requests, Labs, Seed, VmOps,
  Storage, Reconcile). Artifacts: only validated URLs are read, only verified digests are used, pruning spares
  what is in use (Urls, Images, Cache, Signature).

  A property of the manifest carries its number, \<open>C<n>\<close>, in the text block in front of its theorem; one whose
  statement has a hypothesis is followed by a witness that applies it at concrete values.
\<close>

section \<open>Not modelled\<close>

text \<open>
  Inside the daemon: logging, asyncio's servers and streams themselves (parameters of
  Lifecycle and Connection), interleavings within one database operation (an insertion and its tags are one), SQLite's journal and
  locking, the interpreter's limits on the depth of JSON and the digits of integers, \<open>uuid5\<close>, cleaning of temporary directories. In the clients: FastMCP's validation of tool arguments, argparse and click's parsing of options with
  their defaults. The endless loops of the daemon, the notifier and \<open>boxer events --tail\<close> are modelled for any number of
  rounds. Characters beyond Latin-1 in printed texts are written in ASCII. The agent inside guests
  (agent/boxerctl) is written in Go.
\<close>

end
